(* ===== verification/Calc_Prelude.thy ===== *)
theory Calc_Prelude
  imports Main "HOL-Library.Monad_Syntax" "HOL-Library.Tree" "HOL-Library.Word"
begin

text \<open>
  What the components share: the C memory model (objects at addresses, \<open>NULL\<close> as the absent
  pointer, a load or store that is undefined in C as the value \<^term>\<open>None\<close>), the comparator
  contract of the container macros, and lists of addresses ordered by key.
\<close>

section \<open>Memory and pointers\<close>

text \<open>
  An object of the program is named by a location. \<open>Obj a\<close> is an object the client allocated;
  \<open>Local_node\<close> is the \<open>struct type __node\<close> that the splay routines keep on their stack. A
  pointer is an optional location and \<^term>\<open>None\<close> is \<open>NULL\<close>. A memory maps the locations of live
  objects to their contents, so dereferencing \<open>NULL\<close> or a dead location has no value.
\<close>

datatype loc = Obj nat | Local_node

type_synonym ptr = "loc option"
type_synonym 'n mem = "loc \<rightharpoonup> 'n"

definition deref :: "'n mem \<Rightarrow> ptr \<Rightarrow> 'n option" where
  "deref m p = do { a \<leftarrow> p; m a }"

definition store :: "ptr \<Rightarrow> ('n \<Rightarrow> 'n) \<Rightarrow> 'n mem \<Rightarrow> 'n mem option" where
  "store p f m = do { a \<leftarrow> p; n \<leftarrow> m a; Some (m(a \<mapsto> f n)) }"

text \<open>
  Memory updates are kept in the form \<open>m(a := v)\<close> and evaluated only where the two locations are
  known to be equal or distinct.
\<close>

declare fun_upd_apply [simp del] fun_upd_same [simp] fun_upd_other [simp]

lemma upd_defined [simp]: "(\<exists>k. (m(a \<mapsto> n)) b = Some k) \<longleftrightarrow> b = a \<or> (\<exists>k. m b = Some k)"
  by (simp add: fun_upd_apply)

named_theorems heap_simps \<open>loads and stores on the memory of the model\<close>
named_theorems frame \<open>predicates that depend on part of the memory only\<close>

lemma deref_Some [simp, heap_simps]: "deref m (Some a) = m a"
  by (simp add: deref_def)

lemma deref_None [simp, heap_simps]: "deref m None = None"
  by (simp add: deref_def)

lemma store_Some [simp, heap_simps]: "m a = Some n \<Longrightarrow> store (Some a) f m = Some (m(a \<mapsto> f n))"
  by (simp add: store_def)

lemma store_None [simp, heap_simps]: "store None f m = None"
  by (simp add: store_def)

text \<open>What an operation leaves alone: every location outside \<open>A\<close> keeps its contents.\<close>

definition same_outside :: "loc set \<Rightarrow> 'n mem \<Rightarrow> 'n mem \<Rightarrow> bool" where
  "same_outside A m m' \<longleftrightarrow> (\<forall>a. a \<notin> A \<longrightarrow> m' a = m a)"

lemma same_outside_refl [simp, intro]: "same_outside A m m"
  by (simp add: same_outside_def)

lemma same_outside_trans:
  "same_outside A m m' \<Longrightarrow> same_outside A m' m'' \<Longrightarrow> same_outside A m m''"
  by (simp add: same_outside_def)

lemma same_outside_upd [simp]: "a \<in> A \<Longrightarrow> same_outside A m (m'(a := v)) = same_outside A m m'"
  by (auto simp: same_outside_def fun_upd_apply)

lemma same_outside_mono: "same_outside A m m' \<Longrightarrow> A \<subseteq> B \<Longrightarrow> same_outside B m m'"
  by (auto simp: same_outside_def)

lemma same_outsideD: "same_outside A m m' \<Longrightarrow> a \<notin> A \<Longrightarrow> m' a = m a"
  by (simp add: same_outside_def)

section \<open>Total correctness of partial operations\<close>

text \<open>
  \<open>returns x P\<close>: the computation \<open>x\<close> is defined (it makes no undefined access and it ends) and
  its result satisfies \<open>P\<close>.
\<close>

definition returns :: "'a option \<Rightarrow> ('a \<Rightarrow> bool) \<Rightarrow> bool" where
  "returns x P = (case x of None \<Rightarrow> False | Some y \<Rightarrow> P y)"

lemma returns_simps [simp]:
  "returns (Some y) P = P y"
  "returns None P = False"
  "returns (Option.bind x f) P = returns x (\<lambda>y. returns (f y) P)"
  "returns (if b then x else x') P = (if b then returns x P else returns x' P)"
  "returns (case z of (u, v) \<Rightarrow> g u v) P = (case z of (u, v) \<Rightarrow> returns (g u v) P)"
  by (auto simp: returns_def split: option.splits Option.bind_splits prod.splits)

lemma returns_mono: "returns x P \<Longrightarrow> (\<And>y. P y \<Longrightarrow> Q y) \<Longrightarrow> returns x Q"
  by (simp add: returns_def split: option.splits)

lemma returns_iff: "returns x P \<longleftrightarrow> (\<exists>y. x = Some y \<and> P y)"
  by (simp add: returns_def split: option.splits)

lemma returns_pair:
  "returns x (\<lambda>(a, b). P a b) \<Longrightarrow> (\<And>a b. P a b \<Longrightarrow> Q a b) \<Longrightarrow> returns x (\<lambda>(a, b). Q a b)"
  by (auto simp: returns_iff)

section \<open>Comparators and keys\<close>

text \<open>
  The container macros take a macro argument \<open>cmp\<close> that returns a negative, zero or positive
  \<open>int\<close>. It reads the payload of the two elements, which no container operation writes. It is
  a parameter of the model; what the macros rely on is that it decides a linear order of keys.
\<close>

type_synonym cmp_fn = "loc \<Rightarrow> loc \<Rightarrow> int"

text \<open>A call of the comparator reads both elements: a \<open>NULL\<close> argument has no value.\<close>

definition call_cmp :: "cmp_fn \<Rightarrow> ptr \<Rightarrow> ptr \<Rightarrow> int option" where
  "call_cmp cmp p q = do { x \<leftarrow> p; y \<leftarrow> q; Some (cmp x y) }"

lemma call_cmp_Some [simp]: "call_cmp cmp (Some x) (Some y) = Some (cmp x y)"
  by (simp add: call_cmp_def)

definition cmp_agrees :: "cmp_fn \<Rightarrow> (loc \<Rightarrow> 'k::linorder) \<Rightarrow> bool" where
  "cmp_agrees cmp key \<longleftrightarrow>
     (\<forall>x y. (cmp x y < 0 \<longleftrightarrow> key x < key y) \<and> (cmp x y = 0 \<longleftrightarrow> key x = key y))"

lemma cmp_agreesD:
  assumes "cmp_agrees cmp key"
  shows cmp_agrees_less: "cmp x y < 0 \<longleftrightarrow> key x < key y"
    and cmp_agrees_eq: "cmp x y = 0 \<longleftrightarrow> key x = key y"
    and cmp_agrees_greater: "0 < cmp x y \<longleftrightarrow> key y < key x"
proof -
  show less: "cmp x y < 0 \<longleftrightarrow> key x < key y" and eq: "cmp x y = 0 \<longleftrightarrow> key x = key y"
    using assms by (auto simp: cmp_agrees_def)
  show "0 < cmp x y \<longleftrightarrow> key y < key x"
    using less eq by (metis less_irrefl not_less_iff_gr_or_eq)
qed

text \<open>Elements in ascending order of their keys, no two with the same key.\<close>

definition sorted_keys :: "(loc \<Rightarrow> 'k::linorder) \<Rightarrow> loc list \<Rightarrow> bool" where
  "sorted_keys key xs \<longleftrightarrow> sorted_wrt (<) (map key xs)"

lemma sorted_keys_Nil [simp]: "sorted_keys key []"
  by (simp add: sorted_keys_def)

lemma sorted_keys_Cons [simp]:
  "sorted_keys key (x # xs) \<longleftrightarrow> (\<forall>y\<in>set xs. key x < key y) \<and> sorted_keys key xs"
  by (auto simp: sorted_keys_def)

lemma sorted_keys_append [simp]:
  "sorted_keys key (xs @ ys) \<longleftrightarrow>
     sorted_keys key xs \<and> sorted_keys key ys \<and> (\<forall>x\<in>set xs. \<forall>y\<in>set ys. key x < key y)"
  by (auto simp: sorted_keys_def sorted_wrt_append)

lemma sorted_keys_distinct: "sorted_keys key xs \<Longrightarrow> distinct xs"
  by (induction xs) auto

lemma sorted_keys_inj:
  assumes "sorted_keys key xs" "x \<in> set xs" "y \<in> set xs" "key x = key y"
  shows "x = y"
proof -
  from assms(1) have "inj_on key (set xs)"
    by (simp add: sorted_keys_def strict_sorted_iff distinct_map)
  with assms(2-) show ?thesis by (auto dest: inj_onD)
qed

text \<open>The specification of insertion and removal on the ordered list of elements.\<close>

fun ins_key :: "(loc \<Rightarrow> 'k::linorder) \<Rightarrow> loc \<Rightarrow> loc list \<Rightarrow> loc list" where
  "ins_key key e [] = [e]"
| "ins_key key e (x # xs) = (if key e < key x then e # x # xs else x # ins_key key e xs)"

definition del_key :: "(loc \<Rightarrow> 'k) \<Rightarrow> loc \<Rightarrow> loc list \<Rightarrow> loc list" where
  "del_key key e xs = filter (\<lambda>x. key x \<noteq> key e) xs"

definition key_in :: "(loc \<Rightarrow> 'k) \<Rightarrow> loc \<Rightarrow> loc list \<Rightarrow> bool" where
  "key_in key e xs \<longleftrightarrow> key e \<in> key ` set xs"

definition find_key :: "(loc \<Rightarrow> 'k) \<Rightarrow> loc \<Rightarrow> loc list \<Rightarrow> loc option" where
  "find_key key e xs = find (\<lambda>x. key x = key e) xs"

abbreviation add_key :: "(loc \<Rightarrow> 'k::linorder) \<Rightarrow> loc \<Rightarrow> loc list \<Rightarrow> loc list" where
  "add_key key e xs \<equiv> (if key_in key e xs then xs else ins_key key e xs)"

lemma set_ins_key [simp]: "set (ins_key key e xs) = insert e (set xs)"
  by (induction xs) auto

lemma sorted_ins_key:
  "sorted_keys key xs \<Longrightarrow> \<not> key_in key e xs \<Longrightarrow> sorted_keys key (ins_key key e xs)"
  by (induction xs) (auto simp: key_in_def)

lemma ins_key_split:
  "\<forall>x\<in>set xs. key x < key e \<Longrightarrow> \<forall>y\<in>set ys. key e < key y \<Longrightarrow>
     ins_key key e (xs @ ys) = xs @ e # ys"
proof (induction xs)
  case Nil
  then show ?case by (cases ys) auto
next
  case (Cons x xs)
  then have "\<not> key e < key x" by (auto dest: less_asym)
  with Cons show ?case by simp
qed

text \<open>
  A node \<open>a\<close> of an ordered list with only smaller keys before it and only larger keys after it,
  all with respect to the key of \<open>e\<close>, decides the three specifications.
\<close>

lemma key_split:
  assumes "\<forall>x\<in>set xs. key x < key e" "\<forall>y\<in>set ys. key e < key y"
  shows key_in_split: "key_in key e (xs @ a # ys) \<longleftrightarrow> key a = key e"
    and find_key_split: "find_key key e (xs @ a # ys) = (if key a = key e then Some a else None)"
    and del_key_split: "key a = key e \<Longrightarrow> del_key key e (xs @ a # ys) = xs @ ys"
    and ins_key_before: "key e < key a \<Longrightarrow> ins_key key e (xs @ a # ys) = xs @ e # a # ys"
    and ins_key_after: "key a < key e \<Longrightarrow> ins_key key e (xs @ a # ys) = xs @ a # e # ys"
proof -
  have neq: "\<forall>x\<in>set xs. key x \<noteq> key e" "\<forall>y\<in>set ys. key y \<noteq> key e"
    using assms by auto
  show "key_in key e (xs @ a # ys) \<longleftrightarrow> key a = key e"
    using neq by (auto simp: key_in_def)
  have "find (\<lambda>x. key x = key e) ys = None" using neq(2) by (simp add: find_None_iff)
  moreover have "find (\<lambda>x. key x = key e) (xs @ zs) = find (\<lambda>x. key x = key e) zs" for zs
    using neq(1) by (induction xs) auto
  ultimately show "find_key key e (xs @ a # ys) = (if key a = key e then Some a else None)"
    by (simp add: find_key_def)
  show "key a = key e \<Longrightarrow> del_key key e (xs @ a # ys) = xs @ ys"
    using neq by (simp add: del_key_def)
  show "key e < key a \<Longrightarrow> ins_key key e (xs @ a # ys) = xs @ e # a # ys"
    using assms by (intro ins_key_split) (auto dest: less_trans)
  show "key a < key e \<Longrightarrow> ins_key key e (xs @ a # ys) = xs @ a # e # ys"
    using assms ins_key_split [of "xs @ [a]" key e ys] by simp
qed

lemma del_key_absent: "\<not> key_in key e xs \<Longrightarrow> del_key key e xs = xs"
  unfolding del_key_def filter_id_conv key_in_def image_iff by metis

lemma sorted_del_key: "sorted_keys key xs \<Longrightarrow> sorted_keys key (del_key key e xs)"
  by (induction xs) (auto simp: del_key_def)

lemma find_key_None: "find_key key e xs = None \<longleftrightarrow> \<not> key_in key e xs"
  unfolding find_key_def key_in_def find_None_iff image_iff by metis

lemma find_key_unique:
  assumes "sorted_keys key xs" "x \<in> set xs" "key x = key e"
  shows "find_key key e xs = Some x"
proof (cases "find_key key e xs")
  case None
  with assms show ?thesis by (auto simp: find_key_None key_in_def image_iff)
next
  case (Some y)
  then have "y \<in> set xs" "key y = key e" by (auto simp: find_key_def find_Some_iff)
  with assms Some show ?thesis using sorted_keys_inj [of key xs x y] by simp
qed

lemma distinct_split:
  assumes "distinct (ys @ e # zs)" "ys @ e # zs = ys' @ e # zs'"
  shows "ys = ys' \<and> zs = zs'"
proof -
  have "e \<notin> set ys" using assms(1) by simp
  moreover have "e \<notin> set ys'" using assms(1) unfolding assms(2) by simp
  moreover have "takeWhile (\<lambda>x. x \<noteq> e) (us @ e # vs) = us" if "e \<notin> set us" for us vs
    using that by (induction us) auto
  ultimately have "ys = ys'" using assms(2) by metis
  with assms(2) show ?thesis by simp
qed

text \<open>Keys and a comparator for concrete trees: the elements are their own keys.\<close>

fun num_key :: "loc \<Rightarrow> int" where
  "num_key (Obj n) = int n"
| "num_key Local_node = -1"

definition num_cmp :: cmp_fn where
  "num_cmp x y = num_key x - num_key y"

lemma num_cmp_agrees: "cmp_agrees num_cmp num_key"
  by (simp add: cmp_agrees_def num_cmp_def)

end
