(* ===== verification/Uv_Splay.thy ===== *)
theory Uv_Splay
  imports Calc_Prelude
begin

text \<open>
  The splay tree macros of \<open>libuv_helper/uv/tree.h\<close> (lines 63 to 292), on an explicit memory.
  Each macro is a definition that reads and writes the links of the nodes in the order of the
  source; an undefined access has no value. The loops are partial functions, so that a loop that
  does not end has no value either: that every operation returns is part of what is proved.
\<close>

section \<open>Data and accessors\<close>

record splay_entry =
  spe_left :: ptr
  spe_right :: ptr

text \<open>\<open>SPLAY_HEAD\<close> holds the root; the nodes' \<open>SPLAY_ENTRY\<close> fields are the memory.\<close>

record splay_st =
  sph_root :: ptr
  smem :: "splay_entry mem"

definition SPLAY_INIT :: "splay_st \<Rightarrow> splay_st" where
  "SPLAY_INIT s = s\<lparr>sph_root := None\<rparr>"

definition SPLAY_EMPTY :: "splay_st \<Rightarrow> bool" where
  "SPLAY_EMPTY s \<longleftrightarrow> sph_root s = None"

definition SPLAY_LEFT :: "splay_st \<Rightarrow> ptr \<Rightarrow> ptr option" where
  "SPLAY_LEFT s elm = do { n \<leftarrow> deref (smem s) elm; Some (spe_left n) }"

definition SPLAY_RIGHT :: "splay_st \<Rightarrow> ptr \<Rightarrow> ptr option" where
  "SPLAY_RIGHT s elm = do { n \<leftarrow> deref (smem s) elm; Some (spe_right n) }"

definition set_SPLAY_LEFT :: "ptr \<Rightarrow> ptr \<Rightarrow> splay_st \<Rightarrow> splay_st option" where
  "set_SPLAY_LEFT elm v s =
     do { m \<leftarrow> store elm (\<lambda>n. n\<lparr>spe_left := v\<rparr>) (smem s); Some (s\<lparr>smem := m\<rparr>) }"

definition set_SPLAY_RIGHT :: "ptr \<Rightarrow> ptr \<Rightarrow> splay_st \<Rightarrow> splay_st option" where
  "set_SPLAY_RIGHT elm v s =
     do { m \<leftarrow> store elm (\<lambda>n. n\<lparr>spe_right := v\<rparr>) (smem s); Some (s\<lparr>smem := m\<rparr>) }"

section \<open>Rotation, linking and assembly\<close>

definition SPLAY_ROTATE_RIGHT :: "ptr \<Rightarrow> splay_st \<Rightarrow> splay_st option" where
  "SPLAY_ROTATE_RIGHT tmp s = do {
     r \<leftarrow> SPLAY_RIGHT s tmp;
     s \<leftarrow> set_SPLAY_LEFT (sph_root s) r s;
     s \<leftarrow> set_SPLAY_RIGHT tmp (sph_root s) s;
     Some (s\<lparr>sph_root := tmp\<rparr>) }"

definition SPLAY_ROTATE_LEFT :: "ptr \<Rightarrow> splay_st \<Rightarrow> splay_st option" where
  "SPLAY_ROTATE_LEFT tmp s = do {
     l \<leftarrow> SPLAY_LEFT s tmp;
     s \<leftarrow> set_SPLAY_RIGHT (sph_root s) l s;
     s \<leftarrow> set_SPLAY_LEFT tmp (sph_root s) s;
     Some (s\<lparr>sph_root := tmp\<rparr>) }"

text \<open>The linking macros also assign their argument \<open>tmp\<close>: its new value is returned.\<close>

definition SPLAY_LINKLEFT :: "ptr \<Rightarrow> splay_st \<Rightarrow> (splay_st \<times> ptr) option" where
  "SPLAY_LINKLEFT tmp s = do {
     s \<leftarrow> set_SPLAY_LEFT tmp (sph_root s) s;
     let tmp = sph_root s;
     l \<leftarrow> SPLAY_LEFT s (sph_root s);
     Some (s\<lparr>sph_root := l\<rparr>, tmp) }"

definition SPLAY_LINKRIGHT :: "ptr \<Rightarrow> splay_st \<Rightarrow> (splay_st \<times> ptr) option" where
  "SPLAY_LINKRIGHT tmp s = do {
     s \<leftarrow> set_SPLAY_RIGHT tmp (sph_root s) s;
     let tmp = sph_root s;
     r \<leftarrow> SPLAY_RIGHT s (sph_root s);
     Some (s\<lparr>sph_root := r\<rparr>, tmp) }"

definition SPLAY_ASSEMBLE :: "ptr \<Rightarrow> ptr \<Rightarrow> ptr \<Rightarrow> splay_st \<Rightarrow> splay_st option" where
  "SPLAY_ASSEMBLE node lft rgt s = do {
     l \<leftarrow> SPLAY_LEFT s (sph_root s);
     s \<leftarrow> set_SPLAY_RIGHT lft l s;
     r \<leftarrow> SPLAY_RIGHT s (sph_root s);
     s \<leftarrow> set_SPLAY_LEFT rgt r s;
     nr \<leftarrow> SPLAY_RIGHT s node;
     s \<leftarrow> set_SPLAY_LEFT (sph_root s) nr s;
     nl \<leftarrow> SPLAY_LEFT s node;
     set_SPLAY_RIGHT (sph_root s) nl s }"

section \<open>The splay operation\<close>

text \<open>
  The \<open>while\<close> loop of \<open>name_SPLAY\<close>: the state is the tree's head and memory and the locals
  \<open>__left\<close> and \<open>__right\<close>; a \<open>break\<close> returns the state.
\<close>

partial_function (option) splay_loop ::
  "cmp_fn \<Rightarrow> ptr \<Rightarrow> splay_st \<times> ptr \<times> ptr \<Rightarrow> (splay_st \<times> ptr \<times> ptr) option" where
  "splay_loop cmp elm st = (case st of (s, lft, rgt) \<Rightarrow> do {
     comp \<leftarrow> call_cmp cmp elm (sph_root s);
     if comp = 0 then Some (s, lft, rgt)
     else if comp < 0 then do {
       tmp \<leftarrow> SPLAY_LEFT s (sph_root s);
       if tmp = None then Some (s, lft, rgt)
       else do {
         c \<leftarrow> call_cmp cmp elm tmp;
         (s, brk) \<leftarrow>
           (if c < 0 then do {
              s \<leftarrow> SPLAY_ROTATE_RIGHT tmp s;
              l \<leftarrow> SPLAY_LEFT s (sph_root s);
              Some (s, l = None) }
            else Some (s, False));
         if brk then Some (s, lft, rgt)
         else do {
           (s, rgt) \<leftarrow> SPLAY_LINKLEFT rgt s;
           splay_loop cmp elm (s, lft, rgt) } } }
     else do {
       tmp \<leftarrow> SPLAY_RIGHT s (sph_root s);
       if tmp = None then Some (s, lft, rgt)
       else do {
         c \<leftarrow> call_cmp cmp elm tmp;
         (s, brk) \<leftarrow>
           (if 0 < c then do {
              s \<leftarrow> SPLAY_ROTATE_LEFT tmp s;
              r \<leftarrow> SPLAY_RIGHT s (sph_root s);
              Some (s, r = None) }
            else Some (s, False));
         if brk then Some (s, lft, rgt)
         else do {
           (s, lft) \<leftarrow> SPLAY_LINKRIGHT lft s;
           splay_loop cmp elm (s, lft, rgt) } } } })"

text \<open>The local \<open>__node\<close> lives from the function's entry to its return.\<close>

definition enter_node :: "splay_st \<Rightarrow> splay_st" where
  "enter_node s = s\<lparr>smem := (smem s)(Local_node \<mapsto> \<lparr>spe_left = None, spe_right = None\<rparr>)\<rparr>"

definition leave_node :: "splay_st \<Rightarrow> splay_st" where
  "leave_node s = s\<lparr>smem := (smem s)(Local_node := None)\<rparr>"

definition SPLAY :: "cmp_fn \<Rightarrow> ptr \<Rightarrow> splay_st \<Rightarrow> splay_st option" where
  "SPLAY cmp elm s = do {
     (s, lft, rgt) \<leftarrow> splay_loop cmp elm (enter_node s, Some Local_node, Some Local_node);
     s \<leftarrow> SPLAY_ASSEMBLE (Some Local_node) lft rgt s;
     Some (leave_node s) }"

section \<open>The operations\<close>

text \<open>
  \<open>name_SPLAY_FIND\<close>, \<open>_NEXT\<close>, \<open>_INSERT\<close>, \<open>_REMOVE\<close>, \<open>_SPLAY_MINMAX\<close> and the wrappers. Every
  operation returns the new state and the pointer the C function returns.
\<close>

definition SPLAY_FIND :: "cmp_fn \<Rightarrow> ptr \<Rightarrow> splay_st \<Rightarrow> (splay_st \<times> ptr) option" where
  "SPLAY_FIND cmp elm s =
     (if SPLAY_EMPTY s then Some (s, None)
      else do {
        s \<leftarrow> SPLAY cmp elm s;
        c \<leftarrow> call_cmp cmp elm (sph_root s);
        if c = 0 then Some (s, sph_root s) else Some (s, None) })"

partial_function (option) leftmost :: "splay_st \<Rightarrow> ptr \<Rightarrow> ptr option" where
  "leftmost s elm = do {
     l \<leftarrow> SPLAY_LEFT s elm;
     if l \<noteq> None then leftmost s l else Some elm }"

definition SPLAY_NEXT :: "cmp_fn \<Rightarrow> ptr \<Rightarrow> splay_st \<Rightarrow> (splay_st \<times> ptr) option" where
  "SPLAY_NEXT cmp elm s = do {
     s \<leftarrow> SPLAY cmp elm s;
     r \<leftarrow> SPLAY_RIGHT s elm;
     if r \<noteq> None then do { elm \<leftarrow> leftmost s r; Some (s, elm) }
     else Some (s, None) }"

definition SPLAY_INSERT :: "cmp_fn \<Rightarrow> ptr \<Rightarrow> splay_st \<Rightarrow> (splay_st \<times> ptr) option" where
  "SPLAY_INSERT cmp elm s =
     (if SPLAY_EMPTY s then do {
        s \<leftarrow> set_SPLAY_RIGHT elm None s;
        s \<leftarrow> set_SPLAY_LEFT elm None s;
        Some (s\<lparr>sph_root := elm\<rparr>, None) }
      else do {
        s \<leftarrow> SPLAY cmp elm s;
        comp \<leftarrow> call_cmp cmp elm (sph_root s);
        if comp < 0 then do {
          l \<leftarrow> SPLAY_LEFT s (sph_root s);
          s \<leftarrow> set_SPLAY_LEFT elm l s;
          s \<leftarrow> set_SPLAY_RIGHT elm (sph_root s) s;
          s \<leftarrow> set_SPLAY_LEFT (sph_root s) None s;
          Some (s\<lparr>sph_root := elm\<rparr>, None) }
        else if 0 < comp then do {
          r \<leftarrow> SPLAY_RIGHT s (sph_root s);
          s \<leftarrow> set_SPLAY_RIGHT elm r s;
          s \<leftarrow> set_SPLAY_LEFT elm (sph_root s) s;
          s \<leftarrow> set_SPLAY_RIGHT (sph_root s) None s;
          Some (s\<lparr>sph_root := elm\<rparr>, None) }
        else Some (s, sph_root s) })"

definition SPLAY_REMOVE :: "cmp_fn \<Rightarrow> ptr \<Rightarrow> splay_st \<Rightarrow> (splay_st \<times> ptr) option" where
  "SPLAY_REMOVE cmp elm s =
     (if SPLAY_EMPTY s then Some (s, None)
      else do {
        s \<leftarrow> SPLAY cmp elm s;
        c \<leftarrow> call_cmp cmp elm (sph_root s);
        if c = 0 then do {
          l \<leftarrow> SPLAY_LEFT s (sph_root s);
          if l = None then do {
            r \<leftarrow> SPLAY_RIGHT s (sph_root s);
            Some (s\<lparr>sph_root := r\<rparr>, elm) }
          else do {
            tmp \<leftarrow> SPLAY_RIGHT s (sph_root s);
            l \<leftarrow> SPLAY_LEFT s (sph_root s);
            s \<leftarrow> SPLAY cmp elm (s\<lparr>sph_root := l\<rparr>);
            s \<leftarrow> set_SPLAY_RIGHT (sph_root s) tmp s;
            Some (s, elm) } }
        else Some (s, None) })"

text \<open>
  The \<open>for (;;)\<close> loop of \<open>name_SPLAY_MINMAX\<close>. With \<open>__comp\<close> zero neither branch is taken and
  the loop never leaves.
\<close>

partial_function (option) minmax_loop ::
  "int \<Rightarrow> splay_st \<times> ptr \<times> ptr \<Rightarrow> (splay_st \<times> ptr \<times> ptr) option" where
  "minmax_loop icomp st = (case st of (s, lft, rgt) \<Rightarrow>
     if icomp < 0 then do {
       tmp \<leftarrow> SPLAY_LEFT s (sph_root s);
       if tmp = None then Some (s, lft, rgt)
       else do {
         (s, brk) \<leftarrow>
           (if icomp < 0 then do {
              s \<leftarrow> SPLAY_ROTATE_RIGHT tmp s;
              l \<leftarrow> SPLAY_LEFT s (sph_root s);
              Some (s, l = None) }
            else Some (s, False));
         if brk then Some (s, lft, rgt)
         else do {
           (s, rgt) \<leftarrow> SPLAY_LINKLEFT rgt s;
           minmax_loop icomp (s, lft, rgt) } } }
     else if 0 < icomp then do {
       tmp \<leftarrow> SPLAY_RIGHT s (sph_root s);
       if tmp = None then Some (s, lft, rgt)
       else do {
         (s, brk) \<leftarrow>
           (if 0 < icomp then do {
              s \<leftarrow> SPLAY_ROTATE_LEFT tmp s;
              r \<leftarrow> SPLAY_RIGHT s (sph_root s);
              Some (s, r = None) }
            else Some (s, False));
         if brk then Some (s, lft, rgt)
         else do {
           (s, lft) \<leftarrow> SPLAY_LINKRIGHT lft s;
           minmax_loop icomp (s, lft, rgt) } } }
     else minmax_loop icomp (s, lft, rgt))"

definition SPLAY_MINMAX :: "int \<Rightarrow> splay_st \<Rightarrow> splay_st option" where
  "SPLAY_MINMAX icomp s = do {
     (s, lft, rgt) \<leftarrow> minmax_loop icomp (enter_node s, Some Local_node, Some Local_node);
     s \<leftarrow> SPLAY_ASSEMBLE (Some Local_node) lft rgt s;
     Some (leave_node s) }"

definition SPLAY_MIN_MAX :: "int \<Rightarrow> splay_st \<Rightarrow> (splay_st \<times> ptr) option" where
  "SPLAY_MIN_MAX val s = do { s \<leftarrow> SPLAY_MINMAX val s; Some (s, sph_root s) }"

definition SPLAY_NEGINF :: int where "SPLAY_NEGINF = -1"

definition SPLAY_INF :: int where "SPLAY_INF = 1"

definition SPLAY_MIN :: "splay_st \<Rightarrow> (splay_st \<times> ptr) option" where
  "SPLAY_MIN s = (if SPLAY_EMPTY s then Some (s, None) else SPLAY_MIN_MAX SPLAY_NEGINF s)"

definition SPLAY_MAX :: "splay_st \<Rightarrow> (splay_st \<times> ptr) option" where
  "SPLAY_MAX s = (if SPLAY_EMPTY s then Some (s, None) else SPLAY_MIN_MAX SPLAY_INF s)"

text \<open>\<open>SPLAY_FOREACH\<close> with a body that does not touch the tree: the elements visited, in order.\<close>

partial_function (option) splay_foreach_from ::
  "cmp_fn \<Rightarrow> splay_st \<times> ptr \<times> loc list \<Rightarrow> (splay_st \<times> loc list) option" where
  "splay_foreach_from cmp st = (case st of (s, x, seen) \<Rightarrow>
     (case x of
        None \<Rightarrow> Some (s, seen)
      | Some a \<Rightarrow> do {
          (s, x) \<leftarrow> SPLAY_NEXT cmp (Some a) s;
          splay_foreach_from cmp (s, x, seen @ [a]) }))"

definition SPLAY_FOREACH :: "cmp_fn \<Rightarrow> splay_st \<Rightarrow> (splay_st \<times> loc list) option" where
  "SPLAY_FOREACH cmp s = do { (s, x) \<leftarrow> SPLAY_MIN s; splay_foreach_from cmp (s, x, []) }"

end
