(* ===== verification/Uv_Splay_Loop.thy ===== *)
theory Uv_Splay_Loop
  imports Uv_Splay
begin

text \<open>
  The splay loop of \<open>tree.h\<close> refines a loop on trees: what the pointers reach, one step on trees,
  and the simulation. Its result is that the pointer loop ends, makes no undefined access, changes
  no location outside the tree, and leaves the tree that the loop on trees computes.
\<close>

section \<open>Trees and spines in memory\<close>

text \<open>
  \<open>tree_at m p t\<close>: following the links from \<open>p\<close> in memory \<open>m\<close> gives the tree \<open>t\<close> of locations.
  The splay loop holds three pieces: the tree under the root, and the nodes already known to be
  smaller and larger than the key. The smaller ones hang from \<open>__node\<close> along right links, each
  with its left subtree, and \<open>__left\<close> is the last of them; the larger ones hang along left links
  and end at \<open>__right\<close>. The link that leaves the last node of a spine is not constrained.
\<close>

type_synonym lspine = "(loc tree \<times> loc) list"
type_synonym rspine = "(loc \<times> loc tree) list"

fun tree_at :: "splay_entry mem \<Rightarrow> ptr \<Rightarrow> loc tree \<Rightarrow> bool" where
  "tree_at m p Leaf \<longleftrightarrow> p = None"
| "tree_at m p (Node l a r) \<longleftrightarrow> p = Some a \<and>
     (case m a of None \<Rightarrow> False | Some n \<Rightarrow> tree_at m (spe_left n) l \<and> tree_at m (spe_right n) r)"

fun small_at :: "splay_entry mem \<Rightarrow> loc \<Rightarrow> lspine \<Rightarrow> loc \<Rightarrow> bool" where
  "small_at m p [] q \<longleftrightarrow> p = q"
| "small_at m p ((t, a) # xs) q \<longleftrightarrow>
     map_option spe_right (m p) = Some (Some a) \<and>
     (case m a of None \<Rightarrow> False | Some n \<Rightarrow> tree_at m (spe_left n) t) \<and> small_at m a xs q"

fun large_at :: "splay_entry mem \<Rightarrow> loc \<Rightarrow> rspine \<Rightarrow> loc \<Rightarrow> bool" where
  "large_at m p [] q \<longleftrightarrow> p = q"
| "large_at m p ((a, t) # xs) q \<longleftrightarrow>
     map_option spe_left (m p) = Some (Some a) \<and>
     (case m a of None \<Rightarrow> False | Some n \<Rightarrow> tree_at m (spe_right n) t) \<and> large_at m a xs q"

definition smalls :: "lspine \<Rightarrow> loc list" where
  "smalls L = concat (map (\<lambda>(t, a). inorder t @ [a]) L)"

definition larges :: "rspine \<Rightarrow> loc list" where
  "larges R = concat (rev (map (\<lambda>(a, t). a # inorder t) R))"

lemma smalls_simps [simp]:
  "smalls [] = []" "smalls ((t, a) # L) = inorder t @ a # smalls L"
  "smalls (L @ L') = smalls L @ smalls L'"
  by (simp_all add: smalls_def)

lemma larges_simps [simp]:
  "larges [] = []" "larges ((a, t) # R) = larges R @ a # inorder t"
  "larges (R @ R') = larges R' @ larges R"
  by (simp_all add: larges_def)

lemma tree_at_cong [frame]:
  "(\<And>a. a \<in> set_tree t \<Longrightarrow> m a = m' a) \<Longrightarrow> tree_at m p t = tree_at m' p t"
  by (induction t arbitrary: p) (auto split: option.splits)

lemma tree_at_outside [frame]:
  "same_outside A m m' \<Longrightarrow> A \<inter> set_tree t = {} \<Longrightarrow> tree_at m' p t = tree_at m p t"
  by (rule tree_at_cong) (auto simp: same_outside_def)

lemma tree_at_upd [simp, frame]: "a \<notin> set_tree t \<Longrightarrow> tree_at (m(a := v)) p t = tree_at m p t"
  by (rule tree_at_cong) (auto simp: fun_upd_apply)

lemma small_at_upd [simp, frame]:
  "a \<notin> insert p (set (smalls L)) \<Longrightarrow> small_at (m(a := v)) p L q = small_at m p L q"
  by (induction L arbitrary: p) (auto split: option.splits)

lemma large_at_upd [simp, frame]:
  "a \<notin> insert p (set (larges R)) \<Longrightarrow> large_at (m(a := v)) p R q = large_at m p R q"
  by (induction R arbitrary: p) (auto split: option.splits)

lemma small_at_end: "small_at m p L q \<Longrightarrow> q \<in> insert p (set (smalls L))"
  by (induction L arbitrary: p) auto

lemma large_at_end: "large_at m p R q \<Longrightarrow> q \<in> insert p (set (larges R))"
  by (induction R arbitrary: p) auto

lemma small_at_dom: "small_at m p L q \<Longrightarrow> m p = Some n \<Longrightarrow> \<exists>k. m q = Some k"
  by (induction L arbitrary: p n) (auto split: option.splits)

lemma large_at_dom: "large_at m p R q \<Longrightarrow> m p = Some n \<Longrightarrow> \<exists>k. m q = Some k"
  by (induction R arbitrary: p n) (auto split: option.splits)

text \<open>The open end of a spine may be relinked.\<close>

lemma small_at_open:
  "small_at m p L q \<Longrightarrow> distinct (p # smalls L) \<Longrightarrow> m q = Some n \<Longrightarrow>
     small_at (m(q \<mapsto> n\<lparr>spe_right := v\<rparr>)) p L q"
proof (induction L arbitrary: p)
  case (Cons x L)
  obtain t a where x: "x = (t, a)" by fastforce
  with Cons.prems have q: "q \<in> insert a (set (smalls L))" by (auto dest: small_at_end)
  with Cons.prems x have "q \<noteq> p" "q \<notin> set_tree t" by auto
  with Cons x q show ?case by (cases "q = a") (auto split: option.splits)
qed simp

lemma large_at_open:
  "large_at m p R q \<Longrightarrow> distinct (p # larges R) \<Longrightarrow> m q = Some n \<Longrightarrow>
     large_at (m(q \<mapsto> n\<lparr>spe_left := v\<rparr>)) p R q"
proof (induction R arbitrary: p)
  case (Cons x R)
  obtain t a where x: "x = (a, t)" by fastforce
  with Cons.prems have q: "q \<in> insert a (set (larges R))" by (auto dest: large_at_end)
  with Cons.prems x have "q \<noteq> p" "q \<notin> set_tree t" by auto
  with Cons x q show ?case by (cases "q = a") (auto split: option.splits)
qed simp

text \<open>The first node of a spine may be relinked on its other side.\<close>

lemma small_at_first:
  "m p = Some k \<Longrightarrow> p \<notin> set (smalls L) \<Longrightarrow>
     small_at (m(p \<mapsto> k\<lparr>spe_left := v\<rparr>)) p L q = small_at m p L q"
  by (cases L) (auto split: option.splits)

lemma large_at_first:
  "m p = Some k \<Longrightarrow> p \<notin> set (larges R) \<Longrightarrow>
     large_at (m(p \<mapsto> k\<lparr>spe_right := v\<rparr>)) p R q = large_at m p R q"
  by (cases R) (auto split: option.splits)

lemma small_at_snoc:
  "small_at m p (L @ [(t, a)]) q \<longleftrightarrow>
     (\<exists>z. small_at m p L z \<and> map_option spe_right (m z) = Some (Some a)) \<and>
     (case m a of None \<Rightarrow> False | Some n \<Rightarrow> tree_at m (spe_left n) t) \<and> a = q"
  by (induction L arbitrary: p) (auto; blast)+

lemma large_at_snoc:
  "large_at m p (R @ [(a, t)]) q \<longleftrightarrow>
     (\<exists>z. large_at m p R z \<and> map_option spe_left (m z) = Some (Some a)) \<and>
     (case m a of None \<Rightarrow> False | Some n \<Rightarrow> tree_at m (spe_right n) t) \<and> a = q"
  by (induction R arbitrary: p) (auto; blast)+

section \<open>The loop on trees\<close>

text \<open>
  What the loop computes, on trees of locations: \<open>c x\<close> is the comparison of the searched element
  with \<open>x\<close>. \<open>assemble\<close> hangs the two subtrees of the root at the ends of the spines.
\<close>

type_synonym splay_conf = "lspine \<times> loc tree \<times> rspine"

text \<open>One iteration: \<open>Inl\<close> leaves the loop, \<open>Inr\<close> goes on.\<close>

fun splay_step :: "(loc \<Rightarrow> int) \<Rightarrow> splay_conf \<Rightarrow> splay_conf + splay_conf" where
  "splay_step c (L, Leaf, R) = Inl (L, Leaf, R)"
| "splay_step c (L, Node l a r, R) =
     (if c a = 0 then Inl (L, Node l a r, R)
      else if c a < 0 then
        (case l of Leaf \<Rightarrow> Inl (L, Node l a r, R)
         | Node ll b lr \<Rightarrow>
             if c b < 0 then
               (if ll = Leaf then Inl (L, Node ll b (Node lr a r), R)
                else Inr (L, ll, R @ [(b, Node lr a r)]))
             else Inr (L, l, R @ [(a, r)]))
      else
        (case r of Leaf \<Rightarrow> Inl (L, Node l a r, R)
         | Node rl b rr \<Rightarrow>
             if 0 < c b then
               (if rr = Leaf then Inl (L, Node (Node l a rl) b rr, R)
                else Inr (L @ [(Node l a rl, b)], rr, R))
             else Inr (L @ [(l, a)], r, R)))"

lemma splay_step_size:
  "splay_step c (L, t, R) = Inr (L', t', R') \<Longrightarrow> size t' < size t"
  by (cases t) (auto split: if_splits tree.splits)

function splay_tree :: "(loc \<Rightarrow> int) \<Rightarrow> splay_conf \<Rightarrow> splay_conf" where
  "splay_tree c x = (case splay_step c x of Inl y \<Rightarrow> y | Inr y \<Rightarrow> splay_tree c y)"
  by pat_completeness auto
termination
  by (relation "measure (\<lambda>(c, L, t, R). size t)") (auto dest: splay_step_size)

declare splay_tree.simps [simp del]

fun hang_small :: "lspine \<Rightarrow> loc tree \<Rightarrow> loc tree" where
  "hang_small [] t = t"
| "hang_small ((l, a) # L) t = Node l a (hang_small L t)"

fun hang_large :: "rspine \<Rightarrow> loc tree \<Rightarrow> loc tree" where
  "hang_large [] t = t"
| "hang_large ((a, r) # R) t = Node (hang_large R t) a r"

fun assemble :: "lspine \<times> loc tree \<times> rspine \<Rightarrow> loc tree" where
  "assemble (L, Leaf, R) = Leaf"
| "assemble (L, Node l a r, R) = Node (hang_small L l) a (hang_large R r)"

lemma inorder_hang_small [simp]: "inorder (hang_small L t) = smalls L @ inorder t"
  by (induction L t rule: hang_small.induct) auto

lemma inorder_hang_large [simp]: "inorder (hang_large R t) = inorder t @ larges R"
  by (induction R t rule: hang_large.induct) auto

fun conf_inorder :: "splay_conf \<Rightarrow> loc list" where
  "conf_inorder (L, t, R) = smalls L @ inorder t @ larges R"

lemma inorder_assemble: "fst (snd x) \<noteq> Leaf \<Longrightarrow> inorder (assemble x) = conf_inorder x"
  by (cases x rule: assemble.cases) auto

text \<open>What every iteration keeps holds when the loop ends.\<close>

lemma splay_tree_keeps:
  assumes "\<And>x y. splay_step c x = Inl y \<Longrightarrow> P x \<Longrightarrow> P y"
    and "\<And>x y. splay_step c x = Inr y \<Longrightarrow> P x \<Longrightarrow> P y"
    and "P x"
  shows "P (splay_tree c x)"
  using assms
proof (induction c x rule: splay_tree.induct)
  case (1 c x)
  show ?case
  proof (cases "splay_step c x")
    case (Inl y)
    with "1.prems" show ?thesis by (subst splay_tree.simps) auto
  next
    case (Inr y)
    with 1 have "P (splay_tree c y)" by blast
    with Inr show ?thesis by (subst splay_tree.simps) simp
  qed
qed

lemma splay_step_inorder:
  "splay_step c x = Inl y \<or> splay_step c x = Inr y \<Longrightarrow> conf_inorder y = conf_inorder x"
  by (cases x rule: assemble.cases) (auto split: if_splits tree.splits)

lemma splay_step_nonempty:
  "splay_step c x = Inl y \<or> splay_step c x = Inr y \<Longrightarrow> fst (snd x) \<noteq> Leaf \<Longrightarrow> fst (snd y) \<noteq> Leaf"
  by (cases x rule: assemble.cases) (auto split: if_splits tree.splits)

section \<open>The pointer program follows the loop on trees\<close>

fun splay_rep :: "splay_st \<Rightarrow> ptr \<Rightarrow> ptr \<Rightarrow> splay_conf \<Rightarrow> bool" where
  "splay_rep s lft rgt (L, t, R) \<longleftrightarrow>
     (\<exists>lq rq nd. lft = Some lq \<and> rgt = Some rq \<and> smem s Local_node = Some nd \<and>
       small_at (smem s) Local_node L lq \<and> large_at (smem s) Local_node R rq \<and>
       tree_at (smem s) (sph_root s) t \<and> distinct (Local_node # smalls L @ inorder t @ larges R))"

abbreviation conf_locs :: "splay_conf \<Rightarrow> loc set" where
  "conf_locs x \<equiv> insert Local_node (set (conf_inorder x))"

lemmas splay_access =
  SPLAY_LEFT_def SPLAY_RIGHT_def set_SPLAY_LEFT_def set_SPLAY_RIGHT_def call_cmp_def

lemma rotate_right_rep:
  assumes "splay_rep s lft rgt (L, Node (Node ll b lr) a r, R)"
  shows "returns (SPLAY_ROTATE_RIGHT (Some b) s) (\<lambda>s'.
    splay_rep s' lft rgt (L, Node ll b (Node lr a r), R) \<and>
    same_outside (conf_locs (L, Node (Node ll b lr) a r, R)) (smem s) (smem s'))"
  using assms by (auto simp: SPLAY_ROTATE_RIGHT_def splay_access split: option.split_asm)

lemma rotate_left_rep:
  assumes "splay_rep s lft rgt (L, Node l a (Node rl b rr), R)"
  shows "returns (SPLAY_ROTATE_LEFT (Some b) s) (\<lambda>s'.
    splay_rep s' lft rgt (L, Node (Node l a rl) b rr, R) \<and>
    same_outside (conf_locs (L, Node l a (Node rl b rr), R)) (smem s) (smem s'))"
  using assms by (auto simp: SPLAY_ROTATE_LEFT_def splay_access split: option.split_asm)

text \<open>Relinking the open end of one spine keeps both spines.\<close>

lemma relink_large_end:
  assumes "small_at m p L lq" "large_at m p R rq" "m rq = Some k"
    and d: "distinct (p # smalls L @ xs @ larges R)"
  shows "small_at (m(rq \<mapsto> k\<lparr>spe_left := v\<rparr>)) p L lq" "large_at (m(rq \<mapsto> k\<lparr>spe_left := v\<rparr>)) p R rq"
    and "rq \<notin> set xs"
proof -
  from assms(2) have rq: "rq = p \<or> rq \<in> set (larges R)" by (auto dest: large_at_end)
  with d show "rq \<notin> set xs" by auto
  show "small_at (m(rq \<mapsto> k\<lparr>spe_left := v\<rparr>)) p L lq"
  proof (cases "rq = p")
    case True
    with assms show ?thesis by (simp add: small_at_first)
  next
    case False
    with rq d have "rq \<notin> insert p (set (smalls L))" by auto
    with assms show ?thesis by simp
  qed
  show "large_at (m(rq \<mapsto> k\<lparr>spe_left := v\<rparr>)) p R rq"
    using assms by (intro large_at_open) auto
qed

lemma relink_small_end:
  assumes "small_at m p L lq" "large_at m p R rq" "m lq = Some k"
    and d: "distinct (p # smalls L @ xs @ larges R)"
  shows "small_at (m(lq \<mapsto> k\<lparr>spe_right := v\<rparr>)) p L lq" "large_at (m(lq \<mapsto> k\<lparr>spe_right := v\<rparr>)) p R rq"
    and "lq \<notin> set xs"
proof -
  from assms(1) have lq: "lq = p \<or> lq \<in> set (smalls L)" by (auto dest: small_at_end)
  with d show "lq \<notin> set xs" by auto
  show "large_at (m(lq \<mapsto> k\<lparr>spe_right := v\<rparr>)) p R rq"
  proof (cases "lq = p")
    case True
    with assms show ?thesis by (simp add: large_at_first)
  next
    case False
    with lq d have "lq \<notin> insert p (set (larges R))" by auto
    with assms show ?thesis by simp
  qed
  show "small_at (m(lq \<mapsto> k\<lparr>spe_right := v\<rparr>)) p L lq"
    using assms by (intro small_at_open) auto
qed

lemma splay_repE:
  assumes "splay_rep s lft rgt (L, Node l a r, R)"
  obtains lq rq nd kl kr n where
    "lft = Some lq" "rgt = Some rq" "smem s Local_node = Some nd"
    "small_at (smem s) Local_node L lq" "large_at (smem s) Local_node R rq"
    "smem s lq = Some kl" "smem s rq = Some kr" "lq \<noteq> a" "rq \<noteq> a"
    "sph_root s = Some a" "smem s a = Some n"
    "tree_at (smem s) (spe_left n) l" "tree_at (smem s) (spe_right n) r"
    "distinct (Local_node # smalls L @ (inorder l @ a # inorder r) @ larges R)"
proof -
  from assms obtain lq rq nd n where *:
    "lft = Some lq" "rgt = Some rq" "smem s Local_node = Some nd"
    "small_at (smem s) Local_node L lq" "large_at (smem s) Local_node R rq"
    "sph_root s = Some a" "smem s a = Some n"
    "tree_at (smem s) (spe_left n) l" "tree_at (smem s) (spe_right n) r"
    "distinct (Local_node # smalls L @ (inorder l @ a # inorder r) @ larges R)"
    by (auto split: option.split_asm)
  moreover from * obtain kl kr where "smem s lq = Some kl" "smem s rq = Some kr"
    using small_at_dom large_at_dom by metis
  moreover have "lq \<noteq> a" "rq \<noteq> a"
    using small_at_end [OF *(4)] large_at_end [OF *(5)] *(10) by auto
  ultimately show ?thesis using that by blast
qed

lemma linkleft_rep:
  assumes "splay_rep s lft rgt (L, Node l a r, R)"
  shows "returns (SPLAY_LINKLEFT rgt s) (\<lambda>(s', rgt').
    splay_rep s' lft rgt' (L, l, R @ [(a, r)]) \<and>
    same_outside (conf_locs (L, Node l a r, R)) (smem s) (smem s'))"
  using assms
proof (rule splay_repE)
  fix lq rq nd kl kr n
  assume h: "lft = Some lq" "rgt = Some rq" "smem s Local_node = Some nd"
    "small_at (smem s) Local_node L lq" "large_at (smem s) Local_node R rq"
    "smem s lq = Some kl" "smem s rq = Some kr" "lq \<noteq> a" "rq \<noteq> a"
    "sph_root s = Some a" "smem s a = Some n"
    "tree_at (smem s) (spe_left n) l" "tree_at (smem s) (spe_right n) r"
    "distinct (Local_node # smalls L @ (inorder l @ a # inorder r) @ larges R)"
  note re = relink_large_end(1,2) [OF h(4,5,7,14), of "Some a"] relink_large_end(3) [OF h(4,5,7,14)]
  show ?thesis
    using h re large_at_end [OF h(5)]
    by (auto simp: SPLAY_LINKLEFT_def splay_access large_at_snoc)
qed

lemma linkright_rep:
  assumes "splay_rep s lft rgt (L, Node l a r, R)"
  shows "returns (SPLAY_LINKRIGHT lft s) (\<lambda>(s', lft').
    splay_rep s' lft' rgt (L @ [(l, a)], r, R) \<and>
    same_outside (conf_locs (L, Node l a r, R)) (smem s) (smem s'))"
  using assms
proof (rule splay_repE)
  fix lq rq nd kl kr n
  assume h: "lft = Some lq" "rgt = Some rq" "smem s Local_node = Some nd"
    "small_at (smem s) Local_node L lq" "large_at (smem s) Local_node R rq"
    "smem s lq = Some kl" "smem s rq = Some kr" "lq \<noteq> a" "rq \<noteq> a"
    "sph_root s = Some a" "smem s a = Some n"
    "tree_at (smem s) (spe_left n) l" "tree_at (smem s) (spe_right n) r"
    "distinct (Local_node # smalls L @ (inorder l @ a # inorder r) @ larges R)"
  note re = relink_small_end(1,2) [OF h(4,5,6,14), of "Some a"] relink_small_end(3) [OF h(4,5,6,14)]
  show ?thesis
    using h re small_at_end [OF h(4)]
    by (auto simp: SPLAY_LINKRIGHT_def splay_access small_at_snoc)
qed

text \<open>Assembly hangs the root's subtrees at the ends of the spines.\<close>

lemma tree_at_hang_small:
  "small_at m p L q \<Longrightarrow> m q = Some k \<Longrightarrow> tree_at m (spe_right k) t \<Longrightarrow>
     \<exists>n. m p = Some n \<and> tree_at m (spe_right n) (hang_small L t)"
  by (induction L arbitrary: p) (fastforce split: option.split_asm)+

lemma tree_at_hang_large:
  "large_at m p R q \<Longrightarrow> m q = Some k \<Longrightarrow> tree_at m (spe_left k) t \<Longrightarrow>
     \<exists>n. m p = Some n \<and> tree_at m (spe_left n) (hang_large R t)"
  by (induction R arbitrary: p) (fastforce split: option.split_asm)+

lemma set_hang [simp]:
  "set_tree (hang_small L t) = set (smalls L) \<union> set_tree t"
  "set_tree (hang_large R t) = set_tree t \<union> set (larges R)"
  using inorder_hang_small [of L t] inorder_hang_large [of R t]
  by (metis set_append set_inorder)+

lemma assemble_rep:
  assumes "splay_rep s lft rgt (L, Node l a r, R)"
  shows "returns (SPLAY_ASSEMBLE (Some Local_node) lft rgt s) (\<lambda>s'.
    tree_at (smem s') (sph_root s') (Node (hang_small L l) a (hang_large R r)) \<and>
    same_outside (conf_locs (L, Node l a r, R)) (smem s) (smem s'))"
  using assms
proof (rule splay_repE)
  fix lq rq nd kl kr n
  assume h: "lft = Some lq" "rgt = Some rq" "smem s Local_node = Some nd"
    "small_at (smem s) Local_node L lq" "large_at (smem s) Local_node R rq"
    "smem s lq = Some kl" "smem s rq = Some kr" "lq \<noteq> a" "rq \<noteq> a"
    "sph_root s = Some a" "smem s a = Some n"
    "tree_at (smem s) (spe_left n) l" "tree_at (smem s) (spe_right n) r"
    and d: "distinct (Local_node # smalls L @ (inorder l @ a # inorder r) @ larges R)"
  let ?m1 = "(smem s)(lq \<mapsto> kl\<lparr>spe_right := spe_left n\<rparr>)"
  note re1 = relink_small_end(1,2) [OF h(4,5,6) d, of "spe_left n"] relink_small_end(3) [OF h(4,5,6) d]
  from re1(2) obtain k1 where k1: "?m1 rq = Some k1"
    using h(3) large_at_dom upd_defined by metis
  let ?m2 = "?m1(rq \<mapsto> k1\<lparr>spe_left := spe_right n\<rparr>)"
  note re2 = relink_large_end(1,2) [OF re1(1,2) k1 d, of "spe_right n"]
    relink_large_end(3) [OF re1(1,2) k1 d]
  have t1: "tree_at ?m1 (spe_left n) l" "tree_at ?m1 (spe_right n) r" 
    using h re1(3) by auto
  obtain n1 where n1: "?m1 Local_node = Some n1" "tree_at ?m1 (spe_right n1) (hang_small L l)"
    using tree_at_hang_small [OF re1(1) fun_upd_same, of l] t1 by auto
  obtain n2 where n2: "?m2 Local_node = Some n2" "tree_at ?m2 (spe_left n2) (hang_large R r)"
    using tree_at_hang_large [OF re2(2) fun_upd_same, of r] t1 re2(3) by auto
  have n12: "spe_right n2 = spe_right n1"
    using n1(1) n2(1) k1 by (cases "rq = Local_node") auto
  have "rq \<notin> set_tree (hang_small L l)" using large_at_end [OF h(5)] d re2(3) by auto
  with n1(2) n12 have l2: "tree_at ?m2 (spe_right n2) (hang_small L l)" by simp
  show ?thesis
    using h d k1 n2 l2 small_at_end [OF h(4)] large_at_end [OF h(5)]
    by (auto simp: SPLAY_ASSEMBLE_def splay_access)
qed

lemma splay_rep_root:
  "splay_rep s lft rgt (L, Node l a r, R) \<Longrightarrow>
     sph_root s = Some a \<and> returns (SPLAY_LEFT s (Some a)) (\<lambda>p. tree_at (smem s) p l) \<and>
     returns (SPLAY_RIGHT s (Some a)) (\<lambda>p. tree_at (smem s) p r)"
  by (auto simp: splay_access split: option.split_asm)

text \<open>
  The body of the loop, with the next iteration \<open>F\<close> as a parameter: the loops of \<open>SPLAY\<close> and of
  \<open>SPLAY_MINMAX\<close> are both fixed points of it.
\<close>

definition splay_body ::
  "cmp_fn \<Rightarrow> ptr \<Rightarrow> (splay_st \<times> ptr \<times> ptr \<Rightarrow> (splay_st \<times> ptr \<times> ptr) option) \<Rightarrow>
     splay_st \<times> ptr \<times> ptr \<Rightarrow> (splay_st \<times> ptr \<times> ptr) option" where
  "splay_body cmp elm F = (\<lambda>(s, lft, rgt). do {
     comp \<leftarrow> call_cmp cmp elm (sph_root s);
     if comp = 0 then Some (s, lft, rgt)
     else if comp < 0 then do {
       tmp \<leftarrow> SPLAY_LEFT s (sph_root s);
       if tmp = None then Some (s, lft, rgt)
       else do {
         c \<leftarrow> call_cmp cmp elm tmp;
         (s, brk) \<leftarrow>
           (if c < 0 then do {
              s \<leftarrow> SPLAY_ROTATE_RIGHT tmp s;
              l \<leftarrow> SPLAY_LEFT s (sph_root s);
              Some (s, l = None) }
            else Some (s, False));
         if brk then Some (s, lft, rgt)
         else do { (s, rgt) \<leftarrow> SPLAY_LINKLEFT rgt s; F (s, lft, rgt) } } }
     else do {
       tmp \<leftarrow> SPLAY_RIGHT s (sph_root s);
       if tmp = None then Some (s, lft, rgt)
       else do {
         c \<leftarrow> call_cmp cmp elm tmp;
         (s, brk) \<leftarrow>
           (if 0 < c then do {
              s \<leftarrow> SPLAY_ROTATE_LEFT tmp s;
              r \<leftarrow> SPLAY_RIGHT s (sph_root s);
              Some (s, r = None) }
            else Some (s, False));
         if brk then Some (s, lft, rgt)
         else do { (s, lft) \<leftarrow> SPLAY_LINKRIGHT lft s; F (s, lft, rgt) } } } })"

lemma tree_at_None_iff: "tree_at m p t \<Longrightarrow> p = None \<longleftrightarrow> t = Leaf"
  by (cases t) auto

lemma splay_tree_break: "splay_step c x = Inl y \<Longrightarrow> splay_tree c x = y"
  by (subst splay_tree.simps) simp

text \<open>
  \<open>splay_iter\<close>: from a state that represents \<open>x\<close>, the loop reaches the head of the loop again, or
  its end, in a state that represents the configuration after one step of the tree loop.
\<close>

declare splay_rep.simps [simp del]

definition splay_iter ::
  "(splay_st \<times> ptr \<times> ptr \<Rightarrow> (splay_st \<times> ptr \<times> ptr) option) \<Rightarrow> cmp_fn \<Rightarrow> loc \<Rightarrow> splay_st \<Rightarrow> ptr \<Rightarrow> ptr \<Rightarrow> splay_conf \<Rightarrow> bool" where
  "splay_iter F cmp e s lft rgt x \<longleftrightarrow>
     (\<exists>s' lft' rgt'. same_outside (conf_locs x) (smem s) (smem s') \<and>
       (case splay_step (cmp e) x of
          Inl y \<Rightarrow> splay_rep s' lft' rgt' y \<and>
            F (s, lft, rgt) = Some (s', lft', rgt')
        | Inr y \<Rightarrow> splay_rep s' lft' rgt' y \<and>
            F (s, lft, rgt) = F (s', lft', rgt')))"

definition splay_post :: "splay_st \<Rightarrow> splay_conf \<Rightarrow> splay_conf \<Rightarrow> splay_st \<times> ptr \<times> ptr \<Rightarrow> bool" where
  "splay_post s x y z = (case z of (s', lft, rgt) \<Rightarrow>
     splay_rep s' lft rgt y \<and> same_outside (conf_locs x) (smem s) (smem s'))"

text \<open>
  The contract of a loop with this body. What is proved in it holds for the loop of \<open>SPLAY\<close> and,
  with a constant comparison, for the loop of \<open>SPLAY_MINMAX\<close>.
\<close>

locale splay_loop_law =
  fixes cmp :: cmp_fn
    and e :: loc
    and F :: "splay_st \<times> ptr \<times> ptr \<Rightarrow> (splay_st \<times> ptr \<times> ptr) option"
  assumes F_body: "F st = splay_body cmp (Some e) F st"
begin

lemma splay_iterI:
  assumes "same_outside (conf_locs x) (smem s) (smem s')" "splay_rep s' lft' rgt' y"
    and "splay_step (cmp e) x = Inl y \<and>
          F (s, lft, rgt) = Some (s', lft', rgt') \<or>
         splay_step (cmp e) x = Inr y \<and>
          F (s, lft, rgt) = F (s', lft', rgt')"
  shows "splay_iter F cmp e s lft rgt x"
  using assms unfolding splay_iter_def
  by (intro exI [of _ s'] exI [of _ lft'] exI [of _ rgt']) auto

lemma splay_iter_rotate_right:
  assumes rep: "splay_rep s lft rgt (L, Node (Node ll b lr) a r, R)"
    and c: "cmp e a < 0" "cmp e b < 0"
  shows "splay_iter F cmp e s lft rgt (L, Node (Node ll b lr) a r, R)" (is "splay_iter _ _ _ _ _ _ ?x")
proof -
  have sl: "sph_root s = Some a" "SPLAY_LEFT s (Some a) = Some (Some b)"
    using splay_rep_root [OF rep] by (auto simp: returns_iff)
  from rotate_right_rep [OF rep] obtain s1 where s1: "SPLAY_ROTATE_RIGHT (Some b) s = Some s1"
    and rep1: "splay_rep s1 lft rgt (L, Node ll b (Node lr a r), R)"
    and so1: "same_outside (conf_locs ?x) (smem s) (smem s1)"
    by (auto simp: returns_iff)
  from splay_rep_root [OF rep1] obtain p where
    p: "sph_root s1 = Some b" "SPLAY_LEFT s1 (Some b) = Some p" "tree_at (smem s1) p ll"
    by (auto simp: returns_iff)
  show ?thesis
  proof (cases "ll = Leaf")
    case True
    with p sl s1 c show ?thesis
      by (intro splay_iterI [OF so1 rep1]) (simp add: F_body [of "(s, lft, rgt)"] splay_body_def call_cmp_def)
  next
    case False
    with p have "p \<noteq> None" by (simp add: tree_at_None_iff)
    moreover from linkleft_rep [OF rep1] obtain s2 rgt2 where
      "SPLAY_LINKLEFT rgt s1 = Some (s2, rgt2)"
      and rep2: "splay_rep s2 lft rgt2 (L, ll, R @ [(b, Node lr a r)])"
      and "same_outside (conf_locs ?x) (smem s1) (smem s2)"
      by (auto simp: returns_iff insert_commute Un_left_commute)
    ultimately show ?thesis
      using so1 sl s1 p c False
      by (intro splay_iterI [OF _ rep2])
        (auto simp: F_body [of "(s, lft, rgt)"] splay_body_def call_cmp_def intro: same_outside_trans)
  qed
qed

lemma splay_iter_rotate_left:
  assumes rep: "splay_rep s lft rgt (L, Node l a (Node rl b rr), R)"
    and c: "0 < cmp e a" "0 < cmp e b"
  shows "splay_iter F cmp e s lft rgt (L, Node l a (Node rl b rr), R)" (is "splay_iter _ _ _ _ _ _ ?x")
proof -
  have sl: "sph_root s = Some a" "SPLAY_RIGHT s (Some a) = Some (Some b)"
    using splay_rep_root [OF rep] by (auto simp: returns_iff)
  from rotate_left_rep [OF rep] obtain s1 where s1: "SPLAY_ROTATE_LEFT (Some b) s = Some s1"
    and rep1: "splay_rep s1 lft rgt (L, Node (Node l a rl) b rr, R)"
    and so1: "same_outside (conf_locs ?x) (smem s) (smem s1)"
    by (auto simp: returns_iff)
  from splay_rep_root [OF rep1] obtain p where
    p: "sph_root s1 = Some b" "SPLAY_RIGHT s1 (Some b) = Some p" "tree_at (smem s1) p rr"
    by (auto simp: returns_iff)
  show ?thesis
  proof (cases "rr = Leaf")
    case True
    with p sl s1 c show ?thesis
      by (intro splay_iterI [OF so1 rep1]) (simp add: F_body [of "(s, lft, rgt)"] splay_body_def call_cmp_def)
  next
    case False
    with p have "p \<noteq> None" by (simp add: tree_at_None_iff)
    moreover from linkright_rep [OF rep1] obtain s2 lft2 where
      "SPLAY_LINKRIGHT lft s1 = Some (s2, lft2)"
      and rep2: "splay_rep s2 lft2 rgt (L @ [(Node l a rl, b)], rr, R)"
      and "same_outside (conf_locs ?x) (smem s1) (smem s2)"
      by (auto simp: returns_iff insert_commute Un_left_commute)
    ultimately show ?thesis
      using so1 sl s1 p c False
      by (intro splay_iterI [OF _ rep2])
        (auto simp: F_body [of "(s, lft, rgt)"] splay_body_def call_cmp_def intro: same_outside_trans)
  qed
qed

lemma splay_iter_link_left:
  assumes rep: "splay_rep s lft rgt (L, Node (Node ll b lr) a r, R)"
    and c: "cmp e a < 0" "\<not> cmp e b < 0"
  shows "splay_iter F cmp e s lft rgt (L, Node (Node ll b lr) a r, R)"
proof -
  have sl: "sph_root s = Some a" "SPLAY_LEFT s (Some a) = Some (Some b)"
    using splay_rep_root [OF rep] by (auto simp: returns_iff)
  from linkleft_rep [OF rep] obtain s2 rgt2 where
    "SPLAY_LINKLEFT rgt s = Some (s2, rgt2)"
    and rep2: "splay_rep s2 lft rgt2 (L, Node ll b lr, R @ [(a, r)])"
    and so: "same_outside (conf_locs (L, Node (Node ll b lr) a r, R)) (smem s) (smem s2)"
    by (auto simp: returns_iff)
  with sl c show ?thesis
    by (intro splay_iterI [OF so rep2]) (simp add: F_body [of "(s, lft, rgt)"] splay_body_def call_cmp_def)
qed

lemma splay_iter_link_right:
  assumes rep: "splay_rep s lft rgt (L, Node l a (Node rl b rr), R)"
    and c: "0 < cmp e a" "\<not> 0 < cmp e b"
  shows "splay_iter F cmp e s lft rgt (L, Node l a (Node rl b rr), R)"
proof -
  have sl: "sph_root s = Some a" "SPLAY_RIGHT s (Some a) = Some (Some b)"
    using splay_rep_root [OF rep] by (auto simp: returns_iff)
  from linkright_rep [OF rep] obtain s2 lft2 where
    "SPLAY_LINKRIGHT lft s = Some (s2, lft2)"
    and rep2: "splay_rep s2 lft2 rgt (L @ [(l, a)], Node rl b rr, R)"
    and so: "same_outside (conf_locs (L, Node l a (Node rl b rr), R)) (smem s) (smem s2)"
    by (auto simp: returns_iff)
  with sl c show ?thesis
    by (intro splay_iterI [OF so rep2]) (simp add: F_body [of "(s, lft, rgt)"] splay_body_def call_cmp_def)
qed

lemma splay_iter_stop:
  assumes rep: "splay_rep s lft rgt (L, Node l a r, R)"
    and c: "cmp e a = 0 \<or> cmp e a < 0 \<and> l = Leaf \<or> 0 < cmp e a \<and> r = Leaf"
  shows "splay_iter F cmp e s lft rgt (L, Node l a r, R)"
  using splay_rep_root [OF rep] c
  by (intro splay_iterI [OF same_outside_refl rep])
    (auto simp: F_body [of "(s, lft, rgt)"] splay_body_def call_cmp_def returns_iff)

lemma splay_iter_ok:
  assumes rep: "splay_rep s lft rgt x" and "fst (snd x) \<noteq> Leaf"
  shows "splay_iter F cmp e s lft rgt x"
proof -
  from assms obtain L l a r R where x: "x = (L, Node l a r, R)"
    by (cases x rule: assemble.cases) auto
  consider "cmp e a = 0 \<or> cmp e a < 0 \<and> l = Leaf \<or> 0 < cmp e a \<and> r = Leaf"
    | ll b lr where "cmp e a < 0" "l = Node ll b lr"
    | rl b rr where "0 < cmp e a" "r = Node rl b rr"
    by (metis linorder_neqE tree.exhaust)
  then show ?thesis
  proof cases
    case 1
    then show ?thesis unfolding x using rep [unfolded x] by (intro splay_iter_stop)
  next
    case (2 ll b lr)
    then show ?thesis
      unfolding x using rep [unfolded x]
      by (cases "cmp e b < 0") (simp_all add: splay_iter_rotate_right splay_iter_link_left)
  next
    case (3 rl b rr)
    then show ?thesis
      unfolding x using rep [unfolded x]
      by (cases "0 < cmp e b") (simp_all add: splay_iter_rotate_left splay_iter_link_right)
  qed
qed

text \<open>The loop ends, makes no undefined access, and computes the tree loop.\<close>

lemma loop_rep:
  assumes "splay_rep s lft rgt x" and "fst (snd x) \<noteq> Leaf"
  shows "returns (F (s, lft, rgt)) (splay_post s x (splay_tree (cmp e) x))"
  using assms
proof (induction "cmp e" x arbitrary: s lft rgt rule: splay_tree.induct)
  case (1 x)
  from splay_iter_ok [OF "1.prems"] obtain s' lft' rgt' where
    so: "same_outside (conf_locs x) (smem s) (smem s')" and
    res: "case splay_step (cmp e) x of
          Inl y \<Rightarrow> splay_rep s' lft' rgt' y \<and>
            F (s, lft, rgt) = Some (s', lft', rgt')
        | Inr y \<Rightarrow> splay_rep s' lft' rgt' y \<and>
            F (s, lft, rgt) = F (s', lft', rgt')"
    unfolding splay_iter_def by blast
  show ?case
  proof (cases "splay_step (cmp e) x")
    case (Inl y)
    with res so show ?thesis by (simp add: splay_tree_break splay_post_def)
  next
    case (Inr y)
    then have "fst (snd y) \<noteq> Leaf" and locs: "conf_locs y = conf_locs x"
      using "1.prems"(2) splay_step_nonempty splay_step_inorder by metis+
    with Inr res "1.hyps" have
      "returns (F (s', lft', rgt')) (splay_post s' y (splay_tree (cmp e) y))"
      by simp
    moreover have "splay_tree (cmp e) x = splay_tree (cmp e) y"
      using Inr by (subst splay_tree.simps) simp
    ultimately show ?thesis
      using Inr res so locs
      by (auto simp: splay_post_def elim!: returns_mono intro: same_outside_trans)
  qed
qed

end

interpretation splay: splay_loop_law cmp e "splay_loop cmp (Some e)" for cmp e
  by unfold_locales (subst splay_loop.simps, simp add: splay_body_def)

lemma minmax_body:
  assumes "d \<noteq> 0"
  shows "minmax_loop d st = splay_body (\<lambda>_ _. d) (Some e) (minmax_loop d) st"
proof -
  obtain s lft rgt where st: "st = (s, lft, rgt)" by (cases st)
  show ?thesis
  proof (cases "sph_root s")
    case None
    with assms show ?thesis
      unfolding st by (subst minmax_loop.simps) (auto simp: splay_body_def splay_access)
  next
    case (Some a)
    with assms show ?thesis
      unfolding st
      by (subst minmax_loop.simps) (auto simp: splay_body_def call_cmp_def intro!: Option.bind_cong)
  qed
qed

interpretation splay_min: splay_loop_law "\<lambda>_ _. SPLAY_NEGINF" e "minmax_loop SPLAY_NEGINF" for e
  by unfold_locales (simp add: SPLAY_NEGINF_def minmax_body [of "-1"])

interpretation splay_max: splay_loop_law "\<lambda>_ _. SPLAY_INF" e "minmax_loop SPLAY_INF" for e
  by unfold_locales (simp add: SPLAY_INF_def minmax_body [of 1])

end
