(* ===== verification/Uv_Splay_Correct.thy ===== *)
theory Uv_Splay_Correct
  imports Uv_Splay_Loop
begin

text \<open>
  The operations of the splay tree on a well-formed tree: every one of them returns, keeps the
  tree well formed and in key order, and does to the ordered list of its elements what it says.
\<close>

section \<open>Well-formed trees\<close>

text \<open>
  The memory holds the tree, its nodes are distinct objects of the client, and no activation of a
  splay routine is live.
\<close>

definition splay_ok :: "splay_st \<Rightarrow> loc tree \<Rightarrow> bool" where
  "splay_ok s t \<longleftrightarrow> tree_at (smem s) (sph_root s) t \<and> distinct (inorder t) \<and>
     Local_node \<notin> set_tree t \<and> smem s Local_node = None"

definition splayed :: "(loc \<Rightarrow> int) \<Rightarrow> loc tree \<Rightarrow> loc tree" where
  "splayed c t = assemble (splay_tree c ([], t, []))"

lemma enter_node_rep:
  "splay_ok s t \<Longrightarrow> splay_rep (enter_node s) (Some Local_node) (Some Local_node) ([], t, [])"
  by (simp add: splay_rep.simps enter_node_def splay_ok_def)

lemma splay_tree_conf:
  "t \<noteq> Leaf \<Longrightarrow> \<exists>L l a r R. splay_tree c ([], t, []) = (L, Node l a r, R) \<and>
     smalls L @ inorder l @ a # inorder r @ larges R = inorder t"
proof -
  assume t: "t \<noteq> Leaf"
  let ?y = "splay_tree c ([], t, [])"
  have "fst (snd ?y) \<noteq> Leaf"
    by (rule splay_tree_keeps [where P = "\<lambda>x. fst (snd x) \<noteq> Leaf"])
      (metis splay_step_nonempty, metis splay_step_nonempty, simp add: t)
  moreover have "conf_inorder ?y = inorder t"
    by (rule splay_tree_keeps [where P = "\<lambda>x. conf_inorder x = inorder t"])
      (metis splay_step_inorder, metis splay_step_inorder, simp)
  ultimately show ?thesis by (cases ?y rule: assemble.cases) auto
qed

lemma inorder_splayed [simp]: "inorder (splayed c t) = inorder t"
proof (cases "t = Leaf")
  case True
  then show ?thesis by (simp add: splayed_def splay_tree_break)
next
  case False
  with splay_tree_conf [OF False, of c] show ?thesis by (auto simp: splayed_def)
qed

lemma set_splayed [simp]: "set_tree (splayed c t) = set_tree t"
  using inorder_splayed by (metis set_inorder)

lemma splay_finish:
  assumes ok: "splay_ok s t" and t: "t \<noteq> Leaf"
    and post: "splay_post (enter_node s) ([], t, []) (splay_tree c ([], t, [])) (s1, lft, rgt)"
  shows "returns (SPLAY_ASSEMBLE (Some Local_node) lft rgt s1) (\<lambda>s2.
    splay_ok (leave_node s2) (splayed c t) \<and>
    same_outside (set_tree t) (smem s) (smem (leave_node s2)))"
proof -
  from splay_tree_conf [OF t] obtain L l a r R where y: "splay_tree c ([], t, []) = (L, Node l a r, R)"
    and ino: "smalls L @ inorder l @ a # inorder r @ larges R = inorder t"
    by blast
  have locs: "set_tree t = set (smalls L @ inorder l @ a # inorder r @ larges R)"
    using ino by (metis set_inorder)
  from post y have rep: "splay_rep s1 lft rgt (L, Node l a r, R)"
    and so: "same_outside (insert Local_node (set_tree t)) (smem (enter_node s)) (smem s1)"
    by (auto simp: splay_post_def)
  have sp: "splayed c t = Node (hang_small L l) a (hang_large R r)"
    using y by (simp add: splayed_def)
  show ?thesis
  proof (rule returns_mono [OF assemble_rep [OF rep]], elim conjE)
    fix s2 :: splay_st
    assume tr: "tree_at (smem s2) (sph_root s2) (Node (hang_small L l) a (hang_large R r))"
      and "same_outside (conf_locs (L, Node l a r, R)) (smem s1) (smem s2)"
    then have "same_outside (insert Local_node (set_tree t)) (smem (enter_node s)) (smem s2)"
      using so locs by (simp add: same_outside_def)
    then have "same_outside (set_tree t) (smem s) (smem (leave_node s2))"
      using ok by (auto simp: same_outside_def fun_upd_apply enter_node_def leave_node_def splay_ok_def)
    moreover have "splay_ok (leave_node s2) (splayed c t)"
      using ok tr inorder_splayed [of c t] set_splayed [of c t] unfolding splay_ok_def sp
      by (simp add: leave_node_def del: tree_at.simps set_hang)
    ultimately show "splay_ok (leave_node s2) (splayed c t) \<and>
      same_outside (set_tree t) (smem s) (smem (leave_node s2))" by blast
  qed
qed

lemma splay_run:
  assumes "splay_ok s t" "t \<noteq> Leaf"
    and "returns loop (splay_post (enter_node s) ([], t, []) (splay_tree c ([], t, [])))"
  shows "returns (do { (s, lft, rgt) \<leftarrow> loop;
      s \<leftarrow> SPLAY_ASSEMBLE (Some Local_node) lft rgt s; Some (leave_node s) })
    (\<lambda>s'. splay_ok s' (splayed c t) \<and> same_outside (set_tree t) (smem s) (smem s'))"
proof -
  from assms(3) obtain s1 lft rgt where "loop = Some (s1, lft, rgt)"
    and "splay_post (enter_node s) ([], t, []) (splay_tree c ([], t, [])) (s1, lft, rgt)"
    by (auto simp: returns_iff)
  with splay_finish [OF assms(1,2)] show ?thesis by simp
qed

lemma SPLAY_correct:
  assumes "splay_ok s t" "t \<noteq> Leaf"
  shows "returns (SPLAY cmp (Some e) s) (\<lambda>s'. splay_ok s' (splayed (cmp e) t) \<and>
    same_outside (set_tree t) (smem s) (smem s'))"
  unfolding SPLAY_def using assms
  by (intro splay_run splay.loop_rep enter_node_rep) auto

lemma SPLAY_MINMAX_correct:
  assumes "splay_ok s t" "t \<noteq> Leaf" "d = SPLAY_NEGINF \<or> d = SPLAY_INF"
  shows "returns (SPLAY_MINMAX d s) (\<lambda>s'. splay_ok s' (splayed (\<lambda>_. d) t) \<and>
    same_outside (set_tree t) (smem s) (smem s'))"
  unfolding SPLAY_MINMAX_def
proof (intro splay_run assms)
  have rep: "splay_rep (enter_node s) (Some Local_node) (Some Local_node) ([], t, [])"
    using assms(1) by (rule enter_node_rep)
  show "returns (minmax_loop d (enter_node s, Some Local_node, Some Local_node))
      (splay_post (enter_node s) ([], t, []) (splay_tree (\<lambda>_. d) ([], t, [])))"
    using assms(2,3) splay_min.loop_rep [OF rep] splay_max.loop_rep [OF rep] by auto
qed

section \<open>Where the loop ends\<close>

text \<open>
  When the loop stops, the comparison with the root is zero or there is nothing on the side it
  points to.
\<close>

lemma splay_tree_end:
  assumes "splay_tree c x = (L, Node l a r, R)"
  shows "c a = 0 \<or> c a < 0 \<and> l = Leaf \<or> 0 < c a \<and> r = Leaf"
  using assms
proof (induction c x rule: splay_tree.induct)
  case (1 c x)
  show ?case
  proof (cases "splay_step c x")
    case (Inl y)
    with "1.prems" show ?thesis
      by (cases x rule: assemble.cases) (auto simp: splay_tree_break split: if_splits tree.splits)
  next
    case (Inr y)
    with "1.prems" have "splay_tree c y = (L, Node l a r, R)"
      by (subst (asm) splay_tree.simps) simp
    with 1 Inr show ?thesis by blast
  qed
qed

text \<open>The nodes moved to the spines are those the comparison puts on that side.\<close>

fun on_sides :: "(loc \<Rightarrow> 'k::linorder) \<Rightarrow> 'k \<Rightarrow> splay_conf \<Rightarrow> bool" where
  "on_sides key k (L, t, R) \<longleftrightarrow>
     (\<forall>x\<in>set (smalls L). key x < k) \<and> (\<forall>x\<in>set (larges R). k < key x)"

lemma splay_step_moves:
  assumes "splay_step c (L, t, R) = Inl (L', t', R') \<or> splay_step c (L, t, R) = Inr (L', t', R')"
  shows "L' = L \<and> R' = R \<or> (\<exists>b u. c b < 0 \<and> L' = L \<and> R' = R @ [(b, u)]) \<or>
    (\<exists>b u. 0 < c b \<and> L' = L @ [(u, b)] \<and> R' = R)"
  using assms by (cases t) (auto split: if_splits tree.splits)

lemma splay_step_on_sides:
  assumes agrees: "cmp_agrees cmp key" and x: "on_sides key (key e) x" "sorted_keys key (conf_inorder x)"
    and step: "splay_step (cmp e) x = Inl y \<or> splay_step (cmp e) x = Inr y"
  shows "on_sides key (key e) y \<and> sorted_keys key (conf_inorder y)"
proof -
  obtain L t R L' t' R' where xy: "x = (L, t, R)" "y = (L', t', R')" by (metis prod_cases3)
  have s: "sorted_keys key (smalls L' @ inorder t' @ larges R')"
    using splay_step_inorder [OF step] x(2) xy by simp
  from splay_step_moves [OF step [unfolded xy]]
  consider "L' = L" "R' = R" | b u where "key e < key b" "L' = L" "R' = R @ [(b, u)]"
    | b u where "key b < key e" "L' = L @ [(u, b)]" "R' = R"
    by (auto simp: cmp_agreesD [OF agrees])
  then have "on_sides key (key e) y"
  proof cases
    case 1
    with x(1) xy show ?thesis by simp
  next
    case (2 b u)
    with s have "\<forall>z\<in>set_tree u. key b < key z" by simp
    with 2 x(1) xy show ?thesis by (auto dest: less_trans)
  next
    case (3 b u)
    with s have "\<forall>z\<in>set_tree u. key z < key b" by simp
    with 3 x(1) xy show ?thesis by (auto dest: less_trans)
  qed
  with s xy show ?thesis by simp
qed

lemma splayed_split:
  assumes agrees: "cmp_agrees cmp key" and sorted: "sorted_keys key (inorder t)" and t: "t \<noteq> Leaf"
  obtains l a r where "splayed (cmp e) t = Node l a r"
    "\<forall>x\<in>set_tree l. key x < key e" "\<forall>x\<in>set_tree r. key e < key x"
proof -
  from splay_tree_conf [OF t] obtain L l a r R where
    y: "splay_tree (cmp e) ([], t, []) = (L, Node l a r, R)" by blast
  let ?P = "\<lambda>x. on_sides key (key e) x \<and> sorted_keys key (conf_inorder x)"
  have "?P (splay_tree (cmp e) ([], t, []))"
    by (rule splay_tree_keeps [where P = ?P])
      (metis splay_step_on_sides agrees, metis splay_step_on_sides agrees, simp add: sorted)
  with y have sides: "?P (L, Node l a r, R)" by simp
  have "\<forall>x\<in>set_tree (hang_small L l). key x < key e" "\<forall>x\<in>set_tree (hang_large R r). key e < key x"
    using sides splay_tree_end [OF y] by (auto simp: cmp_agreesD [OF agrees] dest: less_trans)
  moreover have "splayed (cmp e) t = Node (hang_small L l) a (hang_large R r)"
    using y by (simp add: splayed_def)
  ultimately show ?thesis using that by blast
qed

section \<open>The operations on well-formed trees\<close>

text \<open>
  \<open>splay_set cmp key s xs\<close>: the state holds a well-formed tree whose elements, in order, are \<open>xs\<close>,
  ordered by a key that the comparator decides.
\<close>

definition splay_set :: "cmp_fn \<Rightarrow> (loc \<Rightarrow> 'k::linorder) \<Rightarrow> splay_st \<Rightarrow> loc list \<Rightarrow> bool" where
  "splay_set cmp key s xs \<longleftrightarrow>
     cmp_agrees cmp key \<and> sorted_keys key xs \<and> (\<exists>t. splay_ok s t \<and> inorder t = xs)"

lemma splay_ok_empty: "splay_ok s t \<Longrightarrow> SPLAY_EMPTY s \<longleftrightarrow> t = Leaf"
  by (cases t) (auto simp: splay_ok_def SPLAY_EMPTY_def)

lemma splay_ok_root:
  assumes "splay_ok s (Node l a r)"
  obtains n where "sph_root s = Some a" "smem s a = Some n"
    "tree_at (smem s) (spe_left n) l" "tree_at (smem s) (spe_right n) r"
    "a \<noteq> Local_node" "a \<notin> set_tree l" "a \<notin> set_tree r" "set_tree l \<inter> set_tree r = {}"
    "distinct (inorder l)" "distinct (inorder r)" "Local_node \<notin> set_tree l" "Local_node \<notin> set_tree r"
    "smem s Local_node = None"
  using assms by (auto simp: splay_ok_def split: option.split_asm)

text \<open>
  Splaying a non-empty tree brings up a node that splits the others at the searched key.
\<close>

lemma SPLAY_split:
  assumes set: "splay_set cmp key s xs" and "xs \<noteq> []"
  obtains s' l a r where "SPLAY cmp (Some e) s = Some s'" "splay_ok s' (Node l a r)"
    "xs = inorder l @ a # inorder r"
    "\<forall>x\<in>set (inorder l). key x < key e" "\<forall>x\<in>set (inorder r). key e < key x"
    "same_outside (set xs) (smem s) (smem s')"
proof -
  from set obtain t where t: "splay_ok s t" "inorder t = xs"
    and agrees: "cmp_agrees cmp key" and sorted: "sorted_keys key (inorder t)"
    by (auto simp: splay_set_def)
  with \<open>xs \<noteq> []\<close> have "t \<noteq> Leaf" by auto
  from splayed_split [OF agrees sorted this, of e] obtain l a r where
    sp: "splayed (cmp e) t = Node l a r"
    and lr: "\<forall>x\<in>set_tree l. key x < key e" "\<forall>x\<in>set_tree r. key e < key x"
    by blast
  from SPLAY_correct [OF t(1) \<open>t \<noteq> Leaf\<close>, of cmp e] obtain s' where
    "SPLAY cmp (Some e) s = Some s'" "splay_ok s' (Node l a r)"
    "same_outside (set_tree t) (smem s) (smem s')"
    by (auto simp: returns_iff sp)
  moreover have "xs = inorder l @ a # inorder r" using inorder_splayed [of "cmp e" t] sp t by simp
  moreover have "set_tree t = set xs" using t(2) by (auto simp flip: set_inorder)
  ultimately show ?thesis using that lr by simp
qed

lemma splay_setI:
  "splay_set cmp key s xs \<Longrightarrow> splay_ok s' t \<Longrightarrow> sorted_keys key (inorder t) \<Longrightarrow>
     splay_set cmp key s' (inorder t)"
  by (auto simp: splay_set_def)

lemma splay_set_empty: "splay_set cmp key s xs \<Longrightarrow> SPLAY_EMPTY s \<longleftrightarrow> xs = []"
  by (auto simp: splay_set_def splay_ok_empty)

lemma splay_setD:
  "splay_set cmp key s xs \<Longrightarrow> sorted_keys key xs" "splay_set cmp key s xs \<Longrightarrow> cmp_agrees cmp key"
  by (auto simp: splay_set_def)

lemma tree_at_live: "tree_at m p t \<Longrightarrow> x \<in> set_tree t \<Longrightarrow> m x \<noteq> None"
  by (induction t arbitrary: p) (auto split: option.split_asm)

lemma splay_set_live: "splay_set cmp key s xs \<Longrightarrow> x \<in> set xs \<Longrightarrow> smem s x \<noteq> None"
  unfolding splay_set_def splay_ok_def using tree_at_live by fastforce

lemma SPLAY_FIND_correct:
  assumes set: "splay_set cmp key s xs"
  shows "returns (SPLAY_FIND cmp (Some e) s) (\<lambda>(s', p).
    p = find_key key e xs \<and> splay_set cmp key s' xs \<and> same_outside (set xs) (smem s) (smem s'))"
proof (cases "xs = []")
  case True
  with set show ?thesis by (simp add: SPLAY_FIND_def splay_set_empty find_key_def)
next
  case False
  from SPLAY_split [OF set False, of e] obtain s' l a r where
    s': "SPLAY cmp (Some e) s = Some s'" and ok: "splay_ok s' (Node l a r)"
    and xs: "xs = inorder l @ a # inorder r"
    and lr: "\<forall>x\<in>set (inorder l). key x < key e" "\<forall>x\<in>set (inorder r). key e < key x"
    and so: "same_outside (set xs) (smem s) (smem s')" .
  have "splay_set cmp key s' xs" using splay_setI [OF set ok] splay_setD(1) [OF set] xs by simp
  moreover have "sph_root s' = Some a" using ok by (auto elim: splay_ok_root)
  moreover have "find_key key e xs = (if key a = key e then Some a else None)"
    unfolding xs by (rule find_key_split [OF lr])
  ultimately show ?thesis
    using set False s' so cmp_agrees_eq [OF splay_setD(2) [OF set], of e a]
    by (auto simp: SPLAY_FIND_def splay_set_empty call_cmp_def)
qed

lemma SPLAY_INSERT_empty:
  assumes "splay_set cmp key s []" "smem s e = Some n" "e \<noteq> Local_node"
  shows "returns (SPLAY_INSERT cmp (Some e) s) (\<lambda>(s', p).
    p = None \<and> splay_set cmp key s' [e] \<and> same_outside {e} (smem s) (smem s'))"
proof -
  let ?m = "(smem s)(e \<mapsto> n\<lparr>spe_right := None, spe_left := None\<rparr>)"
  have "SPLAY_INSERT cmp (Some e) s = Some (s\<lparr>smem := ?m, sph_root := Some e\<rparr>, None)"
    using assms by (simp add: SPLAY_INSERT_def splay_set_empty splay_access)
  moreover have "splay_ok (s\<lparr>smem := ?m, sph_root := Some e\<rparr>) (Node Leaf e Leaf)"
    using assms by (auto simp: splay_ok_def splay_set_def)
  ultimately show ?thesis
    using splay_setI [OF assms(1)] by fastforce
qed

lemma SPLAY_INSERT_node:
  assumes ok: "splay_ok s (Node l a r)" and n: "smem s e = Some n" and e: "e \<noteq> Local_node"
    "e \<notin> set_tree (Node l a r)"
  shows "returns (do {
          l \<leftarrow> SPLAY_LEFT s (sph_root s);
          s \<leftarrow> set_SPLAY_LEFT (Some e) l s;
          s \<leftarrow> set_SPLAY_RIGHT (Some e) (sph_root s) s;
          s \<leftarrow> set_SPLAY_LEFT (sph_root s) None s;
          Some (s\<lparr>sph_root := Some e\<rparr>, None) }) (\<lambda>(s', p::ptr). p = None \<and>
      splay_ok s' (Node l e (Node Leaf a r)) \<and> same_outside {a, e} (smem s) (smem s'))"
    and "returns (do {
          r \<leftarrow> SPLAY_RIGHT s (sph_root s);
          s \<leftarrow> set_SPLAY_RIGHT (Some e) r s;
          s \<leftarrow> set_SPLAY_LEFT (Some e) (sph_root s) s;
          s \<leftarrow> set_SPLAY_RIGHT (sph_root s) None s;
          Some (s\<lparr>sph_root := Some e\<rparr>, None) }) (\<lambda>(s', p::ptr). p = None \<and>
      splay_ok s' (Node (Node l a Leaf) e r) \<and> same_outside {a, e} (smem s) (smem s'))"
  by (rule splay_ok_root [OF ok], use n e in \<open>auto simp: splay_access splay_ok_def\<close>)+

lemma SPLAY_INSERT_correct:
  assumes set: "splay_set cmp key s xs" and e: "smem s e = Some n" "e \<noteq> Local_node" "e \<notin> set xs"
  shows "returns (SPLAY_INSERT cmp (Some e) s) (\<lambda>(s', p).
    p = find_key key e xs \<and>
    splay_set cmp key s' (add_key key e xs) \<and>
    same_outside (set (add_key key e xs)) (smem s) (smem s'))"
proof (cases "xs = []")
  case True
  with SPLAY_INSERT_empty [of cmp key s e n] set e show ?thesis
    by (auto simp: find_key_def key_in_def elim!: returns_mono)
next
  case False
  from SPLAY_split [OF set False, of e] obtain s1 l a r where
    s1: "SPLAY cmp (Some e) s = Some s1" and ok: "splay_ok s1 (Node l a r)"
    and xs: "xs = inorder l @ a # inorder r"
    and lr: "\<forall>x\<in>set (inorder l). key x < key e" "\<forall>x\<in>set (inorder r). key e < key x"
    and so: "same_outside (set xs) (smem s) (smem s1)" .
  note agrees = splay_setD(2) [OF set] and sorted = splay_setD(1) [OF set]
  note split = key_split [OF lr, of a, folded xs]
  have e1: "smem s1 e = Some n" "e \<notin> set_tree (Node l a r)"
    using so e xs by (auto dest: same_outsideD)
  have fin: "splay_set cmp key s' (ins_key key e xs) \<and>
      same_outside (set (ins_key key e xs)) (smem s) (smem s')"
    if "splay_ok s' t" "inorder t = ins_key key e xs" "same_outside {a, e} (smem s1) (smem s')"
      "key a \<noteq> key e" for s' t
  proof -
    have "sorted_keys key (ins_key key e xs)" using that(4) sorted split(1) by (simp add: sorted_ins_key)
    moreover have "a \<in> set xs" by (simp add: xs)
    ultimately show ?thesis
      using splay_setI [OF set that(1)] that(2,3) so by (auto simp: same_outside_def)
  qed
  have un: "SPLAY_INSERT cmp (Some e) s = (if cmp e a < 0 then do {
          l \<leftarrow> SPLAY_LEFT s1 (sph_root s1);
          s \<leftarrow> set_SPLAY_LEFT (Some e) l s1;
          s \<leftarrow> set_SPLAY_RIGHT (Some e) (sph_root s) s;
          s \<leftarrow> set_SPLAY_LEFT (sph_root s) None s;
          Some (s\<lparr>sph_root := Some e\<rparr>, None) }
        else if 0 < cmp e a then do {
          r \<leftarrow> SPLAY_RIGHT s1 (sph_root s1);
          s \<leftarrow> set_SPLAY_RIGHT (Some e) r s1;
          s \<leftarrow> set_SPLAY_LEFT (Some e) (sph_root s) s;
          s \<leftarrow> set_SPLAY_RIGHT (sph_root s) None s;
          Some (s\<lparr>sph_root := Some e\<rparr>, None) }
        else Some (s1, Some a))"
    using splay_set_empty [OF set] False s1 ok
    by (auto simp: SPLAY_INSERT_def call_cmp_def elim!: splay_ok_root)
  consider "key e < key a" | "key a < key e" | "key a = key e" by force
  then show ?thesis
  proof cases
    case 1
    with SPLAY_INSERT_node(1) [OF ok e1(1) e(2) e1(2)] show ?thesis
      using fin split unfolding un
      by (auto simp: cmp_agreesD [OF agrees] elim!: returns_mono)
  next
    case 2
    with SPLAY_INSERT_node(2) [OF ok e1(1) e(2) e1(2)] show ?thesis
      using fin split unfolding un
      by (auto simp: cmp_agreesD [OF agrees] elim!: returns_mono)
  next
    case 3
    with splay_setI [OF set ok] sorted xs split so show ?thesis
      unfolding un by (auto simp: cmp_agreesD [OF agrees] same_outside_def)
  qed
qed

text \<open>Removal joins the two subtrees: the left one is splayed again, and its new root has no right child.\<close>

lemma splay_ok_subtrees:
  assumes "splay_ok s (Node l a r)" "smem s a = Some n"
  shows "splay_ok (s\<lparr>sph_root := spe_left n\<rparr>) l" "splay_ok (s\<lparr>sph_root := spe_right n\<rparr>) r"
  using assms by (auto simp: splay_ok_def)

lemma splay_join:
  assumes ok: "splay_ok s (Node l a r)" and n: "smem s a = Some n" and l: "l \<noteq> Leaf"
    and set: "splay_set cmp key s xs" and xs: "xs = inorder l @ a # inorder r"
    and small: "\<forall>x\<in>set (inorder l). key x < key e"
  shows "returns (do { s \<leftarrow> SPLAY cmp (Some e) (s\<lparr>sph_root := spe_left n\<rparr>);
      s \<leftarrow> set_SPLAY_RIGHT (sph_root s) (spe_right n) s; Some (s, Some e) })
    (\<lambda>(s', p). p = Some e \<and> splay_set cmp key s' (inorder l @ inorder r) \<and>
      same_outside (set xs) (smem s) (smem s') \<and> smem s' a \<noteq> None)"
proof -
  let ?s = "s\<lparr>sph_root := spe_left n\<rparr>"
  have "splay_set cmp key ?s (inorder l)" and "inorder l \<noteq> []"
    using splay_ok_subtrees(1) [OF ok n] set xs l
    by (auto simp: splay_set_def)
  from SPLAY_split [OF this, of e] obtain s1 l' a' r' where
    s1: "SPLAY cmp (Some e) ?s = Some s1" and ok1: "splay_ok s1 (Node l' a' r')"
    and il: "inorder l = inorder l' @ a' # inorder r'"
    and "\<forall>x\<in>set (inorder l'). key x < key e" and r': "\<forall>x\<in>set (inorder r'). key e < key x"
    and so: "same_outside (set (inorder l)) (smem ?s) (smem s1)" .
  have [simp]: "r' = Leaf" using r' small il by (cases r') (auto dest: less_asym)
  from ok1 obtain k where k: "sph_root s1 = Some a'" "smem s1 a' = Some k" by (rule splay_ok_root)
  have tr: "tree_at (smem s1) (spe_right n) r"
  proof -
    from ok n have "tree_at (smem s) (spe_right n) r" "set_tree l \<inter> set_tree r = {}"
      by (auto simp: splay_ok_def)
    with tree_at_outside [OF so] show ?thesis by simp
  qed
  let ?s2 = "s1\<lparr>smem := (smem s1)(a' \<mapsto> k\<lparr>spe_right := spe_right n\<rparr>)\<rparr>"
  have "set_tree l = insert a' (set_tree l')" using il by (auto simp flip: set_inorder)
  with ok ok1 k tr il have ok2: "splay_ok ?s2 (Node l' a' r)" by (auto simp: splay_ok_def)
  have "splay_set cmp key ?s2 (inorder l @ inorder r)"
    using splay_setI [OF set ok2] splay_setD(1) [OF set] xs il by auto
  moreover have "smem s1 a = Some n" "a \<noteq> a'"
  proof -
    have "a \<notin> set_tree l" using ok by (auto simp: splay_ok_def)
    then show "smem s1 a = Some n" "a \<noteq> a'" using same_outsideD [OF so, of a] n il
      by (auto simp flip: set_inorder)
  qed
  ultimately show ?thesis
    using s1 k so il xs by (auto simp: splay_access same_outside_def)
qed

lemma SPLAY_REMOVE_correct:
  assumes set: "splay_set cmp key s xs"
  shows "returns (SPLAY_REMOVE cmp (Some e) s) (\<lambda>(s', p).
    p = (if key_in key e xs then Some e else None) \<and> splay_set cmp key s' (del_key key e xs) \<and>
    same_outside (set xs) (smem s) (smem s') \<and> (\<forall>x\<in>set xs. smem s' x \<noteq> None))"
proof (cases "xs = []")
  case True
  with set show ?thesis by (simp add: SPLAY_REMOVE_def splay_set_empty key_in_def del_key_def)
next
  case False
  from SPLAY_split [OF set False, of e] obtain s1 l a r where
    s1: "SPLAY cmp (Some e) s = Some s1" and ok: "splay_ok s1 (Node l a r)"
    and xs: "xs = inorder l @ a # inorder r"
    and lr: "\<forall>x\<in>set (inorder l). key x < key e" "\<forall>x\<in>set (inorder r). key e < key x"
    and so: "same_outside (set xs) (smem s) (smem s1)" .
  from ok obtain n where n: "sph_root s1 = Some a" "smem s1 a = Some n"
    "tree_at (smem s1) (spe_left n) l" by (rule splay_ok_root)
  note agrees = splay_setD(2) [OF set]
  note split = key_split [OF lr, of a, folded xs]
  have set1: "splay_set cmp key s1 xs" using splay_setI [OF set ok] splay_setD(1) [OF set] xs by simp
  have un: "SPLAY_REMOVE cmp (Some e) s = (if cmp e a = 0 then
      if spe_left n = None then Some (s1\<lparr>sph_root := spe_right n\<rparr>, Some e)
      else do { s \<leftarrow> SPLAY cmp (Some e) (s1\<lparr>sph_root := spe_left n\<rparr>);
        s \<leftarrow> set_SPLAY_RIGHT (sph_root s) (spe_right n) s; Some (s, Some e) }
      else Some (s1, None))"
    using splay_set_empty [OF set] False s1 n
    by (simp add: SPLAY_REMOVE_def call_cmp_def SPLAY_LEFT_def SPLAY_RIGHT_def)
  have live: "\<forall>x\<in>set xs. smem s1 x \<noteq> None" using splay_set_live [OF set1] by blast
  show ?thesis
  proof (cases "key a = key e")
    case differs: False
    then have "del_key key e xs = xs"
      using split(1) by (simp add: del_key_absent)
    with differs set1 so live split(1) show ?thesis
      unfolding un by (simp add: cmp_agreesD [OF agrees])
  next
    case True
    show ?thesis
    proof (cases "l = Leaf")
      case leaf: True
      have "splay_set cmp key (s1\<lparr>sph_root := spe_right n\<rparr>) (inorder r)"
        using splay_setI [OF set splay_ok_subtrees(2) [OF ok n(2)]] splay_setD(1) [OF set] xs by simp
      with True leaf n so live split show ?thesis
        unfolding un by (simp add: cmp_agreesD [OF agrees])
    next
      case node: False
      with n have "spe_left n \<noteq> None" by (simp add: tree_at_None_iff)
      with splay_join [OF ok n(2) node set1 xs lr(1)] True obtain s2 where
        s2: "SPLAY_REMOVE cmp (Some e) s = Some (s2, Some e)"
        and set2: "splay_set cmp key s2 (inorder l @ inorder r)"
        and so2: "same_outside (set xs) (smem s1) (smem s2)" and a: "smem s2 a \<noteq> None"
        unfolding un by (auto simp: cmp_agreesD [OF agrees] returns_iff)
      have "\<forall>x\<in>set xs. smem s2 x \<noteq> None" using splay_set_live [OF set2] a xs by auto
      with s2 set2 split True same_outside_trans [OF so so2] show ?thesis by simp
    qed
  qed
qed

section \<open>Extremes, successors and iteration\<close>

lemma splayed_extreme:
  assumes "t \<noteq> Leaf" "splayed (\<lambda>_. d) t = Node l a r"
  shows "d < 0 \<Longrightarrow> l = Leaf" "0 < d \<Longrightarrow> r = Leaf"
proof -
  from splay_tree_conf [OF assms(1)] obtain L l' a' r' R where
    y: "splay_tree (\<lambda>_. d) ([], t, []) = (L, Node l' a' r', R)" by blast
  then have lr: "l = hang_small L l'" "r = hang_large R r'" using assms(2) by (auto simp: splayed_def)
  let ?P = "\<lambda>x. (d < 0 \<longrightarrow> fst x = []) \<and> (0 < d \<longrightarrow> snd (snd x) = [])"
  have move: "?P y" if "splay_step (\<lambda>_. d) x = Inl y \<or> splay_step (\<lambda>_. d) x = Inr y" "?P x" for x y
    using that splay_step_moves [of "\<lambda>_. d" "fst x" "fst (snd x)" "snd (snd x)"
      "fst y" "fst (snd y)" "snd (snd y)"] by auto
  have "?P (splay_tree (\<lambda>_. d) ([], t, []))"
    by (rule splay_tree_keeps [where P = ?P]) (metis move, metis move, simp)
  with y lr splay_tree_end [OF y] show "d < 0 \<Longrightarrow> l = Leaf" "0 < d \<Longrightarrow> r = Leaf" by auto
qed

lemma SPLAY_MIN_MAX_correct:
  assumes set: "splay_set cmp key s xs" and "xs \<noteq> []" and d: "d = SPLAY_NEGINF \<or> d = SPLAY_INF"
  shows "returns (SPLAY_MIN_MAX d s) (\<lambda>(s', p).
    p = Some (if d < 0 then hd xs else last xs) \<and> splay_set cmp key s' xs \<and>
    same_outside (set xs) (smem s) (smem s'))"
proof -
  from set obtain t where t: "splay_ok s t" "inorder t = xs" by (auto simp: splay_set_def)
  with \<open>xs \<noteq> []\<close> have "t \<noteq> Leaf" by auto
  from SPLAY_MINMAX_correct [OF t(1) this d] obtain s' where s': "SPLAY_MINMAX d s = Some s'"
    and ok: "splay_ok s' (splayed (\<lambda>_. d) t)" and so: "same_outside (set_tree t) (smem s) (smem s')"
    by (auto simp: returns_iff)
  have ino: "inorder (splayed (\<lambda>_. d) t) = xs" using t by simp
  with \<open>xs \<noteq> []\<close> obtain l a r where sp: "splayed (\<lambda>_. d) t = Node l a r"
    by (cases "splayed (\<lambda>_. d) t") auto
  have "sph_root s' = Some a" using ok sp by (auto simp: splay_ok_def)
  moreover have "a = (if d < 0 then hd xs else last xs)"
    using d ino sp splayed_extreme [OF \<open>t \<noteq> Leaf\<close> sp]
    by (auto simp: SPLAY_NEGINF_def SPLAY_INF_def)
  moreover have "splay_set cmp key s' xs"
    using splay_setI [OF set ok] splay_setD(1) [OF set] ino by simp
  moreover have "set_tree t = set xs" using t(2) by (auto simp flip: set_inorder)
  ultimately show ?thesis using s' so by (simp add: SPLAY_MIN_MAX_def)
qed

lemma leftmost_correct:
  "tree_at (smem s) p t \<Longrightarrow> t \<noteq> Leaf \<Longrightarrow> leftmost s p = Some (Some (hd (inorder t)))"
proof (induction t arbitrary: p)
  case (Node l a r)
  from Node.prems obtain n where n: "p = Some a" "smem s a = Some n" "tree_at (smem s) (spe_left n) l"
    by (auto split: option.split_asm)
  with Node.IH(1) [OF n(3)] show ?case
    by (cases l; subst leftmost.simps) (auto simp: SPLAY_LEFT_def hd_append)
qed simp

lemma SPLAY_NEXT_correct:
  assumes set: "splay_set cmp key s (ys @ e # zs)"
  shows "returns (SPLAY_NEXT cmp (Some e) s) (\<lambda>(s', p).
    p = (case zs of [] \<Rightarrow> None | z # _ \<Rightarrow> Some z) \<and> splay_set cmp key s' (ys @ e # zs) \<and>
    same_outside (set (ys @ e # zs)) (smem s) (smem s'))"
proof -
  have ne: "ys @ e # zs \<noteq> []" by simp
  from SPLAY_split [OF set ne, of e] obtain s' l a r where
    s': "SPLAY cmp (Some e) s = Some s'" and ok: "splay_ok s' (Node l a r)"
    and xs: "ys @ e # zs = inorder l @ a # inorder r"
    and lr: "\<forall>x\<in>set (inorder l). key x < key e" "\<forall>x\<in>set (inorder r). key e < key x"
    and so: "same_outside (set (ys @ e # zs)) (smem s) (smem s')" .
  have "e \<in> set (inorder l @ a # inorder r)" by (simp flip: xs)
  with lr have a: "a = e" by auto
  have "distinct (ys @ e # zs)" using splay_setD(1) [OF set] by (rule sorted_keys_distinct)
  with xs a have zs: "zs = inorder r"
    by (metis append_Cons_eq_iff distinct.simps(2) distinct_append not_distinct_conv_prefix)
  from ok obtain n where n: "smem s' a = Some n" "tree_at (smem s') (spe_right n) r"
    by (rule splay_ok_root)
  have "splay_set cmp key s' (ys @ e # zs)" using splay_setI [OF set ok] splay_setD(1) [OF set] xs by simp
  then show ?thesis
    using s' so n a leftmost_correct [OF n(2)] tree_at_None_iff [OF n(2)] zs
    by (cases r) (auto simp: SPLAY_NEXT_def SPLAY_RIGHT_def split: list.split)
qed

text \<open>
  \<open>SPLAY_FOREACH\<close> visits every element once, in order, although each step reshapes the tree.
\<close>

lemma splay_foreach_from_correct:
  assumes "splay_set cmp key s (ys @ zs)"
  shows "returns (splay_foreach_from cmp (s, case zs of [] \<Rightarrow> None | z # _ \<Rightarrow> Some z, seen))
    (\<lambda>(s', vs). vs = seen @ zs \<and> splay_set cmp key s' (ys @ zs))"
  using assms
proof (induction zs arbitrary: s ys seen)
  case Nil
  then show ?case by (subst splay_foreach_from.simps) simp
next
  case (Cons z zs)
  from SPLAY_NEXT_correct [OF Cons.prems] obtain s' where
    nx: "SPLAY_NEXT cmp (Some z) s = Some (s', case zs of [] \<Rightarrow> None | z # _ \<Rightarrow> Some z)"
    and set: "splay_set cmp key s' (ys @ z # zs)"
    by (auto simp: returns_iff)
  from Cons.IH [of s' "ys @ [z]" "seen @ [z]"] set nx show ?case
    by (subst splay_foreach_from.simps) simp
qed

lemma SPLAY_FOREACH_visits:
  assumes set: "splay_set cmp key s xs"
  shows "returns (SPLAY_FOREACH cmp s) (\<lambda>(s', vs). vs = xs \<and> splay_set cmp key s' xs)"
proof (cases xs)
  case Nil
  with set splay_foreach_from_correct [of cmp key s "[]" "[]" "[]"] show ?thesis
    by (simp add: SPLAY_FOREACH_def SPLAY_MIN_def splay_set_empty)
next
  case (Cons x xs')
  with set have ne: "xs \<noteq> []" "\<not> SPLAY_EMPTY s" by (auto simp: splay_set_empty)
  from SPLAY_MIN_MAX_correct [OF set ne(1), of SPLAY_NEGINF] obtain s' where
    "SPLAY_MIN_MAX SPLAY_NEGINF s = Some (s', Some x)" and "splay_set cmp key s' xs"
    using Cons by (auto simp: returns_iff SPLAY_NEGINF_def)
  with ne Cons splay_foreach_from_correct [of cmp key s' "[]" xs "[]"] show ?thesis
    by (simp add: SPLAY_FOREACH_def SPLAY_MIN_def)
qed

text \<open>With a zero direction the extreme search never leaves its loop.\<close>

lemma minmax_loop_zero: "minmax_loop 0 st \<noteq> Some r"
proof
  assume ret: "minmax_loop 0 st = Some r"
  have "(0::int) \<noteq> 0"
    by (rule minmax_loop.raw_induct [where P = "\<lambda>d _ _. d \<noteq> 0", OF _ ret])
      (auto split: prod.splits if_splits)
  then show False by simp
qed

section \<open>Properties\<close>

text \<open>
  A concrete tree for the witnesses: the elements 1, 3 and 5, with 3 at the root, 2 allocated but
  not linked, and the comparator that subtracts.
\<close>

definition splay_135 :: splay_st where
  "splay_135 = \<lparr>sph_root = Some (Obj 3),
     smem = [Obj 1 \<mapsto> \<lparr>spe_left = None, spe_right = None\<rparr>,
             Obj 2 \<mapsto> \<lparr>spe_left = None, spe_right = None\<rparr>,
             Obj 3 \<mapsto> \<lparr>spe_left = Some (Obj 1), spe_right = Some (Obj 5)\<rparr>,
             Obj 5 \<mapsto> \<lparr>spe_left = None, spe_right = None\<rparr>]\<rparr>"

lemma splay_135_ok:
  "splay_ok splay_135 (Node (Node Leaf (Obj 1) Leaf) (Obj 3) (Node Leaf (Obj 5) Leaf))"
  by (simp add: splay_ok_def splay_135_def)

lemma splay_135_set: "splay_set num_cmp num_key splay_135 [Obj 1, Obj 3, Obj 5]"
  unfolding splay_set_def using splay_135_ok
  by (auto simp: num_cmp_agrees intro: exI [of _ "Node (Node Leaf (Obj 1) Leaf) (Obj 3) (Node Leaf (Obj 5) Leaf)"])

text \<open>
  C1. The top-down splay on memory is the splay on trees: on every well-formed nonempty tree
  \<open>SPLAY\<close> ends without an undefined access, leaves exactly the tree that the functional splaying
  algorithm computes (so the in-order sequence of the elements is kept) and touches no other memory.
\<close>

theorem splay_refines:
  assumes "splay_ok s t" "t \<noteq> Leaf"
  shows "returns (SPLAY cmp (Some e) s) (\<lambda>s'. splay_ok s' (splayed (cmp e) t) \<and>
    inorder (splayed (cmp e) t) = inorder t \<and> same_outside (set_tree t) (smem s) (smem s'))"
  by (rule returns_mono [OF SPLAY_correct [OF assms]]) simp

theorem splay_refines_witness:
  "returns (SPLAY num_cmp (Some (Obj 1)) splay_135) (\<lambda>s'.
    splay_ok s' (Node Leaf (Obj 1) (Node Leaf (Obj 3) (Node Leaf (Obj 5) Leaf))))"
proof -
  have "splayed (num_cmp (Obj 1)) (Node (Node Leaf (Obj 1) Leaf) (Obj 3) (Node Leaf (Obj 5) Leaf)) =
      Node Leaf (Obj 1) (Node Leaf (Obj 3) (Node Leaf (Obj 5) Leaf))"
    by (simp add: splayed_def num_cmp_def splay_tree.simps)
  with splay_refines [OF splay_135_ok, of num_cmp "Obj 1"] show ?thesis
    by (auto elim: returns_mono)
qed

text \<open>
  C2. \<open>SPLAY_FIND\<close> returns the element with the key of its argument, or \<open>NULL\<close> when the tree has
  none; the tree holds the same ordered elements afterwards.
\<close>

theorem splay_find_correct:
  assumes "splay_set cmp key s xs"
  shows "returns (SPLAY_FIND cmp (Some e) s) (\<lambda>(s', p).
    p = find_key key e xs \<and> splay_set cmp key s' xs \<and> same_outside (set xs) (smem s) (smem s'))"
  by (rule SPLAY_FIND_correct [OF assms])

theorem splay_find_correct_witness:
  "returns (SPLAY_FIND num_cmp (Some (Obj 5)) splay_135) (\<lambda>(s', p).
    p = Some (Obj 5) \<and> splay_set num_cmp num_key s' [Obj 1, Obj 3, Obj 5])"
  using splay_find_correct [OF splay_135_set, of "Obj 5"]
  by (auto elim!: returns_mono simp: find_key_def)

text \<open>
  C3. \<open>SPLAY_INSERT\<close> of an element that is not linked returns \<open>NULL\<close> and puts it at its place in
  the order, or returns the element that already has its key and inserts nothing.
\<close>

theorem splay_insert_correct:
  assumes "splay_set cmp key s xs" "smem s e = Some n" "e \<noteq> Local_node" "e \<notin> set xs"
  shows "returns (SPLAY_INSERT cmp (Some e) s) (\<lambda>(s', p).
    p = find_key key e xs \<and>
    splay_set cmp key s' (add_key key e xs) \<and>
    same_outside (set (add_key key e xs)) (smem s) (smem s'))"
  by (rule SPLAY_INSERT_correct [OF assms])

theorem splay_insert_correct_witness:
  "returns (SPLAY_INSERT num_cmp (Some (Obj 2)) splay_135) (\<lambda>(s', p).
    p = None \<and> splay_set num_cmp num_key s' [Obj 1, Obj 2, Obj 3, Obj 5])"
  using splay_insert_correct [OF splay_135_set, of "Obj 2" "\<lparr>spe_left = None, spe_right = None\<rparr>"]
  by (auto elim!: returns_mono simp: find_key_def key_in_def splay_135_def)

text \<open>
  C4. \<open>SPLAY_REMOVE\<close> unlinks the element that has the key of its argument and returns its
  argument, or returns \<open>NULL\<close> and keeps the elements when there is none.
\<close>

theorem splay_remove_correct:
  assumes "splay_set cmp key s xs"
  shows "returns (SPLAY_REMOVE cmp (Some e) s) (\<lambda>(s', p).
    p = (if key_in key e xs then Some e else None) \<and> splay_set cmp key s' (del_key key e xs) \<and>
    same_outside (set xs) (smem s) (smem s'))"
  by (rule returns_mono [OF SPLAY_REMOVE_correct [OF assms]]) auto

theorem splay_remove_correct_witness:
  "returns (SPLAY_REMOVE num_cmp (Some (Obj 3)) splay_135) (\<lambda>(s', p).
    p = Some (Obj 3) \<and> splay_set num_cmp num_key s' [Obj 1, Obj 5])"
  using splay_remove_correct [OF splay_135_set, of "Obj 3"]
  by (auto elim!: returns_mono simp: key_in_def del_key_def)

text \<open>
  C5. \<open>SPLAY_FOREACH\<close> ends and visits every element of the tree once, in ascending order.
\<close>

theorem splay_foreach_correct:
  assumes "splay_set cmp key s xs"
  shows "returns (SPLAY_FOREACH cmp s) (\<lambda>(s', vs). vs = xs \<and> splay_set cmp key s' xs)"
  by (rule SPLAY_FOREACH_visits [OF assms])

theorem splay_foreach_correct_witness:
  "returns (SPLAY_FOREACH num_cmp splay_135) (\<lambda>(s', vs).
    vs = [Obj 1, Obj 3, Obj 5] \<and> splay_set num_cmp num_key s' [Obj 1, Obj 3, Obj 5])"
  by (rule splay_foreach_correct [OF splay_135_set])


end
