(* ===== verification/Uv_RB.thy ===== *)
theory Uv_RB
  imports Calc_Prelude
begin

text \<open>
  The red-black tree macros of \<open>libuv_helper/uv/tree.h\<close> (lines 294 to 768) on an explicit memory,
  in the style of the splay tree: one definition per macro or generated function, undefined
  accesses and endless loops without a value. \<open>RB_AUGMENT\<close> is the empty default of line 339.
\<close>

section \<open>Data and accessors\<close>

record rb_entry =
  rbe_left :: ptr
  rbe_right :: ptr
  rbe_parent :: ptr
  rbe_color :: int

record rb_st =
  rbh_root :: ptr
  rmem :: "rb_entry mem"

definition RB_BLACK :: int where "RB_BLACK = 0"

definition RB_RED :: int where "RB_RED = 1"

definition RB_INIT :: "rb_st \<Rightarrow> rb_st" where
  "RB_INIT s = s\<lparr>rbh_root := None\<rparr>"

definition RB_EMPTY :: "rb_st \<Rightarrow> bool" where
  "RB_EMPTY s \<longleftrightarrow> rbh_root s = None"

definition RB_LEFT :: "rb_st \<Rightarrow> ptr \<Rightarrow> ptr option" where
  "RB_LEFT s elm = do { n \<leftarrow> deref (rmem s) elm; Some (rbe_left n) }"

definition RB_RIGHT :: "rb_st \<Rightarrow> ptr \<Rightarrow> ptr option" where
  "RB_RIGHT s elm = do { n \<leftarrow> deref (rmem s) elm; Some (rbe_right n) }"

definition RB_PARENT :: "rb_st \<Rightarrow> ptr \<Rightarrow> ptr option" where
  "RB_PARENT s elm = do { n \<leftarrow> deref (rmem s) elm; Some (rbe_parent n) }"

definition RB_COLOR :: "rb_st \<Rightarrow> ptr \<Rightarrow> int option" where
  "RB_COLOR s elm = do { n \<leftarrow> deref (rmem s) elm; Some (rbe_color n) }"

definition rb_store :: "ptr \<Rightarrow> (rb_entry \<Rightarrow> rb_entry) \<Rightarrow> rb_st \<Rightarrow> rb_st option" where
  "rb_store elm f s = do { m \<leftarrow> store elm f (rmem s); Some (s\<lparr>rmem := m\<rparr>) }"

definition set_RB_LEFT :: "ptr \<Rightarrow> ptr \<Rightarrow> rb_st \<Rightarrow> rb_st option" where
  "set_RB_LEFT elm v = rb_store elm (\<lambda>n. n\<lparr>rbe_left := v\<rparr>)"

definition set_RB_RIGHT :: "ptr \<Rightarrow> ptr \<Rightarrow> rb_st \<Rightarrow> rb_st option" where
  "set_RB_RIGHT elm v = rb_store elm (\<lambda>n. n\<lparr>rbe_right := v\<rparr>)"

definition set_RB_PARENT :: "ptr \<Rightarrow> ptr \<Rightarrow> rb_st \<Rightarrow> rb_st option" where
  "set_RB_PARENT elm v = rb_store elm (\<lambda>n. n\<lparr>rbe_parent := v\<rparr>)"

definition set_RB_COLOR :: "ptr \<Rightarrow> int \<Rightarrow> rb_st \<Rightarrow> rb_st option" where
  "set_RB_COLOR elm v = rb_store elm (\<lambda>n. n\<lparr>rbe_color := v\<rparr>)"

definition RB_SET :: "ptr \<Rightarrow> ptr \<Rightarrow> rb_st \<Rightarrow> rb_st option" where
  "RB_SET elm parent s = do {
     s \<leftarrow> set_RB_PARENT elm parent s;
     s \<leftarrow> set_RB_RIGHT elm None s;
     s \<leftarrow> set_RB_LEFT elm None s;
     set_RB_COLOR elm RB_RED s }"

definition RB_SET_BLACKRED :: "ptr \<Rightarrow> ptr \<Rightarrow> rb_st \<Rightarrow> rb_st option" where
  "RB_SET_BLACKRED black red s = do {
     s \<leftarrow> set_RB_COLOR black RB_BLACK s;
     set_RB_COLOR red RB_RED s }"

text \<open>The tests \<open>p && RB_COLOR(p) == RB_RED\<close> and \<open>p == NULL || RB_COLOR(p) == RB_BLACK\<close>.\<close>

definition rb_is_red :: "rb_st \<Rightarrow> ptr \<Rightarrow> bool option" where
  "rb_is_red s p = (if p = None then Some False else do { c \<leftarrow> RB_COLOR s p; Some (c = RB_RED) })"

definition rb_null_or_black :: "rb_st \<Rightarrow> ptr \<Rightarrow> bool option" where
  "rb_null_or_black s p =
     (if p = None then Some True else do { c \<leftarrow> RB_COLOR s p; Some (c = RB_BLACK) })"

section \<open>Rotation\<close>

text \<open>
  The rotations and the removal replace one child of a node, or the root, by another node:
  \<open>if (parent) { if (RB_LEFT(parent) == old) RB_LEFT(parent) = new; else RB_RIGHT(parent) = new; }
  else RB_ROOT(head) = new\<close>.
\<close>

definition rb_replace_child :: "ptr \<Rightarrow> ptr \<Rightarrow> ptr \<Rightarrow> rb_st \<Rightarrow> rb_st option" where
  "rb_replace_child parent old new s =
     (if parent \<noteq> None then do {
        l \<leftarrow> RB_LEFT s parent;
        if l = old then set_RB_LEFT parent new s else set_RB_RIGHT parent new s }
      else Some (s\<lparr>rbh_root := new\<rparr>))"

text \<open>The macros also assign their argument \<open>tmp\<close>, which every caller overwrites next.\<close>

definition RB_ROTATE_LEFT :: "ptr \<Rightarrow> rb_st \<Rightarrow> rb_st option" where
  "RB_ROTATE_LEFT elm s = do {
     tmp \<leftarrow> RB_RIGHT s elm;
     tl \<leftarrow> RB_LEFT s tmp;
     s \<leftarrow> set_RB_RIGHT elm tl s;
     s \<leftarrow> (if tl \<noteq> None then do { q \<leftarrow> RB_LEFT s tmp; set_RB_PARENT q elm s } else Some s);
     p \<leftarrow> RB_PARENT s elm;
     s \<leftarrow> set_RB_PARENT tmp p s;
     p \<leftarrow> RB_PARENT s elm;
     s \<leftarrow> rb_replace_child p elm tmp s;
     s \<leftarrow> set_RB_LEFT tmp elm s;
     set_RB_PARENT elm tmp s }"

definition RB_ROTATE_RIGHT :: "ptr \<Rightarrow> rb_st \<Rightarrow> rb_st option" where
  "RB_ROTATE_RIGHT elm s = do {
     tmp \<leftarrow> RB_LEFT s elm;
     tr \<leftarrow> RB_RIGHT s tmp;
     s \<leftarrow> set_RB_LEFT elm tr s;
     s \<leftarrow> (if tr \<noteq> None then do { q \<leftarrow> RB_RIGHT s tmp; set_RB_PARENT q elm s } else Some s);
     p \<leftarrow> RB_PARENT s elm;
     s \<leftarrow> set_RB_PARENT tmp p s;
     p \<leftarrow> RB_PARENT s elm;
     s \<leftarrow> rb_replace_child p elm tmp s;
     s \<leftarrow> set_RB_RIGHT tmp elm s;
     set_RB_PARENT elm tmp s }"

section \<open>Insertion\<close>

partial_function (option) insert_color_loop :: "rb_st \<Rightarrow> ptr \<Rightarrow> rb_st option" where
  "insert_color_loop s elm = do {
     parent \<leftarrow> RB_PARENT s elm;
     red \<leftarrow> rb_is_red s parent;
     if red then do {
       gparent \<leftarrow> RB_PARENT s parent;
       gl \<leftarrow> RB_LEFT s gparent;
       if parent = gl then do {
         tmp \<leftarrow> RB_RIGHT s gparent;
         uncle_red \<leftarrow> rb_is_red s tmp;
         if uncle_red then do {
           s \<leftarrow> set_RB_COLOR tmp RB_BLACK s;
           s \<leftarrow> RB_SET_BLACKRED parent gparent s;
           insert_color_loop s gparent }
         else do {
           pr \<leftarrow> RB_RIGHT s parent;
           (s, parent, elm) \<leftarrow>
             (if pr = elm then do { s \<leftarrow> RB_ROTATE_LEFT parent s; Some (s, elm, parent) }
              else Some (s, parent, elm));
           s \<leftarrow> RB_SET_BLACKRED parent gparent s;
           s \<leftarrow> RB_ROTATE_RIGHT gparent s;
           insert_color_loop s elm } }
       else do {
         tmp \<leftarrow> RB_LEFT s gparent;
         uncle_red \<leftarrow> rb_is_red s tmp;
         if uncle_red then do {
           s \<leftarrow> set_RB_COLOR tmp RB_BLACK s;
           s \<leftarrow> RB_SET_BLACKRED parent gparent s;
           insert_color_loop s gparent }
         else do {
           pl \<leftarrow> RB_LEFT s parent;
           (s, parent, elm) \<leftarrow>
             (if pl = elm then do { s \<leftarrow> RB_ROTATE_RIGHT parent s; Some (s, elm, parent) }
              else Some (s, parent, elm));
           s \<leftarrow> RB_SET_BLACKRED parent gparent s;
           s \<leftarrow> RB_ROTATE_LEFT gparent s;
           insert_color_loop s elm } } }
     else Some s }"

definition RB_INSERT_COLOR :: "ptr \<Rightarrow> rb_st \<Rightarrow> rb_st option" where
  "RB_INSERT_COLOR elm s = do {
     s \<leftarrow> insert_color_loop s elm;
     set_RB_COLOR (rbh_root s) RB_BLACK s }"

text \<open>The descent of \<open>RB_INSERT\<close>: \<open>Inl\<close> is the early return of an equal element.\<close>

partial_function (option) insert_descend ::
  "cmp_fn \<Rightarrow> rb_st \<Rightarrow> ptr \<Rightarrow> ptr \<Rightarrow> ptr \<Rightarrow> int \<Rightarrow> (ptr + ptr \<times> int) option" where
  "insert_descend cmp s elm tmp parent icomp =
     (if tmp \<noteq> None then do {
        c \<leftarrow> call_cmp cmp elm tmp;
        if c < 0 then do { l \<leftarrow> RB_LEFT s tmp; insert_descend cmp s elm l tmp c }
        else if 0 < c then do { r \<leftarrow> RB_RIGHT s tmp; insert_descend cmp s elm r tmp c }
        else Some (Inl tmp) }
      else Some (Inr (parent, icomp)))"

definition RB_INSERT :: "cmp_fn \<Rightarrow> ptr \<Rightarrow> rb_st \<Rightarrow> (rb_st \<times> ptr) option" where
  "RB_INSERT cmp elm s = do {
     res \<leftarrow> insert_descend cmp s elm (rbh_root s) None 0;
     case res of
       Inl tmp \<Rightarrow> Some (s, tmp)
     | Inr (parent, c) \<Rightarrow> do {
         s \<leftarrow> RB_SET elm parent s;
         s \<leftarrow> (if parent \<noteq> None then
                 if c < 0 then set_RB_LEFT parent elm s else set_RB_RIGHT parent elm s
               else Some (s\<lparr>rbh_root := elm\<rparr>));
         s \<leftarrow> RB_INSERT_COLOR elm s;
         Some (s, None) } }"

section \<open>Removal\<close>

text \<open>
  The loop of \<open>RB_REMOVE_COLOR\<close>, with the locals \<open>parent\<close> and \<open>elm\<close>; it returns the last \<open>elm\<close>,
  which the code after the loop blackens.
\<close>

partial_function (option) remove_color_loop :: "rb_st \<Rightarrow> ptr \<Rightarrow> ptr \<Rightarrow> (rb_st \<times> ptr) option" where
  "remove_color_loop s parent elm = do {
     black \<leftarrow> rb_null_or_black s elm;
     if black \<and> elm \<noteq> rbh_root s then do {
       pl \<leftarrow> RB_LEFT s parent;
       if pl = elm then do {
         tmp \<leftarrow> RB_RIGHT s parent;
         tc \<leftarrow> RB_COLOR s tmp;
         (s, tmp) \<leftarrow>
           (if tc = RB_RED then do {
              s \<leftarrow> RB_SET_BLACKRED tmp parent s;
              s \<leftarrow> RB_ROTATE_LEFT parent s;
              tmp \<leftarrow> RB_RIGHT s parent;
              Some (s, tmp) }
            else Some (s, tmp));
         tl \<leftarrow> RB_LEFT s tmp;
         lb \<leftarrow> rb_null_or_black s tl;
         tr \<leftarrow> RB_RIGHT s tmp;
         rb \<leftarrow> rb_null_or_black s tr;
         if lb \<and> rb then do {
           s \<leftarrow> set_RB_COLOR tmp RB_RED s;
           pp \<leftarrow> RB_PARENT s parent;
           remove_color_loop s pp parent }
         else do {
           (s, tmp) \<leftarrow>
             (if rb then do {
                oleft \<leftarrow> RB_LEFT s tmp;
                s \<leftarrow> (if oleft \<noteq> None then set_RB_COLOR oleft RB_BLACK s else Some s);
                s \<leftarrow> set_RB_COLOR tmp RB_RED s;
                s \<leftarrow> RB_ROTATE_RIGHT tmp s;
                tmp \<leftarrow> RB_RIGHT s parent;
                Some (s, tmp) }
              else Some (s, tmp));
           pc \<leftarrow> RB_COLOR s parent;
           s \<leftarrow> set_RB_COLOR tmp pc s;
           s \<leftarrow> set_RB_COLOR parent RB_BLACK s;
           tr \<leftarrow> RB_RIGHT s tmp;
           s \<leftarrow> (if tr \<noteq> None then set_RB_COLOR tr RB_BLACK s else Some s);
           s \<leftarrow> RB_ROTATE_LEFT parent s;
           Some (s, rbh_root s) } }
       else do {
         tmp \<leftarrow> RB_LEFT s parent;
         tc \<leftarrow> RB_COLOR s tmp;
         (s, tmp) \<leftarrow>
           (if tc = RB_RED then do {
              s \<leftarrow> RB_SET_BLACKRED tmp parent s;
              s \<leftarrow> RB_ROTATE_RIGHT parent s;
              tmp \<leftarrow> RB_LEFT s parent;
              Some (s, tmp) }
            else Some (s, tmp));
         tl \<leftarrow> RB_LEFT s tmp;
         lb \<leftarrow> rb_null_or_black s tl;
         tr \<leftarrow> RB_RIGHT s tmp;
         rb \<leftarrow> rb_null_or_black s tr;
         if lb \<and> rb then do {
           s \<leftarrow> set_RB_COLOR tmp RB_RED s;
           pp \<leftarrow> RB_PARENT s parent;
           remove_color_loop s pp parent }
         else do {
           (s, tmp) \<leftarrow>
             (if lb then do {
                oright \<leftarrow> RB_RIGHT s tmp;
                s \<leftarrow> (if oright \<noteq> None then set_RB_COLOR oright RB_BLACK s else Some s);
                s \<leftarrow> set_RB_COLOR tmp RB_RED s;
                s \<leftarrow> RB_ROTATE_LEFT tmp s;
                tmp \<leftarrow> RB_LEFT s parent;
                Some (s, tmp) }
              else Some (s, tmp));
           pc \<leftarrow> RB_COLOR s parent;
           s \<leftarrow> set_RB_COLOR tmp pc s;
           s \<leftarrow> set_RB_COLOR parent RB_BLACK s;
           tl \<leftarrow> RB_LEFT s tmp;
           s \<leftarrow> (if tl \<noteq> None then set_RB_COLOR tl RB_BLACK s else Some s);
           s \<leftarrow> RB_ROTATE_RIGHT parent s;
           Some (s, rbh_root s) } } }
     else Some (s, elm) }"

definition RB_REMOVE_COLOR :: "ptr \<Rightarrow> ptr \<Rightarrow> rb_st \<Rightarrow> rb_st option" where
  "RB_REMOVE_COLOR parent elm s = do {
     (s, elm) \<leftarrow> remove_color_loop s parent elm;
     if elm \<noteq> None then set_RB_COLOR elm RB_BLACK s else Some s }"

partial_function (option) rb_leftmost :: "rb_st \<Rightarrow> ptr \<Rightarrow> ptr option" where
  "rb_leftmost s elm = do {
     l \<leftarrow> RB_LEFT s elm;
     if l \<noteq> None then rb_leftmost s l else Some elm }"

partial_function (option) rb_rightmost :: "rb_st \<Rightarrow> ptr \<Rightarrow> ptr option" where
  "rb_rightmost s elm = do {
     r \<leftarrow> RB_RIGHT s elm;
     if r \<noteq> None then rb_rightmost s r else Some elm }"

text \<open>
  \<open>RB_REMOVE\<close>. With two children the node's successor is unlinked and takes over the node's links
  (\<open>(elm)->field = (old)->field\<close>); the loop that only calls \<open>RB_AUGMENT\<close> on the ancestors does
  nothing. Otherwise the node itself is unlinked.
\<close>

definition RB_REMOVE :: "ptr \<Rightarrow> rb_st \<Rightarrow> (rb_st \<times> ptr) option" where
  "RB_REMOVE old s = do {
     l \<leftarrow> RB_LEFT s old;
     r \<leftarrow> RB_RIGHT s old;
     (s, parent, child, color) \<leftarrow>
       (if l \<noteq> None \<and> r \<noteq> None then do {
          elm \<leftarrow> rb_leftmost s r;
          child \<leftarrow> RB_RIGHT s elm;
          parent \<leftarrow> RB_PARENT s elm;
          color \<leftarrow> RB_COLOR s elm;
          s \<leftarrow> (if child \<noteq> None then set_RB_PARENT child parent s else Some s);
          s \<leftarrow> rb_replace_child parent elm child s;
          ep \<leftarrow> RB_PARENT s elm;
          parent \<leftarrow> Some (if ep = old then elm else parent);
          field \<leftarrow> deref (rmem s) old;
          s \<leftarrow> rb_store elm (\<lambda>_. field) s;
          op \<leftarrow> RB_PARENT s old;
          s \<leftarrow> rb_replace_child op old elm s;
          ol \<leftarrow> RB_LEFT s old;
          s \<leftarrow> set_RB_PARENT ol elm s;
          or \<leftarrow> RB_RIGHT s old;
          s \<leftarrow> (if or \<noteq> None then set_RB_PARENT or elm s else Some s);
          Some (s, parent, child, color) }
        else do {
          let child = (if l = None then r else l);
          parent \<leftarrow> RB_PARENT s old;
          color \<leftarrow> RB_COLOR s old;
          s \<leftarrow> (if child \<noteq> None then set_RB_PARENT child parent s else Some s);
          s \<leftarrow> rb_replace_child parent old child s;
          Some (s, parent, child, color) });
     s \<leftarrow> (if color = RB_BLACK then RB_REMOVE_COLOR parent child s else Some s);
     Some (s, old) }"

section \<open>Search and traversal\<close>

partial_function (option) rb_find_from :: "cmp_fn \<Rightarrow> rb_st \<Rightarrow> ptr \<Rightarrow> ptr \<Rightarrow> ptr option" where
  "rb_find_from cmp s elm tmp =
     (if tmp \<noteq> None then do {
        c \<leftarrow> call_cmp cmp elm tmp;
        if c < 0 then do { l \<leftarrow> RB_LEFT s tmp; rb_find_from cmp s elm l }
        else if 0 < c then do { r \<leftarrow> RB_RIGHT s tmp; rb_find_from cmp s elm r }
        else Some tmp }
      else Some None)"

definition RB_FIND :: "cmp_fn \<Rightarrow> ptr \<Rightarrow> rb_st \<Rightarrow> ptr option" where
  "RB_FIND cmp elm s = rb_find_from cmp s elm (rbh_root s)"

partial_function (option) rb_nfind_from ::
  "cmp_fn \<Rightarrow> rb_st \<Rightarrow> ptr \<Rightarrow> ptr \<Rightarrow> ptr \<Rightarrow> ptr option" where
  "rb_nfind_from cmp s elm tmp res =
     (if tmp \<noteq> None then do {
        c \<leftarrow> call_cmp cmp elm tmp;
        if c < 0 then do { l \<leftarrow> RB_LEFT s tmp; rb_nfind_from cmp s elm l tmp }
        else if 0 < c then do { r \<leftarrow> RB_RIGHT s tmp; rb_nfind_from cmp s elm r res }
        else Some tmp }
      else Some res)"

definition RB_NFIND :: "cmp_fn \<Rightarrow> ptr \<Rightarrow> rb_st \<Rightarrow> ptr option" where
  "RB_NFIND cmp elm s = rb_nfind_from cmp s elm (rbh_root s) None"

text \<open>\<open>while (RB_PARENT(elm) && elm == RB_RIGHT(RB_PARENT(elm))) elm = RB_PARENT(elm)\<close>, and its mirror.\<close>

partial_function (option) rb_climb_right :: "rb_st \<Rightarrow> ptr \<Rightarrow> ptr option" where
  "rb_climb_right s elm = do {
     p \<leftarrow> RB_PARENT s elm;
     if p = None then Some elm
     else do { pr \<leftarrow> RB_RIGHT s p; if elm = pr then rb_climb_right s p else Some elm } }"

partial_function (option) rb_climb_left :: "rb_st \<Rightarrow> ptr \<Rightarrow> ptr option" where
  "rb_climb_left s elm = do {
     p \<leftarrow> RB_PARENT s elm;
     if p = None then Some elm
     else do { pl \<leftarrow> RB_LEFT s p; if elm = pl then rb_climb_left s p else Some elm } }"

definition RB_NEXT :: "ptr \<Rightarrow> rb_st \<Rightarrow> ptr option" where
  "RB_NEXT elm s = do {
     r \<leftarrow> RB_RIGHT s elm;
     if r \<noteq> None then rb_leftmost s r
     else do {
       p \<leftarrow> RB_PARENT s elm;
       at_left \<leftarrow> (if p \<noteq> None then do { pl \<leftarrow> RB_LEFT s p; Some (elm = pl) } else Some False);
       if at_left then Some p
       else do { elm \<leftarrow> rb_climb_right s elm; RB_PARENT s elm } } }"

definition RB_PREV :: "ptr \<Rightarrow> rb_st \<Rightarrow> ptr option" where
  "RB_PREV elm s = do {
     l \<leftarrow> RB_LEFT s elm;
     if l \<noteq> None then rb_rightmost s l
     else do {
       p \<leftarrow> RB_PARENT s elm;
       at_right \<leftarrow> (if p \<noteq> None then do { pr \<leftarrow> RB_RIGHT s p; Some (elm = pr) } else Some False);
       if at_right then Some p
       else do { elm \<leftarrow> rb_climb_left s elm; RB_PARENT s elm } } }"

partial_function (option) rb_minmax_from :: "int \<Rightarrow> rb_st \<Rightarrow> ptr \<Rightarrow> ptr \<Rightarrow> ptr option" where
  "rb_minmax_from val s tmp parent =
     (if tmp \<noteq> None then do {
        q \<leftarrow> (if val < 0 then RB_LEFT s tmp else RB_RIGHT s tmp);
        rb_minmax_from val s q tmp }
      else Some parent)"

definition RB_MINMAX :: "int \<Rightarrow> rb_st \<Rightarrow> ptr option" where
  "RB_MINMAX val s = rb_minmax_from val s (rbh_root s) None"

definition RB_NEGINF :: int where "RB_NEGINF = -1"

definition RB_INF :: int where "RB_INF = 1"

definition RB_MIN :: "rb_st \<Rightarrow> ptr option" where "RB_MIN s = RB_MINMAX RB_NEGINF s"

definition RB_MAX :: "rb_st \<Rightarrow> ptr option" where "RB_MAX s = RB_MINMAX RB_INF s"

text \<open>
  The iteration macros. The loop body acts on the tree and on a state of its own; the plain forms
  advance after the body, the \<open>FROM\<close> and \<open>SAFE\<close> forms before it.
\<close>

type_synonym 'c body = "loc \<Rightarrow> rb_st \<times> 'c \<Rightarrow> (rb_st \<times> 'c) option"

partial_function (option) foreach_loop ::
  "(ptr \<Rightarrow> rb_st \<Rightarrow> ptr option) \<Rightarrow> 'c body \<Rightarrow> rb_st \<times> 'c \<Rightarrow> ptr \<Rightarrow> (rb_st \<times> 'c) option" where
  "foreach_loop step body st x =
     (case x of
        None \<Rightarrow> Some st
      | Some a \<Rightarrow> do { st \<leftarrow> body a st; y \<leftarrow> step x (fst st); foreach_loop step body st y })"

partial_function (option) foreach_safe_loop ::
  "(ptr \<Rightarrow> rb_st \<Rightarrow> ptr option) \<Rightarrow> 'c body \<Rightarrow> rb_st \<times> 'c \<Rightarrow> ptr \<Rightarrow> (rb_st \<times> 'c) option" where
  "foreach_safe_loop step body st x =
     (case x of
        None \<Rightarrow> Some st
      | Some a \<Rightarrow> do { y \<leftarrow> step x (fst st); st \<leftarrow> body a st; foreach_safe_loop step body st y })"

definition RB_FOREACH :: "'c body \<Rightarrow> rb_st \<times> 'c \<Rightarrow> (rb_st \<times> 'c) option" where
  "RB_FOREACH body st = do { x \<leftarrow> RB_MIN (fst st); foreach_loop RB_NEXT body st x }"

definition RB_FOREACH_FROM :: "'c body \<Rightarrow> ptr \<Rightarrow> rb_st \<times> 'c \<Rightarrow> (rb_st \<times> 'c) option" where
  "RB_FOREACH_FROM body y st = foreach_safe_loop RB_NEXT body st y"

definition RB_FOREACH_SAFE :: "'c body \<Rightarrow> rb_st \<times> 'c \<Rightarrow> (rb_st \<times> 'c) option" where
  "RB_FOREACH_SAFE body st = do { x \<leftarrow> RB_MIN (fst st); foreach_safe_loop RB_NEXT body st x }"

definition RB_FOREACH_REVERSE :: "'c body \<Rightarrow> rb_st \<times> 'c \<Rightarrow> (rb_st \<times> 'c) option" where
  "RB_FOREACH_REVERSE body st = do { x \<leftarrow> RB_MAX (fst st); foreach_loop RB_PREV body st x }"

definition RB_FOREACH_REVERSE_FROM :: "'c body \<Rightarrow> ptr \<Rightarrow> rb_st \<times> 'c \<Rightarrow> (rb_st \<times> 'c) option" where
  "RB_FOREACH_REVERSE_FROM body y st = foreach_safe_loop RB_PREV body st y"

definition RB_FOREACH_REVERSE_SAFE :: "'c body \<Rightarrow> rb_st \<times> 'c \<Rightarrow> (rb_st \<times> 'c) option" where
  "RB_FOREACH_REVERSE_SAFE body st = do { x \<leftarrow> RB_MAX (fst st); foreach_safe_loop RB_PREV body st x }"

end
