(* ===== verification/Uv_RB_Heap.thy ===== *)
theory Uv_RB_Heap
  imports Uv_RB
begin

text \<open>
  Red-black trees in memory. A tree of located, coloured nodes is at a pointer when the links,
  parent links and colours of the memory are those of the tree; a context is a tree with a hole,
  as the path from the hole to the root. The primitives of the macros (recolouring, replacing a
  child, rotating) act on a subtree in any context.
\<close>

section \<open>Trees and contexts\<close>

type_synonym rbt = "(loc \<times> int) tree"

datatype frame = LeftOf loc int rbt | RightOf rbt loc int

fun plug :: "frame list \<Rightarrow> rbt \<Rightarrow> rbt" where
  "plug [] t = t"
| "plug (LeftOf a c r # C) t = plug C (Node t (a, c) r)"
| "plug (RightOf l a c # C) t = plug C (Node l (a, c) t)"

fun before :: "frame list \<Rightarrow> (loc \<times> int) list" where
  "before [] = []"
| "before (LeftOf a c r # C) = before C"
| "before (RightOf l a c # C) = before C @ inorder l @ [(a, c)]"

fun behind :: "frame list \<Rightarrow> (loc \<times> int) list" where
  "behind [] = []"
| "behind (LeftOf a c r # C) = (a, c) # inorder r @ behind C"
| "behind (RightOf l a c # C) = behind C"

abbreviation locs :: "rbt \<Rightarrow> loc list" where
  "locs t \<equiv> map fst (inorder t)"

abbreviation ctx_locs :: "frame list \<Rightarrow> loc list" where
  "ctx_locs C \<equiv> map fst (before C) @ map fst (behind C)"

lemma inorder_plug [simp]: "inorder (plug C t) = before C @ inorder t @ behind C"
  by (induction C t rule: plug.induct) auto

lemma plug_append: "plug (C @ D) t = plug D (plug C t)"
  by (induction C t rule: plug.induct) auto

lemma before_append: "before (C @ D) = before D @ before C"
  by (induction C rule: before.induct) auto

lemma behind_append: "behind (C @ D) = behind C @ behind D"
  by (induction C rule: behind.induct) auto

fun rb_at :: "rb_entry mem \<Rightarrow> ptr \<Rightarrow> ptr \<Rightarrow> rbt \<Rightarrow> bool" where
  "rb_at m par p Leaf \<longleftrightarrow> p = None"
| "rb_at m par p (Node l (a, c) r) \<longleftrightarrow> p = Some a \<and>
     (case m a of None \<Rightarrow> False
      | Some n \<Rightarrow> rbe_parent n = par \<and> rbe_color n = c \<and>
          rb_at m (Some a) (rbe_left n) l \<and> rb_at m (Some a) (rbe_right n) r)"

fun ctx_at :: "rb_entry mem \<Rightarrow> ptr \<Rightarrow> frame list \<Rightarrow> ptr \<Rightarrow> ptr \<Rightarrow> bool" where
  "ctx_at m root [] par p \<longleftrightarrow> par = None \<and> p = root"
| "ctx_at m root (LeftOf a c r # C) par p \<longleftrightarrow> par = Some a \<and>
     (case m a of None \<Rightarrow> False
      | Some n \<Rightarrow> rbe_left n = p \<and> rbe_color n = c \<and>
          rb_at m (Some a) (rbe_right n) r \<and> ctx_at m root C (rbe_parent n) (Some a))"
| "ctx_at m root (RightOf l a c # C) par p \<longleftrightarrow> par = Some a \<and>
     (case m a of None \<Rightarrow> False
      | Some n \<Rightarrow> rbe_right n = p \<and> rbe_color n = c \<and>
          rb_at m (Some a) (rbe_left n) l \<and> ctx_at m root C (rbe_parent n) (Some a))"

lemma rb_at_plug: "rb_at m None root (plug C t) \<longleftrightarrow> (\<exists>par p. ctx_at m root C par p \<and> rb_at m par p t)"
proof (induction C t rule: plug.induct)
  case (1 t)
  show ?case by auto
next
  case (2 a c r C t)
  then show ?case by (auto split: option.splits)
next
  case (3 l a c C t)
  then show ?case by (auto split: option.splits)
qed

lemma rb_at_cong [frame]:
  "(\<And>a. a \<in> set (locs t) \<Longrightarrow> m a = m' a) \<Longrightarrow> rb_at m par p t = rb_at m' par p t"
proof (induction t arbitrary: par p)
  case (Node l x r)
  obtain a c where [simp]: "x = (a, c)" by (cases x)
  have "m a = m' a" using Node.prems by simp
  moreover have "rb_at m par p l = rb_at m' par p l" "rb_at m par p r = rb_at m' par p r" for par p
    using Node by auto
  ultimately show ?case by (simp split: option.split)
qed simp

lemma rb_at_upd [simp, frame]: "a \<notin> set (locs t) \<Longrightarrow> rb_at (m(a := v)) par p t = rb_at m par p t"
  by (rule rb_at_cong) (auto simp: fun_upd_apply)

lemma ctx_at_cong [frame]:
  "(\<And>a. a \<in> set (ctx_locs C) \<Longrightarrow> m a = m' a) \<Longrightarrow> ctx_at m root C par p = ctx_at m' root C par p"
proof (induction C arbitrary: par p)
  case (Cons f C)
  have IH: "ctx_at m root C par p = ctx_at m' root C par p" for par p
    by (rule Cons.IH, rule Cons.prems) (cases f; auto)
  show ?case
  proof (cases f)
    case (LeftOf a c r)
    with Cons.prems have "m a = m' a" "rb_at m par p r = rb_at m' par p r" for par p
      by (auto intro!: rb_at_cong)
    with LeftOf IH show ?thesis by (simp split: option.split)
  next
    case (RightOf l a c)
    with Cons.prems have "m a = m' a" "rb_at m par p l = rb_at m' par p l" for par p
      by (auto intro!: rb_at_cong)
    with RightOf IH show ?thesis by (simp split: option.split)
  qed
qed simp

lemma ctx_at_upd [simp, frame]:
  "a \<notin> set (ctx_locs C) \<Longrightarrow> ctx_at (m(a := v)) root C par p = ctx_at m root C par p"
  by (rule ctx_at_cong) (auto simp: fun_upd_apply)

section \<open>States\<close>

text \<open>The head points to the tree, and its nodes are distinct objects.\<close>

definition rb_ok :: "rb_st \<Rightarrow> rbt \<Rightarrow> bool" where
  "rb_ok s t \<longleftrightarrow> rb_at (rmem s) None (rbh_root s) t \<and> distinct (locs t)"

fun root_ptr :: "rbt \<Rightarrow> ptr" where
  "root_ptr Leaf = None"
| "root_ptr (Node l (a, c) r) = Some a"

fun ctx_ptr :: "frame list \<Rightarrow> ptr" where
  "ctx_ptr [] = None"
| "ctx_ptr (LeftOf a c r # C) = Some a"
| "ctx_ptr (RightOf l a c # C) = Some a"

lemma rb_at_ptr: "rb_at m par p t \<Longrightarrow> p = root_ptr t"
  by (cases t rule: root_ptr.cases) auto

lemma ctx_at_ptr: "ctx_at m root C par p \<Longrightarrow> par = ctx_ptr C"
  by (cases C rule: ctx_ptr.cases) auto

lemma root_ptr_None [simp]: "root_ptr t = None \<longleftrightarrow> t = Leaf"
  by (cases t rule: root_ptr.cases) auto

lemma root_ptr_in: "root_ptr t = Some a \<Longrightarrow> a \<in> set (locs t)"
  by (cases t rule: root_ptr.cases) auto

lemma ctx_ptr_in: "ctx_ptr C = Some a \<Longrightarrow> a \<in> set (ctx_locs C)"
  by (cases C rule: ctx_ptr.cases) auto

lemma ctx_ptr_sub: "set_option (ctx_ptr C) \<subseteq> set (ctx_locs C)"
  by (cases C rule: ctx_ptr.cases) auto

text \<open>A state seen from a subtree \<open>t\<close> in the context \<open>C\<close>.\<close>

lemma rb_ok_plug:
  "rb_ok s (plug C t) \<longleftrightarrow>
     ctx_at (rmem s) (rbh_root s) C (ctx_ptr C) (root_ptr t) \<and>
     rb_at (rmem s) (ctx_ptr C) (root_ptr t) t \<and>
     distinct (map fst (before C) @ locs t @ map fst (behind C))"
  using rb_at_ptr ctx_at_ptr by (auto simp: rb_ok_def rb_at_plug)

lemma rb_ok_root: "rb_ok s t \<Longrightarrow> rbh_root s = root_ptr t"
  by (auto simp: rb_ok_def dest: rb_at_ptr)

lemmas rb_access = RB_LEFT_def RB_RIGHT_def RB_PARENT_def RB_COLOR_def rb_store_def
  set_RB_LEFT_def set_RB_RIGHT_def set_RB_PARENT_def set_RB_COLOR_def

section \<open>Reading and recolouring a node\<close>

lemma rb_read:
  assumes "rb_ok s (plug C (Node l (a, c) r))"
  shows "RB_LEFT s (Some a) = Some (root_ptr l)" "RB_RIGHT s (Some a) = Some (root_ptr r)"
    "RB_PARENT s (Some a) = Some (ctx_ptr C)" "RB_COLOR s (Some a) = Some c"
  using assms rb_at_ptr by (auto simp: rb_ok_plug rb_access split: option.splits)

lemma rb_recolor:
  assumes "rb_ok s (plug C (Node l (a, c) r))"
  shows "returns (set_RB_COLOR (Some a) c' s) (\<lambda>s'. rb_ok s' (plug C (Node l (a, c') r)) \<and>
    same_outside (set (locs (plug C (Node l (a, c) r)))) (rmem s) (rmem s'))"
  using assms by (auto simp: rb_ok_plug rb_access split: option.split_asm)

section \<open>Replacing a child and rotating\<close>

lemma rb_replace_child_ctx:
  assumes "ctx_at (rmem s) (rbh_root s) C par (Some x)" "x \<notin> set (ctx_locs C)" "distinct (ctx_locs C)"
  shows "returns (rb_replace_child par (Some x) new s) (\<lambda>s'.
    ctx_at (rmem s') (rbh_root s') C par new \<and> same_outside (set_option par) (rmem s) (rmem s'))"
proof (cases C rule: ctx_ptr.cases)
  case 1
  with assms show ?thesis by (auto simp: rb_replace_child_def)
next
  case (2 a c r C')
  with assms show ?thesis
    by (auto simp: rb_replace_child_def rb_access split: option.split_asm)
next
  case (3 l a c C')
  with assms obtain n where n: "rmem s a = Some n" "rb_at (rmem s) (Some a) (rbe_left n) l"
    by (auto split: option.split_asm)
  have "rbe_left n \<noteq> Some x"
    using rb_at_ptr [OF n(2)] root_ptr_in [of l x] assms(2) 3 by auto
  with 3 n assms show ?thesis
    by (auto simp: rb_replace_child_def rb_access split: option.split_asm)
qed

lemma rb_at_reparent:
  "rb_at m par (Some x) t \<Longrightarrow> distinct (locs t) \<Longrightarrow> m x = Some n \<Longrightarrow>
     rb_at (m(x \<mapsto> n\<lparr>rbe_parent := par'\<rparr>)) par' (Some x) t"
  by (cases t rule: root_ptr.cases) auto

lemma rb_at_outside [frame]:
  "same_outside A m m' \<Longrightarrow> A \<inter> set (locs t) = {} \<Longrightarrow> rb_at m' par p t = rb_at m par p t"
  by (rule rb_at_cong) (auto simp: same_outside_def)

lemma ctx_at_outside [frame]:
  "same_outside A m m' \<Longrightarrow> A \<inter> set (ctx_locs C) = {} \<Longrightarrow> ctx_at m' root C par p = ctx_at m root C par p"
  by (rule ctx_at_cong) (auto simp: same_outside_def)

lemma distinct_middle: "distinct (xs @ ys @ zs) \<Longrightarrow> set (xs @ zs) \<inter> set ys = {}"
  by auto

text \<open>
  The end of both rotations: with \<open>tmp\<close>'s parent link set, \<open>elm\<close> is replaced by \<open>tmp\<close> in the
  context and becomes its child.
\<close>

lemma rotate_finish_left:
  assumes ctx: "ctx_at (rmem s) (rbh_root s) C par (Some a)"
    and ma: "rmem s a = Some na" "rbe_color na = ca" "rb_at (rmem s) (Some a) (rbe_left na) A"
      "rb_at (rmem s) (Some a) (rbe_right na) B"
    and mb: "rmem s b = Some nb" "rbe_color nb = cb" "rbe_parent nb = par"
      "rb_at (rmem s) (Some b) (rbe_right nb) D"
    and d: "distinct (map fst (before C) @ locs A @ a # locs B @ b # locs D @ map fst (behind C))"
  shows "returns (do { s \<leftarrow> rb_replace_child par (Some a) (Some b) s;
      s \<leftarrow> set_RB_LEFT (Some b) (Some a) s; set_RB_PARENT (Some a) (Some b) s })
    (\<lambda>s'. rb_ok s' (plug C (Node (Node A (a, ca) B) (b, cb) D)) \<and>
      same_outside (set_option par \<union> {a, b}) (rmem s) (rmem s'))"
proof -
  have "a \<notin> set (ctx_locs C)" "distinct (ctx_locs C)" using d by auto
  from rb_replace_child_ctx [OF ctx this] obtain s1 where
    s1: "rb_replace_child par (Some a) (Some b) s = Some s1"
    and c1: "ctx_at (rmem s1) (rbh_root s1) C par (Some b)"
    and so: "same_outside (set_option par) (rmem s) (rmem s1)"
    by (auto simp: returns_iff)
  have par: "par = ctx_ptr C" using ctx by (rule ctx_at_ptr)
  have disj: "set_option par \<inter> set (locs A) = {}" "set_option par \<inter> set (locs B) = {}"
    "set_option par \<inter> set (locs D) = {}" "a \<notin> set_option par" "b \<notin> set_option par"
  proof -
    have "set (ctx_locs C) \<inter> set (locs A @ a # locs B @ b # locs D) = {}"
      using d by (intro distinct_middle) simp
    then have "set_option par \<inter> set (locs A @ a # locs B @ b # locs D) = {}"
      using ctx_ptr_sub [of C] unfolding par by blast
    then show "set_option par \<inter> set (locs A) = {}" "set_option par \<inter> set (locs B) = {}"
      "set_option par \<inter> set (locs D) = {}" "a \<notin> set_option par" "b \<notin> set_option par"
      by (simp_all add: Int_Un_distrib)
  qed
  have m1: "rmem s1 a = Some na" "rmem s1 b = Some nb"
    using ma mb disj same_outsideD [OF so] by auto
  have t1: "rb_at (rmem s1) (Some a) (rbe_left na) A" "rb_at (rmem s1) (Some a) (rbe_right na) B"
    "rb_at (rmem s1) (Some b) (rbe_right nb) D"
    using ma mb disj by (simp_all add: rb_at_outside [OF so])
  show ?thesis
    using s1 m1 t1 c1 d ma mb so par
    by (auto simp: rb_access rb_ok_plug same_outside_def)
qed

lemma rotate_finish_right:
  assumes ctx: "ctx_at (rmem s) (rbh_root s) C par (Some a)"
    and ma: "rmem s a = Some na" "rbe_color na = ca" "rb_at (rmem s) (Some a) (rbe_left na) B"
      "rb_at (rmem s) (Some a) (rbe_right na) A"
    and mb: "rmem s b = Some nb" "rbe_color nb = cb" "rbe_parent nb = par"
      "rb_at (rmem s) (Some b) (rbe_left nb) D"
    and d: "distinct (map fst (before C) @ locs D @ b # locs B @ a # locs A @ map fst (behind C))"
  shows "returns (do { s \<leftarrow> rb_replace_child par (Some a) (Some b) s;
      s \<leftarrow> set_RB_RIGHT (Some b) (Some a) s; set_RB_PARENT (Some a) (Some b) s })
    (\<lambda>s'. rb_ok s' (plug C (Node D (b, cb) (Node B (a, ca) A))) \<and>
      same_outside (set_option par \<union> {a, b}) (rmem s) (rmem s'))"
proof -
  have "a \<notin> set (ctx_locs C)" "distinct (ctx_locs C)" using d by auto
  from rb_replace_child_ctx [OF ctx this] obtain s1 where
    s1: "rb_replace_child par (Some a) (Some b) s = Some s1"
    and c1: "ctx_at (rmem s1) (rbh_root s1) C par (Some b)"
    and so: "same_outside (set_option par) (rmem s) (rmem s1)"
    by (auto simp: returns_iff)
  have par: "par = ctx_ptr C" using ctx by (rule ctx_at_ptr)
  have disj: "set_option par \<inter> set (locs A) = {}" "set_option par \<inter> set (locs B) = {}"
    "set_option par \<inter> set (locs D) = {}" "a \<notin> set_option par" "b \<notin> set_option par"
  proof -
    have "set (ctx_locs C) \<inter> set (locs D @ b # locs B @ a # locs A) = {}"
      using d by (intro distinct_middle) simp
    then have "set_option par \<inter> set (locs D @ b # locs B @ a # locs A) = {}"
      using ctx_ptr_sub [of C] unfolding par by blast
    then show "set_option par \<inter> set (locs A) = {}" "set_option par \<inter> set (locs B) = {}"
      "set_option par \<inter> set (locs D) = {}" "a \<notin> set_option par" "b \<notin> set_option par"
      by (simp_all add: Int_Un_distrib)
  qed
  have m1: "rmem s1 a = Some na" "rmem s1 b = Some nb"
    using ma mb disj same_outsideD [OF so] by auto
  have t1: "rb_at (rmem s1) (Some a) (rbe_left na) B" "rb_at (rmem s1) (Some a) (rbe_right na) A"
    "rb_at (rmem s1) (Some b) (rbe_left nb) D"
    using ma mb disj by (simp_all add: rb_at_outside [OF so])
  show ?thesis
    using s1 m1 t1 c1 d ma mb so par
    by (auto simp: rb_access rb_ok_plug same_outside_def)
qed

text \<open>\<open>if (child) RB_PARENT(child) = par\<close>: the subtree hangs under another parent.\<close>

lemma rb_set_child_parent:
  assumes "rb_at (rmem s) par0 p B" "distinct (locs B)"
  obtains m where "(if p \<noteq> None then set_RB_PARENT p par s else Some s) = Some (s\<lparr>rmem := m\<rparr>)"
    "rb_at m par p B" "same_outside (set (locs B)) (rmem s) m"
proof (cases B rule: root_ptr.cases)
  case 1
  with assms that [of "rmem s"] show ?thesis by auto
next
  case (2 l x c r)
  with assms(1) obtain n where n: "p = Some x" "rmem s x = Some n" by (auto split: option.split_asm)
  with assms 2 that [of "(rmem s)(x \<mapsto> n\<lparr>rbe_parent := par\<rparr>)"] show ?thesis
    by (auto simp: rb_access)
qed

lemma rb_rotate_left:
  assumes ok: "rb_ok s (plug C (Node A (a, ca) (Node B (b, cb) D)))" (is "rb_ok s ?t")
  shows "returns (RB_ROTATE_LEFT (Some a) s) (\<lambda>s'.
    rb_ok s' (plug C (Node (Node A (a, ca) B) (b, cb) D)) \<and>
    same_outside (set (locs ?t)) (rmem s) (rmem s'))"
proof -
  from ok obtain na nb where
    na: "rmem s a = Some na" "rbe_color na = ca" "rbe_parent na = ctx_ptr C" "rbe_right na = Some b"
      "rb_at (rmem s) (Some a) (rbe_left na) A"
    and nb: "rmem s b = Some nb" "rbe_color nb = cb" "rbe_parent nb = Some a"
      "rb_at (rmem s) (Some b) (rbe_left nb) B" "rb_at (rmem s) (Some b) (rbe_right nb) D"
    and ctx: "ctx_at (rmem s) (rbh_root s) C (ctx_ptr C) (Some a)"
    and d: "distinct (map fst (before C) @ locs A @ a # locs B @ b # locs D @ map fst (behind C))"
    by (auto simp: rb_ok_plug split: option.split_asm)
  let ?m1 = "(rmem s)(a \<mapsto> na\<lparr>rbe_right := rbe_left nb\<rparr>)"
  have "rb_at (rmem (s\<lparr>rmem := ?m1\<rparr>)) (Some b) (rbe_left nb) B" using nb(4) d by auto
  moreover have "distinct (locs B)" using d by auto
  ultimately obtain m2 where m2: "(if rbe_left nb \<noteq> None
      then set_RB_PARENT (rbe_left nb) (Some a) (s\<lparr>rmem := ?m1\<rparr>) else Some (s\<lparr>rmem := ?m1\<rparr>)) =
      Some (s\<lparr>rmem := m2\<rparr>)" and B: "rb_at m2 (Some a) (rbe_left nb) B"
    and so2: "same_outside (set (locs B)) ?m1 m2"
    by (rule rb_set_child_parent [where par = "Some a"]) auto
  have m2ab: "m2 a = Some (na\<lparr>rbe_right := rbe_left nb\<rparr>)" "m2 b = Some nb"
    using nb(1) d same_outsideD [OF so2] by auto
  let ?s3 = "s\<lparr>rmem := m2(b \<mapsto> nb\<lparr>rbe_parent := ctx_ptr C\<rparr>)\<rparr>"
  have so3: "same_outside (insert a (insert b (set (locs B)))) (rmem s) (rmem ?s3)"
    using so2 by (auto simp: same_outside_def fun_upd_apply)
  have "returns (do { s \<leftarrow> rb_replace_child (ctx_ptr C) (Some a) (Some b) ?s3;
      s \<leftarrow> set_RB_LEFT (Some b) (Some a) s; set_RB_PARENT (Some a) (Some b) s })
    (\<lambda>s'. rb_ok s' (plug C (Node (Node A (a, ca) B) (b, cb) D)) \<and>
      same_outside (set_option (ctx_ptr C) \<union> {a, b}) (rmem ?s3) (rmem s'))"
  proof (rule rotate_finish_left [OF _ _ _ _ _ _ _ _ _ d])
    show "ctx_at (rmem ?s3) (rbh_root ?s3) C (ctx_ptr C) (Some a)"
      using ctx d by (subst ctx_at_outside [OF so3]) auto
    show "rb_at (rmem ?s3) (Some a) (rbe_left (na\<lparr>rbe_right := rbe_left nb\<rparr>)) A"
      using na(5) d by (subst rb_at_outside [OF so3]) auto
    show "rb_at (rmem ?s3) (Some b) (rbe_right (nb\<lparr>rbe_parent := ctx_ptr C\<rparr>)) D"
      using nb(5) d by (subst rb_at_outside [OF so3]) auto
    show "rb_at (rmem ?s3) (Some a) (rbe_right (na\<lparr>rbe_right := rbe_left nb\<rparr>)) B"
      using B d by auto
  qed (use m2ab na nb d in auto)
  moreover have "RB_ROTATE_LEFT (Some a) s = (do {
      s \<leftarrow> rb_replace_child (ctx_ptr C) (Some a) (Some b) ?s3;
      s \<leftarrow> set_RB_LEFT (Some b) (Some a) s; set_RB_PARENT (Some a) (Some b) s })"
  proof -
    have "a \<noteq> b" using d by auto
    then have "RB_RIGHT s (Some a) = Some (Some b)" "RB_LEFT s (Some b) = Some (rbe_left nb)"
      "set_RB_RIGHT (Some a) (rbe_left nb) s = Some (s\<lparr>rmem := ?m1\<rparr>)"
      "RB_LEFT (s\<lparr>rmem := ?m1\<rparr>) (Some b) = Some (rbe_left nb)"
      "RB_PARENT (s\<lparr>rmem := m2\<rparr>) (Some a) = Some (ctx_ptr C)"
      "set_RB_PARENT (Some b) (ctx_ptr C) (s\<lparr>rmem := m2\<rparr>) = Some ?s3"
      "RB_PARENT ?s3 (Some a) = Some (ctx_ptr C)"
      using na nb m2ab by (simp_all add: rb_access)
    with m2 show ?thesis by (cases "rbe_left nb") (simp_all add: RB_ROTATE_LEFT_def)
  qed
  ultimately show ?thesis
    using so3 ctx_ptr_sub [of C]
    by (auto elim!: returns_mono simp: same_outside_def)
qed

lemma rb_rotate_right:
  assumes ok: "rb_ok s (plug C (Node (Node D (b, cb) B) (a, ca) A))" (is "rb_ok s ?t")
  shows "returns (RB_ROTATE_RIGHT (Some a) s) (\<lambda>s'.
    rb_ok s' (plug C (Node D (b, cb) (Node B (a, ca) A))) \<and>
    same_outside (set (locs ?t)) (rmem s) (rmem s'))"
proof -
  from ok obtain na nb where
    na: "rmem s a = Some na" "rbe_color na = ca" "rbe_parent na = ctx_ptr C" "rbe_left na = Some b"
      "rb_at (rmem s) (Some a) (rbe_right na) A"
    and nb: "rmem s b = Some nb" "rbe_color nb = cb" "rbe_parent nb = Some a"
      "rb_at (rmem s) (Some b) (rbe_right nb) B" "rb_at (rmem s) (Some b) (rbe_left nb) D"
    and ctx: "ctx_at (rmem s) (rbh_root s) C (ctx_ptr C) (Some a)"
    and d: "distinct (map fst (before C) @ locs D @ b # locs B @ a # locs A @ map fst (behind C))"
    by (auto simp: rb_ok_plug split: option.split_asm)
  let ?m1 = "(rmem s)(a \<mapsto> na\<lparr>rbe_left := rbe_right nb\<rparr>)"
  have "rb_at (rmem (s\<lparr>rmem := ?m1\<rparr>)) (Some b) (rbe_right nb) B" using nb(4) d by auto
  moreover have "distinct (locs B)" using d by auto
  ultimately obtain m2 where m2: "(if rbe_right nb \<noteq> None
      then set_RB_PARENT (rbe_right nb) (Some a) (s\<lparr>rmem := ?m1\<rparr>) else Some (s\<lparr>rmem := ?m1\<rparr>)) =
      Some (s\<lparr>rmem := m2\<rparr>)" and B: "rb_at m2 (Some a) (rbe_right nb) B"
    and so2: "same_outside (set (locs B)) ?m1 m2"
    by (rule rb_set_child_parent [where par = "Some a"]) auto
  have m2ab: "m2 a = Some (na\<lparr>rbe_left := rbe_right nb\<rparr>)" "m2 b = Some nb"
    using nb(1) d same_outsideD [OF so2] by auto
  let ?s3 = "s\<lparr>rmem := m2(b \<mapsto> nb\<lparr>rbe_parent := ctx_ptr C\<rparr>)\<rparr>"
  have so3: "same_outside (insert a (insert b (set (locs B)))) (rmem s) (rmem ?s3)"
    using so2 by (auto simp: same_outside_def fun_upd_apply)
  have "returns (do { s \<leftarrow> rb_replace_child (ctx_ptr C) (Some a) (Some b) ?s3;
      s \<leftarrow> set_RB_RIGHT (Some b) (Some a) s; set_RB_PARENT (Some a) (Some b) s })
    (\<lambda>s'. rb_ok s' (plug C (Node D (b, cb) (Node B (a, ca) A))) \<and>
      same_outside (set_option (ctx_ptr C) \<union> {a, b}) (rmem ?s3) (rmem s'))"
  proof (rule rotate_finish_right [OF _ _ _ _ _ _ _ _ _ d])
    show "ctx_at (rmem ?s3) (rbh_root ?s3) C (ctx_ptr C) (Some a)"
      using ctx d by (subst ctx_at_outside [OF so3]) auto
    show "rb_at (rmem ?s3) (Some a) (rbe_right (na\<lparr>rbe_left := rbe_right nb\<rparr>)) A"
      using na(5) d by (subst rb_at_outside [OF so3]) auto
    show "rb_at (rmem ?s3) (Some b) (rbe_left (nb\<lparr>rbe_parent := ctx_ptr C\<rparr>)) D"
      using nb(5) d by (subst rb_at_outside [OF so3]) auto
    show "rb_at (rmem ?s3) (Some a) (rbe_left (na\<lparr>rbe_left := rbe_right nb\<rparr>)) B"
      using B d by auto
  qed (use m2ab na nb d in auto)
  moreover have "RB_ROTATE_RIGHT (Some a) s = (do {
      s \<leftarrow> rb_replace_child (ctx_ptr C) (Some a) (Some b) ?s3;
      s \<leftarrow> set_RB_RIGHT (Some b) (Some a) s; set_RB_PARENT (Some a) (Some b) s })"
  proof -
    have "a \<noteq> b" using d by auto
    then have "RB_LEFT s (Some a) = Some (Some b)" "RB_RIGHT s (Some b) = Some (rbe_right nb)"
      "set_RB_LEFT (Some a) (rbe_right nb) s = Some (s\<lparr>rmem := ?m1\<rparr>)"
      "RB_RIGHT (s\<lparr>rmem := ?m1\<rparr>) (Some b) = Some (rbe_right nb)"
      "RB_PARENT (s\<lparr>rmem := m2\<rparr>) (Some a) = Some (ctx_ptr C)"
      "set_RB_PARENT (Some b) (ctx_ptr C) (s\<lparr>rmem := m2\<rparr>) = Some ?s3"
      "RB_PARENT ?s3 (Some a) = Some (ctx_ptr C)"
      using na nb m2ab by (simp_all add: rb_access)
    with m2 show ?thesis by (cases "rbe_right nb") (simp_all add: RB_ROTATE_RIGHT_def)
  qed
  ultimately show ?thesis
    using so3 ctx_ptr_sub [of C]
    by (auto elim!: returns_mono simp: same_outside_def)
qed

end
