(* ===== verification/Uv_RB_Inv.thy ===== *)
theory Uv_RB_Inv
  imports Uv_RB_Heap
begin

text \<open>
  The conditions that the comment of \<open>tree.h\<close> states of a red-black tree, for trees and for
  contexts, and the interface \<open>rb_side\<close> that lets one proof cover a fixup branch and its mirror
  image: it names the near and the far child and the two rotations, and it is interpreted for the
  left and for the right side.
\<close>

section \<open>The red-black conditions\<close>

lemma rb_colors [simp]: "RB_RED \<noteq> RB_BLACK" "RB_BLACK \<noteq> RB_RED"
  by (simp_all add: RB_RED_def RB_BLACK_def)

fun color_of :: "rbt \<Rightarrow> int" where
  "color_of Leaf = RB_BLACK"
| "color_of (Node l (a, c) r) = c"

text \<open>
  \<open>rb_inv n t\<close>: every path of \<open>t\<close> has \<open>n\<close> black nodes, and a red node has black children.
  \<open>ctx_inv n C\<close>: so has the whole tree, if the hole of \<open>C\<close> holds a tree of black height \<open>n\<close>;
  \<open>ctx_black C\<close>: the hole has a black parent.
\<close>

fun rb_inv :: "nat \<Rightarrow> rbt \<Rightarrow> bool" where
  "rb_inv n Leaf \<longleftrightarrow> n = 0"
| "rb_inv n (Node l (a, c) r) \<longleftrightarrow>
     c = RB_RED \<and> color_of l = RB_BLACK \<and> color_of r = RB_BLACK \<and> rb_inv n l \<and> rb_inv n r \<or>
     c = RB_BLACK \<and> 0 < n \<and> rb_inv (n - 1) l \<and> rb_inv (n - 1) r"

fun ctx_black :: "frame list \<Rightarrow> bool" where
  "ctx_black [] \<longleftrightarrow> False"
| "ctx_black (LeftOf a c r # C) \<longleftrightarrow> c = RB_BLACK"
| "ctx_black (RightOf l a c # C) \<longleftrightarrow> c = RB_BLACK"

fun ctx_inv :: "nat \<Rightarrow> frame list \<Rightarrow> bool" where
  "ctx_inv n [] \<longleftrightarrow> True"
| "ctx_inv n (LeftOf a c r # C) \<longleftrightarrow> rb_inv n r \<and>
     (c = RB_RED \<and> color_of r = RB_BLACK \<and> ctx_black C \<and> ctx_inv n C \<or>
      c = RB_BLACK \<and> ctx_inv (Suc n) C)"
| "ctx_inv n (RightOf l a c # C) \<longleftrightarrow> rb_inv n l \<and>
     (c = RB_RED \<and> color_of l = RB_BLACK \<and> ctx_black C \<and> ctx_inv n C \<or>
      c = RB_BLACK \<and> ctx_inv (Suc n) C)"

definition rb_wf :: "rbt \<Rightarrow> bool" where
  "rb_wf t \<longleftrightarrow> color_of t = RB_BLACK \<and> (\<exists>n. rb_inv n t)"

lemma rb_inv_color: "rb_inv n t \<Longrightarrow> color_of t = RB_RED \<or> color_of t = RB_BLACK"
  by (cases t rule: root_ptr.cases) auto

lemma rb_inv_Suc_Node [simp]:
  "rb_inv (Suc n) (Node l (a, RB_BLACK) r) \<longleftrightarrow> rb_inv n l \<and> rb_inv n r"
  by simp

lemma ex_pos: "(\<exists>n. 0 < n \<and> P n) \<longleftrightarrow> (\<exists>n. P (Suc n))"
  by (metis Suc_pred zero_less_Suc)

lemma rb_wf_plug:
  "rb_wf (plug C t) \<longleftrightarrow>
     (\<exists>n. rb_inv n t \<and> ctx_inv n C) \<and> (color_of t = RB_BLACK \<or> ctx_black C)"
proof (induction C t rule: plug.induct)
  case (1 t)
  show ?case by (auto simp: rb_wf_def)
next
  case (2 a c r C t)
  have "(\<exists>n. 0 < n \<and> rb_inv (n - 1) t \<and> rb_inv (n - 1) r \<and> ctx_inv n C) \<longleftrightarrow>
      (\<exists>n. rb_inv n t \<and> rb_inv n r \<and> ctx_inv (Suc n) C)"
    by (simp add: ex_pos)
  with 2 show ?case by (cases "c = RB_BLACK") auto
next
  case (3 l a c C t)
  have "(\<exists>n. 0 < n \<and> rb_inv (n - 1) l \<and> rb_inv (n - 1) t \<and> ctx_inv n C) \<longleftrightarrow>
      (\<exists>n. rb_inv n l \<and> rb_inv n t \<and> ctx_inv (Suc n) C)"
    by (simp add: ex_pos)
  with 3 show ?case by (cases "c = RB_BLACK") auto
qed

text \<open>The comment's bound: a tree of \<open>n\<close> nodes has height at most \<open>2 lg (n + 1)\<close>.\<close>

lemma rb_inv_size: "rb_inv n t \<Longrightarrow> 2 ^ n \<le> size t + 1"
proof (induction n t rule: rb_inv.induct)
  case (2 n l a c r)
  show ?case
  proof (cases n)
    case (Suc m)
    with 2 show ?thesis by (cases "c = RB_BLACK") auto
  qed (use 2 in auto)
qed simp

lemma rb_inv_height:
  "rb_inv n t \<Longrightarrow> height t \<le> 2 * n + (if color_of t = RB_RED then 1 else 0)"
proof (induction n t rule: rb_inv.induct)
  case (2 n l a c r)
  show ?case
  proof (cases "c = RB_BLACK")
    case True
    with 2 obtain m where m: "n = Suc m" "rb_inv m l" "rb_inv m r" by (cases n) auto
    with 2 True have "height l \<le> 2 * m + 1" "height r \<le> 2 * m + 1" by (force split: if_splits)+
    with m True show ?thesis by simp
  next
    case False
    with 2 show ?thesis by (auto split: if_splits)
  qed
qed simp

lemma rb_wf_height: "rb_wf t \<Longrightarrow> 2 ^ height t \<le> (size t + 1) ^ 2"
proof -
  assume "rb_wf t"
  then obtain n where n: "rb_inv n t" "color_of t = RB_BLACK" by (auto simp: rb_wf_def)
  with rb_inv_height [OF n(1)] have "height t \<le> n * 2" by simp
  then have "(2::nat) ^ height t \<le> (2 ^ n) ^ 2" by (simp flip: power_mult)
  also have "\<dots> \<le> (size t + 1) ^ 2" using rb_inv_size [OF n(1)] by (rule power_mono) simp
  finally show ?thesis .
qed

text \<open>A subtree blackened.\<close>

fun paint_black :: "rbt \<Rightarrow> rbt" where
  "paint_black Leaf = Leaf"
| "paint_black (Node l (a, c) r) = Node l (a, RB_BLACK) r"

section \<open>Near and far sides\<close>

locale rb_side =
  fixes mk :: "rbt \<Rightarrow> loc \<times> int \<Rightarrow> rbt \<Rightarrow> rbt"
    and nearf :: "loc \<Rightarrow> int \<Rightarrow> rbt \<Rightarrow> frame"
    and farf :: "rbt \<Rightarrow> loc \<Rightarrow> int \<Rightarrow> frame"
    and near :: "rb_st \<Rightarrow> ptr \<Rightarrow> ptr option"
    and far :: "rb_st \<Rightarrow> ptr \<Rightarrow> ptr option"
    and rot_near :: "ptr \<Rightarrow> rb_st \<Rightarrow> rb_st option"
    and rot_far :: "ptr \<Rightarrow> rb_st \<Rightarrow> rb_st option"
  assumes plug_nearf: "plug (nearf a c r # C) t = plug C (mk t (a, c) r)"
    and plug_farf: "plug (farf l a c # C) t = plug C (mk l (a, c) t)"
    and ptr_mk: "root_ptr (mk l (a, c) r) = Some a"
    and color_mk: "color_of (mk l (a, c) r) = c"
    and size_mk: "size l < size (mk l (a, c) r)"
    and paint_black_mk: "paint_black (mk l (a, c) r) = mk l (a, RB_BLACK) r"
    and inv_mk: "rb_inv n (mk l (a, c) r) \<longleftrightarrow> rb_inv n (Node l (a, c) r)"
    and ctx_inv_nearf: "ctx_inv n (nearf a c r # C) \<longleftrightarrow> ctx_inv n (LeftOf a c r # C)"
    and ctx_inv_farf: "ctx_inv n (farf l a c # C) \<longleftrightarrow> ctx_inv n (RightOf l a c # C)"
    and ctx_black_nearf: "ctx_black (nearf a c r # C) \<longleftrightarrow> c = RB_BLACK"
    and locs_mk_cong: "locs l = locs l' \<Longrightarrow> locs r = locs r' \<Longrightarrow>
      locs (mk l (a, c) r) = locs (mk l' (a, c') r')"
    and locs_mk_assoc: "locs (mk (mk A x B) y D) = locs (mk A x (mk B y D))"
    and set_locs_mk: "set (locs (mk l (a, c) r)) = insert a (set (locs l) \<union> set (locs r))"
    and distinct_mk: "distinct (locs (mk l (a, c) r)) \<Longrightarrow> set (locs l) \<inter> set (locs r) = {}"
    and read_mk: "rb_ok s (plug C (mk l (a, c) r)) \<Longrightarrow>
      near s (Some a) = Some (root_ptr l) \<and> far s (Some a) = Some (root_ptr r) \<and>
      RB_PARENT s (Some a) = Some (ctx_ptr C) \<and> RB_COLOR s (Some a) = Some c"
    and recolor_mk: "rb_ok s (plug C (mk l (a, c) r)) \<Longrightarrow>
      returns (set_RB_COLOR (Some a) c' s) (\<lambda>s'. rb_ok s' (plug C (mk l (a, c') r)) \<and>
        same_outside (set (locs (plug C (mk l (a, c) r)))) (rmem s) (rmem s'))"
    and rot_near: "rb_ok s (plug C (mk A (a, ca) (mk B (b, cb) D))) \<Longrightarrow>
      returns (rot_near (Some a) s) (\<lambda>s'. rb_ok s' (plug C (mk (mk A (a, ca) B) (b, cb) D)) \<and>
        same_outside (set (locs (plug C (mk A (a, ca) (mk B (b, cb) D))))) (rmem s) (rmem s'))"
    and rot_far: "rb_ok s (plug C (mk (mk D (b, cb) B) (a, ca) A)) \<Longrightarrow>
      returns (rot_far (Some a) s) (\<lambda>s'. rb_ok s' (plug C (mk D (b, cb) (mk B (a, ca) A))) \<and>
        same_outside (set (locs (plug C (mk (mk D (b, cb) B) (a, ca) A)))) (rmem s) (rmem s'))"
    and mk_cases: "t \<noteq> Leaf \<Longrightarrow> \<exists>l a c r. t = mk l (a, c) r"

interpretation lhs: rb_side Node LeftOf RightOf RB_LEFT RB_RIGHT RB_ROTATE_LEFT RB_ROTATE_RIGHT
proof
  fix s C A a ca B b cb D
  show "rb_ok s (plug C (Node A (a, ca) (Node B (b, cb) D))) \<Longrightarrow>
      returns (RB_ROTATE_LEFT (Some a) s) (\<lambda>s'. rb_ok s' (plug C (Node (Node A (a, ca) B) (b, cb) D)) \<and>
        same_outside (set (locs (plug C (Node A (a, ca) (Node B (b, cb) D))))) (rmem s) (rmem s'))"
    by (rule rb_rotate_left)
  show "rb_ok s (plug C (Node (Node D (b, cb) B) (a, ca) A)) \<Longrightarrow>
      returns (RB_ROTATE_RIGHT (Some a) s) (\<lambda>s'. rb_ok s' (plug C (Node D (b, cb) (Node B (a, ca) A))) \<and>
        same_outside (set (locs (plug C (Node (Node D (b, cb) B) (a, ca) A)))) (rmem s) (rmem s'))"
    by (rule rb_rotate_right)
next
  fix s C l a c r c'
  show "rb_ok s (plug C (Node l (a, c) r)) \<Longrightarrow>
      returns (set_RB_COLOR (Some a) c' s) (\<lambda>s'. rb_ok s' (plug C (Node l (a, c') r)) \<and>
        same_outside (set (locs (plug C (Node l (a, c) r)))) (rmem s) (rmem s'))"
    by (rule rb_recolor)
qed (auto simp: rb_read neq_Leaf_iff)

interpretation rhs: rb_side "\<lambda>l x r. Node r x l" "\<lambda>a c r. RightOf r a c" "\<lambda>l a c. LeftOf a c l"
  RB_RIGHT RB_LEFT RB_ROTATE_RIGHT RB_ROTATE_LEFT
proof
  fix s C A a ca B b cb D
  show "rb_ok s (plug C (Node (Node D (b, cb) B) (a, ca) A)) \<Longrightarrow>
      returns (RB_ROTATE_RIGHT (Some a) s) (\<lambda>s'. rb_ok s' (plug C (Node D (b, cb) (Node B (a, ca) A))) \<and>
        same_outside (set (locs (plug C (Node (Node D (b, cb) B) (a, ca) A)))) (rmem s) (rmem s'))"
    by (rule rb_rotate_right)
  show "rb_ok s (plug C (Node A (a, ca) (Node B (b, cb) D))) \<Longrightarrow>
      returns (RB_ROTATE_LEFT (Some a) s) (\<lambda>s'. rb_ok s' (plug C (Node (Node A (a, ca) B) (b, cb) D)) \<and>
        same_outside (set (locs (plug C (Node A (a, ca) (Node B (b, cb) D))))) (rmem s) (rmem s'))"
    by (rule rb_rotate_left)
next
  fix s C l a c r c'
  show "rb_ok s (plug C (Node r (a, c) l)) \<Longrightarrow>
      returns (set_RB_COLOR (Some a) c' s) (\<lambda>s'. rb_ok s' (plug C (Node r (a, c') l)) \<and>
        same_outside (set (locs (plug C (Node r (a, c) l)))) (rmem s) (rmem s'))"
    by (rule rb_recolor)
qed (auto simp: rb_read neq_Leaf_iff)

end
