(* ===== verification/Uv_RB_Insert.thy ===== *)
theory Uv_RB_Insert
  imports Uv_RB_Inv
begin

text \<open>
  Insertion into the red-black tree: one round of the fixup on either side, the fixup loop, and
  \<open>RB_INSERT\<close> on well-formed trees.
\<close>

section \<open>Steps that keep the elements\<close>

definition rb_keeps :: "rb_st \<Rightarrow> rbt \<Rightarrow> rb_st \<Rightarrow> rbt \<Rightarrow> bool" where
  "rb_keeps s t s' t' \<longleftrightarrow>
     rb_ok s' t' \<and> locs t' = locs t \<and> same_outside (set (locs t)) (rmem s) (rmem s')"

lemma rb_keeps_refl: "rb_ok s t \<Longrightarrow> rb_keeps s t s t"
  by (simp add: rb_keeps_def)

lemma rb_keeps_trans:
  "rb_keeps s t s' t' \<Longrightarrow> rb_keeps s' t' s'' t'' \<Longrightarrow> rb_keeps s t s'' t''"
  by (auto simp: rb_keeps_def intro: same_outside_trans)

lemma rb_keepsD: "rb_keeps s t s' t' \<Longrightarrow> rb_ok s' t'"
  by (simp add: rb_keeps_def)

lemma locs_plug_cong: "locs t = locs t' \<Longrightarrow> locs (plug C t) = locs (plug C t')"
  by simp

lemma rb_recolor_keeps:
  assumes "rb_ok s (plug C (Node l (a, c) r))"
  obtains s' where "set_RB_COLOR (Some a) c' s = Some s'"
    "rb_keeps s (plug C (Node l (a, c) r)) s' (plug C (Node l (a, c') r))"
  using rb_recolor [OF assms, of c'] by (auto simp: rb_keeps_def returns_iff)

lemma root_ptr_neq:
  assumes "set (locs t) \<inter> set (locs u) = {}" "t \<noteq> Leaf"
  shows "root_ptr u \<noteq> root_ptr t"
proof
  assume eq: "root_ptr u = root_ptr t"
  obtain a where a: "root_ptr t = Some a" using assms(2) by (cases "root_ptr t") auto
  with root_ptr_in [of t a] root_ptr_in [of u a] eq assms(1) show False by auto
qed

lemma paint_black_simps [simp]:
  "color_of (paint_black t) = RB_BLACK" "root_ptr (paint_black t) = root_ptr t"
  "locs (paint_black t) = locs t" "paint_black t = Leaf \<longleftrightarrow> t = Leaf"
  by (cases t rule: root_ptr.cases; simp)+

lemma paint_black_id: "color_of t = RB_BLACK \<Longrightarrow> paint_black t = t"
  by (cases t rule: root_ptr.cases) auto

lemma rb_inv_paint_black: "rb_inv n t \<Longrightarrow> color_of t = RB_RED \<Longrightarrow> rb_inv (Suc n) (paint_black t)"
  by (cases t rule: root_ptr.cases) auto

lemma rb_paint_keeps:
  assumes "rb_ok s (plug C t)" "t \<noteq> Leaf"
  obtains s' where "set_RB_COLOR (root_ptr t) RB_BLACK s = Some s'"
    "rb_keeps s (plug C t) s' (plug C (paint_black t))"
  using assms by (cases t rule: root_ptr.cases) (auto elim: rb_recolor_keeps [where c' = RB_BLACK])

lemma rb_is_red_at:
  "rb_ok s (plug C t) \<Longrightarrow> rb_is_red s (root_ptr t) = Some (color_of t = RB_RED)"
  by (cases t rule: root_ptr.cases) (auto simp: rb_is_red_def rb_read)

lemma rb_null_or_black_at:
  "rb_ok s (plug C t) \<Longrightarrow> rb_null_or_black s (root_ptr t) = Some (color_of t = RB_BLACK)"
  by (cases t rule: root_ptr.cases) (auto simp: rb_null_or_black_def rb_read)

section \<open>One round of the insertion fixup\<close>

text \<open>
  The body of the loop for a parent that is the near child of the grandparent; the loop goes on
  with the element it returns.
\<close>

definition insert_round ::
  "(rb_st \<Rightarrow> ptr \<Rightarrow> ptr option) \<Rightarrow> (rb_st \<Rightarrow> ptr \<Rightarrow> ptr option) \<Rightarrow> (ptr \<Rightarrow> rb_st \<Rightarrow> rb_st option) \<Rightarrow>
   (ptr \<Rightarrow> rb_st \<Rightarrow> rb_st option) \<Rightarrow> rb_st \<Rightarrow> ptr \<Rightarrow> ptr \<Rightarrow> ptr \<Rightarrow> (rb_st \<times> ptr) option" where
  "insert_round near far rot_near rot_far s elm parent gparent = do {
     tmp \<leftarrow> far s gparent;
     uncle_red \<leftarrow> rb_is_red s tmp;
     if uncle_red then do {
       s \<leftarrow> set_RB_COLOR tmp RB_BLACK s;
       s \<leftarrow> RB_SET_BLACKRED parent gparent s;
       Some (s, gparent) }
     else do {
       pf \<leftarrow> far s parent;
       (s, parent, elm) \<leftarrow>
         (if pf = elm then do { s \<leftarrow> rot_near parent s; Some (s, elm, parent) }
          else Some (s, parent, elm));
       s \<leftarrow> RB_SET_BLACKRED parent gparent s;
       s \<leftarrow> rot_far gparent s;
       Some (s, elm) } }"

lemma insert_color_loop_round:
  "insert_color_loop s elm = do {
     parent \<leftarrow> RB_PARENT s elm;
     red \<leftarrow> rb_is_red s parent;
     if red then do {
       gparent \<leftarrow> RB_PARENT s parent;
       gl \<leftarrow> RB_LEFT s gparent;
       (s, elm) \<leftarrow> (if parent = gl
         then insert_round RB_LEFT RB_RIGHT RB_ROTATE_LEFT RB_ROTATE_RIGHT s elm parent gparent
         else insert_round RB_RIGHT RB_LEFT RB_ROTATE_RIGHT RB_ROTATE_LEFT s elm parent gparent);
       insert_color_loop s elm }
     else Some s }"
  apply (subst insert_color_loop.simps)
  apply (intro refl if_cong Option.bind_cong)
  apply (auto simp: insert_round_def intro!: Option.bind_cong split: if_splits prod.splits)
  done

text \<open>What the loop knows: the element is a red tree that may have a red parent.\<close>

definition ins_inv :: "frame list \<Rightarrow> rbt \<Rightarrow> bool" where
  "ins_inv C t \<longleftrightarrow> color_of t = RB_RED \<and> (\<exists>n. rb_inv n t \<and> ctx_inv n C)"

definition round_post :: "rb_st \<Rightarrow> rbt \<Rightarrow> nat \<Rightarrow> rb_st \<times> ptr \<Rightarrow> bool" where
  "round_post s t k = (\<lambda>(s', elm). \<exists>C' t'. elm = root_ptr t' \<and> rb_keeps s t s' (plug C' t') \<and>
     ins_inv C' t' \<and> length C' \<le> k)"

lemma round_postI:
  "rb_keeps s t s' (plug C' t') \<Longrightarrow> ins_inv C' t' \<Longrightarrow> length C' \<le> k \<Longrightarrow> elm = root_ptr t' \<Longrightarrow>
     round_post s t k (s', elm)"
  by (auto simp: round_post_def)

context rb_side
begin

lemma keeps_recolor:
  assumes "rb_ok s (plug C (mk l (a, c) r))"
  obtains s' where "set_RB_COLOR (Some a) c' s = Some s'"
    "rb_keeps s (plug C (mk l (a, c) r)) s' (plug C (mk l (a, c') r))"
  using recolor_mk [OF assms, of c'] locs_mk_cong [of l l r r a c' c]
  by (auto simp: rb_keeps_def returns_iff)

lemma keeps_rot_near:
  assumes "rb_ok s (plug C (mk A (a, ca) (mk B (b, cb) D)))"
  obtains s' where "rot_near (Some a) s = Some s'"
    "rb_keeps s (plug C (mk A (a, ca) (mk B (b, cb) D))) s' (plug C (mk (mk A (a, ca) B) (b, cb) D))"
  using rot_near [OF assms] locs_mk_assoc [of A "(a, ca)" B "(b, cb)" D]
  by (auto simp: rb_keeps_def returns_iff)

lemma keeps_rot_far:
  assumes "rb_ok s (plug C (mk (mk D (b, cb) B) (a, ca) A))"
  obtains s' where "rot_far (Some a) s = Some s'"
    "rb_keeps s (plug C (mk (mk D (b, cb) B) (a, ca) A)) s' (plug C (mk D (b, cb) (mk B (a, ca) A)))"
  using rot_far [OF assms] locs_mk_assoc [of D "(b, cb)" B "(a, ca)" A]
  by (auto simp: rb_keeps_def returns_iff)

text \<open>The red uncle: the grandparent turns red and the problem moves up.\<close>

lemma round_red_uncle:
  assumes ok: "rb_ok s (plug C (mk (mk pl (p, RB_RED) pr) (g, RB_BLACK) U))" and U: "color_of U = RB_RED"
  obtains s' where
    "insert_round near far rot_near rot_far s elm (Some p) (Some g) = Some (s', Some g)"
    "rb_keeps s (plug C (mk (mk pl (p, RB_RED) pr) (g, RB_BLACK) U)) s'
       (plug C (mk (mk pl (p, RB_BLACK) pr) (g, RB_RED) (paint_black U)))"
proof -
  let ?P = "\<lambda>c. mk pl (p, c) pr"
  have "U \<noteq> Leaf" using U by auto
  have okU: "rb_ok s (plug (farf (?P RB_RED) g RB_BLACK # C) U)" using ok by (simp add: plug_farf)
  from rb_paint_keeps [OF this \<open>U \<noteq> Leaf\<close>] obtain s1 where
    s1: "set_RB_COLOR (root_ptr U) RB_BLACK s = Some s1" and
    k1: "rb_keeps s (plug C (mk (?P RB_RED) (g, RB_BLACK) U)) s1
      (plug C (mk (?P RB_RED) (g, RB_BLACK) (paint_black U)))"
    by (auto simp: plug_farf)
  have "rb_ok s1 (plug (nearf g RB_BLACK (paint_black U) # C) (?P RB_RED))"
    using rb_keepsD [OF k1] by (simp add: plug_nearf)
  from keeps_recolor [OF this, of RB_BLACK] obtain s2 where
    s2: "set_RB_COLOR (Some p) RB_BLACK s1 = Some s2" and
    k2: "rb_keeps s1 (plug C (mk (?P RB_RED) (g, RB_BLACK) (paint_black U))) s2
      (plug C (mk (?P RB_BLACK) (g, RB_BLACK) (paint_black U)))"
    by (auto simp: plug_nearf)
  from keeps_recolor [OF rb_keepsD [OF k2], of RB_RED] obtain s3 where
    s3: "set_RB_COLOR (Some g) RB_RED s2 = Some s3" and
    k3: "rb_keeps s2 (plug C (mk (?P RB_BLACK) (g, RB_BLACK) (paint_black U))) s3
      (plug C (mk (?P RB_BLACK) (g, RB_RED) (paint_black U)))" .
  show ?thesis
  proof (rule that)
    show "insert_round near far rot_near rot_far s elm (Some p) (Some g) = Some (s3, Some g)"
      using read_mk [OF ok] rb_is_red_at [OF okU] U s1 s2 s3
      by (simp add: insert_round_def RB_SET_BLACKRED_def)
  qed (rule rb_keeps_trans [OF rb_keeps_trans [OF k1 k2] k3])
qed

text \<open>The black uncle: with the parent's near child red, one rotation ends the fixup.\<close>

lemma round_rotate:
  assumes ok: "rb_ok s (plug C (mk (mk E (p, RB_RED) D) (g, RB_BLACK) U))"
  obtains s' where
    "(do { s \<leftarrow> RB_SET_BLACKRED (Some p) (Some g) s; s \<leftarrow> rot_far (Some g) s; Some (s, elm) }) =
       Some (s', elm)"
    "rb_keeps s (plug C (mk (mk E (p, RB_RED) D) (g, RB_BLACK) U)) s'
       (plug C (mk E (p, RB_BLACK) (mk D (g, RB_RED) U)))"
proof -
  have "rb_ok s (plug (nearf g RB_BLACK U # C) (mk E (p, RB_RED) D))"
    using ok by (simp add: plug_nearf)
  from keeps_recolor [OF this, of RB_BLACK] obtain s1 where
    s1: "set_RB_COLOR (Some p) RB_BLACK s = Some s1" and
    k1: "rb_keeps s (plug C (mk (mk E (p, RB_RED) D) (g, RB_BLACK) U)) s1
      (plug C (mk (mk E (p, RB_BLACK) D) (g, RB_BLACK) U))"
    by (auto simp: plug_nearf)
  from keeps_recolor [OF rb_keepsD [OF k1], of RB_RED] obtain s2 where
    s2: "set_RB_COLOR (Some g) RB_RED s1 = Some s2" and
    k2: "rb_keeps s1 (plug C (mk (mk E (p, RB_BLACK) D) (g, RB_BLACK) U)) s2
      (plug C (mk (mk E (p, RB_BLACK) D) (g, RB_RED) U))" .
  from keeps_rot_far [OF rb_keepsD [OF k2]] obtain s3 where
    s3: "rot_far (Some g) s2 = Some s3" and
    k3: "rb_keeps s2 (plug C (mk (mk E (p, RB_BLACK) D) (g, RB_RED) U)) s3
      (plug C (mk E (p, RB_BLACK) (mk D (g, RB_RED) U)))" .
  show ?thesis
    by (rule that [OF _ rb_keeps_trans [OF rb_keeps_trans [OF k1 k2] k3]])
      (simp add: RB_SET_BLACKRED_def s1 s2 s3)
qed

lemma ins_inv_step:
  assumes "color_of E = RB_RED" "rb_inv n E" "rb_inv n D" "rb_inv n U" "ctx_inv (Suc n) C"
    "color_of U \<noteq> RB_RED" "color_of D \<noteq> RB_RED"
  shows "ins_inv (nearf p RB_BLACK (mk D (g, RB_RED) U) # C) E"
  using assms rb_inv_color [of n U] rb_inv_color [of n D]
  by (auto simp: ins_inv_def ctx_inv_nearf inv_mk color_mk)

lemma rb_ok_disjoint:
  "rb_ok s (plug C (mk l (a, c) r)) \<Longrightarrow> set (locs l) \<inter> set (locs r) = {}"
  by (rule distinct_mk [of l a c r]) (simp add: rb_ok_plug)

lemma round_near:
  assumes ok: "rb_ok s (plug (nearf p RB_RED D # nearf g c U # C) t)"
    and inv: "ins_inv (nearf p RB_RED D # nearf g c U # C) t"
  shows "returns (insert_round near far rot_near rot_far s (root_ptr t) (Some p) (Some g))
    (round_post s (plug (nearf p RB_RED D # nearf g c U # C) t) (Suc (length C)))"
proof -
  from inv obtain n where n: "rb_inv n t" "color_of t = RB_RED" "rb_inv n D" "color_of D = RB_BLACK"
    "c = RB_BLACK" "rb_inv n U" "ctx_inv (Suc n) C"
    by (auto simp: ins_inv_def ctx_inv_nearf ctx_black_nearf)
  from ok n have ok': "rb_ok s (plug C (mk (mk t (p, RB_RED) D) (g, RB_BLACK) U))"
    by (simp add: plug_nearf)
  show ?thesis
  proof (cases "color_of U = RB_RED")
    case True
    from round_red_uncle [OF ok' True, of "root_ptr t"] obtain s' where
      s': "insert_round near far rot_near rot_far s (root_ptr t) (Some p) (Some g) = Some (s', Some g)"
      and k: "rb_keeps s (plug C (mk (mk t (p, RB_RED) D) (g, RB_BLACK) U)) s'
        (plug C (mk (mk t (p, RB_BLACK) D) (g, RB_RED) (paint_black U)))" .
    have "ins_inv C (mk (mk t (p, RB_BLACK) D) (g, RB_RED) (paint_black U))"
      using n True rb_inv_paint_black [of n U] by (auto simp: ins_inv_def inv_mk color_mk)
    with s' k n show ?thesis by (auto simp: plug_nearf ptr_mk intro: round_postI [where C' = C])
  next
    case False
    have okU: "rb_ok s (plug (farf (mk t (p, RB_RED) D) g RB_BLACK # C) U)"
      and okP: "rb_ok s (plug (nearf g RB_BLACK U # C) (mk t (p, RB_RED) D))"
      using ok' by (simp_all add: plug_farf plug_nearf)
    have "t \<noteq> Leaf" using n by auto
    with rb_ok_disjoint [OF okP] have "root_ptr D \<noteq> root_ptr t" by (rule root_ptr_neq)
    from round_rotate [OF ok', of "root_ptr t"] obtain s' where
      s': "(do { s \<leftarrow> RB_SET_BLACKRED (Some p) (Some g) s; s \<leftarrow> rot_far (Some g) s;
        Some (s, root_ptr t) }) = Some (s', root_ptr t)"
      and k: "rb_keeps s (plug C (mk (mk t (p, RB_RED) D) (g, RB_BLACK) U)) s'
        (plug C (mk t (p, RB_BLACK) (mk D (g, RB_RED) U)))" .
    from s' have "insert_round near far rot_near rot_far s (root_ptr t) (Some p) (Some g) =
        Some (s', root_ptr t)"
      using \<open>root_ptr D \<noteq> root_ptr t\<close> read_mk [OF ok'] read_mk [OF okP] rb_is_red_at [OF okU] False
      by (simp add: insert_round_def)
    moreover have "ins_inv (nearf p RB_BLACK (mk D (g, RB_RED) U) # C) t"
      using n False by (intro ins_inv_step) auto
    ultimately show ?thesis
      using k n by (auto simp: plug_nearf
        intro!: round_postI [where C' = "nearf p RB_BLACK (mk D (g, RB_RED) U) # C"])
  qed
qed

lemma round_far:
  assumes ok: "rb_ok s (plug (farf D p RB_RED # nearf g c U # C) t)"
    and inv: "ins_inv (farf D p RB_RED # nearf g c U # C) t"
  shows "returns (insert_round near far rot_near rot_far s (root_ptr t) (Some p) (Some g))
    (round_post s (plug (farf D p RB_RED # nearf g c U # C) t) (Suc (length C)))"
proof -
  from inv obtain n where n: "rb_inv n t" "color_of t = RB_RED" "rb_inv n D" "color_of D = RB_BLACK"
    "c = RB_BLACK" "rb_inv n U" "ctx_inv (Suc n) C"
    by (auto simp: ins_inv_def ctx_inv_nearf ctx_inv_farf ctx_black_nearf)
  from ok n have ok': "rb_ok s (plug C (mk (mk D (p, RB_RED) t) (g, RB_BLACK) U))"
    by (simp add: plug_nearf plug_farf)
  show ?thesis
  proof (cases "color_of U = RB_RED")
    case True
    from round_red_uncle [OF ok' True, of "root_ptr t"] obtain s' where
      s': "insert_round near far rot_near rot_far s (root_ptr t) (Some p) (Some g) = Some (s', Some g)"
      and k: "rb_keeps s (plug C (mk (mk D (p, RB_RED) t) (g, RB_BLACK) U)) s'
        (plug C (mk (mk D (p, RB_BLACK) t) (g, RB_RED) (paint_black U)))" .
    have "ins_inv C (mk (mk D (p, RB_BLACK) t) (g, RB_RED) (paint_black U))"
      using n True rb_inv_paint_black [of n U] by (auto simp: ins_inv_def inv_mk color_mk)
    with s' k n show ?thesis
      by (auto simp: plug_nearf plug_farf ptr_mk intro: round_postI [where C' = C])
  next
    case False
    have "t \<noteq> Leaf" using n by auto
    then obtain B e F where t: "t = mk B (e, RB_RED) F" using mk_cases color_mk n(2) by metis
    have okU: "rb_ok s (plug (farf (mk D (p, RB_RED) t) g RB_BLACK # C) U)"
      and okP: "rb_ok s (plug (nearf g RB_BLACK U # C) (mk D (p, RB_RED) (mk B (e, RB_RED) F)))"
      using ok' t by (simp_all add: plug_farf plug_nearf)
    from keeps_rot_near [OF okP] obtain s1 where s1: "rot_near (Some p) s = Some s1" and
      k1: "rb_keeps s (plug C (mk (mk D (p, RB_RED) t) (g, RB_BLACK) U)) s1
        (plug C (mk (mk (mk D (p, RB_RED) B) (e, RB_RED) F) (g, RB_BLACK) U))"
      by (auto simp: plug_nearf t)
    from round_rotate [OF rb_keepsD [OF k1], of "Some p"] obtain s' where
      s': "(do { s \<leftarrow> RB_SET_BLACKRED (Some e) (Some g) s1; s \<leftarrow> rot_far (Some g) s;
        Some (s, Some p) }) = Some (s', Some p)"
      and k2: "rb_keeps s1 (plug C (mk (mk (mk D (p, RB_RED) B) (e, RB_RED) F) (g, RB_BLACK) U)) s'
        (plug C (mk (mk D (p, RB_RED) B) (e, RB_BLACK) (mk F (g, RB_RED) U)))" .
    have "insert_round near far rot_near rot_far s (root_ptr t) (Some p) (Some g) = Some (s', Some p)"
      using s' s1 read_mk [OF ok'] read_mk [OF okP] rb_is_red_at [OF okU] False t
      by (simp add: insert_round_def ptr_mk)
    moreover have "ins_inv (nearf e RB_BLACK (mk F (g, RB_RED) U) # C) (mk D (p, RB_RED) B)"
      using n False by (intro ins_inv_step) (auto simp: color_mk inv_mk t)
    ultimately show ?thesis
      using rb_keeps_trans [OF k1 k2] n
      by (auto simp: plug_nearf plug_farf ptr_mk
        intro!: round_postI [where C' = "nearf e RB_BLACK (mk F (g, RB_RED) U) # C"])
  qed
qed

end

section \<open>The insertion fixup\<close>

definition fix_post :: "rb_st \<Rightarrow> rbt \<Rightarrow> rb_st \<Rightarrow> bool" where
  "fix_post s t s' \<longleftrightarrow> (\<exists>t'. rb_keeps s t s' t' \<and> rb_wf t')"

lemma fix_post_trans: "rb_keeps s t s' t' \<Longrightarrow> fix_post s' t' s'' \<Longrightarrow> fix_post s t s''"
  by (auto simp: fix_post_def intro: rb_keeps_trans)

lemma ins_inv_frames:
  assumes "ins_inv C t" "C \<noteq> []" "\<not> ctx_black C"
  obtains (LL) p D g U C' where "C = LeftOf p RB_RED D # LeftOf g RB_BLACK U # C'"
  | (LR) p D g U C' where "C = RightOf D p RB_RED # LeftOf g RB_BLACK U # C'"
  | (RL) p D g U C' where "C = LeftOf p RB_RED D # RightOf U g RB_BLACK # C'"
  | (RR) p D g U C' where "C = RightOf D p RB_RED # RightOf U g RB_BLACK # C'"
proof -
  obtain f C1 where C: "C = f # C1" using assms(2) by (cases C) auto
  with assms have "ctx_black C1" by (cases f) (auto simp: ins_inv_def)
  with C assms that show ?thesis
    by (cases f; cases C1 rule: ctx_black.cases) (auto simp: ins_inv_def)
qed

lemma rb_is_red_ctx:
  "rb_ok s (plug C t) \<Longrightarrow> ctx_black C \<Longrightarrow> rb_is_red s (ctx_ptr C) = Some False"
  by (cases C rule: ctx_black.cases) (auto simp: rb_is_red_def rb_read)

lemma insert_loop_left:
  assumes ok: "rb_ok s (plug C (Node (Node pl (p, RB_RED) pr) (g, c) U))"
    and elm: "RB_PARENT s elm = Some (Some p)"
  shows "insert_color_loop s elm = do {
    (s, elm) \<leftarrow> insert_round RB_LEFT RB_RIGHT RB_ROTATE_LEFT RB_ROTATE_RIGHT s elm (Some p) (Some g);
    insert_color_loop s elm }"
proof -
  have P: "rb_ok s (plug (LeftOf g c U # C) (Node pl (p, RB_RED) pr))" using ok by simp
  from rb_read [OF ok] rb_read [OF P] show ?thesis
    by (simp add: insert_color_loop_round [of s elm] elm rb_is_red_def)
qed

lemma insert_loop_right:
  assumes ok: "rb_ok s (plug C (Node U (g, c) (Node pl (p, RB_RED) pr)))"
    and elm: "RB_PARENT s elm = Some (Some p)"
  shows "insert_color_loop s elm = do {
    (s, elm) \<leftarrow> insert_round RB_RIGHT RB_LEFT RB_ROTATE_RIGHT RB_ROTATE_LEFT s elm (Some p) (Some g);
    insert_color_loop s elm }"
proof -
  have P: "rb_ok s (plug (RightOf U g c # C) (Node pl (p, RB_RED) pr))" using ok by simp
  have "root_ptr U \<noteq> Some p"
    using root_ptr_neq [OF rhs.rb_ok_disjoint [OF ok]] by auto
  with rb_read [OF ok] rb_read [OF P] show ?thesis
    by (simp add: insert_color_loop_round [of s elm] elm rb_is_red_def)
qed

lemma ins_inv_ptr: "ins_inv C t \<Longrightarrow> rb_ok s (plug C t) \<Longrightarrow> RB_PARENT s (root_ptr t) = Some (ctx_ptr C)"
  by (cases t rule: root_ptr.cases) (auto simp: ins_inv_def rb_read)

text \<open>One round, whatever the sides of the parent and of the grandparent.\<close>

lemma insert_round_ok:
  assumes ok: "rb_ok s (plug C t)" and inv: "ins_inv C t" and red: "C \<noteq> []" "\<not> ctx_black C"
  shows "\<exists>s' t' C'. insert_color_loop s (root_ptr t) = insert_color_loop s' (root_ptr t') \<and>
    rb_keeps s (plug C t) s' (plug C' t') \<and> ins_inv C' t' \<and> length C' < length C"
  using inv red
proof (cases rule: ins_inv_frames)
  case (LL p D g U C')
  with insert_loop_left [of s C' t p D g RB_BLACK U "root_ptr t"]
    lhs.round_near [where s = s and p = p and D = D and g = g and c = RB_BLACK and U = U and C = C' and t = t]
    ok inv ins_inv_ptr [OF inv ok]
  show ?thesis by (fastforce simp: returns_iff round_post_def less_Suc_eq_le)
next
  case (LR p D g U C')
  with insert_loop_left [of s C' D p t g RB_BLACK U "root_ptr t"]
    lhs.round_far [where s = s and p = p and D = D and g = g and c = RB_BLACK and U = U and C = C' and t = t]
    ok inv ins_inv_ptr [OF inv ok]
  show ?thesis by (fastforce simp: returns_iff round_post_def less_Suc_eq_le)
next
  case (RL p D g U C')
  with insert_loop_right [of s C' U g RB_BLACK t p D "root_ptr t"]
    rhs.round_far [where s = s and p = p and D = D and g = g and c = RB_BLACK and U = U and C = C' and t = t]
    ok inv ins_inv_ptr [OF inv ok]
  show ?thesis by (fastforce simp: returns_iff round_post_def less_Suc_eq_le)
next
  case (RR p D g U C')
  with insert_loop_right [of s C' U g RB_BLACK D p t "root_ptr t"]
    rhs.round_near [where s = s and p = p and D = D and g = g and c = RB_BLACK and U = U and C = C' and t = t]
    ok inv ins_inv_ptr [OF inv ok]
  show ?thesis by (fastforce simp: returns_iff round_post_def less_Suc_eq_le)
qed

lemma insert_color_loop_ok:
  "rb_ok s (plug C t) \<Longrightarrow> ins_inv C t \<Longrightarrow>
     returns (insert_color_loop s (root_ptr t)) (\<lambda>s'. \<exists>t'. rb_keeps s (plug C t) s' t' \<and>
       (\<exists>n. rb_inv n t'))"
proof (induction "length C" arbitrary: C t s rule: less_induct)
  case less
  from less.prems obtain l a r where t: "t = Node l (a, RB_RED) r"
    by (cases t rule: color_of.cases) (auto simp: ins_inv_def)
  have par: "RB_PARENT s (Some a) = Some (ctx_ptr C)"
    using rb_read(3) less.prems(1) t by simp
  show ?case
  proof (cases "C = [] \<or> ctx_black C")
    case True
    then have "rb_is_red s (ctx_ptr C) = Some False"
      using rb_is_red_ctx [OF less.prems(1)] by (auto simp: rb_is_red_def)
    then have "insert_color_loop s (root_ptr t) = Some s"
      using par t by (simp add: insert_color_loop_round)
    moreover have "\<exists>n. rb_inv n (plug C t)"
      using True less.prems(2) rb_wf_plug [of C t] by (auto simp: ins_inv_def rb_wf_def)
    ultimately show ?thesis using rb_keeps_refl [OF less.prems(1)] by auto
  next
    case False
    then obtain s' t' C' where
      "insert_color_loop s (root_ptr t) = insert_color_loop s' (root_ptr t')"
      and k: "rb_keeps s (plug C t) s' (plug C' t')" and "ins_inv C' t'" "length C' < length C"
      using insert_round_ok [OF less.prems] by metis
    with less.hyps [of C' s' t'] rb_keepsD [OF k] show ?thesis
      by (auto elim!: returns_mono intro: rb_keeps_trans [OF k])
  qed
qed

lemma rb_wf_paint_black: "rb_inv n t \<Longrightarrow> rb_wf (paint_black t)"
  using rb_inv_color [of n t] rb_inv_paint_black [of n t]
  by (auto simp: rb_wf_def paint_black_id)

lemma RB_INSERT_COLOR_ok:
  assumes ok: "rb_ok s (plug C t)" and inv: "ins_inv C t"
  shows "returns (RB_INSERT_COLOR (root_ptr t) s) (fix_post s (plug C t))"
proof -
  from insert_color_loop_ok [OF ok inv] obtain s1 t1 n where
    s1: "insert_color_loop s (root_ptr t) = Some s1" and
    k: "rb_keeps s (plug C t) s1 t1" and n: "rb_inv n t1"
    by (auto simp: returns_iff)
  have "t \<noteq> Leaf" using inv by (auto simp: ins_inv_def)
  then have "locs (plug C t) \<noteq> []" by (cases t) auto
  with k have "t1 \<noteq> Leaf" by (auto simp: rb_keeps_def)
  with rb_paint_keeps [of s1 "[]" t1] rb_keepsD [OF k] obtain s2 where
    s2: "set_RB_COLOR (root_ptr t1) RB_BLACK s1 = Some s2" and "rb_keeps s1 t1 s2 (paint_black t1)"
    by auto
  with rb_wf_paint_black [OF n] k have "fix_post s (plug C t) s2"
    by (auto simp: fix_post_def intro: rb_keeps_trans)
  with s1 s2 rb_ok_root [OF rb_keepsD [OF k]] show ?thesis by (simp add: RB_INSERT_COLOR_def)
qed

section \<open>Insertion\<close>

text \<open>
  The contract of the tree: the memory of \<open>s\<close> holds a red-black tree whose elements, in order,
  are \<open>xs\<close>.
\<close>

definition rb_set :: "cmp_fn \<Rightarrow> (loc \<Rightarrow> 'k::linorder) \<Rightarrow> rb_st \<Rightarrow> loc list \<Rightarrow> bool" where
  "rb_set cmp key s xs \<longleftrightarrow>
     cmp_agrees cmp key \<and> sorted_keys key xs \<and> (\<exists>t. rb_ok s t \<and> rb_wf t \<and> locs t = xs)"

text \<open>The descent ends at an element with the same key or at the place of the new one.\<close>

definition descend_post ::
  "(loc \<Rightarrow> 'k::linorder) \<Rightarrow> loc \<Rightarrow> rbt \<Rightarrow> ptr + ptr \<times> int \<Rightarrow> bool" where
  "descend_post key e t res = (case res of
     Inl p \<Rightarrow> (\<exists>x. p = Some x \<and> x \<in> set (locs t) \<and> key x = key e)
   | Inr (p, c) \<Rightarrow> (\<exists>C. plug C Leaf = t \<and> p = ctx_ptr C \<and>
       (\<forall>x\<in>set (map fst (before C)). key x < key e) \<and> (\<forall>x\<in>set (map fst (behind C)). key e < key x) \<and>
       (\<forall>a ca r C'. C = LeftOf a ca r # C' \<longrightarrow> c < 0) \<and>
       (\<forall>l a ca C'. C = RightOf l a ca # C' \<longrightarrow> \<not> c < 0)))"

lemma insert_descend_ok:
  assumes agr: "cmp_agrees cmp key"
  shows "rb_ok s (plug C t) \<Longrightarrow> sorted_keys key (locs (plug C t)) \<Longrightarrow>
    (\<forall>x\<in>set (map fst (before C)). key x < key e) \<Longrightarrow> (\<forall>x\<in>set (map fst (behind C)). key e < key x) \<Longrightarrow>
    (\<forall>a ca r C'. C = LeftOf a ca r # C' \<longrightarrow> c < 0) \<Longrightarrow>
    (\<forall>l a ca C'. C = RightOf l a ca # C' \<longrightarrow> \<not> c < 0) \<Longrightarrow>
    returns (insert_descend cmp s (Some e) (root_ptr t) (ctx_ptr C) c) (descend_post key e (plug C t))"
proof (induction t arbitrary: C c)
  case Leaf
  then show ?case by (subst insert_descend.simps) (auto simp: descend_post_def)
next
  case (Node l x r)
  obtain a ca where x: "x = (a, ca)" by (cases x)
  note reads = rb_read [OF Node.prems(1) [unfolded x]]
  note key = cmp_agreesD [OF agr, of e a]
  consider "key e < key a" | "key a < key e" | "key a = key e" by force
  then show ?case
  proof cases
    case 1
    have "returns (insert_descend cmp s (Some e) (root_ptr l) (ctx_ptr (LeftOf a ca r # C)) (cmp e a))
        (descend_post key e (plug (LeftOf a ca r # C) l))"
      using Node.prems 1 x key by (intro Node.IH) (auto dest: less_trans)
    with 1 key reads x show ?thesis by (subst insert_descend.simps) simp
  next
    case 2
    have "returns (insert_descend cmp s (Some e) (root_ptr r) (ctx_ptr (RightOf l a ca # C)) (cmp e a))
        (descend_post key e (plug (RightOf l a ca # C) r))"
      using Node.prems 2 x key by (intro Node.IH) (auto dest: less_trans)
    with 2 key reads x show ?thesis by (subst insert_descend.simps) simp
  next
    case 3
    with key x show ?thesis by (subst insert_descend.simps) (auto simp: descend_post_def)
  qed
qed

text \<open>\<open>RB_SET\<close> and the store of the new child, or of the root.\<close>

lemma rb_link_ok:
  assumes ok: "rb_ok s (plug C Leaf)" and e: "rmem s e = Some n" "e \<notin> set (locs (plug C Leaf))"
    and dir: "\<forall>a ca r C'. C = LeftOf a ca r # C' \<longrightarrow> c < 0" "\<forall>l a ca C'. C = RightOf l a ca # C' \<longrightarrow> \<not> c < 0"
  shows "returns (do {
      s \<leftarrow> RB_SET (Some e) (ctx_ptr C) s;
      (if ctx_ptr C \<noteq> None then
         if c < 0 then set_RB_LEFT (ctx_ptr C) (Some e) s else set_RB_RIGHT (ctx_ptr C) (Some e) s
       else Some (s\<lparr>rbh_root := Some e\<rparr>)) })
    (\<lambda>s'. rb_ok s' (plug C (Node Leaf (e, RB_RED) Leaf)) \<and>
      same_outside (insert e (set (locs (plug C Leaf)))) (rmem s) (rmem s'))"
proof (cases C rule: ctx_ptr.cases)
  case 1
  with assms show ?thesis by (auto simp: RB_SET_def rb_access rb_ok_def)
next
  case (2 a ca r C')
  with assms show ?thesis
    by (auto simp: RB_SET_def rb_access rb_ok_plug split: option.split_asm)
next
  case (3 l a ca C')
  with assms show ?thesis
    by (auto simp: RB_SET_def rb_access rb_ok_plug split: option.split_asm)
qed

lemma RB_INSERT_correct:
  assumes set: "rb_set cmp key s xs" and e: "rmem s e = Some n" "e \<notin> set xs"
  shows "returns (RB_INSERT cmp (Some e) s) (\<lambda>(s', p).
    p = find_key key e xs \<and>
    rb_set cmp key s' (add_key key e xs) \<and>
    same_outside (set (add_key key e xs)) (rmem s) (rmem s'))"
proof -
  from set obtain t where agr: "cmp_agrees cmp key" and srt: "sorted_keys key xs"
    and ok: "rb_ok s t" and wf: "rb_wf t" and xs: "locs t = xs"
    by (auto simp: rb_set_def)
  have "returns (insert_descend cmp s (Some e) (rbh_root s) None 0) (descend_post key e t)"
    using insert_descend_ok [OF agr, of s "[]" t] ok srt xs rb_ok_root [OF ok] by simp
  then obtain res where res: "insert_descend cmp s (Some e) (rbh_root s) None 0 = Some res"
    and post: "descend_post key e t res"
    by (auto simp: returns_iff)
  show ?thesis
  proof (cases res)
    case (Inl p)
    with post xs obtain x where x: "p = Some x" "x \<in> set xs" "key x = key e"
      by (auto simp: descend_post_def)
    then have "find_key key e xs = Some x"
      using find_key_unique [OF srt] by blast
    with x Inl res set show ?thesis by (auto simp: RB_INSERT_def key_in_def image_iff)
  next
    case (Inr pc)
    then obtain p c where Inr: "res = Inr (p, c)" by (cases pc) auto
    with post obtain C where C: "plug C Leaf = t" "p = ctx_ptr C"
      and lt: "\<forall>x\<in>set (map fst (before C)). key x < key e"
      and gt: "\<forall>x\<in>set (map fst (behind C)). key e < key x"
      and dir: "\<forall>a ca r C'. C = LeftOf a ca r # C' \<longrightarrow> c < 0" "\<forall>l a ca C'. C = RightOf l a ca # C' \<longrightarrow> \<not> c < 0"
      unfolding descend_post_def by auto
    let ?t = "plug C (Node Leaf (e, RB_RED) Leaf)"
    from rb_link_ok [OF _ e(1) _ dir] ok e(2) C xs obtain s1 s2 where
      s1: "RB_SET (Some e) p s = Some s1" and
      s2: "(if p \<noteq> None then if c < 0 then set_RB_LEFT p (Some e) s1 else set_RB_RIGHT p (Some e) s1
        else Some (s1\<lparr>rbh_root := Some e\<rparr>)) = Some s2"
      and ok2: "rb_ok s2 ?t" and so: "same_outside (insert e (set xs)) (rmem s) (rmem s2)"
      by (auto simp: returns_iff bind_eq_Some_conv simp del: inorder_plug)
    have "ins_inv C (Node Leaf (e, RB_RED) Leaf)"
      using wf C(1) rb_wf_plug [of C Leaf] by (auto simp: ins_inv_def)
    from RB_INSERT_COLOR_ok [OF ok2 this] obtain s3 t3 where
      s3: "RB_INSERT_COLOR (Some e) s2 = Some s3" and k: "rb_keeps s2 ?t s3 t3" and "rb_wf t3"
      by (auto simp: returns_iff fix_post_def)
    have split: "xs = map fst (before C) @ map fst (behind C)" using xs C(1) by auto
    have notin: "\<not> key_in key e xs" using lt gt split by (auto simp: key_in_def)
    have ins: "ins_key key e xs = locs ?t" using ins_key_split [OF lt gt] split by simp
    have "rb_set cmp key s3 (ins_key key e xs)"
      unfolding rb_set_def using agr k \<open>rb_wf t3\<close> ins sorted_ins_key [OF srt notin]
      by (auto simp: rb_keeps_def)
    moreover have "same_outside (insert e (set xs)) (rmem s) (rmem s3)"
      using so k ins split by (auto simp: rb_keeps_def intro: same_outside_trans)
    moreover have "RB_INSERT cmp (Some e) s = Some (s3, None)"
      using res Inr s1 s2 s3 by (simp add: RB_INSERT_def)
    ultimately show ?thesis using notin by (simp add: find_key_None [THEN iffD2])
  qed
qed

end
