(* ===== verification/Uv_RB_Remove.thy ===== *)
theory Uv_RB_Remove
  imports Uv_RB_Insert
begin

text \<open>
  Removal from the red-black tree: one round of the fixup on either side, the fixup loop, the
  unlinking of a node and of its successor, and \<open>RB_REMOVE\<close> on well-formed trees.
\<close>

section \<open>One round of the removal fixup\<close>

text \<open>
  The body of the loop for an element that is the near child of its parent, in three parts: the
  last rotation, the round with a black sibling \<open>tmp\<close>, and the whole round. It returns the
  parent and the element of the next iteration, or nothing after the last rotation.
\<close>

definition remove_last ::
  "(rb_st \<Rightarrow> ptr \<Rightarrow> ptr option) \<Rightarrow> (ptr \<Rightarrow> rb_st \<Rightarrow> rb_st option) \<Rightarrow> rb_st \<Rightarrow> ptr \<Rightarrow> ptr \<Rightarrow> rb_st option" where
  "remove_last far rot_near s parent tmp = do {
     pc \<leftarrow> RB_COLOR s parent;
     s \<leftarrow> set_RB_COLOR tmp pc s;
     s \<leftarrow> set_RB_COLOR parent RB_BLACK s;
     tf \<leftarrow> far s tmp;
     s \<leftarrow> (if tf \<noteq> None then set_RB_COLOR tf RB_BLACK s else Some s);
     rot_near parent s }"

definition child_blacks ::
  "(rb_st \<Rightarrow> ptr \<Rightarrow> ptr option) \<Rightarrow> (rb_st \<Rightarrow> ptr \<Rightarrow> ptr option) \<Rightarrow> rb_st \<Rightarrow> ptr \<Rightarrow> (bool \<times> bool) option" where
  "child_blacks near far s tmp = do {
     tn \<leftarrow> near s tmp;
     nb \<leftarrow> rb_null_or_black s tn;
     tf \<leftarrow> far s tmp;
     fb \<leftarrow> rb_null_or_black s tf;
     Some (nb, fb) }"

definition remove_black ::
  "(rb_st \<Rightarrow> ptr \<Rightarrow> ptr option) \<Rightarrow> (rb_st \<Rightarrow> ptr \<Rightarrow> ptr option) \<Rightarrow> (ptr \<Rightarrow> rb_st \<Rightarrow> rb_st option) \<Rightarrow>
   (ptr \<Rightarrow> rb_st \<Rightarrow> rb_st option) \<Rightarrow> rb_st \<Rightarrow> ptr \<Rightarrow> ptr \<Rightarrow> (rb_st \<times> (ptr \<times> ptr) option) option" where
  "remove_black near far rot_near rot_far s parent tmp = do {
     (nb, fb) \<leftarrow> child_blacks near far s tmp;
     if nb \<and> fb then do {
       s \<leftarrow> set_RB_COLOR tmp RB_RED s;
       pp \<leftarrow> RB_PARENT s parent;
       Some (s, Some (pp, parent)) }
     else do {
       (s, tmp) \<leftarrow>
         (if fb then do {
            onear \<leftarrow> near s tmp;
            s \<leftarrow> (if onear \<noteq> None then set_RB_COLOR onear RB_BLACK s else Some s);
            s \<leftarrow> set_RB_COLOR tmp RB_RED s;
            s \<leftarrow> rot_far tmp s;
            tmp \<leftarrow> far s parent;
            Some (s, tmp) }
          else Some (s, tmp));
       s \<leftarrow> remove_last far rot_near s parent tmp;
       Some (s, None) } }"

definition remove_round ::
  "(rb_st \<Rightarrow> ptr \<Rightarrow> ptr option) \<Rightarrow> (rb_st \<Rightarrow> ptr \<Rightarrow> ptr option) \<Rightarrow> (ptr \<Rightarrow> rb_st \<Rightarrow> rb_st option) \<Rightarrow>
   (ptr \<Rightarrow> rb_st \<Rightarrow> rb_st option) \<Rightarrow> rb_st \<Rightarrow> ptr \<Rightarrow> (rb_st \<times> (ptr \<times> ptr) option) option" where
  "remove_round near far rot_near rot_far s parent = do {
     tmp \<leftarrow> far s parent;
     tc \<leftarrow> RB_COLOR s tmp;
     (s, tmp) \<leftarrow>
       (if tc = RB_RED then do {
          s \<leftarrow> RB_SET_BLACKRED tmp parent s;
          s \<leftarrow> rot_near parent s;
          tmp \<leftarrow> far s parent;
          Some (s, tmp) }
        else Some (s, tmp));
     remove_black near far rot_near rot_far s parent tmp }"

text \<open>Both branches of the code read the left child first.\<close>

lemma child_blacks_bind:
  "Option.bind (child_blacks RB_LEFT RB_RIGHT s tmp) f = do {
     tl \<leftarrow> RB_LEFT s tmp; lb \<leftarrow> rb_null_or_black s tl;
     tr \<leftarrow> RB_RIGHT s tmp; rb \<leftarrow> rb_null_or_black s tr; f (lb, rb) }"
  "Option.bind (child_blacks RB_RIGHT RB_LEFT s tmp) f = do {
     tl \<leftarrow> RB_LEFT s tmp; lb \<leftarrow> rb_null_or_black s tl;
     tr \<leftarrow> RB_RIGHT s tmp; rb \<leftarrow> rb_null_or_black s tr; f (rb, lb) }"
  by (cases "RB_LEFT s tmp"; cases "RB_RIGHT s tmp"; simp add: child_blacks_def split: Option.bind_split)+

definition remove_next :: "rb_st \<times> (ptr \<times> ptr) option \<Rightarrow> (rb_st \<times> ptr) option" where
  "remove_next = (\<lambda>(s, next). case next of
     None \<Rightarrow> Some (s, rbh_root s) | Some (parent, elm) \<Rightarrow> remove_color_loop s parent elm)"

lemma remove_color_loop_round:
  "remove_color_loop s parent elm = do {
     black \<leftarrow> rb_null_or_black s elm;
     if black \<and> elm \<noteq> rbh_root s then do {
       pl \<leftarrow> RB_LEFT s parent;
       x \<leftarrow> (if pl = elm
         then remove_round RB_LEFT RB_RIGHT RB_ROTATE_LEFT RB_ROTATE_RIGHT s parent
         else remove_round RB_RIGHT RB_LEFT RB_ROTATE_RIGHT RB_ROTATE_LEFT s parent);
       remove_next x }
     else Some (s, elm) }"
  by (subst remove_color_loop.simps, intro refl if_cong Option.bind_cong)
    (auto simp: remove_round_def remove_black_def remove_next_def remove_last_def
      child_blacks_bind intro!: Option.bind_cong split: prod.splits)

text \<open>
  What the loop knows: the subtree lacks one black node; a red root, once blackened, supplies it.
\<close>

definition rem_inv :: "frame list \<Rightarrow> rbt \<Rightarrow> bool" where
  "rem_inv C t \<longleftrightarrow> (\<exists>n. ctx_inv (Suc n) C \<and>
     (color_of t = RB_BLACK \<and> rb_inv n t \<or> color_of t = RB_RED \<and> rb_inv (Suc n) (paint_black t)))"

definition rem_measure :: "frame list \<Rightarrow> rbt \<Rightarrow> nat" where
  "rem_measure C t = length C + (if color_of t = RB_BLACK then 1 else 0)"

definition rem_post :: "rb_st \<Rightarrow> rbt \<Rightarrow> nat \<Rightarrow> rb_st \<times> (ptr \<times> ptr) option \<Rightarrow> bool" where
  "rem_post s t k = (\<lambda>(s', next). case next of
     None \<Rightarrow> fix_post s t s'
   | Some (parent, elm) \<Rightarrow> \<exists>C' t'. parent = ctx_ptr C' \<and> elm = root_ptr t' \<and>
       rb_keeps s t s' (plug C' t') \<and> rem_inv C' t' \<and> rem_measure C' t' \<le> k)"

lemma rem_post_trans:
  assumes k: "rb_keeps s t s1 t1" and post: "rem_post s1 t1 k x"
  shows "rem_post s t k x"
proof (cases x)
  case (Pair s2 nx)
  have trans: "rb_keeps s1 t1 s2 t2 \<Longrightarrow> rb_keeps s t s2 t2" for t2 using k by (rule rb_keeps_trans)
  show ?thesis
  proof (cases nx)
    case None
    with Pair post trans show ?thesis by (auto simp: rem_post_def fix_post_def)
  next
    case (Some pe)
    with Pair post trans show ?thesis unfolding rem_post_def by (cases pe) (simp, blast)
  qed
qed

lemma rem_post_mono: "rem_post s t k x \<Longrightarrow> k \<le> k' \<Longrightarrow> rem_post s t k' x"
  unfolding rem_post_def by (cases x; cases "snd x") (auto, blast intro: le_trans)

text \<open>\<open>if (p) RB_COLOR(p) = RB_BLACK\<close>.\<close>

lemma rb_paint_opt:
  assumes "rb_ok s (plug C t)"
  obtains s' where "(if root_ptr t \<noteq> None then set_RB_COLOR (root_ptr t) RB_BLACK s else Some s) = Some s'"
    "rb_keeps s (plug C t) s' (plug C (paint_black t))"
proof (cases "t = Leaf")
  case True
  with that [of s] assms show ?thesis by (simp add: rb_keeps_refl)
next
  case False
  with rb_paint_keeps [OF assms False] that show ?thesis by (metis root_ptr_None)
qed

context rb_side
begin

text \<open>The last rotation: the sibling takes the parent's colour, its red far child turns black.\<close>

lemma remove_last_ok:
  assumes ok: "rb_ok s (plug C (mk t (p, c) (mk W1 (w, RB_BLACK) W2)))"
  obtains s' where "remove_last far rot_near s (Some p) (Some w) = Some s'"
    "rb_keeps s (plug C (mk t (p, c) (mk W1 (w, RB_BLACK) W2))) s'
       (plug C (mk (mk t (p, RB_BLACK) W1) (w, c) (paint_black W2)))"
proof -
  let ?T = "\<lambda>cp cw X. mk t (p, cp) (mk W1 (w, cw) X)"
  have "rb_ok s (plug (farf t p c # C) (mk W1 (w, RB_BLACK) W2))" using ok by (simp add: plug_farf)
  from keeps_recolor [OF this, of c] obtain s1 where s1: "set_RB_COLOR (Some w) c s = Some s1"
    and k1: "rb_keeps s (plug C (?T c RB_BLACK W2)) s1 (plug C (?T c c W2))"
    by (auto simp: plug_farf)
  from keeps_recolor [OF rb_keepsD [OF k1], of RB_BLACK] obtain s2 where
    s2: "set_RB_COLOR (Some p) RB_BLACK s1 = Some s2"
    and k2: "rb_keeps s1 (plug C (?T c c W2)) s2 (plug C (?T RB_BLACK c W2))" .
  have okw: "rb_ok s2 (plug (farf t p RB_BLACK # C) (mk W1 (w, c) W2))"
    using rb_keepsD [OF k2] by (simp add: plug_farf)
  then have "rb_ok s2 (plug (farf W1 w c # farf t p RB_BLACK # C) W2)"
    by (simp add: plug_farf)
  from rb_paint_opt [OF this] obtain s3 where
    s3: "(if root_ptr W2 \<noteq> None then set_RB_COLOR (root_ptr W2) RB_BLACK s2 else Some s2) = Some s3"
    and k3: "rb_keeps s2 (plug C (?T RB_BLACK c W2)) s3 (plug C (?T RB_BLACK c (paint_black W2)))"
    by (auto simp: plug_farf)
  from keeps_rot_near [OF rb_keepsD [OF k3]] obtain s4 where s4: "rot_near (Some p) s3 = Some s4"
    and k4: "rb_keeps s3 (plug C (?T RB_BLACK c (paint_black W2))) s4
      (plug C (mk (mk t (p, RB_BLACK) W1) (w, c) (paint_black W2)))" .
  show ?thesis
  proof (rule that)
    show "remove_last far rot_near s (Some p) (Some w) = Some s4"
      unfolding remove_last_def using read_mk [OF ok] read_mk [OF okw] s1 s2 s3 s4
      by (cases "root_ptr W2") simp_all
  qed (rule rb_keeps_trans [OF rb_keeps_trans [OF rb_keeps_trans [OF k1 k2] k3] k4])
qed

lemma remove_last_wf:
  assumes "rb_inv n t" "rb_inv n W1" "rb_inv n W2" "color_of W2 = RB_RED"
    and ctx: "c = RB_RED \<and> ctx_black C \<and> ctx_inv (Suc n) C \<or> c = RB_BLACK \<and> ctx_inv (Suc (Suc n)) C"
  shows "rb_wf (plug C (mk (mk t (p, RB_BLACK) W1) (w, c) (paint_black W2)))"
  using assms rb_inv_paint_black [of n W2]
  by (auto simp: rb_wf_plug inv_mk color_mk intro: exI [of _ "Suc n"] exI [of _ "Suc (Suc n)"])

text \<open>The sibling's near child is red and its far child is not: one rotation more, before the last.\<close>

lemma remove_inner_ok:
  assumes ok: "rb_ok s (plug C (mk t (p, c) (mk (mk X (x, RB_RED) Y) (w, RB_BLACK) W2)))"
  obtains s' where "(do { onear \<leftarrow> near s (Some w);
      s \<leftarrow> (if onear \<noteq> None then set_RB_COLOR onear RB_BLACK s else Some s);
      s \<leftarrow> set_RB_COLOR (Some w) RB_RED s; s \<leftarrow> rot_far (Some w) s;
      tmp \<leftarrow> far s (Some p); Some (s, tmp) }) = Some (s', Some x)"
    "rb_keeps s (plug C (mk t (p, c) (mk (mk X (x, RB_RED) Y) (w, RB_BLACK) W2))) s'
       (plug C (mk t (p, c) (mk X (x, RB_BLACK) (mk Y (w, RB_RED) W2))))"
proof -
  let ?F = "farf t p c # C"
  have okw: "rb_ok s (plug ?F (mk (mk X (x, RB_RED) Y) (w, RB_BLACK) W2))"
    using ok by (simp add: plug_farf)
  then have "rb_ok s (plug (nearf w RB_BLACK W2 # ?F) (mk X (x, RB_RED) Y))"
    by (simp add: plug_nearf)
  from keeps_recolor [OF this, of RB_BLACK] obtain s1 where
    s1: "set_RB_COLOR (Some x) RB_BLACK s = Some s1"
    and k1: "rb_keeps s (plug ?F (mk (mk X (x, RB_RED) Y) (w, RB_BLACK) W2)) s1
      (plug ?F (mk (mk X (x, RB_BLACK) Y) (w, RB_BLACK) W2))"
    by (auto simp: plug_nearf)
  from keeps_recolor [OF rb_keepsD [OF k1], of RB_RED] obtain s2 where
    s2: "set_RB_COLOR (Some w) RB_RED s1 = Some s2"
    and k2: "rb_keeps s1 (plug ?F (mk (mk X (x, RB_BLACK) Y) (w, RB_BLACK) W2)) s2
      (plug ?F (mk (mk X (x, RB_BLACK) Y) (w, RB_RED) W2))" .
  from keeps_rot_far [OF rb_keepsD [OF k2]] obtain s3 where s3: "rot_far (Some w) s2 = Some s3"
    and k3: "rb_keeps s2 (plug ?F (mk (mk X (x, RB_BLACK) Y) (w, RB_RED) W2)) s3
      (plug ?F (mk X (x, RB_BLACK) (mk Y (w, RB_RED) W2)))" .
  have okp: "rb_ok s3 (plug C (mk t (p, c) (mk X (x, RB_BLACK) (mk Y (w, RB_RED) W2))))"
    using rb_keepsD [OF k3] by (simp add: plug_farf)
  show ?thesis
  proof (rule that)
    show "(do { onear \<leftarrow> near s (Some w);
      s \<leftarrow> (if onear \<noteq> None then set_RB_COLOR onear RB_BLACK s else Some s);
      s \<leftarrow> set_RB_COLOR (Some w) RB_RED s; s \<leftarrow> rot_far (Some w) s;
      tmp \<leftarrow> far s (Some p); Some (s, tmp) }) = Some (s3, Some x)"
      using read_mk [OF okw] read_mk [OF okp] s1 s2 s3 by (simp add: ptr_mk)
  qed (use rb_keeps_trans [OF rb_keeps_trans [OF k1 k2] k3] in \<open>simp add: plug_farf\<close>)
qed

text \<open>The round with a black sibling.\<close>

lemma remove_black_ok:
  assumes ok: "rb_ok s (plug C (mk t (p, c) (mk W1 (w, RB_BLACK) W2)))"
    and t: "rb_inv n t" "color_of t = RB_BLACK" and W: "rb_inv n W1" "rb_inv n W2"
    and ctx: "c = RB_RED \<and> ctx_black C \<and> ctx_inv (Suc n) C \<or> c = RB_BLACK \<and> ctx_inv (Suc (Suc n)) C"
  shows "returns (remove_black near far rot_near rot_far s (Some p) (Some w))
    (rem_post s (plug C (mk t (p, c) (mk W1 (w, RB_BLACK) W2)))
      (length C + (if c = RB_BLACK then 1 else 0)))"
    (is "returns _ (rem_post s ?T ?k)")
proof -
  have okw: "rb_ok s (plug (farf t p c # C) (mk W1 (w, RB_BLACK) W2))" using ok by (simp add: plug_farf)
  have ok1: "rb_ok s (plug (nearf w RB_BLACK W2 # farf t p c # C) W1)"
    and ok2: "rb_ok s (plug (farf W1 w RB_BLACK # farf t p c # C) W2)"
    using okw by (simp_all add: plug_nearf plug_farf)
  have blacks: "child_blacks near far s (Some w) =
      Some (color_of W1 = RB_BLACK, color_of W2 = RB_BLACK)"
    using read_mk [OF okw] rb_null_or_black_at [OF ok1] rb_null_or_black_at [OF ok2]
    by (simp add: child_blacks_def)
  consider (both) "color_of W1 = RB_BLACK" "color_of W2 = RB_BLACK"
    | (inner) "color_of W1 = RB_RED" "color_of W2 = RB_BLACK" | (outer) "color_of W2 = RB_RED"
    using rb_inv_color [OF W(1)] rb_inv_color [OF W(2)] by blast
  then show ?thesis
  proof cases
    case both
    from keeps_recolor [OF okw, of RB_RED] obtain s1 where
      s1: "set_RB_COLOR (Some w) RB_RED s = Some s1"
      and k: "rb_keeps s ?T s1 (plug C (mk t (p, c) (mk W1 (w, RB_RED) W2)))"
      by (auto simp: plug_farf)
    let ?t = "mk t (p, c) (mk W1 (w, RB_RED) W2)"
    have "rem_inv C ?t" using ctx
    proof
      assume c: "c = RB_RED \<and> ctx_black C \<and> ctx_inv (Suc n) C"
      have "rb_inv (Suc n) (paint_black ?t)"
        using t W both paint_black_mk [of t p c] by (simp add: inv_mk)
      with c show ?thesis by (auto simp: rem_inv_def color_mk)
    next
      assume "c = RB_BLACK \<and> ctx_inv (Suc (Suc n)) C"
      with t W both show ?thesis
        by (auto simp: rem_inv_def color_mk inv_mk intro!: exI [of _ "Suc n"])
    qed
    moreover have "remove_black near far rot_near rot_far s (Some p) (Some w) =
        Some (s1, Some (ctx_ptr C, Some p))"
      using blacks both s1 read_mk [OF rb_keepsD [OF k]] by (simp add: remove_black_def)
    ultimately show ?thesis
      using k by (auto simp: rem_post_def rem_measure_def ptr_mk color_mk intro!: exI [of _ C] exI [of _ ?t])
  next
    case outer
    from remove_last_ok [OF ok] obtain s1 where
      s1: "remove_last far rot_near s (Some p) (Some w) = Some s1" and
      k: "rb_keeps s ?T s1 (plug C (mk (mk t (p, RB_BLACK) W1) (w, c) (paint_black W2)))" .
    have "remove_black near far rot_near rot_far s (Some p) (Some w) = Some (s1, None)"
      using blacks outer s1 by (simp add: remove_black_def)
    with k remove_last_wf [OF t(1) W outer ctx] show ?thesis
      by (auto simp: rem_post_def fix_post_def)
  next
    case inner
    then have "W1 \<noteq> Leaf" by auto
    with inner obtain X x Y where W1: "W1 = mk X (x, RB_RED) Y" using mk_cases color_mk by metis
    let ?T1 = "plug C (mk t (p, c) (mk X (x, RB_BLACK) (mk Y (w, RB_RED) W2)))"
    from remove_inner_ok [OF ok [unfolded W1]] obtain s1 where
      s1: "(do { onear \<leftarrow> near s (Some w);
        s \<leftarrow> (if onear \<noteq> None then set_RB_COLOR onear RB_BLACK s else Some s);
        s \<leftarrow> set_RB_COLOR (Some w) RB_RED s; s \<leftarrow> rot_far (Some w) s;
        tmp \<leftarrow> far s (Some p); Some (s, tmp) }) = Some (s1, Some x)" and
      k1: "rb_keeps s ?T s1 ?T1"
      unfolding W1 by blast
    from remove_last_ok [OF rb_keepsD [OF k1]] obtain s2 where
      s2: "remove_last far rot_near s1 (Some p) (Some x) = Some s2" and
      k2: "rb_keeps s1 ?T1 s2
        (plug C (mk (mk t (p, RB_BLACK) X) (x, c) (paint_black (mk Y (w, RB_RED) W2))))" .
    have "rb_wf (plug C (mk (mk t (p, RB_BLACK) X) (x, c) (paint_black (mk Y (w, RB_RED) W2))))"
      using t W inner ctx by (intro remove_last_wf [where n = n]) (auto simp: W1 inv_mk color_mk)
    moreover have "remove_black near far rot_near rot_far s (Some p) (Some w) = Some (s2, None)"
      using blacks inner s2 s1 by (simp add: remove_black_def)
    ultimately show ?thesis
      using rb_keeps_trans [OF k1 k2] by (auto simp: rem_post_def fix_post_def)
  qed
qed

text \<open>The whole round; with a red sibling, a rotation gives the element a black one.\<close>

lemma remove_round_ok:
  assumes ok: "rb_ok s (plug (nearf p c W # C) t)"
    and inv: "rem_inv (nearf p c W # C) t" and t: "color_of t = RB_BLACK"
  shows "returns (remove_round near far rot_near rot_far s (Some p))
    (rem_post s (plug (nearf p c W # C) t) (Suc (length C)))"
proof -
  from inv t obtain n where n: "rb_inv n t" "rb_inv (Suc n) W"
    and ctx: "c = RB_RED \<and> color_of W = RB_BLACK \<and> ctx_black C \<and> ctx_inv (Suc n) C \<or>
      c = RB_BLACK \<and> ctx_inv (Suc (Suc n)) C"
    by (auto simp: rem_inv_def ctx_inv_nearf)
  then have "W \<noteq> Leaf" by auto
  then obtain W1 w cw W2 where W: "W = mk W1 (w, cw) W2" using mk_cases by metis
  have ok': "rb_ok s (plug C (mk t (p, c) (mk W1 (w, cw) W2)))" using ok W by (simp add: plug_nearf)
  have okw: "rb_ok s (plug (farf t p c # C) (mk W1 (w, cw) W2))" using ok' by (simp add: plug_farf)
  show ?thesis
  proof (cases "cw = RB_RED")
    case False
    with n W have W12: "cw = RB_BLACK" "rb_inv n W1" "rb_inv n W2" by (auto simp: inv_mk)
    then have "remove_round near far rot_near rot_far s (Some p) =
        remove_black near far rot_near rot_far s (Some p) (Some w)"
      using read_mk [OF ok'] read_mk [OF okw] by (simp add: remove_round_def ptr_mk)
    moreover have "returns (remove_black near far rot_near rot_far s (Some p) (Some w))
        (rem_post s (plug C (mk t (p, c) (mk W1 (w, RB_BLACK) W2)))
          (length C + (if c = RB_BLACK then 1 else 0)))"
      using ok' n t W12 ctx by (intro remove_black_ok) (auto simp: W color_mk)
    ultimately show ?thesis
      by (auto simp: plug_nearf W W12(1) elim!: returns_mono rem_post_mono)
  next
    case True
    with n W ctx have W12: "rb_inv (Suc n) W1" "rb_inv (Suc n) W2" "color_of W1 = RB_BLACK"
      and c: "c = RB_BLACK" "ctx_inv (Suc (Suc n)) C" by (auto simp: inv_mk color_mk)
    then have "W1 \<noteq> Leaf" by auto
    with W12 obtain V1 v V2 where W1: "W1 = mk V1 (v, RB_BLACK) V2" using mk_cases color_mk by metis
    from keeps_recolor [OF okw, of RB_BLACK] obtain s1 where
      s1: "set_RB_COLOR (Some w) RB_BLACK s = Some s1" and
      k1: "rb_keeps s (plug C (mk t (p, c) (mk W1 (w, cw) W2))) s1
        (plug C (mk t (p, c) (mk W1 (w, RB_BLACK) W2)))"
      by (auto simp: plug_farf)
    from keeps_recolor [OF rb_keepsD [OF k1], of RB_RED] obtain s2 where
      s2: "set_RB_COLOR (Some p) RB_RED s1 = Some s2" and
      k2: "rb_keeps s1 (plug C (mk t (p, c) (mk W1 (w, RB_BLACK) W2))) s2
        (plug C (mk t (p, RB_RED) (mk W1 (w, RB_BLACK) W2)))" .
    from keeps_rot_near [OF rb_keepsD [OF k2]] obtain s3 where
      s3: "rot_near (Some p) s2 = Some s3" and
      k3: "rb_keeps s2 (plug C (mk t (p, RB_RED) (mk W1 (w, RB_BLACK) W2))) s3
        (plug C (mk (mk t (p, RB_RED) W1) (w, RB_BLACK) W2))" .
    note k = rb_keeps_trans [OF rb_keeps_trans [OF k1 k2] k3]
    let ?C = "nearf w RB_BLACK W2 # C"
    have okp: "rb_ok s3 (plug ?C (mk t (p, RB_RED) W1))"
      using rb_keepsD [OF k3] by (simp add: plug_nearf)
    have "remove_round near far rot_near rot_far s (Some p) =
        remove_black near far rot_near rot_far s3 (Some p) (Some v)"
      using read_mk [OF ok'] read_mk [OF okw] read_mk [OF okp] s1 s2 s3 True
      by (simp add: remove_round_def RB_SET_BLACKRED_def ptr_mk W1)
    moreover have "returns (remove_black near far rot_near rot_far s3 (Some p) (Some v))
        (rem_post s3 (plug ?C (mk t (p, RB_RED) (mk V1 (v, RB_BLACK) V2)))
          (length ?C + (if RB_RED = RB_BLACK then 1 else 0)))"
      using okp n t W12 c
      by (intro remove_black_ok [where n = n])
        (auto simp: W1 inv_mk color_mk ctx_inv_nearf ctx_black_nearf)
    ultimately show ?thesis
      using k by (auto simp: plug_nearf W W1 elim!: returns_mono intro: rem_post_trans)
  qed
qed

end

section \<open>The removal fixup\<close>

lemma root_plug_in: "C \<noteq> [] \<Longrightarrow> \<exists>a. root_ptr (plug C t) = Some a \<and> a \<in> set (ctx_locs C)"
proof (induction C t rule: plug.induct)
  case (2 a c r C t)
  then show ?case by (cases "C = []") auto
next
  case (3 l a c C t)
  then show ?case by (cases "C = []") auto
qed simp

lemma root_iff_no_context:
  assumes ok: "rb_ok s (plug C t)"
  shows "root_ptr t = rbh_root s \<longleftrightarrow> C = []"
proof (cases "C = []")
  case False
  from root_plug_in [OF False, of t] obtain a where
    a: "rbh_root s = Some a" "a \<in> set (ctx_locs C)" using rb_ok_root [OF ok] by auto
  with ok root_ptr_in [of t a] have "root_ptr t \<noteq> Some a" by (auto simp: rb_ok_plug)
  with a False show ?thesis by simp
qed (use rb_ok_root [OF ok] in simp)

lemma remove_loop_left:
  assumes ok: "rb_ok s (plug (LeftOf p c W # C) t)" and t: "color_of t = RB_BLACK"
  shows "remove_color_loop s (Some p) (root_ptr t) =
    Option.bind (remove_round RB_LEFT RB_RIGHT RB_ROTATE_LEFT RB_ROTATE_RIGHT s (Some p)) remove_next"
proof -
  have "rb_ok s (plug C (Node t (p, c) W))" using ok by simp
  from rb_read [OF this] rb_null_or_black_at [OF ok] root_iff_no_context [OF ok] t show ?thesis
    by (simp add: remove_color_loop_round [of s])
qed

lemma remove_loop_right:
  assumes ok: "rb_ok s (plug (RightOf W p c # C) t)" and t: "color_of t = RB_BLACK" and W: "W \<noteq> Leaf"
  shows "remove_color_loop s (Some p) (root_ptr t) =
    Option.bind (remove_round RB_RIGHT RB_LEFT RB_ROTATE_RIGHT RB_ROTATE_LEFT s (Some p)) remove_next"
proof -
  have ok': "rb_ok s (plug C (Node W (p, c) t))" using ok by simp
  have "root_ptr t \<noteq> root_ptr W" using root_ptr_neq [OF lhs.rb_ok_disjoint [OF ok'] W] .
  with rb_read [OF ok'] rb_null_or_black_at [OF ok] root_iff_no_context [OF ok] t show ?thesis
    by (auto simp: remove_color_loop_round [of s])
qed

definition loop_post :: "rb_st \<Rightarrow> rbt \<Rightarrow> rb_st \<times> ptr \<Rightarrow> bool" where
  "loop_post s t = (\<lambda>(s', elm). \<exists>C' t'. elm = root_ptr t' \<and> rb_keeps s t s' (plug C' t') \<and>
     rb_wf (plug C' (paint_black t')))"

lemma loop_post_trans: "rb_keeps s t s1 t1 \<Longrightarrow> loop_post s1 t1 x \<Longrightarrow> loop_post s t x"
  unfolding loop_post_def by (cases x) (simp, blast intro: rb_keeps_trans)

lemma remove_color_loop_step:
  assumes ok: "rb_ok s (plug C t)" and inv: "rem_inv C t" and t: "color_of t = RB_BLACK" and C: "C \<noteq> []"
  obtains x where "remove_color_loop s (ctx_ptr C) (root_ptr t) = remove_next x"
    "rem_post s (plug C t) (length C) x"
proof (cases C rule: ctx_ptr.cases)
  case (2 p c W C')
  with remove_loop_left [of s p c W C' t] ok t have
    "remove_color_loop s (ctx_ptr C) (root_ptr t) =
      Option.bind (remove_round RB_LEFT RB_RIGHT RB_ROTATE_LEFT RB_ROTATE_RIGHT s (Some p)) remove_next"
    by simp
  with lhs.remove_round_ok [of s p c W C' t] 2 ok inv t that show ?thesis
    by (auto simp: returns_iff)
next
  case (3 W p c C')
  have "W \<noteq> Leaf" using inv 3 by (auto simp: rem_inv_def)
  with remove_loop_right [of s W p c C' t] ok t 3 have
    "remove_color_loop s (ctx_ptr C) (root_ptr t) =
      Option.bind (remove_round RB_RIGHT RB_LEFT RB_ROTATE_RIGHT RB_ROTATE_LEFT s (Some p)) remove_next"
    by simp
  with rhs.remove_round_ok [where s = s and p = p and c = c and W = W and C = C' and t = t] 3 ok inv t that
  show ?thesis by (auto simp: returns_iff)
qed (use C in simp)

lemma remove_color_loop_ok:
  "rb_ok s (plug C t) \<Longrightarrow> rem_inv C t \<Longrightarrow>
     returns (remove_color_loop s (ctx_ptr C) (root_ptr t)) (loop_post s (plug C t))"
proof (induction "rem_measure C t" arbitrary: C t s rule: less_induct)
  case less
  show ?case
  proof (cases "color_of t = RB_BLACK \<and> C \<noteq> []")
    case False
    with rb_null_or_black_at [OF less.prems(1)] root_iff_no_context [OF less.prems(1)]
    have "remove_color_loop s (ctx_ptr C) (root_ptr t) = Some (s, root_ptr t)"
      by (auto simp: remove_color_loop_round [of s])
    moreover have "rb_wf (plug C (paint_black t))"
      using False less.prems(2) by (auto simp: rb_wf_plug rem_inv_def paint_black_id)
    ultimately show ?thesis using rb_keeps_refl [OF less.prems(1)] by (auto simp: loop_post_def)
  next
    case True
    with less.prems obtain x where
      eq: "remove_color_loop s (ctx_ptr C) (root_ptr t) = remove_next x" and
      post: "rem_post s (plug C t) (length C) x"
      by (elim remove_color_loop_step) auto
    obtain s1 nx where x: "x = (s1, nx)" by (cases x)
    show ?thesis
    proof (cases nx)
      case None
      with post x obtain t1 where k: "rb_keeps s (plug C t) s1 t1" and "rb_wf t1"
        by (auto simp: rem_post_def fix_post_def)
      moreover have "rb_wf (plug [] (paint_black t1))"
        using \<open>rb_wf t1\<close> by (simp add: rb_wf_def paint_black_id)
      ultimately have "loop_post s (plug C t) (s1, rbh_root s1)"
        using rb_ok_root [OF rb_keepsD [OF k]]
        by (auto simp: loop_post_def intro!: exI [of _ "[]"] exI [of _ t1])
      with eq x None show ?thesis by (simp add: remove_next_def)
    next
      case (Some pe)
      with post x obtain C' t' where pe: "pe = (ctx_ptr C', root_ptr t')"
        and k: "rb_keeps s (plug C t) s1 (plug C' t')" and inv: "rem_inv C' t'"
        and "rem_measure C' t' \<le> length C"
        by (cases pe) (auto simp: rem_post_def)
      with True have "rem_measure C' t' < rem_measure C t" by (simp add: rem_measure_def)
      from less.hyps [OF this rb_keepsD [OF k] inv] eq x Some pe show ?thesis
        by (auto simp: remove_next_def elim!: returns_mono intro: loop_post_trans [OF k])
    qed
  qed
qed

lemma RB_REMOVE_COLOR_ok:
  assumes ok: "rb_ok s (plug C t)" and inv: "rem_inv C t"
  shows "returns (RB_REMOVE_COLOR (ctx_ptr C) (root_ptr t) s) (fix_post s (plug C t))"
proof -
  from remove_color_loop_ok [OF ok inv] obtain s1 C1 t1 where
    s1: "remove_color_loop s (ctx_ptr C) (root_ptr t) = Some (s1, root_ptr t1)" and
    k1: "rb_keeps s (plug C t) s1 (plug C1 t1)" and wf: "rb_wf (plug C1 (paint_black t1))"
    by (auto simp: returns_iff loop_post_def)
  from rb_paint_opt [OF rb_keepsD [OF k1]] obtain s2 where
    s2: "(if root_ptr t1 \<noteq> None then set_RB_COLOR (root_ptr t1) RB_BLACK s1 else Some s1) = Some s2" and
    k2: "rb_keeps s1 (plug C1 t1) s2 (plug C1 (paint_black t1))" .
  have "RB_REMOVE_COLOR (ctx_ptr C) (root_ptr t) s = Some s2"
    using s1 s2 by (cases t1 rule: root_ptr.cases) (simp_all add: RB_REMOVE_COLOR_def)
  with rb_keeps_trans [OF k1 k2] wf show ?thesis by (auto simp: fix_post_def)
qed

section \<open>Unlinking a node\<close>

lemma rb_ok_node:
  assumes ok: "rb_ok s (plug C (Node l (a, c) r))"
  obtains n where "rmem s a = Some n" "rbe_parent n = ctx_ptr C" "rbe_color n = c"
    "rbe_left n = root_ptr l" "rbe_right n = root_ptr r"
    "rb_at (rmem s) (Some a) (root_ptr l) l" "rb_at (rmem s) (Some a) (root_ptr r) r"
    "ctx_at (rmem s) (rbh_root s) C (ctx_ptr C) (Some a)"
    "distinct (map fst (before C) @ locs l @ a # locs r @ map fst (behind C))"
proof -
  from ok obtain n where n: "rmem s a = Some n" "rbe_parent n = ctx_ptr C" "rbe_color n = c"
    and at: "rb_at (rmem s) (Some a) (rbe_left n) l" "rb_at (rmem s) (Some a) (rbe_right n) r"
    by (auto simp: rb_ok_plug split: option.split_asm)
  have "rbe_left n = root_ptr l" "rbe_right n = root_ptr r" using at by (auto dest: rb_at_ptr)
  with n at ok that show ?thesis by (simp add: rb_ok_plug)
qed

text \<open>A node with at most one child is replaced by that child.\<close>

definition rb_splice :: "ptr \<Rightarrow> ptr \<Rightarrow> ptr \<Rightarrow> rb_st \<Rightarrow> rb_st option" where
  "rb_splice parent old child s = do {
     s \<leftarrow> (if child \<noteq> None then set_RB_PARENT child parent s else Some s);
     rb_replace_child parent old child s }"

lemma rb_splice_ok:
  assumes ok: "rb_ok s (plug C (Node l (a, c) r))" and ch: "l = Leaf \<and> ch = r \<or> r = Leaf \<and> ch = l"
  obtains s' where "rb_splice (ctx_ptr C) (Some a) (root_ptr ch) s = Some s'"
    "rb_ok s' (plug C ch)" "same_outside (set (locs (plug C ch))) (rmem s) (rmem s')"
proof -
  from rb_ok_node [OF ok] obtain n where n: "rb_at (rmem s) (Some a) (root_ptr l) l"
    "rb_at (rmem s) (Some a) (root_ptr r) r" "ctx_at (rmem s) (rbh_root s) C (ctx_ptr C) (Some a)"
    "distinct (map fst (before C) @ locs l @ a # locs r @ map fst (behind C))" .
  then have d: "distinct (map fst (before C) @ locs ch @ map fst (behind C))"
    and a: "a \<notin> set (ctx_locs C)" "a \<notin> set (locs ch)"
    and at: "rb_at (rmem s) (Some a) (root_ptr ch) ch"
    and ctx: "ctx_at (rmem s) (rbh_root s) C (ctx_ptr C) (Some a)"
    using ch by auto
  from at d obtain m where
    m: "(if root_ptr ch \<noteq> None then set_RB_PARENT (root_ptr ch) (ctx_ptr C) s else Some s) =
      Some (s\<lparr>rmem := m\<rparr>)"
    and at1: "rb_at m (ctx_ptr C) (root_ptr ch) ch" and so1: "same_outside (set (locs ch)) (rmem s) m"
    by (elim rb_set_child_parent [where par = "ctx_ptr C"]) auto
  have "ctx_at m (rbh_root s) C (ctx_ptr C) (Some a)"
    using ctx d by (subst ctx_at_outside [OF so1]) auto
  moreover have "distinct (ctx_locs C)" using d by auto
  ultimately obtain s' where
    s': "rb_replace_child (ctx_ptr C) (Some a) (root_ptr ch) (s\<lparr>rmem := m\<rparr>) = Some s'"
    and ctx': "ctx_at (rmem s') (rbh_root s') C (ctx_ptr C) (root_ptr ch)"
    and so2: "same_outside (set_option (ctx_ptr C)) m (rmem s')"
    using rb_replace_child_ctx [of "s\<lparr>rmem := m\<rparr>" C "ctx_ptr C" a "root_ptr ch"] a(1)
    by (auto simp: returns_iff simp del: distinct_append)
  have "set_option (ctx_ptr C) \<inter> set (locs ch) = {}"
    using ctx_ptr_sub [of C] distinct_middle [OF d] by blast
  with at1 so2 have "rb_at (rmem s') (ctx_ptr C) (root_ptr ch) ch" by (simp add: rb_at_outside)
  with ctx' d have "rb_ok s' (plug C ch)" by (simp add: rb_ok_plug)
  moreover have "same_outside (set (locs (plug C ch))) (rmem s) (rmem s')"
  proof (rule same_outside_trans)
    show "same_outside (set (locs (plug C ch))) (rmem s) m"
      using so1 by (rule same_outside_mono) auto
    show "same_outside (set (locs (plug C ch))) m (rmem s')"
      using so2 by (rule same_outside_mono) (use ctx_ptr_sub [of C] in auto)
  qed
  ultimately show ?thesis
    using m s' by (intro that [of s']) (cases ch rule: root_ptr.cases; simp add: rb_splice_def)
qed

text \<open>
  The unlinked node \<open>e\<close> takes the place of \<open>a\<close>: it gets the links and the colour of \<open>a\<close>, and the
  neighbours of \<open>a\<close> point to it.
\<close>

definition take_place :: "ptr \<Rightarrow> ptr \<Rightarrow> rb_st \<Rightarrow> rb_st option" where
  "take_place old elm s = do {
     field \<leftarrow> deref (rmem s) old;
     s \<leftarrow> rb_store elm (\<lambda>_. field) s;
     op \<leftarrow> RB_PARENT s old;
     s \<leftarrow> rb_replace_child op old elm s;
     ol \<leftarrow> RB_LEFT s old;
     s \<leftarrow> set_RB_PARENT ol elm s;
     or \<leftarrow> RB_RIGHT s old;
     (if or \<noteq> None then set_RB_PARENT or elm s else Some s) }"

lemma take_place_ok:
  assumes ok: "rb_ok s (plug C (Node l (a, c) r))" and l: "l \<noteq> Leaf"
    and e: "rmem s e = Some n" "e \<notin> set (locs (plug C (Node l (a, c) r)))"
  shows "returns (take_place (Some a) (Some e) s) (\<lambda>s'. rb_ok s' (plug C (Node l (e, c) r)) \<and>
    same_outside (insert e (set (map fst (before C) @ locs l @ locs r @ map fst (behind C)))) (rmem s) (rmem s'))"
proof -
  from rb_ok_node [OF ok] obtain na where na: "rmem s a = Some na" "rbe_parent na = ctx_ptr C" "rbe_color na = c"
    "rbe_left na = root_ptr l" "rbe_right na = root_ptr r"
    "rb_at (rmem s) (Some a) (root_ptr l) l" "rb_at (rmem s) (Some a) (root_ptr r) r"
    and ctx: "ctx_at (rmem s) (rbh_root s) C (ctx_ptr C) (Some a)"
    and d: "distinct (map fst (before C) @ locs l @ a # locs r @ map fst (behind C))" .
  have e': "e \<noteq> a" "e \<notin> set (locs l)" "e \<notin> set (locs r)" "e \<notin> set (ctx_locs C)" using e(2) by auto
  let ?s1 = "s\<lparr>rmem := (rmem s)(e \<mapsto> na)\<rparr>"
  have "a \<notin> set (ctx_locs C)" "distinct (ctx_locs C)" using d by auto
  with rb_replace_child_ctx [of ?s1 C "ctx_ptr C" a "Some e"] ctx e' obtain s2 where
    s2: "rb_replace_child (ctx_ptr C) (Some a) (Some e) ?s1 = Some s2"
    and ctx2: "ctx_at (rmem s2) (rbh_root s2) C (ctx_ptr C) (Some e)"
    and so2: "same_outside (set_option (ctx_ptr C)) (rmem ?s1) (rmem s2)"
    by (auto simp: returns_iff)
  have par: "set_option (ctx_ptr C) \<subseteq> set (ctx_locs C)" by (rule ctx_ptr_sub)
  have disj: "set (ctx_locs C) \<inter> set (locs l @ a # locs r) = {}" using d by auto
  have "set_option (ctx_ptr C) \<inter> set (locs l @ a # locs r) = {}" using par disj by blast
  then have pd: "set_option (ctx_ptr C) \<inter> set (locs l) = {}" "set_option (ctx_ptr C) \<inter> set (locs r) = {}"
    "a \<notin> set_option (ctx_ptr C)" by (simp_all add: Int_Un_distrib)
  have "a \<notin> set_option (ctx_ptr C)" "e \<notin> set_option (ctx_ptr C)" using pd par e'(4) by auto
  then have m2: "rmem s2 a = Some na" "rmem s2 e = Some na"
    using same_outsideD [OF so2] na(1) e'(1) by auto
  have "rb_at (rmem s2) (Some a) (root_ptr l) l"
    using na(6) e' pd by (simp add: rb_at_outside [OF so2])
  then obtain m3 where
    m3: "(if root_ptr l \<noteq> None then set_RB_PARENT (root_ptr l) (Some e) s2 else Some s2) =
      Some (s2\<lparr>rmem := m3\<rparr>)"
    and l3: "rb_at m3 (Some e) (root_ptr l) l" and so3: "same_outside (set (locs l)) (rmem s2) m3"
    by (rule rb_set_child_parent [where par = "Some e"]) (use d in auto)
  have "rb_at (rmem s2) (Some a) (root_ptr r) r"
    using na(7) e' pd by (simp add: rb_at_outside [OF so2])
  then have "rb_at (rmem (s2\<lparr>rmem := m3\<rparr>)) (Some a) (root_ptr r) r"
    using so3 d by (subst rb_at_outside [of "set (locs l)" "rmem s2"]) auto
  then obtain m4 where
    m4: "(if root_ptr r \<noteq> None then set_RB_PARENT (root_ptr r) (Some e) (s2\<lparr>rmem := m3\<rparr>)
      else Some (s2\<lparr>rmem := m3\<rparr>)) = Some (s2\<lparr>rmem := m4\<rparr>)"
    and r4: "rb_at m4 (Some e) (root_ptr r) r" and so4: "same_outside (set (locs r)) m3 m4"
    by (rule rb_set_child_parent [where par = "Some e"]) (use d in auto)
  have m3a: "m3 a = Some na" using same_outsideD [OF so3] m2 d by auto
  have reads: "deref (rmem s) (Some a) = Some na" "rb_store (Some e) (\<lambda>_. na) s = Some ?s1"
    "RB_PARENT ?s1 (Some a) = Some (ctx_ptr C)" "RB_LEFT s2 (Some a) = Some (root_ptr l)"
    "RB_RIGHT (s2\<lparr>rmem := m3\<rparr>) (Some a) = Some (root_ptr r)"
    using na(1-5) e(1) e'(1) m2 m3a by (simp_all add: rb_access)
  have "set_RB_PARENT (root_ptr l) (Some e) s2 = Some (s2\<lparr>rmem := m3\<rparr>)" using m3 l by simp
  with reads s2 m4 have "take_place (Some a) (Some e) s = Some (s2\<lparr>rmem := m4\<rparr>)"
    unfolding take_place_def by (cases r rule: root_ptr.cases) simp_all
  moreover have "rb_ok (s2\<lparr>rmem := m4\<rparr>) (plug C (Node l (e, c) r))"
  proof -
    have so24: "same_outside (set (locs l) \<union> set (locs r)) (rmem s2) m4"
      using so3 so4 by (auto simp: same_outside_def)
    have "m4 e = Some na" using same_outsideD [OF so24] m2 e' by auto
    moreover have "rb_at m4 (Some e) (root_ptr l) l"
      using l3 d by (subst rb_at_outside [OF so4]) auto
    moreover have "ctx_at m4 (rbh_root s2) C (ctx_ptr C) (Some e)"
      using ctx2 disj by (subst ctx_at_outside [OF so24]) auto
    ultimately show ?thesis using r4 na(2-5) d e' by (auto simp: rb_ok_plug)
  qed
  moreover have "same_outside (insert e (set (map fst (before C) @ locs l @ locs r @ map fst (behind C)))) (rmem s) m4"
    (is "same_outside ?B _ _")
  proof -
    have "same_outside ?B (rmem ?s1) (rmem s2)" using so2 par by (auto elim: same_outside_mono)
    then have "same_outside ?B (rmem s) (rmem s2)" by (auto simp: same_outside_def)
    moreover have "same_outside ?B (rmem s2) m3" "same_outside ?B m3 m4"
      using so3 so4 by (auto elim: same_outside_mono)
    ultimately show ?thesis by (blast intro: same_outside_trans)
  qed
  ultimately show ?thesis by simp
qed

section \<open>Removal\<close>

definition rb_unlink :: "ptr \<Rightarrow> rb_st \<Rightarrow> (rb_st \<times> ptr \<times> ptr \<times> int) option" where
  "rb_unlink old s = do {
     l \<leftarrow> RB_LEFT s old;
     r \<leftarrow> RB_RIGHT s old;
     if l \<noteq> None \<and> r \<noteq> None then do {
       elm \<leftarrow> rb_leftmost s r;
       child \<leftarrow> RB_RIGHT s elm;
       parent \<leftarrow> RB_PARENT s elm;
       color \<leftarrow> RB_COLOR s elm;
       s \<leftarrow> rb_splice parent elm child s;
       ep \<leftarrow> RB_PARENT s elm;
       s \<leftarrow> take_place old elm s;
       Some (s, if ep = old then elm else parent, child, color) }
     else do {
       let child = (if l = None then r else l);
       parent \<leftarrow> RB_PARENT s old;
       color \<leftarrow> RB_COLOR s old;
       s \<leftarrow> rb_splice parent old child s;
       Some (s, parent, child, color) } }"

lemma RB_REMOVE_unlink:
  "RB_REMOVE old s = do {
     (s, parent, child, color) \<leftarrow> rb_unlink old s;
     s \<leftarrow> (if color = RB_BLACK then RB_REMOVE_COLOR parent child s else Some s);
     Some (s, old) }"
  by (auto simp: RB_REMOVE_def rb_unlink_def rb_splice_def take_place_def Let_def
    intro!: Option.bind_cong)

lemma rb_leftmost_ok:
  "rb_ok s (plug C t) \<Longrightarrow> t \<noteq> Leaf \<Longrightarrow> \<exists>D e ce er.
     t = plug D (Node Leaf (e, ce) er) \<and> before D = [] \<and> rb_leftmost s (root_ptr t) = Some (Some e)"
proof (induction t arbitrary: C)
  case (Node l x r)
  obtain a c where x: "x = (a, c)" by (cases x)
  note reads = rb_read [OF Node.prems(1) [unfolded x]]
  show ?case
  proof (cases "l = Leaf")
    case True
    with reads x have "rb_leftmost s (Some a) = Some (Some a)" by (simp add: rb_leftmost.simps)
    with True x show ?thesis
      by (intro exI [of _ "[]"] exI [of _ a] exI [of _ c] exI [of _ r]) simp
  next
    case False
    from Node.IH(1) [of "LeftOf a c r # C"] Node.prems(1) x False obtain D e ce er where
      "l = plug D (Node Leaf (e, ce) er)" "before D = []" "rb_leftmost s (root_ptr l) = Some (Some e)"
      by auto
    with reads x False show ?thesis
      by (intro exI [of _ "D @ [LeftOf a c r]"] exI [of _ e] exI [of _ ce] exI [of _ er])
        (auto simp: plug_append before_append rb_leftmost.simps [of s "Some a"])
  qed
qed simp

lemma unlink_inv:
  assumes wf: "rb_wf (plug C (Node l (a, c) r))" and ch: "l = Leaf \<and> ch = r \<or> r = Leaf \<and> ch = l"
  shows "c = RB_BLACK \<Longrightarrow> rem_inv C ch" "c \<noteq> RB_BLACK \<Longrightarrow> rb_wf (plug C ch)"
proof -
  from wf obtain n where n: "rb_inv n (Node l (a, c) r)" "ctx_inv n C"
    and root: "c = RB_BLACK \<or> ctx_black C" by (auto simp: rb_wf_plug)
  show "rem_inv C ch" if "c = RB_BLACK"
  proof -
    from n that obtain m where m: "n = Suc m" "rb_inv m l" "rb_inv m r" by (cases n) auto
    then have "rb_inv m ch" using ch by auto
    with m n(2) rb_inv_color [of m ch] rb_inv_paint_black [of m ch] show ?thesis
      by (auto simp: rem_inv_def)
  qed
  show "rb_wf (plug C ch)" if "c \<noteq> RB_BLACK"
    using n that ch by (auto simp: rb_wf_plug)
qed

lemma ctx_inv_rename:
  "ctx_inv n (D @ RightOf l a c # C) = ctx_inv n (D @ RightOf l e c # C)"
  "ctx_black (D @ RightOf l a c # C) = ctx_black (D @ RightOf l e c # C)"
proof -
  show black: "ctx_black (D @ RightOf l a c # C) = ctx_black (D @ RightOf l e c # C)" for D
    by (cases D rule: ctx_black.cases) auto
  show "ctx_inv n (D @ RightOf l a c # C) = ctx_inv n (D @ RightOf l e c # C)"
  proof (induction D arbitrary: n)
    case (Cons f D)
    then show ?case by (cases f) (auto simp: black [of D])
  qed simp
qed

text \<open>
  After the unlinking, the node is gone; if it was black, the subtree \<open>child\<close> under \<open>parent\<close>
  lacks a black node.
\<close>

definition unlink_post ::
  "rb_st \<Rightarrow> loc \<Rightarrow> loc list \<Rightarrow> rb_st \<times> ptr \<times> ptr \<times> int \<Rightarrow> bool" where
  "unlink_post s a xs = (\<lambda>(s', parent, child, color). \<exists>C' t'.
     parent = ctx_ptr C' \<and> child = root_ptr t' \<and> rb_ok s' (plug C' t') \<and> locs (plug C' t') = xs \<and>
     same_outside (insert a (set xs)) (rmem s) (rmem s') \<and> rmem s' a \<noteq> None \<and>
     (color = RB_BLACK \<longrightarrow> rem_inv C' t') \<and> (color \<noteq> RB_BLACK \<longrightarrow> rb_wf (plug C' t')))"

lemma unlink_postI:
  "rb_ok s' (plug C' t') \<Longrightarrow> locs (plug C' t') = xs \<Longrightarrow>
     same_outside (insert a (set xs)) (rmem s) (rmem s') \<Longrightarrow> rmem s' a \<noteq> None \<Longrightarrow> (color = RB_BLACK \<Longrightarrow> rem_inv C' t') \<Longrightarrow>
     (color \<noteq> RB_BLACK \<Longrightarrow> rb_wf (plug C' t')) \<Longrightarrow>
     unlink_post s a xs (s', ctx_ptr C', root_ptr t', color)"
  by (auto simp: unlink_post_def)

lemma unlink_one_child:
  assumes ok: "rb_ok s (plug C (Node l (a, c) r))" and wf: "rb_wf (plug C (Node l (a, c) r))"
    and leaf: "l = Leaf \<or> r = Leaf"
  shows "returns (rb_unlink (Some a) s) (unlink_post s a
    (map fst (before C) @ locs l @ locs r @ map fst (behind C)))"
proof -
  define ch where "ch = (if l = Leaf then r else l)"
  have ch: "l = Leaf \<and> ch = r \<or> r = Leaf \<and> ch = l" using leaf by (auto simp: ch_def)
  from rb_splice_ok [OF ok ch] obtain s1 where
    s1: "rb_splice (ctx_ptr C) (Some a) (root_ptr ch) s = Some s1" and ok1: "rb_ok s1 (plug C ch)"
    and so: "same_outside (set (locs (plug C ch))) (rmem s) (rmem s1)" .
  have "rb_unlink (Some a) s = Some (s1, ctx_ptr C, root_ptr ch, c)"
    using rb_read [OF ok] s1 leaf by (auto simp: rb_unlink_def ch_def split: if_splits)
  moreover have "same_outside (insert a (set (map fst (before C) @ locs l @ locs r @ map fst (behind C)))) (rmem s) (rmem s1)"
    using so by (rule same_outside_mono) (use ch in auto)
  moreover have "rmem s1 a \<noteq> None"
  proof -
    have "a \<notin> set (locs (plug C ch))" using ok ch by (auto simp: rb_ok_plug)
    with same_outsideD [OF so] show ?thesis by (auto intro: rb_ok_node [OF ok])
  qed
  moreover have "locs (plug C ch) = map fst (before C) @ locs l @ locs r @ map fst (behind C)"
    using ch by auto
  ultimately show ?thesis
    using unlink_inv [OF wf ch] by (auto intro!: unlink_postI ok1 simp del: inorder_plug set_map)
qed

lemma unlink_successor:
  assumes ok: "rb_ok s (plug C (Node l (a, c) r))" and wf: "rb_wf (plug C (Node l (a, c) r))"
    and l: "l \<noteq> Leaf" and r: "r \<noteq> Leaf"
  shows "returns (rb_unlink (Some a) s) (unlink_post s a
    (map fst (before C) @ locs l @ locs r @ map fst (behind C)))"
proof -
  have "rb_ok s (plug (RightOf l a c # C) r)" using ok by simp
  from rb_leftmost_ok [OF this r] obtain D e ce er where D: "r = plug D (Node Leaf (e, ce) er)"
    "before D = []" and lm: "rb_leftmost s (root_ptr r) = Some (Some e)" by auto
  let ?C = "\<lambda>x. D @ RightOf l x c # C"
  have oke: "rb_ok s (plug (?C a) (Node Leaf (e, ce) er))" and wfe: "rb_wf (plug (?C a) (Node Leaf (e, ce) er))"
    using ok wf D by (simp_all add: plug_append)
  have dist: "distinct (locs (plug C (Node l (a, c) r)))" using ok by (simp add: rb_ok_plug)
  from rb_splice_ok [OF oke, of er] obtain s1 where
    s1: "rb_splice (ctx_ptr (?C a)) (Some e) (root_ptr er) s = Some s1" and ok1: "rb_ok s1 (plug (?C a) er)"
    and so1: "same_outside (set (locs (plug (?C a) er))) (rmem s) (rmem s1)"
    by auto
  obtain ne where ne: "rmem s e = Some ne" "rbe_parent ne = ctx_ptr (?C a)"
    by (rule rb_ok_node [OF oke])
  have e: "e \<notin> set (locs (plug (?C a) er))" using dist D by (auto simp: plug_append)
  have e1: "rmem s1 e = Some ne" using same_outsideD [OF so1 e] ne by simp
  have oka: "rb_ok s1 (plug C (Node l (a, c) (plug D er)))" using ok1 by (simp add: plug_append)
  from take_place_ok [OF this l e1] e obtain s2 where
    s2: "take_place (Some a) (Some e) s1 = Some s2" and ok2: "rb_ok s2 (plug (?C e) er)"
    and so2: "same_outside (insert e (set (map fst (before C) @ locs l @ locs (plug D er) @ map fst (behind C))))
      (rmem s1) (rmem s2)"
    by (auto simp: returns_iff plug_append)
  have par: "(if ctx_ptr (?C a) = Some a then Some e else ctx_ptr (?C a)) = ctx_ptr (?C e)"
    using dist D by (cases D rule: ctx_ptr.cases) (auto simp: before_append behind_append)
  have "RB_PARENT s1 (Some e) = Some (ctx_ptr (?C a))" using e1 ne by (simp add: rb_access)
  with rb_read [OF ok] rb_read [OF oke] l r lm s1 s2 par have
    "rb_unlink (Some a) s = Some (s2, ctx_ptr (?C e), root_ptr er, ce)"
    by (simp add: rb_unlink_def)
  moreover have "rmem s2 a \<noteq> None"
  proof -
    have "a \<notin> insert e (set (map fst (before C) @ locs l @ locs (plug D er) @ map fst (behind C)))"
      using dist D by auto
    with same_outsideD [OF so2] show ?thesis by (auto intro: rb_ok_node [OF oka])
  qed
  moreover have "same_outside (insert a (set (map fst (before C) @ locs l @ locs r @ map fst (behind C)))) (rmem s) (rmem s2)"
    (is "same_outside ?B _ _")
  proof (rule same_outside_trans)
    show "same_outside ?B (rmem s) (rmem s1)"
      using so1 by (rule same_outside_mono) (auto simp: D plug_append)
    show "same_outside ?B (rmem s1) (rmem s2)"
      using so2 by (rule same_outside_mono) (auto simp: D plug_append)
  qed
  moreover have "ce = RB_BLACK \<Longrightarrow> rem_inv (?C e) er" "ce \<noteq> RB_BLACK \<Longrightarrow> rb_wf (plug (?C e) er)"
    using unlink_inv [OF wfe, of er] ctx_inv_rename [where e = e and a = a and l = l and c = c]
    by (simp_all add: rem_inv_def rb_wf_plug)
  moreover have "locs (plug (?C e) er) = map fst (before C) @ locs l @ locs r @ map fst (behind C)"
    using D by (simp add: before_append behind_append)
  ultimately show ?thesis by (auto intro!: unlink_postI ok2 simp del: inorder_plug set_map)
qed

lemma rb_zip: "a \<in> set (locs t) \<Longrightarrow> \<exists>C l c r. t = plug C (Node l (a, c) r)"
proof (induction t)
  case (Node l x r)
  obtain b c where x: "x = (b, c)" by (cases x)
  consider "a = b" | "a \<in> set (locs l)" | "a \<in> set (locs r)" using Node.prems x by auto
  then show ?case
  proof cases
    case 1
    with x show ?thesis by (metis plug.simps(1))
  next
    case 2
    with Node.IH(1) obtain C l' c' r' where "l = plug C (Node l' (a, c') r')" by blast
    then have "Node l x r = plug (C @ [LeftOf b c r]) (Node l' (a, c') r')" by (simp add: plug_append x)
    then show ?thesis by blast
  next
    case 3
    with Node.IH(2) obtain C l' c' r' where "r = plug C (Node l' (a, c') r')" by blast
    then have "Node l x r = plug (C @ [RightOf l b c]) (Node l' (a, c') r')" by (simp add: plug_append x)
    then show ?thesis by blast
  qed
qed simp

lemma RB_REMOVE_correct:
  assumes set: "rb_set cmp key s xs" and e: "e \<in> set xs"
  shows "returns (RB_REMOVE (Some e) s) (\<lambda>(s', p).
    p = Some e \<and> rb_set cmp key s' (del_key key e xs) \<and>
    same_outside (set xs) (rmem s) (rmem s') \<and> rmem s' e \<noteq> None)"
proof -
  from set obtain t where agr: "cmp_agrees cmp key" and srt: "sorted_keys key xs"
    and ok: "rb_ok s t" and wf: "rb_wf t" and xs: "locs t = xs"
    by (auto simp: rb_set_def)
  from rb_zip [of e t] e xs obtain C l c r where t: "t = plug C (Node l (e, c) r)" by auto
  let ?ys = "map fst (before C) @ locs l" and ?zs = "locs r @ map fst (behind C)"
  have xs': "xs = ?ys @ e # ?zs" using xs t by auto
  have del: "del_key key e xs = ?ys @ ?zs"
    unfolding xs' by (rule del_key_split) (use srt xs' in auto)
  have "returns (rb_unlink (Some e) s) (unlink_post s e (?ys @ ?zs))"
    using unlink_one_child unlink_successor ok wf unfolding t by (metis append.assoc)
  then obtain s1 C1 t1 color where
    s1: "rb_unlink (Some e) s = Some (s1, ctx_ptr C1, root_ptr t1, color)" and
    ok1: "rb_ok s1 (plug C1 t1)" and l1: "locs (plug C1 t1) = ?ys @ ?zs" and
    so1: "same_outside (insert e (set (?ys @ ?zs))) (rmem s) (rmem s1)" "rmem s1 e \<noteq> None" and
    inv: "color = RB_BLACK \<longrightarrow> rem_inv C1 t1" "color \<noteq> RB_BLACK \<longrightarrow> rb_wf (plug C1 t1)"
    unfolding returns_iff unlink_post_def by blast
  have "returns (if color = RB_BLACK then RB_REMOVE_COLOR (ctx_ptr C1) (root_ptr t1) s1 else Some s1)
      (fix_post s1 (plug C1 t1))"
    using inv RB_REMOVE_COLOR_ok [OF ok1] rb_keeps_refl [OF ok1] by (auto simp: fix_post_def)
  then obtain s2 t2 where
    s2: "(if color = RB_BLACK then RB_REMOVE_COLOR (ctx_ptr C1) (root_ptr t1) s1 else Some s1) = Some s2"
    and k: "rb_keeps s1 (plug C1 t1) s2 t2" and wf2: "rb_wf t2"
    by (auto simp: returns_iff fix_post_def)
  have "rb_set cmp key s2 (del_key key e xs)"
  proof -
    have "locs t2 = del_key key e xs" "rb_ok s2 t2" using k l1 del by (simp_all add: rb_keeps_def)
    with agr sorted_del_key [OF srt, of e] wf2 show ?thesis by (auto simp: rb_set_def)
  qed
  moreover have so2: "same_outside (set (?ys @ ?zs)) (rmem s1) (rmem s2)"
    using k unfolding rb_keeps_def l1 by blast
  then have "same_outside (insert e (set (?ys @ ?zs))) (rmem s1) (rmem s2)"
    by (rule same_outside_mono) auto
  with so1(1) have "same_outside (insert e (set (?ys @ ?zs))) (rmem s) (rmem s2)"
    by (rule same_outside_trans)
  moreover have "insert e (set (?ys @ ?zs)) = set xs" by (auto simp: xs')
  moreover have "rmem s2 e \<noteq> None"
  proof -
    have "e \<notin> set (?ys @ ?zs)" using sorted_keys_distinct [OF srt] unfolding xs' by auto
    with same_outsideD [OF so2] so1(2) show ?thesis by simp
  qed
  moreover have "RB_REMOVE (Some e) s = Some (s2, Some e)"
    using s1 s2 by (simp add: RB_REMOVE_unlink split: if_splits)
  ultimately show ?thesis by (simp only: returns_simps prod.case) auto
qed

end
