(* ===== verification/Uv_RB_Correct.thy ===== *)
theory Uv_RB_Correct
  imports Uv_RB_Remove
begin

text \<open>
  Search and traversal of the red-black tree, and the properties of its operations.
\<close>

section \<open>Search\<close>

lemma rb_setE:
  assumes "rb_set cmp key s xs"
  obtains t where "cmp_agrees cmp key" "sorted_keys key (locs t)" "rb_ok s t" "rb_wf t"
    "xs = locs t" "rbh_root s = root_ptr t"
  using assms rb_ok_root by (auto simp: rb_set_def)

lemma find_key_sides:
  assumes "sorted_keys key (xs @ a # ys)"
  shows "key e < key a \<Longrightarrow> find_key key e (xs @ a # ys) = find_key key e xs"
    and "key a < key e \<Longrightarrow> find_key key e (xs @ a # ys) = find_key key e ys"
proof -
  have app: "find_key key e (us @ vs) = (case find_key key e us of None \<Rightarrow> find_key key e vs | x \<Rightarrow> x)" for us vs
    unfolding find_key_def by (induction us) auto
  have none: "(\<And>x. x \<in> set us \<Longrightarrow> key x \<noteq> key e) \<Longrightarrow> find_key key e us = None" for us
    unfolding find_key_def find_None_iff by blast
  show "find_key key e (xs @ a # ys) = find_key key e xs" if "key e < key a"
  proof -
    have "find_key key e (a # ys) = None" by (rule none) (use assms that in \<open>auto dest: less_trans\<close>)
    then show ?thesis by (simp add: app [of xs] split: option.split)
  qed
  show "find_key key e (xs @ a # ys) = find_key key e ys" if "key a < key e"
  proof -
    have "find_key key e (xs @ [a]) = None" by (rule none) (use assms that in \<open>auto dest: less_trans\<close>)
    then show ?thesis using app [of "xs @ [a]" ys] by simp
  qed
qed

lemma rb_find_from_ok:
  assumes agr: "cmp_agrees cmp key"
  shows "rb_ok s (plug C t) \<Longrightarrow> sorted_keys key (locs t) \<Longrightarrow>
    rb_find_from cmp s (Some e) (root_ptr t) = Some (find_key key e (locs t))"
proof (induction t arbitrary: C)
  case Leaf
  show ?case by (simp add: rb_find_from.simps find_key_def)
next
  case (Node l x r)
  obtain a c where x: "x = (a, c)" by (cases x)
  note reads = rb_read [OF Node.prems(1) [unfolded x]] and key = cmp_agreesD [OF agr, of e a]
  have srt: "sorted_keys key (locs l @ a # locs r)" using Node.prems(2) x by simp
  consider "key e < key a" | "key a < key e" | "key a = key e" by force
  then show ?case
  proof cases
    case 1
    with Node.IH(1) [of "LeftOf a c r # C"] Node.prems x key reads find_key_sides(1) [OF srt 1]
    show ?thesis by (simp add: rb_find_from.simps [of _ _ _ "Some a"])
  next
    case 2
    with Node.IH(2) [of "RightOf l a c # C"] Node.prems x key reads find_key_sides(2) [OF srt 2]
    show ?thesis by (simp add: rb_find_from.simps [of _ _ _ "Some a"])
  next
    case 3
    with key x find_key_unique [OF srt, of a e] show ?thesis
      by (simp add: rb_find_from.simps [of _ _ _ "Some a"])
  qed
qed

text \<open>\<open>RB_NFIND\<close> looks for the first element that is not smaller.\<close>

definition nfind_key :: "(loc \<Rightarrow> 'k::linorder) \<Rightarrow> loc \<Rightarrow> loc list \<Rightarrow> loc option" where
  "nfind_key key e xs = find (\<lambda>x. key e \<le> key x) xs"

lemma nfind_key_sides:
  assumes "sorted_keys key (xs @ a # ys)"
  shows "key e \<le> key a \<Longrightarrow> nfind_key key e (xs @ a # ys) = (case nfind_key key e xs of None \<Rightarrow> Some a | x \<Rightarrow> x)"
    and "key a < key e \<Longrightarrow> nfind_key key e (xs @ a # ys) = nfind_key key e ys"
    and "key a = key e \<Longrightarrow> nfind_key key e xs = None"
proof -
  have app: "nfind_key key e (us @ vs) = (case nfind_key key e us of None \<Rightarrow> nfind_key key e vs | x \<Rightarrow> x)" for us vs
    unfolding nfind_key_def by (induction us) auto
  show "nfind_key key e (xs @ a # ys) = (case nfind_key key e xs of None \<Rightarrow> Some a | x \<Rightarrow> x)" if "key e \<le> key a"
  proof -
    have "nfind_key key e (a # ys) = Some a" using that by (simp add: nfind_key_def)
    then show ?thesis by (simp add: app [of xs] split: option.split)
  qed
  have none: "(\<And>x. x \<in> set us \<Longrightarrow> key x < key e) \<Longrightarrow> nfind_key key e us = None" for us
    unfolding nfind_key_def find_None_iff by (metis not_le)
  show "nfind_key key e (xs @ a # ys) = nfind_key key e ys" if "key a < key e"
  proof -
    have "nfind_key key e (xs @ [a]) = None" by (rule none) (use assms that in \<open>auto dest: less_trans\<close>)
    then show ?thesis using app [of "xs @ [a]" ys] by simp
  qed
  show "nfind_key key e xs = None" if "key a = key e"
    by (rule none) (use assms that in auto)
qed

lemma rb_nfind_from_ok:
  assumes agr: "cmp_agrees cmp key"
  shows "rb_ok s (plug C t) \<Longrightarrow> sorted_keys key (locs t) \<Longrightarrow>
    rb_nfind_from cmp s (Some e) (root_ptr t) res =
      Some (case nfind_key key e (locs t) of None \<Rightarrow> res | x \<Rightarrow> x)"
proof (induction t arbitrary: C res)
  case Leaf
  show ?case by (simp add: rb_nfind_from.simps nfind_key_def)
next
  case (Node l x r)
  obtain a c where x: "x = (a, c)" by (cases x)
  note reads = rb_read [OF Node.prems(1) [unfolded x]] and key = cmp_agreesD [OF agr, of e a]
  have srt: "sorted_keys key (locs l @ a # locs r)" using Node.prems(2) x by simp
  consider "key e < key a" | "key a < key e" | "key a = key e" by force
  then show ?case
  proof cases
    case 1
    with Node.IH(1) [of "LeftOf a c r # C" "Some a"] Node.prems x key reads nfind_key_sides(1) [OF srt, of e]
    show ?thesis by (simp add: rb_nfind_from.simps [of _ _ _ "Some a"] split: option.split)
  next
    case 2
    with Node.IH(2) [of "RightOf l a c # C"] Node.prems x key reads nfind_key_sides(2) [OF srt 2]
    show ?thesis by (simp add: rb_nfind_from.simps [of _ _ _ "Some a"])
  next
    case 3
    with key x nfind_key_sides(1,3) [OF srt, of e] show ?thesis
      by (simp add: rb_nfind_from.simps [of _ _ _ "Some a"])
  qed
qed

lemma rb_set_search:
  assumes "rb_set cmp key s xs"
  shows RB_FIND_correct: "RB_FIND cmp (Some e) s = Some (find_key key e xs)"
    and RB_NFIND_correct: "RB_NFIND cmp (Some e) s = Some (nfind_key key e xs)"
proof -
  from assms obtain t where t: "cmp_agrees cmp key" "sorted_keys key (locs t)" "rb_ok s t"
    "xs = locs t" "rbh_root s = root_ptr t" by (elim rb_setE)
  with rb_find_from_ok [OF t(1), of s "[]" t e] rb_nfind_from_ok [OF t(1), of s "[]" t e None]
  show "RB_FIND cmp (Some e) s = Some (find_key key e xs)"
    "RB_NFIND cmp (Some e) s = Some (nfind_key key e xs)"
    by (simp_all add: RB_FIND_def RB_NFIND_def split: option.split)
qed

section \<open>Extremes\<close>

lemma rb_minmax_from_ok:
  "rb_ok s (plug C t) \<Longrightarrow> rb_minmax_from val s (root_ptr t) p =
     Some (if t = Leaf then p else Some (if val < 0 then hd (locs t) else last (locs t)))"
proof (induction t arbitrary: C p)
  case Leaf
  show ?case by (simp add: rb_minmax_from.simps)
next
  case (Node l x r)
  obtain a c where x: "x = (a, c)" by (cases x)
  note reads = rb_read [OF Node.prems [unfolded x]]
  show ?case
  proof (cases "val < 0")
    case True
    with Node.IH(1) [of "LeftOf a c r # C" "Some a"] Node.prems x reads show ?thesis
      by (cases l) (simp_all add: rb_minmax_from.simps [of _ _ "Some a"] hd_append)
  next
    case False
    with Node.IH(2) [of "RightOf l a c # C" "Some a"] Node.prems x reads show ?thesis
      by (cases r) (simp_all add: rb_minmax_from.simps [of _ _ "Some a"] last_append)
  qed
qed

section \<open>Successors and predecessors\<close>

definition next_of :: "loc list \<Rightarrow> ptr" where
  "next_of zs = (case zs of [] \<Rightarrow> None | z # _ \<Rightarrow> Some z)"

lemma next_of_simps [simp]: "next_of [] = None" "next_of (z # zs) = Some z"
  by (simp_all add: next_of_def)

lemma next_of_append: "next_of (xs @ a # ys) = next_of (xs @ [a])"
  by (cases xs) simp_all

locale rb_walk = rb_side +
  fixes nearmost :: "rb_st \<Rightarrow> ptr \<Rightarrow> ptr option"
    and climb :: "rb_st \<Rightarrow> ptr \<Rightarrow> ptr option"
    and step :: "ptr \<Rightarrow> rb_st \<Rightarrow> ptr option"
    and ord :: "rbt \<Rightarrow> loc list"
    and after :: "frame list \<Rightarrow> loc list"
  assumes nearmost: "nearmost s elm = do {
      l \<leftarrow> near s elm; if l \<noteq> None then nearmost s l else Some elm }"
    and climb: "climb s elm = do {
      p \<leftarrow> RB_PARENT s elm;
      if p = None then Some elm
      else do { pf \<leftarrow> far s p; if elm = pf then climb s p else Some elm } }"
    and step: "step elm s = do {
      f \<leftarrow> far s elm;
      if f \<noteq> None then nearmost s f
      else do {
        p \<leftarrow> RB_PARENT s elm;
        at_near \<leftarrow> (if p \<noteq> None then do { pn \<leftarrow> near s p; Some (elm = pn) } else Some False);
        if at_near then Some p else do { elm \<leftarrow> climb s elm; RB_PARENT s elm } } }"
    and ord_Leaf: "ord Leaf = []"
    and ord_mk: "ord (mk l (a, c) r) = ord l @ a # ord r"
    and after_Nil: "after [] = []"
    and after_nearf: "after (nearf a c r # C) = a # ord r @ after C"
    and after_farf: "after (farf l a c # C) = after C"
    and frame_cases: "(\<exists>a c r. f = nearf a c r) \<or> (\<exists>l a c. f = farf l a c)"
    and ctx_ptr_nearf: "ctx_ptr (nearf a c r # C) = Some a"
    and ctx_ptr_farf: "ctx_ptr (farf l a c # C) = Some a"
begin

lemma nearmost_ok:
  "rb_ok s (plug C t) \<Longrightarrow> t \<noteq> Leaf \<Longrightarrow> nearmost s (root_ptr t) = Some (next_of (ord t))"
proof (induction "size t" arbitrary: t C rule: less_induct)
  case less
  then obtain l a c r where t: "t = mk l (a, c) r" using mk_cases by blast
  note reads = read_mk [OF less.prems(1) [unfolded t]]
  show ?case
  proof (cases "l = Leaf")
    case True
    with reads t show ?thesis by (simp add: nearmost [of s "Some a"] ptr_mk ord_mk ord_Leaf next_of_def)
  next
    case False
    have "size l < size t" using size_mk t by simp
    moreover have "rb_ok s (plug (nearf a c r # C) l)" using less.prems t by (simp add: plug_nearf)
    ultimately have "nearmost s (root_ptr l) = Some (next_of (ord l))" using less.hyps False by blast
    moreover have "ord l \<noteq> []" using False mk_cases [of l] by (auto simp: ord_mk)
    ultimately show ?thesis
      using reads t False by (auto simp: nearmost [of s "Some a"] ptr_mk ord_mk next_of_def split: list.split)
  qed
qed

lemma climb_ok:
  "rb_ok s (plug C t) \<Longrightarrow> t \<noteq> Leaf \<Longrightarrow> \<exists>C' t'. plug C' t' = plug C t \<and> t' \<noteq> Leaf \<and>
     climb s (root_ptr t) = Some (root_ptr t') \<and> next_of (after C) = ctx_ptr C'"
proof (induction C arbitrary: t)
  case Nil
  then obtain l a c r where t: "t = mk l (a, c) r" using mk_cases by blast
  with Nil read_mk [of s "[]"] have "climb s (root_ptr t) = Some (root_ptr t)"
    by (simp add: climb [of s "Some a"] ptr_mk)
  with Nil show ?case by (intro exI [of _ "[]"] exI [of _ t]) (simp add: next_of_def after_Nil)
next
  case (Cons f C)
  then obtain l a c r where t: "t = mk l (a, c) r" using mk_cases by blast
  have par: "RB_PARENT s (Some a) = Some (ctx_ptr (f # C))"
    using read_mk Cons.prems(1) unfolding t by blast
  from frame_cases [of f] show ?case
  proof (elim disjE exE)
    fix b d u
    assume f: "f = nearf b d u"
    with Cons.prems have ok: "rb_ok s (plug C (mk t (b, d) u))" by (simp add: plug_nearf)
    have "root_ptr u \<noteq> Some a"
      using root_ptr_neq [OF rb_ok_disjoint [OF ok]] t Cons.prems(2) by (simp add: ptr_mk)
    with read_mk [OF ok] par f t have "climb s (root_ptr t) = Some (root_ptr t)"
      by (simp add: climb [of s "Some a"] ptr_mk ctx_ptr_nearf)
    with f Cons.prems show ?thesis
      by (intro exI [of _ "f # C"] exI [of _ t]) (simp add: next_of_def after_nearf ctx_ptr_nearf)
  next
    fix u b d
    assume f: "f = farf u b d"
    with Cons.prems have ok: "rb_ok s (plug C (mk u (b, d) t))" by (simp add: plug_farf)
    with read_mk [OF ok] par f t have "climb s (root_ptr t) = climb s (Some b)"
      by (simp add: climb [of s "Some a"] ptr_mk ctx_ptr_farf)
    moreover have "mk u (b, d) t \<noteq> Leaf" using ptr_mk [of u b d t] by auto
    ultimately show ?thesis using Cons.IH [OF ok] f by (simp add: after_farf ptr_mk plug_farf)
  qed
qed

lemma step_at:
  assumes ok: "rb_ok s (plug C (mk l (a, c) r))"
  shows "step (Some a) s = Some (next_of (ord r @ after C))"
proof (cases "r = Leaf")
  case False
  have "rb_ok s (plug (farf l a c # C) r)" using ok by (simp add: plug_farf)
  moreover have "ord r \<noteq> []" using False mk_cases [of r] by (auto simp: ord_mk)
  ultimately show ?thesis
    using nearmost_ok [of s _ r] read_mk [OF ok] False
    by (auto simp: step [of "Some a"] next_of_def split: list.split)
next
  case True
  have ne: "mk l (a, c) r \<noteq> Leaf" using ptr_mk [of l a c r] by auto
  with climb_ok [OF ok] obtain C' t' where
    eq: "plug C' t' = plug C (mk l (a, c) r)" and t': "t' \<noteq> Leaf" and
    cl: "climb s (Some a) = Some (root_ptr t')" and nx: "next_of (after C) = ctx_ptr C'"
    by (auto simp: ptr_mk)
  have up: "RB_PARENT s (root_ptr t') = Some (next_of (after C))"
    using ok t' nx unfolding eq [symmetric] by (cases t' rule: root_ptr.cases) (auto simp: rb_read)
  show ?thesis
  proof (cases C)
    case Nil
    with read_mk [OF ok] True cl up show ?thesis by (simp add: step [of "Some a"] ord_Leaf)
  next
    case (Cons f C1)
    from frame_cases [of f] show ?thesis
    proof (elim disjE exE)
      fix b d u
      assume f: "f = nearf b d u"
      with ok Cons have "rb_ok s (plug C1 (mk (mk l (a, c) r) (b, d) u))" by (simp add: plug_nearf)
      from read_mk [OF this] read_mk [OF ok] f Cons True show ?thesis
        by (simp add: step [of "Some a"] ord_Leaf after_nearf next_of_def ctx_ptr_nearf ptr_mk)
    next
      fix u b d
      assume f: "f = farf u b d"
      with ok Cons have okb: "rb_ok s (plug C1 (mk u (b, d) (mk l (a, c) r)))" by (simp add: plug_farf)
      have "root_ptr u \<noteq> Some a"
        using root_ptr_neq [OF _ ne, of u] rb_ok_disjoint [OF okb] by (simp add: Int_commute ptr_mk)
      with read_mk [OF okb] read_mk [OF ok] f Cons True cl up show ?thesis
        by (simp add: step [of "Some a"] ord_Leaf ctx_ptr_farf)
    qed
  qed
qed

end

interpretation fwd: rb_walk Node LeftOf RightOf RB_LEFT RB_RIGHT RB_ROTATE_LEFT RB_ROTATE_RIGHT
  rb_leftmost rb_climb_right RB_NEXT locs "\<lambda>C. map fst (behind C)"
proof unfold_locales
  fix f :: frame
  show "(\<exists>a c r. f = LeftOf a c r) \<or> (\<exists>l a c. f = RightOf l a c)" by (cases f) auto
next
  fix s elm
  show "rb_leftmost s elm = do { l \<leftarrow> RB_LEFT s elm; if l \<noteq> None then rb_leftmost s l else Some elm }"
    by (rule rb_leftmost.simps)
qed (simp_all add: rb_climb_right.simps [symmetric] RB_NEXT_def)

interpretation bwd: rb_walk "\<lambda>l x r. Node r x l" "\<lambda>a c r. RightOf r a c" "\<lambda>l a c. LeftOf a c l"
  RB_RIGHT RB_LEFT RB_ROTATE_RIGHT RB_ROTATE_LEFT
  rb_rightmost rb_climb_left RB_PREV "\<lambda>t. rev (locs t)" "\<lambda>C. rev (map fst (before C))"
proof unfold_locales
  fix f :: frame
  show "(\<exists>a c r. f = RightOf r a c) \<or> (\<exists>l a c. f = LeftOf a c l)" by (cases f) auto
next
  fix s elm
  show "rb_rightmost s elm = do { l \<leftarrow> RB_RIGHT s elm; if l \<noteq> None then rb_rightmost s l else Some elm }"
    by (rule rb_rightmost.simps)
qed (simp_all add: rb_climb_left.simps [symmetric] RB_PREV_def)

lemma rb_set_step:
  assumes set: "rb_set cmp key s (ys @ e # zs)"
  shows RB_NEXT_correct: "RB_NEXT (Some e) s = Some (next_of zs)"
    and RB_PREV_correct: "RB_PREV (Some e) s = Some (next_of (rev ys))"
proof -
  from set obtain t where t: "rb_ok s t" "ys @ e # zs = locs t" "sorted_keys key (locs t)"
    by (elim rb_setE)
  have "e \<in> set (locs t)" unfolding t(2) [symmetric] by simp
  then obtain C l c r where tC: "t = plug C (Node l (e, c) r)" using rb_zip by blast
  have eq: "ys @ e # zs = (map fst (before C) @ locs l) @ e # locs r @ map fst (behind C)"
    using t(2) tC by simp
  have "distinct (ys @ e # zs)" unfolding t(2) by (rule sorted_keys_distinct [OF t(3)])
  from distinct_split [OF this eq]
  have "ys = map fst (before C) @ locs l" "zs = locs r @ map fst (behind C)" by auto
  then show "RB_NEXT (Some e) s = Some (next_of zs)" "RB_PREV (Some e) s = Some (next_of (rev ys))"
    using fwd.step_at [of s C l e c r] bwd.step_at [of s C l e c r] t(1) tC by simp_all
qed

lemma RB_MINMAX_correct:
  assumes "rb_set cmp key s xs"
  shows "RB_MIN s = Some (next_of xs)" "RB_MAX s = Some (next_of (rev xs))"
proof -
  from assms obtain t where t: "rb_ok s t" "xs = locs t" "rbh_root s = root_ptr t" by (elim rb_setE)
  have "xs = [] \<longleftrightarrow> t = Leaf" using t(2) by (cases t) auto
  with rb_minmax_from_ok [of s "[]" t] t show "RB_MIN s = Some (next_of xs)" "RB_MAX s = Some (next_of (rev xs))"
    by (auto simp: RB_MIN_def RB_MAX_def RB_MINMAX_def RB_NEGINF_def RB_INF_def next_of_def
      hd_rev [symmetric] split: list.split)
qed

section \<open>Iteration\<close>

text \<open>A body that records the elements it is given.\<close>

definition record_body :: "loc list body" where
  "record_body a = (\<lambda>(s, seen). Some (s, seen @ [a]))"

lemma record_body_apply [simp]: "record_body a (s, seen) = Some (s, seen @ [a])"
  by (simp add: record_body_def)

lemma foreach_simps [simp]:
  "foreach_loop step body st None = Some st"
  "foreach_loop step body st (Some a) =
     do { st \<leftarrow> body a st; y \<leftarrow> step (Some a) (fst st); foreach_loop step body st y }"
  "foreach_safe_loop step body st None = Some st"
  "foreach_safe_loop step body st (Some a) =
     do { y \<leftarrow> step (Some a) (fst st); st \<leftarrow> body a st; foreach_safe_loop step body st y }"
  by (simp_all add: foreach_loop.simps [of _ _ st] foreach_safe_loop.simps [of _ _ st])

lemma foreach_loop_list:
  assumes step: "\<And>ys a zs. xs = ys @ a # zs \<Longrightarrow> step (Some a) s = Some (next_of zs)"
  shows "xs = ys @ zs \<Longrightarrow> foreach_loop step record_body (s, seen) (next_of zs) = Some (s, seen @ zs)"
proof (induction zs arbitrary: ys seen)
  case Nil
  show ?case by simp
next
  case (Cons z zs)
  then have "step (Some z) s = Some (next_of zs)" using step by blast
  with Cons.IH [of "ys @ [z]" "seen @ [z]"] Cons.prems show ?case
    by simp
qed

lemma foreach_safe_loop_list:
  assumes step: "\<And>ys a zs. xs = ys @ a # zs \<Longrightarrow> step (Some a) s = Some (next_of zs)"
  shows "xs = ys @ zs \<Longrightarrow> foreach_safe_loop step record_body (s, seen) (next_of zs) = Some (s, seen @ zs)"
proof (induction zs arbitrary: ys seen)
  case Nil
  show ?case by simp
next
  case (Cons z zs)
  then have "step (Some z) s = Some (next_of zs)" using step by blast
  with Cons.IH [of "ys @ [z]" "seen @ [z]"] Cons.prems show ?case
    by simp
qed

lemma rb_set_step_rev:
  assumes set: "rb_set cmp key s xs" and xs: "rev xs = ys @ a # zs"
  shows "RB_PREV (Some a) s = Some (next_of zs)"
proof -
  have "xs = rev zs @ a # rev ys" using arg_cong [OF xs, of rev] by simp
  with RB_PREV_correct set show ?thesis by fastforce
qed

lemma RB_FOREACH_correct:
  assumes set: "rb_set cmp key s xs"
  shows "RB_FOREACH record_body (s, []) = Some (s, xs)"
    "RB_FOREACH_SAFE record_body (s, []) = Some (s, xs)"
    "RB_FOREACH_REVERSE record_body (s, []) = Some (s, rev xs)"
    "RB_FOREACH_REVERSE_SAFE record_body (s, []) = Some (s, rev xs)"
proof -
  have fw: "\<And>ys a zs. xs = ys @ a # zs \<Longrightarrow> RB_NEXT (Some a) s = Some (next_of zs)"
    using RB_NEXT_correct set by blast
  note bw = rb_set_step_rev [OF set]
  show "RB_FOREACH record_body (s, []) = Some (s, xs)"
    "RB_FOREACH_SAFE record_body (s, []) = Some (s, xs)"
    "RB_FOREACH_REVERSE record_body (s, []) = Some (s, rev xs)"
    "RB_FOREACH_REVERSE_SAFE record_body (s, []) = Some (s, rev xs)"
    using foreach_loop_list [of xs RB_NEXT s "[]" xs "[]", OF fw]
      foreach_safe_loop_list [of xs RB_NEXT s "[]" xs "[]", OF fw]
      foreach_loop_list [of "rev xs" RB_PREV s "[]" "rev xs" "[]", OF bw]
      foreach_safe_loop_list [of "rev xs" RB_PREV s "[]" "rev xs" "[]", OF bw]
    by (simp_all add: RB_FOREACH_def RB_FOREACH_SAFE_def RB_FOREACH_REVERSE_def
      RB_FOREACH_REVERSE_SAFE_def RB_MINMAX_correct [OF set])
qed

text \<open>The \<open>SAFE\<close> form allows the body to remove the element it is at.\<close>

definition remove_body :: "loc list body" where
  "remove_body a = (\<lambda>(s, seen). do { (s, _) \<leftarrow> RB_REMOVE (Some a) s; Some (s, seen @ [a]) })"

lemma remove_body_apply:
  "remove_body a (s, seen) = do { (s, _) \<leftarrow> RB_REMOVE (Some a) s; Some (s, seen @ [a]) }"
  by (simp add: remove_body_def)

lemma foreach_safe_remove:
  "rb_set cmp key s xs \<Longrightarrow> returns (foreach_safe_loop RB_NEXT remove_body (s, seen) (next_of xs))
     (\<lambda>(s', seen'). rb_set cmp key s' [] \<and> seen' = seen @ xs)"
proof (induction xs arbitrary: s seen)
  case Nil
  then show ?case by simp
next
  case (Cons x xs)
  have step: "RB_NEXT (Some x) s = Some (next_of xs)" using RB_NEXT_correct [of cmp key s "[]"] Cons.prems by simp
  have "sorted_keys key (x # xs)" using Cons.prems by (simp add: rb_set_def)
  then have "del_key key x (x # xs) = xs" using del_key_split [of "[]" key x xs x] by auto
  with RB_REMOVE_correct [OF Cons.prems, of x] obtain s1 where
    s1: "RB_REMOVE (Some x) s = Some (s1, Some x)" "rb_set cmp key s1 xs"
    by (auto simp: returns_iff)
  from Cons.IH [OF s1(2), of "seen @ [x]"] s1(1) step show ?case
    by (simp add: remove_body_apply)
qed

section \<open>Properties\<close>

text \<open>
  A concrete tree for the witnesses: 3 is the black root, 1 and 5 are its red children, and 2 is
  allocated but not linked.
\<close>

definition rb_135 :: rb_st where
  "rb_135 = \<lparr>rbh_root = Some (Obj 3),
     rmem = [Obj 1 \<mapsto> \<lparr>rbe_left = None, rbe_right = None, rbe_parent = Some (Obj 3), rbe_color = RB_RED\<rparr>,
             Obj 2 \<mapsto> \<lparr>rbe_left = None, rbe_right = None, rbe_parent = None, rbe_color = 0\<rparr>,
             Obj 3 \<mapsto> \<lparr>rbe_left = Some (Obj 1), rbe_right = Some (Obj 5), rbe_parent = None, rbe_color = RB_BLACK\<rparr>,
             Obj 5 \<mapsto> \<lparr>rbe_left = None, rbe_right = None, rbe_parent = Some (Obj 3), rbe_color = RB_RED\<rparr>]\<rparr>"

definition rb_135_tree :: rbt where
  "rb_135_tree = Node (Node Leaf (Obj 1, RB_RED) Leaf) (Obj 3, RB_BLACK) (Node Leaf (Obj 5, RB_RED) Leaf)"

lemma rb_135_ok: "rb_ok rb_135 rb_135_tree" "rb_wf rb_135_tree" "locs rb_135_tree = [Obj 1, Obj 3, Obj 5]"
  by (auto simp: rb_ok_def rb_135_def rb_wf_def rb_135_tree_def intro: exI [of _ 1])

lemma rb_135_set: "rb_set num_cmp num_key rb_135 [Obj 1, Obj 3, Obj 5]"
  unfolding rb_set_def using rb_135_ok by (auto simp: num_cmp_agrees)



text \<open>
  C8. \<open>RB_REMOVE\<close> of a linked element ends, returns it, and leaves a red-black tree of the other
  elements in order; the removed object stays allocated and no memory outside the tree is touched.
\<close>

theorem rb_remove_correct:
  assumes "rb_set cmp key s xs" "e \<in> set xs"
  shows "returns (RB_REMOVE (Some e) s) (\<lambda>(s', p).
    p = Some e \<and> rb_set cmp key s' (del_key key e xs) \<and>
    same_outside (set xs) (rmem s) (rmem s') \<and> rmem s' e \<noteq> None)"
  by (rule RB_REMOVE_correct [OF assms])

theorem rb_remove_correct_witness:
  "returns (RB_REMOVE (Some (Obj 3)) rb_135) (\<lambda>(s', p).
    p = Some (Obj 3) \<and> rb_set num_cmp num_key s' [Obj 1, Obj 5])"
  using rb_remove_correct [OF rb_135_set, of "Obj 3"]
  by (auto elim!: returns_mono simp: del_key_def)

text \<open>
  C9. \<open>RB_FIND\<close> returns the element with the key of its argument, and \<open>RB_NFIND\<close> the first
  element that is not smaller, or \<open>NULL\<close> when there is none.
\<close>

theorem rb_find_correct:
  assumes "rb_set cmp key s xs"
  shows "RB_FIND cmp (Some e) s = Some (find_key key e xs) \<and>
    RB_NFIND cmp (Some e) s = Some (nfind_key key e xs)"
  using RB_FIND_correct [OF assms] RB_NFIND_correct [OF assms] by simp

theorem rb_find_correct_witness:
  "RB_FIND num_cmp (Some (Obj 4)) rb_135 = Some None \<and>
   RB_NFIND num_cmp (Some (Obj 4)) rb_135 = Some (Some (Obj 5))"
  using rb_find_correct [OF rb_135_set, of "Obj 4"] by (simp add: find_key_def nfind_key_def)

text \<open>
  C10. \<open>RB_NEXT\<close> and \<open>RB_PREV\<close> return the neighbours of an element in the order, \<open>RB_MIN\<close> and
  \<open>RB_MAX\<close> the ends of the order, \<open>NULL\<close> past the ends.
\<close>

theorem rb_neighbours_correct:
  assumes "rb_set cmp key s (ys @ e # zs)"
  shows "RB_NEXT (Some e) s = Some (next_of zs) \<and> RB_PREV (Some e) s = Some (next_of (rev ys)) \<and>
    RB_MIN s = Some (next_of (ys @ [e])) \<and> RB_MAX s = Some (next_of (rev zs @ [e]))"
  using rb_set_step [OF assms] RB_MINMAX_correct [OF assms]
    next_of_append [of ys e zs] next_of_append [of "rev zs" e "rev ys"] by simp

theorem rb_neighbours_correct_witness:
  "RB_NEXT (Some (Obj 3)) rb_135 = Some (Some (Obj 5)) \<and>
   RB_PREV (Some (Obj 3)) rb_135 = Some (Some (Obj 1)) \<and>
   RB_MIN rb_135 = Some (Some (Obj 1)) \<and> RB_MAX rb_135 = Some (Some (Obj 5))"
  using rb_neighbours_correct [of num_cmp num_key rb_135 "[Obj 1]" "Obj 3" "[Obj 5]"] rb_135_set by simp

text \<open>
  C11. The iteration macros end and visit every element once, \<open>RB_FOREACH\<close> in ascending and
  \<open>RB_FOREACH_REVERSE\<close> in descending order, and so do their \<open>SAFE\<close> forms.
\<close>

theorem rb_foreach_correct:
  assumes "rb_set cmp key s xs"
  shows "RB_FOREACH record_body (s, []) = Some (s, xs) \<and>
    RB_FOREACH_SAFE record_body (s, []) = Some (s, xs) \<and>
    RB_FOREACH_REVERSE record_body (s, []) = Some (s, rev xs) \<and>
    RB_FOREACH_REVERSE_SAFE record_body (s, []) = Some (s, rev xs)"
  using RB_FOREACH_correct [OF assms] by blast

theorem rb_foreach_correct_witness:
  "RB_FOREACH record_body (rb_135, []) = Some (rb_135, [Obj 1, Obj 3, Obj 5]) \<and>
   RB_FOREACH_REVERSE record_body (rb_135, []) = Some (rb_135, [Obj 5, Obj 3, Obj 1])"
  using rb_foreach_correct [OF rb_135_set] by simp

text \<open>
  C12. The body of \<open>RB_FOREACH_SAFE\<close> may remove the element it is at: a loop that does so visits
  every element in order and ends with the empty tree.
\<close>

theorem rb_foreach_safe_removes_all:
  assumes "rb_set cmp key s xs"
  shows "returns (RB_FOREACH_SAFE remove_body (s, [])) (\<lambda>(s', seen).
    rb_set cmp key s' [] \<and> seen = xs)"
  using foreach_safe_remove [OF assms, of "[]"] RB_MINMAX_correct(1) [OF assms]
  by (simp add: RB_FOREACH_SAFE_def)

theorem rb_foreach_safe_removes_all_witness:
  "returns (RB_FOREACH_SAFE remove_body (rb_135, [])) (\<lambda>(s', seen).
    rb_set num_cmp num_key s' [] \<and> seen = [Obj 1, Obj 3, Obj 5])"
  by (rule rb_foreach_safe_removes_all [OF rb_135_set])



end
