(* ===== verification/Uv_Containers.thy ===== *)
theory Uv_Containers
  imports Uv_Splay_Correct Uv_RB_Correct
begin

text \<open>
  What both tree families of \<open>tree.h\<close> promise to a client: an ordered index of objects by key. The
  contract is a locale over the operations a client calls; a client program is a sequence of calls,
  and its results are those of the specification on ordered lists. Both families are interpreted,
  so they are interchangeable.
\<close>

section \<open>Client programs\<close>

datatype call = Insert loc | Remove loc | Find loc

text \<open>The calls of a client, with the pointer each one returns.\<close>

fun run_calls ::
  "(loc \<Rightarrow> 's \<Rightarrow> ('s \<times> ptr) option) \<Rightarrow> (loc \<Rightarrow> 's \<Rightarrow> ('s \<times> ptr) option) \<Rightarrow>
   (loc \<Rightarrow> 's \<Rightarrow> ('s \<times> ptr) option) \<Rightarrow> call list \<Rightarrow> 's \<Rightarrow> ('s \<times> ptr list) option" where
  "run_calls ins rem look [] s = Some (s, [])"
| "run_calls ins rem look (c # cs) s = do {
     (s, p) \<leftarrow> (case c of Insert e \<Rightarrow> ins e s | Remove e \<Rightarrow> rem e s | Find e \<Rightarrow> look e s);
     (s, ps) \<leftarrow> run_calls ins rem look cs s;
     Some (s, p # ps) }"

text \<open>
  The specification on the ordered list of the elements. A call is allowed when the object to
  insert is allocated and not linked, and the object to remove is linked.
\<close>

fun spec_call :: "(loc \<Rightarrow> 'k::linorder) \<Rightarrow> call \<Rightarrow> loc list \<Rightarrow> loc list \<times> ptr" where
  "spec_call key (Insert e) xs = (add_key key e xs, find_key key e xs)"
| "spec_call key (Remove e) xs = (del_key key e xs, Some e)"
| "spec_call key (Find e) xs = (xs, find_key key e xs)"

fun allowed :: "loc set \<Rightarrow> loc list \<Rightarrow> call \<Rightarrow> bool" where
  "allowed live xs (Insert e) \<longleftrightarrow> e \<in> live \<and> e \<notin> set xs"
| "allowed live xs (Remove e) \<longleftrightarrow> e \<in> set xs"
| "allowed live xs (Find e) \<longleftrightarrow> True"

fun spec_calls :: "(loc \<Rightarrow> 'k::linorder) \<Rightarrow> call list \<Rightarrow> loc list \<Rightarrow> loc list \<times> ptr list" where
  "spec_calls key [] xs = (xs, [])"
| "spec_calls key (c # cs) xs =
     (let (ys, p) = spec_call key c xs; (zs, ps) = spec_calls key cs ys in (zs, p # ps))"

fun all_allowed :: "(loc \<Rightarrow> 'k::linorder) \<Rightarrow> loc set \<Rightarrow> call list \<Rightarrow> loc list \<Rightarrow> bool" where
  "all_allowed key live [] xs \<longleftrightarrow> True"
| "all_allowed key live (c # cs) xs \<longleftrightarrow>
     allowed live xs c \<and> all_allowed key live cs (fst (spec_call key c xs))"

section \<open>The contract\<close>

locale ordered_index =
  fixes key :: "loc \<Rightarrow> 'k::linorder"
    and rep :: "'s \<Rightarrow> loc list \<Rightarrow> bool"
    and live :: "'s \<Rightarrow> loc set"
    and ins :: "loc \<Rightarrow> 's \<Rightarrow> ('s \<times> ptr) option"
    and rem :: "loc \<Rightarrow> 's \<Rightarrow> ('s \<times> ptr) option"
    and look :: "loc \<Rightarrow> 's \<Rightarrow> ('s \<times> ptr) option"
  assumes ins_law: "rep s xs \<Longrightarrow> e \<in> live s \<Longrightarrow> e \<notin> set xs \<Longrightarrow> returns (ins e s) (\<lambda>(s', p).
      p = find_key key e xs \<and> rep s' (add_key key e xs) \<and>
      live s \<subseteq> live s')"
    and rem_law: "rep s xs \<Longrightarrow> e \<in> set xs \<Longrightarrow> returns (rem e s) (\<lambda>(s', p).
      p = Some e \<and> rep s' (del_key key e xs) \<and> live s \<subseteq> live s')"
    and look_law: "rep s xs \<Longrightarrow> returns (look e s) (\<lambda>(s', p).
      p = find_key key e xs \<and> rep s' xs \<and> live s \<subseteq> live s')"
begin

lemma call_refines:
  assumes "rep s xs" "allowed A xs c" "A \<subseteq> live s"
  shows "returns (case c of Insert e \<Rightarrow> ins e s | Remove e \<Rightarrow> rem e s | Find e \<Rightarrow> look e s)
    (\<lambda>(s', p). (\<exists>ys. spec_call key c xs = (ys, p) \<and> rep s' ys) \<and> A \<subseteq> live s')"
proof (cases c)
  case (Insert e)
  with assms have "e \<in> live s" "e \<notin> set xs" by auto
  with ins_law [of s xs e] assms Insert show ?thesis by (auto elim!: returns_mono)
next
  case (Remove e)
  with assms rem_law [of s xs e] show ?thesis by (auto elim!: returns_mono)
next
  case (Find e)
  with assms look_law [of s xs e] show ?thesis by (auto elim!: returns_mono)
qed

lemma calls_refine:
  "rep s xs \<Longrightarrow> all_allowed key A cs xs \<Longrightarrow> A \<subseteq> live s \<Longrightarrow>
     returns (run_calls ins rem look cs s) (\<lambda>(s', ps).
       rep s' (fst (spec_calls key cs xs)) \<and> ps = snd (spec_calls key cs xs))"
proof (induction cs arbitrary: s xs)
  case (Cons c cs)
  from call_refines [of s xs A c] Cons.prems obtain s1 p ys where
    s1: "(case c of Insert e \<Rightarrow> ins e s | Remove e \<Rightarrow> rem e s | Find e \<Rightarrow> look e s) = Some (s1, p)"
    and ys: "spec_call key c xs = (ys, p)" "rep s1 ys" "A \<subseteq> live s1"
    by (auto simp: returns_iff)
  from Cons.IH [OF ys(2) _ ys(3)] Cons.prems ys(1) s1 show ?case
    by (auto simp: split_beta elim!: returns_mono)
qed simp

end

section \<open>The two families keep the contract\<close>

text \<open>The comparator is one that agrees with the keys; the tree's own lists say so.\<close>

lemma live_mono:
  assumes "same_outside A m m'" "\<And>x. x \<in> A \<Longrightarrow> m' x \<noteq> None"
  shows "dom m \<subseteq> dom m'"
proof
  fix x
  assume "x \<in> dom m"
  then show "x \<in> dom m'" using assms(2) [of x] same_outsideD [OF assms(1), of x] by (cases "x \<in> A") auto
qed

lemma rb_at_live: "rb_at m par p t \<Longrightarrow> x \<in> set (locs t) \<Longrightarrow> m x \<noteq> None"
proof (induction t arbitrary: par p)
  case (Node l y r)
  obtain a c where "y = (a, c)" by (cases y)
  with Node show ?case by (simp split: option.split_asm) blast
qed simp

lemma rb_set_live: "rb_set cmp key s xs \<Longrightarrow> x \<in> set xs \<Longrightarrow> rmem s x \<noteq> None"
  unfolding rb_set_def rb_ok_def using rb_at_live by blast

definition splay_live :: "splay_st \<Rightarrow> loc set" where
  "splay_live s = dom (smem s) - {Local_node}"

lemma splay_live_mono:
  "same_outside A (smem s) (smem s') \<Longrightarrow> (\<And>x. x \<in> A \<Longrightarrow> smem s' x \<noteq> None) \<Longrightarrow> splay_live s \<subseteq> splay_live s'"
  using live_mono unfolding splay_live_def by blast

lemma splay_set_mono:
  "splay_set cmp key s' ys \<Longrightarrow> same_outside (set ys) (smem s) (smem s') \<Longrightarrow> splay_live s \<subseteq> splay_live s'"
  by (rule splay_live_mono) (auto dest: splay_set_live)

lemma rb_set_mono:
  "rb_set cmp key s' ys \<Longrightarrow> same_outside (set ys) (rmem s) (rmem s') \<Longrightarrow> dom (rmem s) \<subseteq> dom (rmem s')"
  by (rule live_mono) (auto dest: rb_set_live)

interpretation splay_index: ordered_index key "splay_set cmp key" splay_live
  "\<lambda>e. SPLAY_INSERT cmp (Some e)" "\<lambda>e. SPLAY_REMOVE cmp (Some e)" "\<lambda>e. SPLAY_FIND cmp (Some e)"
  for cmp and key :: "loc \<Rightarrow> 'k::linorder"
proof
  fix s xs e
  assume set: "splay_set cmp key s xs"
  show "returns (SPLAY_FIND cmp (Some e) s)
      (\<lambda>(s', p). p = find_key key e xs \<and> splay_set cmp key s' xs \<and> splay_live s \<subseteq> splay_live s')"
    by (rule returns_pair [OF SPLAY_FIND_correct [OF set]]) (use splay_set_mono in blast)
  show "returns (SPLAY_REMOVE cmp (Some e) s) (\<lambda>(s', p). p = Some e \<and>
      splay_set cmp key s' (del_key key e xs) \<and> splay_live s \<subseteq> splay_live s')" if "e \<in> set xs"
  proof (rule returns_pair [OF SPLAY_REMOVE_correct [OF set]], elim conjE, intro conjI)
    fix s' :: splay_st
    assume so: "same_outside (set xs) (smem s) (smem s')" and live: "\<forall>x\<in>set xs. smem s' x \<noteq> None"
    show "splay_live s \<subseteq> splay_live s'" by (rule splay_live_mono [OF so]) (use live in blast)
  qed (use that in \<open>auto simp: key_in_def\<close>)
  show "returns (SPLAY_INSERT cmp (Some e) s) (\<lambda>(s', p). p = find_key key e xs \<and>
      splay_set cmp key s' (add_key key e xs) \<and> splay_live s \<subseteq> splay_live s')"
    if e: "e \<in> splay_live s" "e \<notin> set xs"
  proof -
    from e obtain n where n: "smem s e = Some n" "e \<noteq> Local_node" by (auto simp: splay_live_def)
    show ?thesis
      by (rule returns_pair [OF SPLAY_INSERT_correct [OF set n e(2)]]) (use splay_set_mono in blast)
  qed
qed

interpretation rb_index: ordered_index key "rb_set cmp key" "\<lambda>s. dom (rmem s)"
  "\<lambda>e. RB_INSERT cmp (Some e)" "\<lambda>e. RB_REMOVE (Some e)"
  "\<lambda>e s. do { p \<leftarrow> RB_FIND cmp (Some e) s; Some (s, p) }"
  for cmp and key :: "loc \<Rightarrow> 'k::linorder"
proof
  fix s xs e
  assume set: "rb_set cmp key s xs"
  show "returns (do { p \<leftarrow> RB_FIND cmp (Some e) s; Some (s, p) })
      (\<lambda>(s', p). p = find_key key e xs \<and> rb_set cmp key s' xs \<and> dom (rmem s) \<subseteq> dom (rmem s'))"
    using RB_FIND_correct [OF set, of e] set by simp
  show "returns (RB_REMOVE (Some e) s) (\<lambda>(s', p). p = Some e \<and>
      rb_set cmp key s' (del_key key e xs) \<and> dom (rmem s) \<subseteq> dom (rmem s'))" if e: "e \<in> set xs"
  proof (rule returns_pair [OF RB_REMOVE_correct [OF set e]], elim conjE, intro conjI)
    fix s' :: rb_st
    assume so: "same_outside (set xs) (rmem s) (rmem s')" and e': "rmem s' e \<noteq> None"
      and set': "rb_set cmp key s' (del_key key e xs)"
    have "rmem s' x \<noteq> None" if "x \<in> set xs" for x
    proof (cases "x = e")
      case False
      have "sorted_keys key xs" using set by (simp add: rb_set_def)
      with False that e have "x \<in> set (del_key key e xs)"
        using sorted_keys_inj [of key xs x e] by (auto simp: del_key_def)
      with set' show ?thesis by (rule rb_set_live)
    qed (use e' in simp)
    with so show "dom (rmem s) \<subseteq> dom (rmem s')" by (rule live_mono)
  qed
  show "returns (RB_INSERT cmp (Some e) s) (\<lambda>(s', p). p = find_key key e xs \<and>
      rb_set cmp key s' (add_key key e xs) \<and> dom (rmem s) \<subseteq> dom (rmem s'))"
    if e: "e \<in> dom (rmem s)" "e \<notin> set xs"
  proof -
    from e obtain n where n: "rmem s e = Some n" by auto
    show ?thesis
      by (rule returns_pair [OF RB_INSERT_correct [OF set n e(2)]]) (use rb_set_mono in blast)
  qed
qed

section \<open>Properties\<close>



end
