(* ===== verification/Gc_Inline.thy ===== *)
theory Gc_Inline
  imports Calc_Prelude
begin

unbundle bit_operations_syntax

text \<open>
  The inline allocator of the collector's headers: granules and tiny free lists
  (\<open>gc/gc_tiny_fl.h\<close>) and the allocation macros on them (\<open>gc/gc_inline.h\<close>), with 64-bit words.
  The collector library itself is not part of the program: the functions the macros call
  (\<open>GC_generic_malloc_many\<close>, \<open>GC_malloc_kind\<close>, the out-of-memory function) are parameters.
\<close>

section \<open>Granules\<close>

text \<open>A configuration is the set of the macros that the compiler or the client defines.\<close>

type_synonym macros = "string set"

definition GC_GRANULE_BYTES :: "macros \<Rightarrow> 64 word" where
  "GC_GRANULE_BYTES D =
     (if ''__LP64__'' \<in> D \<or> ''_LP64'' \<in> D \<or> ''_WIN64'' \<in> D \<or> ''__s390x__'' \<in> D
         \<or> (''__x86_64__'' \<in> D \<and> ''__ILP32__'' \<notin> D)
         \<or> ''__alpha__'' \<in> D \<or> ''__powerpc64__'' \<in> D \<or> ''__arch64__'' \<in> D
      then 16 else 8)"

definition GC_GRANULE_WORDS :: "64 word" where
  "GC_GRANULE_WORDS = 2"

definition GC_WORDS_TO_GRANULES :: "64 word \<Rightarrow> 64 word" where
  "GC_WORDS_TO_GRANULES n = drop_bit 1 n"

definition GC_TINY_FREELISTS :: "macros \<Rightarrow> 64 word" where
  "GC_TINY_FREELISTS D = (if GC_GRANULE_BYTES D = 16 then 25 else 33)"

definition GC_RAW_BYTES_FROM_INDEX :: "macros \<Rightarrow> 64 word \<Rightarrow> 64 word" where
  "GC_RAW_BYTES_FROM_INDEX D i = i * GC_GRANULE_BYTES D"

definition GC_WORDS_TO_WHOLE_GRANULES :: "64 word \<Rightarrow> 64 word" where
  "GC_WORDS_TO_WHOLE_GRANULES n = GC_WORDS_TO_GRANULES (n + GC_GRANULE_WORDS - 1)"

section \<open>Inline allocation\<close>

text \<open>Object kinds.\<close>

definition GC_I_PTRFREE :: int where "GC_I_PTRFREE = 0"

definition GC_I_NORMAL :: int where "GC_I_NORMAL = 1"

text \<open>
  The memory is a map from word addresses to words; the array \<open>tiny_fl\<close> holds, for every number
  of granules, a free list head or a counter. The state of the collector is opaque.
\<close>

record 'g gc_st =
  tiny_fl :: "64 word \<Rightarrow> 64 word"
  heap :: "64 word \<rightharpoonup> 64 word"
  collector :: 'g

text \<open>
  The calls into the library: \<open>GC_generic_malloc_many(lb, k, result)\<close> stores a list of new
  objects in \<open>*result\<close>, here the entry of \<open>tiny_fl\<close> with the given index; \<open>GC_malloc_kind(lb, k)\<close>
  and the function that \<open>GC_get_oom_fn()\<close> returns yield a pointer.
\<close>

record 'g gc_lib =
  malloc_many :: "64 word \<Rightarrow> int \<Rightarrow> 64 word \<Rightarrow> 'g gc_st \<Rightarrow> 'g gc_st"
  malloc_kind :: "64 word \<Rightarrow> int \<Rightarrow> 'g gc_st \<Rightarrow> 'g gc_st \<times> 64 word"
  oom_fn :: "64 word \<Rightarrow> 'g gc_st \<Rightarrow> 'g gc_st \<times> 64 word"

definition GC_FAST_M_AO_STORE :: "64 word \<Rightarrow> 64 word \<Rightarrow> 'g gc_st \<Rightarrow> 'g gc_st" where
  "GC_FAST_M_AO_STORE my_fl nxt s = s\<lparr>tiny_fl := (tiny_fl s)(my_fl := nxt)\<rparr>"

text \<open>
  The loop of \<open>GC_FAST_MALLOC_GRANS\<close>, from the test of \<open>my_entry\<close> on. \<open>init\<close> is the macro's
  statement that runs on the new object; the prefetch, the write barrier and the assertions do not
  change the state.
\<close>

partial_function (option) fast_malloc_loop ::
  "macros \<Rightarrow> 'g gc_lib \<Rightarrow> 64 word \<Rightarrow> 64 word \<Rightarrow> int \<Rightarrow> ('g gc_st \<Rightarrow> 'g gc_st \<times> 64 word) \<Rightarrow>
   (64 word \<Rightarrow> 'g gc_st \<Rightarrow> 'g gc_st option) \<Rightarrow> 64 word \<Rightarrow> 'g gc_st \<Rightarrow> ('g gc_st \<times> 64 word) option" where
  "fast_malloc_loop D lib granules num_direct kind default_expr init my_entry s =
     (if num_direct + GC_TINY_FREELISTS D + 1 < my_entry then do {
        nxt \<leftarrow> heap s my_entry;
        s \<leftarrow> init my_entry (GC_FAST_M_AO_STORE granules nxt s);
        Some (s, my_entry) }
      else if sint my_entry - sint num_direct \<le> 0 \<and> my_entry \<noteq> 0 then
        Some (default_expr (GC_FAST_M_AO_STORE granules (my_entry + granules + 1) s))
      else let s = malloc_many lib
                 (if granules = 0 then GC_GRANULE_BYTES D else GC_RAW_BYTES_FROM_INDEX D granules)
                 kind granules s;
               my_entry = tiny_fl s granules
           in if my_entry = 0 then Some (oom_fn lib (granules * GC_GRANULE_BYTES D) s)
              else fast_malloc_loop D lib granules num_direct kind default_expr init my_entry s)"

definition GC_FAST_MALLOC_GRANS ::
  "macros \<Rightarrow> 'g gc_lib \<Rightarrow> 64 word \<Rightarrow> 64 word \<Rightarrow> int \<Rightarrow> ('g gc_st \<Rightarrow> 'g gc_st \<times> 64 word) \<Rightarrow>
   (64 word \<Rightarrow> 'g gc_st \<Rightarrow> 'g gc_st option) \<Rightarrow> 'g gc_st \<Rightarrow> ('g gc_st \<times> 64 word) option" where
  "GC_FAST_MALLOC_GRANS D lib granules num_direct kind default_expr init s =
     (if GC_TINY_FREELISTS D \<le> granules then Some (default_expr s)
      else fast_malloc_loop D lib granules num_direct kind default_expr init (tiny_fl s granules) s)"

definition GC_MALLOC_WORDS_KIND ::
  "macros \<Rightarrow> 'g gc_lib \<Rightarrow> 64 word \<Rightarrow> int \<Rightarrow> (64 word \<Rightarrow> 'g gc_st \<Rightarrow> 'g gc_st option) \<Rightarrow>
   'g gc_st \<Rightarrow> ('g gc_st \<times> 64 word) option" where
  "GC_MALLOC_WORDS_KIND D lib n kind init s =
     (let granules = GC_WORDS_TO_WHOLE_GRANULES n
      in GC_FAST_MALLOC_GRANS D lib granules 0 kind
           (malloc_kind lib (granules * GC_GRANULE_BYTES D) kind) init s)"

text \<open>\<open>*(void **)(p) = v\<close>.\<close>

definition store_word :: "64 word \<Rightarrow> 64 word \<Rightarrow> 'g gc_st \<Rightarrow> 'g gc_st option" where
  "store_word p v s = (if p \<in> dom (heap s) then Some (s\<lparr>heap := (heap s)(p \<mapsto> v)\<rparr>) else None)"

definition GC_MALLOC_WORDS :: "macros \<Rightarrow> 'g gc_lib \<Rightarrow> 64 word \<Rightarrow> 'g gc_st \<Rightarrow> ('g gc_st \<times> 64 word) option" where
  "GC_MALLOC_WORDS D lib n s = GC_MALLOC_WORDS_KIND D lib n GC_I_NORMAL (\<lambda>r. store_word r 0) s"

definition GC_MALLOC_ATOMIC_WORDS :: "macros \<Rightarrow> 'g gc_lib \<Rightarrow> 64 word \<Rightarrow> 'g gc_st \<Rightarrow> ('g gc_st \<times> 64 word) option" where
  "GC_MALLOC_ATOMIC_WORDS D lib n s = GC_MALLOC_WORDS_KIND D lib n GC_I_PTRFREE (\<lambda>r. Some) s"

definition GC_CONS ::
  "macros \<Rightarrow> 'g gc_lib \<Rightarrow> 64 word \<Rightarrow> 64 word \<Rightarrow> 'g gc_st \<Rightarrow> ('g gc_st \<times> 64 word) option" where
  "GC_CONS D lib first second s = do {
     (s, r) \<leftarrow> GC_MALLOC_WORDS_KIND D lib 2 GC_I_NORMAL (\<lambda>r. Some) s;
     if r \<noteq> 0 then do {
       s \<leftarrow> store_word r first s;
       s \<leftarrow> store_word (r + 8) second s;
       Some (s, r) }
     else Some (s, r) }"

section \<open>Sizes\<close>

lemma granule_bytes_cases: "GC_GRANULE_BYTES D = 16 \<and> GC_TINY_FREELISTS D = 25 \<or>
    GC_GRANULE_BYTES D = 8 \<and> GC_TINY_FREELISTS D = 33"
  by (simp add: GC_TINY_FREELISTS_def) (simp add: GC_GRANULE_BYTES_def)

lemma unat_whole_granules:
  assumes "unat n + 1 < 2 ^ 64"
  shows "unat (GC_WORDS_TO_WHOLE_GRANULES n) = (unat n + 1) div 2"
proof -
  have "n + 2 - 1 = n + 1" by simp
  moreover have "unat (n + 1) = unat n + 1" using assms unat_add_lem [of n 1] by simp
  moreover have "unat (2 :: 64 word) = 2" by simp
  ultimately show ?thesis
    unfolding GC_WORDS_TO_WHOLE_GRANULES_def GC_WORDS_TO_GRANULES_def GC_GRANULE_WORDS_def
      drop_bit_eq_div by (simp only: unat_div_distrib power_one_right)
qed

section \<open>Free lists\<close>

text \<open>
  \<open>fl_at lim h p xs\<close>: \<open>p\<close> heads the free list of the objects \<open>xs\<close>, linked through their first
  words. An entry up to \<open>lim\<close> is not an object but \<open>NULL\<close> or a counter.
\<close>

definition entry_limit :: "macros \<Rightarrow> 64 word \<Rightarrow> 64 word" where
  "entry_limit D num_direct = num_direct + GC_TINY_FREELISTS D + 1"

fun fl_at :: "64 word \<Rightarrow> (64 word \<rightharpoonup> 64 word) \<Rightarrow> 64 word \<Rightarrow> 64 word list \<Rightarrow> bool" where
  "fl_at lim h p [] \<longleftrightarrow> p = 0"
| "fl_at lim h p (a # as) \<longleftrightarrow> p = a \<and> lim < a \<and> (case h a of None \<Rightarrow> False | Some nx \<Rightarrow> fl_at lim h nx as)"

lemma fl_at_upd [simp]: "a \<notin> set xs \<Longrightarrow> fl_at lim (h(a := v)) p xs = fl_at lim h p xs"
proof (induction xs arbitrary: p)
  case (Cons b xs)
  then have "(h(a := v)) b = h b" by (auto simp: fun_upd_apply)
  with Cons show ?case by (simp cong: option.case_cong)
qed simp

lemma fl_at_0 [simp]: "fl_at lim h 0 xs \<longleftrightarrow> xs = []"
  by (cases xs) auto

text \<open>
  What the macros rely on of \<open>GC_generic_malloc_many\<close>, by its comment: it leaves the pointer to a
  list of objects in the entry it is given, \<open>NULL\<close> when there is no memory, and the other entries
  are not its business.
\<close>

definition refill_law :: "'g gc_lib \<Rightarrow> 64 word \<Rightarrow> bool" where
  "refill_law lib lim \<longleftrightarrow> (\<forall>lb k g s. \<exists>xs.
     fl_at lim (heap (malloc_many lib lb k g s)) (tiny_fl (malloc_many lib lb k g s) g) xs \<and> distinct xs \<and>
     (\<forall>g'. g' \<noteq> g \<longrightarrow> tiny_fl (malloc_many lib lb k g s) g' = tiny_fl s g'))"

lemma refill_lawE:
  assumes "refill_law lib lim"
  obtains xs where "fl_at lim (heap (malloc_many lib lb k g s)) (tiny_fl (malloc_many lib lb k g s) g) xs"
    "distinct xs"
  using assms unfolding refill_law_def by blast

lemma small_granules: "g < GC_TINY_FREELISTS D \<Longrightarrow> (GC_TINY_FREELISTS D \<le> g) = False"
  by (simp add: leD)

lemma not_object: "e \<le> entry_limit D nd \<Longrightarrow> (nd + GC_TINY_FREELISTS D + 1 < e) = False"
  by (simp add: entry_limit_def leD)

lemma alloc_pop:
  assumes "g < GC_TINY_FREELISTS D" "fl_at (entry_limit D nd) (heap s) (tiny_fl s g) (a # as)"
  obtains nx where "heap s a = Some nx" "fl_at (entry_limit D nd) (heap s) nx as"
    "GC_FAST_MALLOC_GRANS D lib g nd kind def init s =
       (do { s \<leftarrow> init a (GC_FAST_M_AO_STORE g nx s); Some (s, a) })"
proof -
  from assms obtain nx where nx: "heap s a = Some nx" "fl_at (entry_limit D nd) (heap s) nx as"
    "tiny_fl s g = a" "entry_limit D nd < a" by (auto split: option.split_asm)
  then have "GC_FAST_MALLOC_GRANS D lib g nd kind def init s =
       (do { s \<leftarrow> init a (GC_FAST_M_AO_STORE g nx s); Some (s, a) })"
    using small_granules [OF assms(1)] unfolding GC_FAST_MALLOC_GRANS_def
    by (subst fast_malloc_loop.simps) (simp add: entry_limit_def)
  with nx that show ?thesis by blast
qed

definition refill :: "macros \<Rightarrow> 'g gc_lib \<Rightarrow> 64 word \<Rightarrow> int \<Rightarrow> 'g gc_st \<Rightarrow> 'g gc_st" where
  "refill D lib g kind s = malloc_many lib
     (if g = 0 then GC_GRANULE_BYTES D else GC_RAW_BYTES_FROM_INDEX D g) kind g s"

text \<open>An entry that is neither an object nor a counter to be served directly refills the list.\<close>

lemma alloc_refill:
  assumes g: "g < GC_TINY_FREELISTS D" and law: "refill_law lib (entry_limit D nd)"
    and e: "tiny_fl s g \<le> entry_limit D nd" "\<not> (sint (tiny_fl s g) \<le> sint nd \<and> tiny_fl s g \<noteq> 0)"
  shows "GC_FAST_MALLOC_GRANS D lib g nd kind def init s =
    (if tiny_fl (refill D lib g kind s) g = 0
     then Some (oom_fn lib (g * GC_GRANULE_BYTES D) (refill D lib g kind s))
     else GC_FAST_MALLOC_GRANS D lib g nd kind def init (refill D lib g kind s))"
proof -
  have "\<not> (sint (tiny_fl s g) - sint nd \<le> 0 \<and> tiny_fl s g \<noteq> 0)" using e(2) by simp
  then show ?thesis
    using small_granules [OF g] not_object [OF e(1)] unfolding GC_FAST_MALLOC_GRANS_def
    by (subst fast_malloc_loop.simps) (simp only: refill_def Let_def if_False)
qed

lemma alloc_direct:
  assumes "g < GC_TINY_FREELISTS D" "tiny_fl s g \<le> entry_limit D nd" "sint (tiny_fl s g) \<le> sint nd"
    "tiny_fl s g \<noteq> 0"
  shows "GC_FAST_MALLOC_GRANS D lib g nd kind def init s =
    Some (def (GC_FAST_M_AO_STORE g (tiny_fl s g + g + 1) s))"
  using small_granules [OF assms(1)] not_object [OF assms(2)] assms(3,4)
  unfolding GC_FAST_MALLOC_GRANS_def by (subst fast_malloc_loop.simps) simp

text \<open>A whole run of allocations from one list.\<close>

fun alloc_many :: "macros \<Rightarrow> 'g gc_lib \<Rightarrow> 64 word \<Rightarrow> nat \<Rightarrow> 'g gc_st \<Rightarrow> ('g gc_st \<times> 64 word list) option" where
  "alloc_many D lib n 0 s = Some (s, [])"
| "alloc_many D lib n (Suc k) s = do {
     (s, r) \<leftarrow> GC_MALLOC_WORDS D lib n s;
     (s, rs) \<leftarrow> alloc_many D lib n k s;
     Some (s, r # rs) }"

lemma malloc_words_pop:
  assumes g: "GC_WORDS_TO_WHOLE_GRANULES n < GC_TINY_FREELISTS D"
    and fl: "fl_at (entry_limit D 0) (heap s) (tiny_fl s (GC_WORDS_TO_WHOLE_GRANULES n)) (a # as)"
    and d: "distinct (a # as)"
  shows "returns (GC_MALLOC_WORDS D lib n s) (\<lambda>(s', r). r = a \<and> heap s' = (heap s)(a \<mapsto> 0) \<and>
    fl_at (entry_limit D 0) (heap s') (tiny_fl s' (GC_WORDS_TO_WHOLE_GRANULES n)) as)"
proof (rule alloc_pop [OF g fl])
  fix nx
  assume "heap s a = Some nx" "fl_at (entry_limit D 0) (heap s) nx as"
    "GC_FAST_MALLOC_GRANS D lib (GC_WORDS_TO_WHOLE_GRANULES n) 0 GC_I_NORMAL
       (malloc_kind lib (GC_WORDS_TO_WHOLE_GRANULES n * GC_GRANULE_BYTES D) GC_I_NORMAL)
       (\<lambda>r. store_word r 0) s =
     (do { s \<leftarrow> store_word a 0 (GC_FAST_M_AO_STORE (GC_WORDS_TO_WHOLE_GRANULES n) nx s); Some (s, a) })"
  with d show ?thesis
    by (auto simp: GC_MALLOC_WORDS_def GC_MALLOC_WORDS_KIND_def Let_def store_word_def
      GC_FAST_M_AO_STORE_def)
qed

lemma alloc_many_list:
  assumes g: "GC_WORDS_TO_WHOLE_GRANULES n < GC_TINY_FREELISTS D"
  shows "fl_at (entry_limit D 0) (heap s) (tiny_fl s (GC_WORDS_TO_WHOLE_GRANULES n)) (xs @ ys) \<Longrightarrow>
    distinct (xs @ ys) \<Longrightarrow>
    returns (alloc_many D lib n (length xs) s) (\<lambda>(s', rs). rs = xs \<and> (\<forall>a\<in>set xs. heap s' a = Some 0) \<and>
      (\<forall>b. b \<notin> set xs \<longrightarrow> heap s' b = heap s b) \<and>
      fl_at (entry_limit D 0) (heap s') (tiny_fl s' (GC_WORDS_TO_WHOLE_GRANULES n)) ys)"
proof (induction xs arbitrary: s)
  case (Cons a xs)
  from malloc_words_pop [OF g, of s a "xs @ ys" lib] Cons.prems obtain s1 where
    s1: "GC_MALLOC_WORDS D lib n s = Some (s1, a)" "heap s1 = (heap s)(a \<mapsto> 0)"
    "fl_at (entry_limit D 0) (heap s1) (tiny_fl s1 (GC_WORDS_TO_WHOLE_GRANULES n)) (xs @ ys)"
    by (auto simp: returns_iff)
  have "returns (alloc_many D lib n (length xs) s1) (\<lambda>(s', rs). rs = xs \<and> (\<forall>a\<in>set xs. heap s' a = Some 0) \<and>
      (\<forall>b. b \<notin> set xs \<longrightarrow> heap s' b = heap s1 b) \<and>
      fl_at (entry_limit D 0) (heap s') (tiny_fl s' (GC_WORDS_TO_WHOLE_GRANULES n)) ys)"
    using Cons s1(3) by (intro Cons.IH) auto
  then show ?case
    using s1(1,2) Cons.prems(2) by (auto simp: returns_iff fun_upd_apply)
qed auto

section \<open>Properties\<close>

lemma whole_granules_cover:
  assumes "unat n < 2 ^ 63"
  shows "unat n \<le> unat (GC_WORDS_TO_WHOLE_GRANULES n) * 2"
    "unat (GC_WORDS_TO_WHOLE_GRANULES n) * 2 < unat n + 2"
  using assms by (simp_all add: unat_whole_granules)

text \<open>
  Rounding to granules: below half of the address range, the granules of a request of \<open>n\<close>
  words cover it and waste less than one granule; the largest request wraps around to none.
\<close>

lemma granules_cover:
  "(unat n < 2 ^ 63 \<longrightarrow> unat n \<le> unat (GC_WORDS_TO_WHOLE_GRANULES n) * unat GC_GRANULE_WORDS \<and>
     unat (GC_WORDS_TO_WHOLE_GRANULES n) * unat GC_GRANULE_WORDS < unat n + unat GC_GRANULE_WORDS) \<and>
   GC_WORDS_TO_WHOLE_GRANULES (- 1) = 0"
proof -
  have "GC_WORDS_TO_WHOLE_GRANULES (- 1) = 0"
    by (simp add: GC_WORDS_TO_WHOLE_GRANULES_def GC_WORDS_TO_GRANULES_def GC_GRANULE_WORDS_def)
  with whole_granules_cover [of n] show ?thesis by (simp add: GC_GRANULE_WORDS_def)
qed


text \<open>A collector for the witnesses that hands out one object of two words at address 1024.\<close>

definition demo_lib :: "unit gc_lib" where
  "demo_lib = \<lparr>malloc_many = (\<lambda>lb k g s. s\<lparr>tiny_fl := (tiny_fl s)(g := 1024), heap := (heap s)(1024 \<mapsto> 0)\<rparr>),
     malloc_kind = (\<lambda>lb k s. (s, 4096)), oom_fn = (\<lambda>lb s. (s, 0))\<rparr>"

definition demo_st :: "unit gc_st" where
  "demo_st = \<lparr>tiny_fl = (\<lambda>_. 0)(1 := 512), heap = [512 \<mapsto> 528, 520 \<mapsto> 7, 528 \<mapsto> 0, 536 \<mapsto> 7], collector = ()\<rparr>"

lemma demo_limit: "entry_limit {''__LP64__''} 0 = 26" "GC_TINY_FREELISTS {''__LP64__''} = 25"
  by (simp_all add: entry_limit_def GC_TINY_FREELISTS_def GC_GRANULE_BYTES_def)

lemma demo_refill: "refill_law demo_lib (entry_limit {''__LP64__''} 0)"
  unfolding refill_law_def demo_limit
  by (intro allI exI [of _ "[1024]"]) (simp add: demo_lib_def fun_upd_apply)






end
