(* ===== verification/Gc_Descr.thy ===== *)
theory Gc_Descr
  imports Calc_Prelude
begin

unbundle bit_operations_syntax

text \<open>
  Type descriptors of the collector's headers: pointer bitmaps (\<open>gc/gc_typed.h\<close>) and mark
  descriptors (\<open>gc/gc_mark.h\<close>), on 64-bit words. Bitmaps are arrays of words, and an index past the
  end of the array has no value.
\<close>

section \<open>Bitmaps\<close>

type_synonym GC_bitmap = "64 word list"

definition GC_WORDSZ :: nat where "GC_WORDSZ = 64"

definition GC_get_bit :: "GC_bitmap \<Rightarrow> nat \<Rightarrow> 64 word option" where
  "GC_get_bit bm index =
     (if index div GC_WORDSZ < length bm
      then Some (drop_bit (index mod GC_WORDSZ) (bm ! (index div GC_WORDSZ)) AND 1) else None)"

definition GC_set_bit :: "GC_bitmap \<Rightarrow> nat \<Rightarrow> GC_bitmap option" where
  "GC_set_bit bm index =
     (if index div GC_WORDSZ < length bm
      then Some (bm[index div GC_WORDSZ := bm ! (index div GC_WORDSZ) OR push_bit (index mod GC_WORDSZ) 1])
      else None)"

text \<open>The macros on a type \<open>t\<close> and its field \<open>f\<close>, given \<open>offsetof(t, f)\<close> and \<open>sizeof(t)\<close>.\<close>

definition GC_WORD_OFFSET :: "nat \<Rightarrow> nat" where
  "GC_WORD_OFFSET off = off div 8"

definition GC_WORD_LEN :: "nat \<Rightarrow> nat" where
  "GC_WORD_LEN sz = sz div 8"

definition GC_BITMAP_SIZE :: "nat \<Rightarrow> nat" where
  "GC_BITMAP_SIZE sz = (GC_WORD_LEN sz + GC_WORDSZ - 1) div GC_WORDSZ"

text \<open>
  The recipe of the header's comment for a type of size \<open>sz\<close> with pointer fields at the offsets
  \<open>offs\<close>: a zero bitmap of \<open>GC_BITMAP_SIZE\<close> words, one \<open>GC_set_bit\<close> per field.
\<close>

fun set_bits :: "nat list \<Rightarrow> GC_bitmap \<Rightarrow> GC_bitmap option" where
  "set_bits [] bm = Some bm"
| "set_bits (off # offs) bm = do { bm \<leftarrow> GC_set_bit bm (GC_WORD_OFFSET off); set_bits offs bm }"

definition type_bitmap :: "nat \<Rightarrow> nat list \<Rightarrow> GC_bitmap option" where
  "type_bitmap sz offs = set_bits offs (replicate (GC_BITMAP_SIZE sz) 0)"

text \<open>The allocation macros, with and without \<open>GC_DEBUG\<close>; sizes are \<open>size_t\<close>.\<close>

definition GC_MALLOC_EXPLICITLY_TYPED ::
  "bool \<Rightarrow> (64 word \<Rightarrow> 'p) \<Rightarrow> (64 word \<Rightarrow> 64 word \<Rightarrow> 'p) \<Rightarrow> 64 word \<Rightarrow> 64 word \<Rightarrow> 'p" where
  "GC_MALLOC_EXPLICITLY_TYPED gc_debug gc_malloc malloc_typed bytes d =
     (if gc_debug then gc_malloc bytes else malloc_typed bytes d)"

definition GC_CALLOC_EXPLICITLY_TYPED ::
  "bool \<Rightarrow> (64 word \<Rightarrow> 'p) \<Rightarrow> (64 word \<Rightarrow> 64 word \<Rightarrow> 64 word \<Rightarrow> 'p) \<Rightarrow> 64 word \<Rightarrow> 64 word \<Rightarrow> 64 word \<Rightarrow> 'p" where
  "GC_CALLOC_EXPLICITLY_TYPED gc_debug gc_malloc calloc_typed n bytes d =
     (if gc_debug then gc_malloc (n * bytes) else calloc_typed n bytes d)"

section \<open>Mark descriptors\<close>

definition GC_PROC_BYTES :: nat where "GC_PROC_BYTES = 100"

definition GC_LOG_MAX_MARK_PROCS :: nat where "GC_LOG_MAX_MARK_PROCS = 6"

definition GC_MAX_MARK_PROCS :: nat where "GC_MAX_MARK_PROCS = push_bit GC_LOG_MAX_MARK_PROCS 1"

definition GC_RESERVED_MARK_PROCS :: nat where "GC_RESERVED_MARK_PROCS = 8"

definition GC_GCJ_RESERVED_MARK_PROC_INDEX :: nat where "GC_GCJ_RESERVED_MARK_PROC_INDEX = 0"

definition GC_DS_TAG_BITS :: nat where "GC_DS_TAG_BITS = 2"

definition GC_DS_TAGS :: "64 word" where "GC_DS_TAGS = push_bit GC_DS_TAG_BITS 1 - 1"

definition GC_DS_LENGTH :: "64 word" where "GC_DS_LENGTH = 0"

definition GC_DS_BITMAP :: "64 word" where "GC_DS_BITMAP = 1"

definition GC_DS_PROC :: "64 word" where "GC_DS_PROC = 2"

definition GC_DS_PER_OBJECT :: "64 word" where "GC_DS_PER_OBJECT = 3"

definition GC_INDIR_PER_OBJ_BIAS :: "64 word" where "GC_INDIR_PER_OBJ_BIAS = 0x10"

definition GC_MAKE_PROC :: "64 word \<Rightarrow> 64 word \<Rightarrow> 64 word" where
  "GC_MAKE_PROC proc_index env =
     (push_bit GC_DS_TAG_BITS (push_bit GC_LOG_MAX_MARK_PROCS env OR proc_index)) OR GC_DS_PROC"

text \<open>\<open>GC_mark_and_push\<close> is the collector's; the macro guards it with the bounds of the heap.\<close>

definition GC_MARK_AND_PUSH ::
  "64 word \<Rightarrow> 64 word \<Rightarrow> (64 word \<Rightarrow> 'ms \<Rightarrow> 'ms \<Rightarrow> 64 word \<Rightarrow> 'ms) \<Rightarrow> 64 word \<Rightarrow> 'ms \<Rightarrow> 'ms \<Rightarrow> 64 word \<Rightarrow> 'ms" where
  "GC_MARK_AND_PUSH least greatest mark_and_push obj msp lim src =
     (if least \<le> obj \<and> obj \<le> greatest then mark_and_push obj msp lim src else msp)"

definition GC_USR_PTR_FROM_BASE :: "64 word \<Rightarrow> 64 word \<Rightarrow> 64 word" where
  "GC_USR_PTR_FROM_BASE header_size p = p + header_size"

definition GC_GENERIC_OR_SPECIAL_MALLOC ::
  "bool \<Rightarrow> (64 word \<Rightarrow> int \<Rightarrow> 'p) \<Rightarrow> (64 word \<Rightarrow> int \<Rightarrow> 'p) \<Rightarrow> 64 word \<Rightarrow> int \<Rightarrow> 'p" where
  "GC_GENERIC_OR_SPECIAL_MALLOC gc_debug debug_malloc malloc sz knd =
     (if gc_debug then debug_malloc sz knd else malloc sz knd)"

definition GC_TYPE_DESCR_LEN :: nat where "GC_TYPE_DESCR_LEN = 40"

section \<open>Reading descriptors\<close>

text \<open>
  The parts of a procedure descriptor, as the comments lay them out: the tag in the low two bits,
  then the procedure index, then the environment.
\<close>

definition descr_tag :: "64 word \<Rightarrow> 64 word" where
  "descr_tag d = d AND GC_DS_TAGS"

definition descr_proc :: "64 word \<Rightarrow> 64 word" where
  "descr_proc d = drop_bit GC_DS_TAG_BITS d AND mask GC_LOG_MAX_MARK_PROCS"

definition descr_env :: "64 word \<Rightarrow> 64 word" where
  "descr_env d = drop_bit (GC_DS_TAG_BITS + GC_LOG_MAX_MARK_PROCS) d"

lemma get_set_bit:
  assumes "GC_set_bit bm i = Some bm'"
  shows "length bm' = length bm" "GC_get_bit bm' j = (if j = i then Some 1 else GC_get_bit bm j)"
proof -
  from assms have i: "i div 64 < length bm"
    and bm': "bm' = bm[i div 64 := bm ! (i div 64) OR push_bit (i mod 64) 1]"
    by (auto simp: GC_set_bit_def GC_WORDSZ_def split: if_splits)
  then show len: "length bm' = length bm" by simp
  show "GC_get_bit bm' j = (if j = i then Some 1 else GC_get_bit bm j)"
  proof (cases "j div 64 = i div 64")
    case False
    with i bm' show ?thesis by (auto simp: GC_get_bit_def GC_WORDSZ_def)
  next
    case True
    have bit: "w AND 1 = of_bool (bit w 0)" for w :: "64 word" by (simp add: and_one_eq mod_2_eq_odd bit_0)
    have "bit (drop_bit (j mod 64) (bm ! (i div 64) OR push_bit (i mod 64) 1)) 0 \<longleftrightarrow>
        bit (bm ! (i div 64)) (j mod 64) \<or> j mod 64 = i mod 64"
      by (auto simp: bit_simps)
    moreover have "j = i \<longleftrightarrow> j mod 64 = i mod 64" using True by (metis div_mult_mod_eq)
    ultimately show ?thesis
      using i bm' True by (auto simp: GC_get_bit_def GC_WORDSZ_def bit bit_drop_bit_eq)
  qed
qed

lemma set_bits_ok:
  "(\<And>off. off \<in> set offs \<Longrightarrow> GC_WORD_OFFSET off div 64 < length bm) \<Longrightarrow>
     returns (set_bits offs bm) (\<lambda>bm'. length bm' = length bm \<and>
       (\<forall>j. GC_get_bit bm' j = (if j \<in> GC_WORD_OFFSET ` set offs then Some 1 else GC_get_bit bm j)))"
proof (induction offs arbitrary: bm)
  case (Cons off offs)
  then obtain bm1 where bm1: "GC_set_bit bm (GC_WORD_OFFSET off) = Some bm1"
    by (auto simp: GC_set_bit_def GC_WORDSZ_def)
  note set1 = get_set_bit [OF bm1]
  have "returns (set_bits offs bm1) (\<lambda>bm'. length bm' = length bm1 \<and>
       (\<forall>j. GC_get_bit bm' j = (if j \<in> GC_WORD_OFFSET ` set offs then Some 1 else GC_get_bit bm1 j)))"
    using Cons.prems set1(1) by (intro Cons.IH) auto
  then show ?case by (simp add: bm1) (auto elim!: returns_mono simp: set1)
qed simp

section \<open>Properties\<close>

text \<open>
  C19. The recipe for type bitmaps works: for word-aligned pointer fields inside the type the
  bitmap is large enough, and its bits are 1 exactly for the words that hold a pointer.
\<close>

theorem type_bitmap_correct:
  assumes "\<forall>off\<in>set offs. off + 8 \<le> sz" "j < GC_WORD_LEN sz"
  shows "returns (type_bitmap sz offs) (\<lambda>bm. length bm = GC_BITMAP_SIZE sz \<and>
    GC_get_bit bm j = Some (if j \<in> GC_WORD_OFFSET ` set offs then 1 else 0))"
proof -
  have fits: "i div 64 < GC_BITMAP_SIZE sz" if "i < sz div 8" for i
    using that by (simp add: GC_BITMAP_SIZE_def GC_WORD_LEN_def GC_WORDSZ_def)
  have "GC_get_bit (replicate (GC_BITMAP_SIZE sz) 0) j = Some 0"
    using fits assms(2) by (simp add: GC_get_bit_def GC_WORDSZ_def GC_WORD_LEN_def)
  moreover have "returns (set_bits offs (replicate (GC_BITMAP_SIZE sz) 0)) (\<lambda>bm'.
    length bm' = GC_BITMAP_SIZE sz \<and> (\<forall>j. GC_get_bit bm' j =
      (if j \<in> GC_WORD_OFFSET ` set offs then Some 1 else GC_get_bit (replicate (GC_BITMAP_SIZE sz) 0) j)))"
    using set_bits_ok [of offs "replicate (GC_BITMAP_SIZE sz) 0"] assms(1) fits
    by (fastforce simp: GC_WORD_OFFSET_def)
  ultimately show ?thesis unfolding type_bitmap_def by (auto elim!: returns_mono)
qed

theorem type_bitmap_correct_witness:
  "returns (type_bitmap 24 [0, 16]) (\<lambda>bm. length bm = GC_BITMAP_SIZE 24 \<and>
    GC_get_bit bm 2 = Some (if (2::nat) \<in> GC_WORD_OFFSET ` set [0, 16] then 1 else 0))"
  by (rule type_bitmap_correct) (simp_all add: GC_WORD_LEN_def)

text \<open>
  C20. Procedure descriptors round trip: \<open>GC_MAKE_PROC\<close> with an index below \<open>GC_MAX_MARK_PROCS\<close>
  and an environment that fits the remaining 56 bits gives a descriptor with the \<open>GC_DS_PROC\<close> tag
  from which both can be read back.
\<close>

theorem make_proc_roundtrip:
  assumes "proc_index AND mask GC_LOG_MAX_MARK_PROCS = proc_index" "env AND mask 56 = env"
  shows "descr_tag (GC_MAKE_PROC proc_index env) = GC_DS_PROC \<and>
    descr_proc (GC_MAKE_PROC proc_index env) = proc_index \<and> descr_env (GC_MAKE_PROC proc_index env) = env"
proof -
  have i: "bit proc_index n \<Longrightarrow> n < 6" for n
    by (subst (asm) assms(1) [symmetric]) (simp add: bit_simps GC_LOG_MAX_MARK_PROCS_def)
  have e: "bit env n \<Longrightarrow> n < 56" for n
    by (subst (asm) assms(2) [symmetric]) (simp add: bit_simps)
  have two: "bit (2 :: 64 word) n \<longleftrightarrow> n = 1" for n
  proof -
    have "(2 :: 64 word) = push_bit 1 1" by simp
    then show ?thesis by (simp only: bit_push_bit_iff bit_1_iff) auto
  qed
  have tags: "(GC_DS_TAGS :: 64 word) = mask 2" by (simp add: GC_DS_TAGS_def GC_DS_TAG_BITS_def mask_eq_exp_minus_1 push_bit_eq_mult)
  note defs = descr_tag_def descr_proc_def descr_env_def GC_MAKE_PROC_def GC_DS_PROC_def
    GC_DS_TAG_BITS_def GC_LOG_MAX_MARK_PROCS_def
  show ?thesis
    unfolding tags
    by (intro conjI bit_word_eqI) (auto simp: defs bit_simps two tags dest: i e)
qed

theorem make_proc_roundtrip_witness:
  "descr_proc (GC_MAKE_PROC 5 77) = 5 \<and> descr_env (GC_MAKE_PROC 5 77) = 77"
  using make_proc_roundtrip [of 5 77] by (simp add: GC_LOG_MAX_MARK_PROCS_def mask_eq_exp_minus_1)

end
