(* ===== verification/Uv_Errno.thy ===== *)
theory Uv_Errno
  imports Calc_Prelude
begin

text \<open>
  The error codes of libuv: their values on a platform (\<open>uv/errno.h\<close>) and the table and the enum of
  \<open>uv.h\<close>. A platform is the set of the macros its compiler defines and the constants of its
  \<open>errno.h\<close>.
\<close>

section \<open>Codes\<close>

record platform =
  predefined :: "string set"
  sys_errno :: "string \<rightharpoonup> int"

definition UV__ERR :: "platform \<Rightarrow> int \<Rightarrow> int" where
  "UV__ERR p x = (case sys_errno p ''EDOM'' of
     Some d \<Rightarrow> if 0 < d then - x else x
   | None \<Rightarrow> x)"

text \<open>The codes that are the same everywhere.\<close>

definition UV__fixed :: "(string \<times> int) list" where
  "UV__fixed = [
    (''EOF'', -4095), (''UNKNOWN'', -4094), (''EAI_ADDRFAMILY'', -3000), (''EAI_AGAIN'', -3001),
    (''EAI_BADFLAGS'', -3002), (''EAI_CANCELED'', -3003), (''EAI_FAIL'', -3004),
    (''EAI_FAMILY'', -3005), (''EAI_MEMORY'', -3006), (''EAI_NODATA'', -3007),
    (''EAI_NONAME'', -3008), (''EAI_OVERFLOW'', -3009), (''EAI_SERVICE'', -3010),
    (''EAI_SOCKTYPE'', -3011), (''EAI_BADHINTS'', -3013), (''EAI_PROTOCOL'', -3014)]"

text \<open>The codes used where the system has none, one per \<open>#if\<close> block.\<close>

definition UV__E2BIG_to_EMFILE :: "(string \<times> int) list" where
  "UV__E2BIG_to_EMFILE = [
    (''E2BIG'', -4093), (''EACCES'', -4092), (''EADDRINUSE'', -4091), (''EADDRNOTAVAIL'', -4090),
    (''EAFNOSUPPORT'', -4089), (''EAGAIN'', -4088), (''EALREADY'', -4084), (''EBADF'', -4083),
    (''EBUSY'', -4082), (''ECANCELED'', -4081), (''ECHARSET'', -4080), (''ECONNABORTED'', -4079),
    (''ECONNREFUSED'', -4078), (''ECONNRESET'', -4077), (''EDESTADDRREQ'', -4076),
    (''EEXIST'', -4075), (''EFAULT'', -4074), (''EHOSTUNREACH'', -4073), (''EINTR'', -4072),
    (''EINVAL'', -4071), (''EIO'', -4070), (''EISCONN'', -4069), (''EISDIR'', -4068),
    (''ELOOP'', -4067), (''EMFILE'', -4066)]"

definition UV__EMSGSIZE_to_ESPIPE :: "(string \<times> int) list" where
  "UV__EMSGSIZE_to_ESPIPE = [
    (''EMSGSIZE'', -4065), (''ENAMETOOLONG'', -4064), (''ENETDOWN'', -4063),
    (''ENETUNREACH'', -4062), (''ENFILE'', -4061), (''ENOBUFS'', -4060), (''ENODEV'', -4059),
    (''ENOENT'', -4058), (''ENOMEM'', -4057), (''ENONET'', -4056), (''ENOSPC'', -4055),
    (''ENOSYS'', -4054), (''ENOTCONN'', -4053), (''ENOTDIR'', -4052), (''ENOTEMPTY'', -4051),
    (''ENOTSOCK'', -4050), (''ENOTSUP'', -4049), (''EPERM'', -4048), (''EPIPE'', -4047),
    (''EPROTO'', -4046), (''EPROTONOSUPPORT'', -4045), (''EPROTOTYPE'', -4044),
    (''EROFS'', -4043), (''ESHUTDOWN'', -4042), (''ESPIPE'', -4041)]"

definition UV__ESRCH_to_ESOCKTNOSUPPORT :: "(string \<times> int) list" where
  "UV__ESRCH_to_ESOCKTNOSUPPORT = [
    (''ESRCH'', -4040), (''ETIMEDOUT'', -4039), (''ETXTBSY'', -4038), (''EXDEV'', -4037),
    (''EFBIG'', -4036), (''ENOPROTOOPT'', -4035), (''ERANGE'', -4034), (''ENXIO'', -4033),
    (''EMLINK'', -4032), (''EHOSTDOWN'', -4031), (''EREMOTEIO'', -4030), (''ENOTTY'', -4029),
    (''EFTYPE'', -4028), (''EILSEQ'', -4027), (''EOVERFLOW'', -4026), (''ESOCKTNOSUPPORT'', -4025)]"

definition errno_fallbacks :: "(string \<times> int) list" where
  "errno_fallbacks = UV__E2BIG_to_EMFILE @ UV__EMSGSIZE_to_ESPIPE @ UV__ESRCH_to_ESOCKTNOSUPPORT"

text \<open>The value of \<open>UV__\<close>\<^emph>\<open>name\<close>; \<open>EHOSTDOWN\<close> has a branch of its own for the BSDs.\<close>

definition bsd_macros :: "string list" where
  "bsd_macros = [''__APPLE__'', ''__DragonFly__'', ''__FreeBSD__'', ''__FreeBSD_kernel__'',
     ''__NetBSD__'', ''__OpenBSD__'']"

definition uv_code :: "platform \<Rightarrow> string \<times> int \<Rightarrow> int" where
  "uv_code p x =
     (if sys_errno p (fst x) \<noteq> None \<and> ''_WIN32'' \<notin> predefined p
      then UV__ERR p (the (sys_errno p (fst x)))
      else if fst x = ''EHOSTDOWN'' \<and> (\<exists>m\<in>set bsd_macros. m \<in> predefined p) then - 64
      else snd x)"

definition UV__codes :: "platform \<Rightarrow> (string \<times> int) list" where
  "UV__codes p = UV__fixed @ map (\<lambda>x. (fst x, uv_code p x)) errno_fallbacks"

section \<open>The table of \<open>uv.h\<close>\<close>

definition UV_ERRNO_MAP :: "(string \<times> string) list" where
  "UV_ERRNO_MAP = [
    (''E2BIG'', ''argument list too long''), (''EACCES'', ''permission denied''),
    (''EADDRINUSE'', ''address already in use''), (''EADDRNOTAVAIL'', ''address not available''),
    (''EAFNOSUPPORT'', ''address family not supported''),
    (''EAGAIN'', ''resource temporarily unavailable''),
    (''EAI_ADDRFAMILY'', ''address family not supported''),
    (''EAI_AGAIN'', ''temporary failure''), (''EAI_BADFLAGS'', ''bad ai_flags value''),
    (''EAI_BADHINTS'', ''invalid value for hints''), (''EAI_CANCELED'', ''request canceled''),
    (''EAI_FAIL'', ''permanent failure''), (''EAI_FAMILY'', ''ai_family not supported''),
    (''EAI_MEMORY'', ''out of memory''), (''EAI_NODATA'', ''no address''),
    (''EAI_NONAME'', ''unknown node or service''),
    (''EAI_OVERFLOW'', ''argument buffer overflow''),
    (''EAI_PROTOCOL'', ''resolved protocol is unknown''),
    (''EAI_SERVICE'', ''service not available for socket type''),
    (''EAI_SOCKTYPE'', ''socket type not supported''),
    (''EALREADY'', ''connection already in progress''), (''EBADF'', ''bad file descriptor''),
    (''EBUSY'', ''resource busy or locked''), (''ECANCELED'', ''operation canceled''),
    (''ECHARSET'', ''invalid Unicode character''),
    (''ECONNABORTED'', ''software caused connection abort''),
    (''ECONNREFUSED'', ''connection refused''), (''ECONNRESET'', ''connection reset by peer''),
    (''EDESTADDRREQ'', ''destination address required''), (''EEXIST'', ''file already exists''),
    (''EFAULT'', ''bad address in system call argument''), (''EFBIG'', ''file too large''),
    (''EHOSTUNREACH'', ''host is unreachable''), (''EINTR'', ''interrupted system call''),
    (''EINVAL'', ''invalid argument''), (''EIO'', ''i/o error''),
    (''EISCONN'', ''socket is already connected''),
    (''EISDIR'', ''illegal operation on a directory''),
    (''ELOOP'', ''too many symbolic links encountered''), (''EMFILE'', ''too many open files''),
    (''EMSGSIZE'', ''message too long''), (''ENAMETOOLONG'', ''name too long''),
    (''ENETDOWN'', ''network is down''), (''ENETUNREACH'', ''network is unreachable''),
    (''ENFILE'', ''file table overflow''), (''ENOBUFS'', ''no buffer space available''),
    (''ENODEV'', ''no such device''), (''ENOENT'', ''no such file or directory''),
    (''ENOMEM'', ''not enough memory''), (''ENONET'', ''machine is not on the network''),
    (''ENOPROTOOPT'', ''protocol not available''), (''ENOSPC'', ''no space left on device''),
    (''ENOSYS'', ''function not implemented''), (''ENOTCONN'', ''socket is not connected''),
    (''ENOTDIR'', ''not a directory''), (''ENOTEMPTY'', ''directory not empty''),
    (''ENOTSOCK'', ''socket operation on non-socket''),
    (''ENOTSUP'', ''operation not supported on socket''),
    (''EOVERFLOW'', ''value too large for defined data type''),
    (''EPERM'', ''operation not permitted''), (''EPIPE'', ''broken pipe''),
    (''EPROTO'', ''protocol error''), (''EPROTONOSUPPORT'', ''protocol not supported''),
    (''EPROTOTYPE'', ''protocol wrong type for socket''), (''ERANGE'', ''result too large''),
    (''EROFS'', ''read-only file system''),
    (''ESHUTDOWN'', ''cannot send after transport endpoint shutdown''),
    (''ESPIPE'', ''invalid seek''), (''ESRCH'', ''no such process''),
    (''ETIMEDOUT'', ''connection timed out''), (''ETXTBSY'', ''text file is busy''),
    (''EXDEV'', ''cross-device link not permitted''), (''UNKNOWN'', ''unknown error''),
    (''EOF'', ''end of file''), (''ENXIO'', ''no such device or address''),
    (''EMLINK'', ''too many links''), (''EHOSTDOWN'', ''host is down''),
    (''EREMOTEIO'', ''remote I/O error''), (''ENOTTY'', ''inappropriate ioctl for device''),
    (''EFTYPE'', ''inappropriate file type or format''), (''EILSEQ'', ''illegal byte sequence''),
    (''ESOCKTNOSUPPORT'', ''socket type not supported'')]"

text \<open>The enum \<open>uv_errno_t\<close>: the constants with their values, and the bound after them.\<close>

definition uv_errno_t :: "platform \<Rightarrow> (string \<times> int option) list" where
  "uv_errno_t p = map (\<lambda>(code, _). (code, map_of (UV__codes p) code)) UV_ERRNO_MAP"

definition UV_ERRNO_MAX :: int where
  "UV_ERRNO_MAX = the (map_of UV__fixed ''EOF'') - 1"

section \<open>Facts about the tables\<close>

lemmas errno_tables = errno_fallbacks_def UV__E2BIG_to_EMFILE_def UV__EMSGSIZE_to_ESPIPE_def UV__ESRCH_to_ESOCKTNOSUPPORT_def UV__fixed_def

lemma fallback_range: "\<forall>x\<in>set errno_fallbacks. - 4093 \<le> snd x \<and> snd x \<le> - 4025"
  by (simp add: errno_tables)

lemma fixed_range: "\<forall>x\<in>set UV__fixed. snd x \<in> {- 4095, - 4094} \<or> - 3014 \<le> snd x \<and> snd x \<le> - 3000"
  by (simp add: errno_tables)

lemma fallback_distinct: "distinct (map snd errno_fallbacks)"
  by (simp add: errno_tables)

lemma fixed_distinct: "distinct (map snd UV__fixed)"
  by (simp add: errno_tables)

lemma fallback_names: "distinct (map fst errno_fallbacks)"
  by code_simp

lemma table_names: "set (map fst UV_ERRNO_MAP) = set (map fst UV__fixed @ map fst errno_fallbacks)"
  by code_simp

text \<open>
  What the codes rely on of a system: its error numbers are positive and small, no two of the
  names share one, and 64 is \<open>EHOSTDOWN\<close>'s own number.
\<close>

definition errno_ok :: "platform \<Rightarrow> bool" where
  "errno_ok p \<longleftrightarrow>
     (case sys_errno p ''EDOM'' of None \<Rightarrow> False | Some d \<Rightarrow> 0 < d) \<and>
     (\<forall>x\<in>set errno_fallbacks. case sys_errno p (fst x) of None \<Rightarrow> True | Some e \<Rightarrow>
        0 < e \<and> e < 3000 \<and> (e = 64 \<longrightarrow> fst x = ''EHOSTDOWN'') \<and>
        (\<forall>y\<in>set errno_fallbacks. sys_errno p (fst y) = Some e \<longrightarrow> fst x = fst y))"

lemma uv_code_cases:
  assumes "errno_ok p \<or> ''_WIN32'' \<in> predefined p" "x \<in> set errno_fallbacks"
  obtains (sys) e where "sys_errno p (fst x) = Some e" "uv_code p x = - e" "0 < e" "e < 3000"
      "e = 64 \<longrightarrow> fst x = ''EHOSTDOWN''" "errno_ok p"
    | (bsd) "uv_code p x = - 64" "fst x = ''EHOSTDOWN''"
    | (own) "uv_code p x = snd x"
proof (cases "sys_errno p (fst x) \<noteq> None \<and> ''_WIN32'' \<notin> predefined p")
  case True
  with assms obtain e where e: "sys_errno p (fst x) = Some e" and ok: "errno_ok p" by auto
  have "0 < e \<and> e < 3000 \<and> (e = 64 \<longrightarrow> fst x = ''EHOSTDOWN'')"
    using ok assms(2) e unfolding errno_ok_def by (auto split: option.splits)
  moreover have "uv_code p x = - e"
    using True e ok unfolding errno_ok_def by (auto simp: uv_code_def UV__ERR_def split: option.splits)
  ultimately show ?thesis using sys e ok by blast
next
  case False
  let ?bsd = "fst x = ''EHOSTDOWN'' \<and> (\<exists>m\<in>set bsd_macros. m \<in> predefined p)"
  have "uv_code p x = (if ?bsd then - 64 else snd x)"
    unfolding uv_code_def by (rule if_not_P [OF False])
  then show ?thesis using bsd own by (cases ?bsd) simp_all
qed

lemma uv_code_inj:
  assumes p: "errno_ok p \<or> ''_WIN32'' \<in> predefined p"
  shows "inj_on (uv_code p) (set errno_fallbacks)"
proof (rule inj_onI)
  fix x y
  assume xy: "x \<in> set errno_fallbacks" "y \<in> set errno_fallbacks" "uv_code p x = uv_code p y"
  have name: "x = y" if "fst x = fst y" using that xy fallback_names by (metis distinct_map inj_onD)
  have code: "x = y" if "snd x = snd y" using that xy fallback_distinct by (metis distinct_map inj_onD)
  have range: "snd x \<le> - 4025" "snd y \<le> - 4025" using fallback_range xy by auto
  from p xy(1) show "x = y"
  proof (cases rule: uv_code_cases)
    case x: (sys e)
    from p xy(2) show ?thesis
    proof (cases rule: uv_code_cases)
      case (sys e')
      with x(2) xy(3) have "e' = e" by simp
      with x(1,6) sys(1) xy(1,2) have "fst x = fst y" unfolding errno_ok_def by (auto split: option.splits)
      then show ?thesis by (rule name)
    next
      case bsd
      with x(2,5) xy(3) have "fst x = fst y" by simp
      then show ?thesis by (rule name)
    next
      case own
      with x(2,4) xy(3) range(2) show ?thesis by linarith
    qed
  next
    case x: bsd
    from p xy(2) show ?thesis
    proof (cases rule: uv_code_cases)
      case (sys e')
      with x xy(3) have "fst x = fst y" by simp
      then show ?thesis by (rule name)
    next
      case bsd
      with x have "fst x = fst y" by simp
      then show ?thesis by (rule name)
    next
      case own
      with x(1) xy(3) range(2) show ?thesis by linarith
    qed
  next
    case x: own
    from p xy(2) show ?thesis
    proof (cases rule: uv_code_cases)
      case (sys e')
      with x xy(3) range(1) show ?thesis by linarith
    next
      case bsd
      with x xy(3) range(1) show ?thesis by linarith
    next
      case own
      with x xy(3) have "snd x = snd y" by simp
      then show ?thesis by (rule code)
    qed
  qed
qed

lemma uv_code_range:
  assumes "errno_ok p \<or> ''_WIN32'' \<in> predefined p" "x \<in> set errno_fallbacks"
  shows "- 4093 \<le> uv_code p x \<and> uv_code p x \<le> - 4025 \<or> - 3000 < uv_code p x \<and> uv_code p x < 0"
  using assms by (cases rule: uv_code_cases) (use fallback_range assms(2) in auto)

section \<open>Properties\<close>


text \<open>Some of the numbers of Linux.\<close>

definition linux_demo :: platform where
  "linux_demo = \<lparr>predefined = {''__linux__''},
     sys_errno = map_of [(''EDOM'', 33), (''E2BIG'', 7), (''EACCES'', 13), (''EAGAIN'', 11), (''EHOSTDOWN'', 112)]\<rparr>"

lemma linux_demo_ok: "errno_ok linux_demo"
  by code_simp


text \<open>
  The table of \<open>uv.h\<close> and the definitions of \<open>errno.h\<close> cover the same names: every constant of
  the enum \<open>uv_errno_t\<close> gets a value, and no defined code is missing from the table.
\<close>

lemma errno_table_complete:
  "list_all (\<lambda>c. snd c \<noteq> None) (uv_errno_t p) \<and> fst ` set (UV__codes p) = fst ` set UV_ERRNO_MAP"
proof -
  have names: "fst ` set (UV__codes p) = fst ` set UV_ERRNO_MAP"
    using table_names by (simp add: UV__codes_def image_Un image_image)
  have "map_of (UV__codes p) c \<noteq> None" if "c \<in> fst ` set UV_ERRNO_MAP" for c
    using that names by (simp add: map_of_eq_None_iff)
  then have "\<forall>c\<in>set (uv_errno_t p). snd c \<noteq> None" by (fastforce simp: uv_errno_t_def)
  with names show ?thesis by (simp add: list_all_iff)
qed

end
