(* ===== verification/C_Layout.thy ===== *)
theory C_Layout
  imports Calc_Prelude
begin

text \<open>
  Layout of C objects: sizes, alignments and field offsets as the ABIs of the supported targets
  compute them (fields in order, each at the next multiple of its alignment, the size rounded up
  to the alignment of the whole). The sizes of the scalar types and of the types that system
  headers define are parameters.
\<close>

section \<open>Types and targets\<close>

text \<open>
  \<open>Named\<close> is a scalar or a type of a system header. \<open>Ptr\<close> is an object pointer with the name of its
  target, \<open>Fn\<close> a function pointer with the name of its type, \<open>Enum\<close> an enumeration.
\<close>

datatype ctype =
    Named string
  | Ptr string
  | Fn string
  | Enum string
  | Arr nat ctype
  | Struct string "(string \<times> ctype) list"
  | Union string "(string \<times> ctype) list"

type_synonym fields = "(string \<times> ctype) list"

abbreviation c_int :: ctype where "c_int \<equiv> Named ''int''"
abbreviation c_uint :: ctype where "c_uint \<equiv> Named ''unsigned int''"
abbreviation c_char :: ctype where "c_char \<equiv> Named ''char''"
abbreviation c_uchar :: ctype where "c_uchar \<equiv> Named ''unsigned char''"
abbreviation c_long :: ctype where "c_long \<equiv> Named ''long''"
abbreviation c_ulong :: ctype where "c_ulong \<equiv> Named ''unsigned long''"
abbreviation c_size_t :: ctype where "c_size_t \<equiv> Named ''size_t''"
abbreviation c_uint64 :: ctype where "c_uint64 \<equiv> Named ''uint64_t''"
abbreviation c_double :: ctype where "c_double \<equiv> Named ''double''"
abbreviation void_p :: ctype where "void_p \<equiv> Ptr ''void''"

text \<open>
  A target: the macros that its compiler and its system headers define, with the values of those
  that are numbers, its byte order, and the size and alignment of its named types, its pointers and its enumerations.
\<close>

record target =
  macros_def :: "string \<rightharpoonup> int"
  little_endian :: bool
  named_layout :: "string \<Rightarrow> nat \<times> nat"
  ptr_layout :: "nat \<times> nat"
  fn_layout :: "nat \<times> nat"
  enum_layout :: "nat \<times> nat"

definition is_defined :: "target \<Rightarrow> string \<Rightarrow> bool" where
  "is_defined t m = (macros_def t m \<noteq> None)"

definition value_or :: "target \<Rightarrow> string \<Rightarrow> int \<Rightarrow> int" where
  "value_or t m d = (case macros_def t m of Some v \<Rightarrow> v | None \<Rightarrow> d)"

section \<open>Layout\<close>

definition round_up :: "nat \<Rightarrow> nat \<Rightarrow> nat" where
  "round_up n a = (n + a - 1) div a * a"

fun align_of :: "target \<Rightarrow> ctype \<Rightarrow> nat"
  and align_fields :: "target \<Rightarrow> fields \<Rightarrow> nat" where
  "align_of t (Named n) = snd (named_layout t n)"
| "align_of t (Ptr n) = snd (ptr_layout t)"
| "align_of t (Fn n) = snd (fn_layout t)"
| "align_of t (Enum n) = snd (enum_layout t)"
| "align_of t (Arr k ty) = align_of t ty"
| "align_of t (Struct n fs) = align_fields t fs"
| "align_of t (Union n fs) = align_fields t fs"
| "align_fields t [] = 1"
| "align_fields t ((f, ty) # fs) = max (align_of t ty) (align_fields t fs)"

text \<open>\<open>struct_end\<close>: the offset behind the fields when they are placed from offset \<open>off\<close> on.\<close>

fun size_of :: "target \<Rightarrow> ctype \<Rightarrow> nat"
  and struct_end :: "target \<Rightarrow> nat \<Rightarrow> fields \<Rightarrow> nat"
  and union_end :: "target \<Rightarrow> fields \<Rightarrow> nat" where
  "size_of t (Named n) = fst (named_layout t n)"
| "size_of t (Ptr n) = fst (ptr_layout t)"
| "size_of t (Fn n) = fst (fn_layout t)"
| "size_of t (Enum n) = fst (enum_layout t)"
| "size_of t (Arr k ty) = k * size_of t ty"
| "size_of t (Struct n fs) = round_up (struct_end t 0 fs) (align_fields t fs)"
| "size_of t (Union n fs) = round_up (union_end t fs) (align_fields t fs)"
| "struct_end t off [] = off"
| "struct_end t off ((f, ty) # fs) = struct_end t (round_up off (align_of t ty) + size_of t ty) fs"
| "union_end t [] = 0"
| "union_end t ((f, ty) # fs) = max (size_of t ty) (union_end t fs)"

text \<open>The fields with their offsets.\<close>

fun place :: "target \<Rightarrow> nat \<Rightarrow> fields \<Rightarrow> (string \<times> nat \<times> ctype) list" where
  "place t off [] = []"
| "place t off ((f, ty) # fs) =
     (let o1 = round_up off (align_of t ty)
      in (f, o1, ty) # place t (o1 + size_of t ty) fs)"

fun fields_of :: "ctype \<Rightarrow> fields" where
  "fields_of (Struct n fs) = fs"
| "fields_of _ = []"

text \<open>A field of a struct: its offset and its type.\<close>

definition field_at :: "target \<Rightarrow> ctype \<Rightarrow> string \<Rightarrow> (nat \<times> ctype) option" where
  "field_at t ty f = map_of (place t 0 (fields_of ty)) f"

definition offset_of :: "target \<Rightarrow> ctype \<Rightarrow> string \<Rightarrow> nat option" where
  "offset_of t ty f = map_option fst (field_at t ty f)"

section \<open>Rounding\<close>

lemma round_up_ge: "0 < a \<Longrightarrow> n \<le> round_up n a"
proof -
  assume "0 < a"
  then have "(n + a - 1) mod a < a" by simp
  moreover have "(n + a - 1) div a * a + (n + a - 1) mod a = n + a - 1" by simp
  ultimately show ?thesis using \<open>0 < a\<close> by (simp only: round_up_def)
qed

lemma round_up_dvd [simp]: "a dvd round_up n a"
  by (simp add: round_up_def)

lemma round_up_id [simp]: "a dvd n \<Longrightarrow> round_up n a = n"
proof (cases "a = 0")
  case False
  assume "a dvd n"
  then obtain k where n: "n = a * k" by auto
  have "(a * k + a - 1) div a = k"
  proof -
    have "a * k + a - 1 = (a - 1) + k * a" using False by (simp add: mult.commute)
    then show ?thesis using False by (simp only: div_mult_self1 not_False_eq_True) simp
  qed
  then show ?thesis by (simp add: round_up_def n)
qed (simp add: round_up_def)

lemma pow2_dvd_max:
  assumes "a = 2 ^ i" "b = 2 ^ j"
  shows "a dvd max a (b::nat)" "b dvd max a (b::nat)" "\<exists>k. max a b = 2 ^ k"
  using assms by (auto simp: max_def le_imp_power_dvd)

lemma round_up_least: "0 < a \<Longrightarrow> n \<le> m \<Longrightarrow> a dvd m \<Longrightarrow> round_up n a \<le> m"
proof -
  assume "0 < a" "n \<le> m" "a dvd m"
  then obtain k where m: "m = k * a" by (metis dvd_def mult.commute)
  have "n + a - 1 < Suc k * a" using \<open>0 < a\<close> \<open>n \<le> m\<close> m by simp
  then have "(n + a - 1) div a < Suc k" using \<open>0 < a\<close> by (simp only: div_less_iff_less_mult)
  then show ?thesis by (simp add: round_up_def m)
qed

section \<open>Where the fields are\<close>

lemma place_append:
  "place t off (fs @ gs) = place t off fs @ place t (struct_end t off fs) gs"
  by (induction fs arbitrary: off) (auto simp: Let_def)

lemma place_fields: "map (\<lambda>(f, o1, ty). (f, ty)) (place t off fs) = fs"
  by (induction fs arbitrary: off) (auto simp: Let_def)

text \<open>A struct whose fields start with the fields of another one has them at the same offsets.\<close>

lemma field_at_prefix:
  "field_at t (Struct m fs) f = Some x \<Longrightarrow> field_at t (Struct n (fs @ gs)) f = Some x"
  by (simp add: field_at_def place_append map_add_def split: option.splits)

lemma first_field_at_0: "0 < align_of t ty \<Longrightarrow> offset_of t (Struct n ((f, ty) # fs)) f = Some 0"
  by (simp add: offset_of_def field_at_def Let_def)

text \<open>
  A pointer to a struct \<open>sub\<close> can be used as a pointer to \<open>base\<close>: every field of \<open>base\<close> is in \<open>sub\<close>
  at the same offset with the same type, and the object is big enough and aligned for \<open>base\<close>.
\<close>

definition extends :: "target \<Rightarrow> ctype \<Rightarrow> ctype \<Rightarrow> bool" where
  "extends t sub base \<longleftrightarrow>
     (\<forall>f x. field_at t base f = Some x \<longrightarrow> field_at t sub f = Some x)
     \<and> size_of t base \<le> size_of t sub \<and> align_of t base dvd align_of t sub"

text \<open>
  A sound layout: every field is aligned and inside the object, the fields follow each other
  without overlap, and the size is a multiple of the alignment, as arrays need it.
\<close>

definition sound_layout :: "target \<Rightarrow> ctype \<Rightarrow> bool" where
  "sound_layout t ty \<longleftrightarrow>
     (\<forall>(f, off, fty)\<in>set (place t 0 (fields_of ty)).
        align_of t fty dvd off \<and> align_of t fty dvd align_of t ty
        \<and> off + size_of t fty \<le> size_of t ty)
     \<and> sorted_wrt (\<lambda>(f, o1, ty1) (g, o2, ty2). o1 + size_of t ty1 \<le> o2) (place t 0 (fields_of ty))
     \<and> align_of t ty dvd size_of t ty"

text \<open>
  The contract of a target: alignments are powers of two and sizes are multiples of them, as the C
  standard asks of \<open>_Alignof\<close> and \<open>sizeof\<close>.
\<close>

definition layout_ok :: "nat \<times> nat \<Rightarrow> bool" where
  "layout_ok x \<longleftrightarrow> (\<exists>k. snd x = 2 ^ k) \<and> snd x dvd fst x"

definition target_ok :: "target \<Rightarrow> bool" where
  "target_ok t \<longleftrightarrow> (\<forall>n. layout_ok (named_layout t n)) \<and> layout_ok (ptr_layout t)
     \<and> layout_ok (fn_layout t) \<and> layout_ok (enum_layout t)"

lemma align_pow2: "target_ok t \<Longrightarrow> \<exists>k. align_of t ty = 2 ^ k"
  and align_fields_pow2: "target_ok t \<Longrightarrow> \<exists>k. align_fields t fs = 2 ^ k"
proof (induction t ty and t fs rule: align_of_align_fields.induct)
  case (9 t f ty fs)
  then show ?case using pow2_dvd_max(3) by (metis align_fields.simps(2))
qed (auto simp: target_ok_def layout_ok_def intro: exI [of _ 0])

lemma size_dvd_nonstruct: "target_ok t \<Longrightarrow> align_of t ty dvd size_of t ty"
proof (induction ty)
  case (Arr k ty)
  then show ?case by simp
qed (auto simp: target_ok_def layout_ok_def)

locale abi =
  fixes t :: target
  assumes ok: "target_ok t"
begin

lemma align_pos: "0 < align_of t ty"
  using align_pow2 [OF ok, of ty] by auto

lemma align_fields_pos: "0 < align_fields t fs"
  using align_fields_pow2 [OF ok, of fs] by auto

lemma align_dvd_fields: "(f, ty) \<in> set fs \<Longrightarrow> align_of t ty dvd align_fields t fs"
proof (induction fs)
  case (Cons g fs)
  obtain h hy where g: "g = (h, hy)" by fastforce
  obtain i j where "align_of t hy = 2 ^ i" "align_fields t fs = 2 ^ j"
    using align_pow2 [OF ok] align_fields_pow2 [OF ok] by blast
  then show ?case
    using Cons pow2_dvd_max [of "align_of t hy" i "align_fields t fs" j] dvd_trans by (auto simp: g)
qed simp

lemma struct_end_ge: "off \<le> struct_end t off fs"
proof (induction fs arbitrary: off)
  case (Cons g fs)
  obtain h hy where g: "g = (h, hy)" by fastforce
  have "off \<le> round_up off (align_of t hy)" by (rule round_up_ge [OF align_pos])
  also have "\<dots> \<le> struct_end t (round_up off (align_of t hy) + size_of t hy) fs"
    using Cons.IH [of "round_up off (align_of t hy) + size_of t hy"] by simp
  finally show ?case by (simp add: g)
qed simp

lemma place_within:
  "(f, o1, ty) \<in> set (place t off fs) \<Longrightarrow>
     off \<le> o1 \<and> o1 + size_of t ty \<le> struct_end t off fs \<and> align_of t ty dvd o1"
proof (induction fs arbitrary: off)
  case (Cons g fs)
  obtain h hy where g: "g = (h, hy)" by fastforce
  let ?o = "round_up off (align_of t hy)"
  have *: "off \<le> ?o" by (rule round_up_ge [OF align_pos])
  from Cons.prems consider "(f, o1, ty) = (h, ?o, hy)"
    | "(f, o1, ty) \<in> set (place t (?o + size_of t hy) fs)" by (auto simp: g Let_def)
  then show ?case
  proof cases
    case 1
    then show ?thesis using * struct_end_ge [of "?o + size_of t hy" fs] by (simp add: g)
  next
    case 2
    then show ?thesis using Cons.IH [OF 2] * by (simp add: g)
  qed
qed simp

text \<open>The fields are laid out in their order without overlap.\<close>

lemma place_ordered:
  "sorted_wrt (\<lambda>(f, o1, ty) (g, o2, ty'). o1 + size_of t ty \<le> o2) (place t off fs)"
  by (induction fs arbitrary: off) (use place_within in \<open>fastforce simp: Let_def\<close>)+

lemma struct_size: "struct_end t 0 fs \<le> size_of t (Struct n fs)"
  by (simp add: round_up_ge align_fields_pos)

lemma union_size: "(f, ty) \<in> set fs \<Longrightarrow> size_of t ty \<le> size_of t (Union n fs)"
proof -
  assume "(f, ty) \<in> set fs"
  then have "size_of t ty \<le> union_end t fs" by (induction fs) auto
  also have "\<dots> \<le> round_up (union_end t fs) (align_fields t fs)"
    by (rule round_up_ge [OF align_fields_pos])
  finally show ?thesis by simp
qed

text \<open>Every field is inside the object, aligned, and apart from the others.\<close>

lemma field_at_place: "field_at t (Struct n fs) f = Some (off, ty) \<Longrightarrow> (f, off, ty) \<in> set (place t 0 fs)"
  by (auto simp: field_at_def dest: map_of_SomeD)

lemma field_within:
  assumes "field_at t (Struct n fs) f = Some (off, ty)"
  shows "off + size_of t ty \<le> size_of t (Struct n fs)"
  using place_within [OF field_at_place [OF assms]] struct_size [of fs n] by simp

lemma fields_apart:
  assumes "field_at t (Struct n fs) f = Some (o1, ty1)" "field_at t (Struct n fs) g = Some (o2, ty2)"
    "f \<noteq> g"
  shows "o1 + size_of t ty1 \<le> o2 \<or> o2 + size_of t ty2 \<le> o1"
proof -
  let ?P = "\<lambda>(f, o1, ty) (g, o2, ty'). o1 + size_of t ty \<le> o2"
  have "sorted_wrt ?P xs \<Longrightarrow> x \<in> set xs \<Longrightarrow> y \<in> set xs \<Longrightarrow> x \<noteq> y \<Longrightarrow> ?P x y \<or> ?P y x" for xs x y
    by (induction xs) auto
  from this [OF place_ordered field_at_place [OF assms(1)] field_at_place [OF assms(2)]] assms(3)
  show ?thesis by auto
qed

lemma struct_sound: "sound_layout t (Struct n fs)"
proof -
  have "align_of t fty dvd off \<and> align_of t fty dvd align_fields t fs
      \<and> off + size_of t fty \<le> round_up (struct_end t 0 fs) (align_fields t fs)"
    if "(f, off, fty) \<in> set (place t 0 fs)" for f off fty
  proof -
    have "(f, fty) \<in> set fs"
      using that by (metis (mono_tags, lifting) case_prod_conv image_eqI image_set place_fields)
    then show ?thesis
      using place_within [OF that] align_dvd_fields struct_size [of fs n] by fastforce
  qed
  then show ?thesis using place_ordered by (auto simp: sound_layout_def)
qed

lemma align_fields_append: "align_fields t fs dvd align_fields t (fs @ gs)"
proof -
  obtain i j where ij: "align_fields t fs = 2 ^ i" "align_fields t (fs @ gs) = 2 ^ j"
    using align_fields_pow2 [OF ok] by metis
  have "align_fields t fs \<le> align_fields t (fs @ gs)"
    by (induction fs) (use align_fields_pos in \<open>auto simp: Suc_le_eq\<close>)
  then show ?thesis using ij by (simp add: le_imp_power_dvd)
qed

lemma struct_end_append: "struct_end t off (fs @ gs) = struct_end t (struct_end t off fs) gs"
  by (induction fs arbitrary: off) auto

lemma prefix_size: "size_of t (Struct m fs) \<le> size_of t (Struct n (fs @ gs))"
proof -
  let ?a = "align_fields t fs" and ?A = "align_fields t (fs @ gs)"
  let ?e = "struct_end t 0 fs" and ?E = "struct_end t 0 (fs @ gs)"
  have "?e \<le> round_up ?E ?A"
    using struct_end_ge [of ?e gs] round_up_ge [OF align_fields_pos, of ?E "fs @ gs"]
    by (simp add: struct_end_append)
  moreover have "?a dvd round_up ?E ?A"
    using align_fields_append round_up_dvd dvd_trans by blast
  ultimately have "round_up ?e ?a \<le> round_up ?E ?A"
    by (rule round_up_least [OF align_fields_pos])
  then show ?thesis by simp
qed

lemma prefix_extends: "extends t (Struct n (fs @ gs)) (Struct m fs)"
  using field_at_prefix prefix_size align_fields_append by (simp add: extends_def)

end

end
