(* ===== verification/Uv_Unix.thy ===== *)
theory Uv_Unix
  imports C_Layout
begin

text \<open>
  The platform part of libuv's types on Unix: \<open>uv/unix.h\<close>, \<open>uv/threadpool.h\<close> and the headers of the
  single systems (\<open>uv/linux.h\<close>, \<open>uv/darwin.h\<close>, \<open>uv/bsd.h\<close>, \<open>uv/sunos.h\<close>, \<open>uv/os390.h\<close>, \<open>uv/posix.h\<close>,
  \<open>uv/aix.h\<close>). A macro that expands to fields is a list of fields; a macro whose text uses a type
  that is declared only where the macro is expanded takes that type as an argument.
\<close>

section \<open>The header of the system\<close>

datatype os_header =
  Linux_h | Os390_h | Posix_h | Aix_h | Sunos_h | Darwin_h | Bsd_h | No_os_h

definition unix_os_header :: "target \<Rightarrow> os_header" where
  "unix_os_header t =
     (if is_defined t ''__linux__'' then Linux_h
      else if is_defined t ''__MVS__'' then Os390_h
      else if is_defined t ''__PASE__'' then Posix_h
      else if is_defined t ''_AIX'' then Aix_h
      else if is_defined t ''__sun'' then Sunos_h
      else if is_defined t ''__APPLE__'' then Darwin_h
      else if is_defined t ''__DragonFly__'' \<or> is_defined t ''__FreeBSD__''
        \<or> is_defined t ''__FreeBSD_kernel__'' \<or> is_defined t ''__OpenBSD__''
        \<or> is_defined t ''__NetBSD__'' then Bsd_h
      else if is_defined t ''__CYGWIN__'' \<or> is_defined t ''__MSYS__'' \<or> is_defined t ''__HAIKU__''
        \<or> is_defined t ''__QNX__'' \<or> is_defined t ''__GNU__'' then Posix_h
      else No_os_h)"

definition NI_MAXHOST :: "target \<Rightarrow> nat" where
  "NI_MAXHOST t = nat (value_or t ''NI_MAXHOST'' 1025)"

definition NI_MAXSERV :: "target \<Rightarrow> nat" where
  "NI_MAXSERV t = nat (value_or t ''NI_MAXSERV'' 32)"

section \<open>Watchers, buffers and work items\<close>

definition bsd_UV_IO_PRIVATE_PLATFORM_FIELDS :: fields where
  "bsd_UV_IO_PRIVATE_PLATFORM_FIELDS = [(''rcount'', c_int), (''wcount'', c_int)]"

definition darwin_UV_IO_PRIVATE_PLATFORM_FIELDS :: fields where
  "darwin_UV_IO_PRIVATE_PLATFORM_FIELDS = [(''rcount'', c_int), (''wcount'', c_int)]"

definition UV_IO_PRIVATE_PLATFORM_FIELDS :: "target \<Rightarrow> fields" where
  "UV_IO_PRIVATE_PLATFORM_FIELDS t = (case unix_os_header t of
     Bsd_h \<Rightarrow> bsd_UV_IO_PRIVATE_PLATFORM_FIELDS
   | Darwin_h \<Rightarrow> darwin_UV_IO_PRIVATE_PLATFORM_FIELDS
   | _ \<Rightarrow> [])"

definition uv__io_s :: "target \<Rightarrow> ctype" where
  "uv__io_s t = Struct ''uv__io_s'' (
     [(''cb'', Fn ''uv__io_cb''),
      (''pending_queue'', Arr 2 void_p),
      (''watcher_queue'', Arr 2 void_p),
      (''pevents'', c_uint),
      (''events'', c_uint),
      (''fd'', c_int)]
     @ UV_IO_PRIVATE_PLATFORM_FIELDS t)"

definition uv__work :: ctype where
  "uv__work = Struct ''uv__work''
     [(''work'', Fn ''void (*)(struct uv__work *)''),
      (''done'', Fn ''void (*)(struct uv__work *, int)''),
      (''loop'', Ptr ''struct uv_loop_s''),
      (''wq'', Arr 2 void_p)]"

definition unix_uv_buf_t :: ctype where
  "unix_uv_buf_t = Struct ''uv_buf_t'' [(''base'', Ptr ''char''), (''len'', c_size_t)]"

section \<open>Typedefs\<close>

definition UV_PLATFORM_SEM_T :: "target \<Rightarrow> ctype" where
  "UV_PLATFORM_SEM_T t = (case unix_os_header t of
     Os390_h \<Rightarrow> c_long
   | Darwin_h \<Rightarrow> if is_defined t ''__APPLE__'' \<and> is_defined t ''__MACH__''
                 then Named ''semaphore_t'' else Named ''sem_t''
   | _ \<Rightarrow> Named ''sem_t'')"

definition unix_typedefs :: "target \<Rightarrow> (string \<times> ctype) list" where
  "unix_typedefs t =
     [(''uv_file'', c_int),
      (''uv_os_sock_t'', c_int),
      (''uv_os_fd_t'', c_int),
      (''uv_pid_t'', Named ''pid_t''),
      (''uv_once_t'', Named ''pthread_once_t''),
      (''uv_thread_t'', Named ''pthread_t''),
      (''uv_mutex_t'', Named ''pthread_mutex_t''),
      (''uv_rwlock_t'', Named ''pthread_rwlock_t''),
      (''uv_sem_t'', UV_PLATFORM_SEM_T t),
      (''uv_cond_t'', Named ''pthread_cond_t''),
      (''uv_key_t'', Named ''pthread_key_t'')]"

definition unix_typedef :: "target \<Rightarrow> string \<Rightarrow> ctype" where
  "unix_typedef t n = the (map_of (unix_typedefs t) n)"

definition unix_uv_gid_t :: ctype where "unix_uv_gid_t = Named ''gid_t''"

definition unix_uv_uid_t :: ctype where "unix_uv_uid_t = Named ''uid_t''"

text \<open>Barriers: the fallback without \<open>pthread_barrier_t\<close> is padded to the size of the system's type.\<close>

definition uv_barrier_fallback :: "target \<Rightarrow> bool" where
  "uv_barrier_fallback t \<longleftrightarrow> is_defined t ''_AIX'' \<or> is_defined t ''__OpenBSD__''
     \<or> \<not> is_defined t ''PTHREAD_BARRIER_SERIAL_THREAD''"

definition uv_barrier :: "target \<Rightarrow> ctype" where
  "uv_barrier t = Struct ''_uv_barrier''
     [(''mutex'', unix_typedef t ''uv_mutex_t''),
      (''cond'', unix_typedef t ''uv_cond_t''),
      (''threshold'', c_uint),
      (''in'', c_uint),
      (''out'', c_uint)]"

definition unix_uv_barrier_t :: "target \<Rightarrow> ctype" where
  "unix_uv_barrier_t t =
     (if uv_barrier_fallback t then Struct ''uv_barrier_t'' (
        (''b'', Ptr ''struct _uv_barrier'') #
        (if is_defined t ''PTHREAD_BARRIER_SERIAL_THREAD''
         then [(''pad'', Arr (size_of t (Named ''pthread_barrier_t'')
                              - size_of t (Ptr ''struct _uv_barrier'')) c_char)]
         else []))
      else Named ''pthread_barrier_t'')"

definition unix_uv_lib_t :: ctype where
  "unix_uv_lib_t = Struct ''uv_lib_t'' [(''handle'', void_p), (''errmsg'', Ptr ''char'')]"

section \<open>Private fields of the loop\<close>

definition linux_UV_PLATFORM_LOOP_FIELDS :: "target \<Rightarrow> fields" where
  "linux_UV_PLATFORM_LOOP_FIELDS t =
     [(''inotify_read_watcher'', uv__io_s t),
      (''inotify_watchers'', void_p),
      (''inotify_fd'', c_int)]"

definition darwin_UV_PLATFORM_LOOP_FIELDS :: "target \<Rightarrow> fields" where
  "darwin_UV_PLATFORM_LOOP_FIELDS t =
     [(''cf_thread'', unix_typedef t ''uv_thread_t''),
      (''_cf_reserved'', void_p),
      (''cf_state'', void_p),
      (''cf_mutex'', unix_typedef t ''uv_mutex_t''),
      (''cf_sem'', unix_typedef t ''uv_sem_t''),
      (''cf_signals'', Arr 2 void_p)]"

definition sunos_UV_PLATFORM_LOOP_FIELDS :: "target \<Rightarrow> fields" where
  "sunos_UV_PLATFORM_LOOP_FIELDS t = [(''fs_event_watcher'', uv__io_s t), (''fs_fd'', c_int)]"

definition os390_UV_PLATFORM_LOOP_FIELDS :: fields where
  "os390_UV_PLATFORM_LOOP_FIELDS = [(''ep'', void_p)]"

definition posix_UV_PLATFORM_LOOP_FIELDS :: fields where
  "posix_UV_PLATFORM_LOOP_FIELDS =
     [(''poll_fds'', Ptr ''struct pollfd''),
      (''poll_fds_used'', c_size_t),
      (''poll_fds_size'', c_size_t),
      (''poll_fds_iterating'', c_uchar)]"

definition aix_UV_PLATFORM_LOOP_FIELDS :: fields where
  "aix_UV_PLATFORM_LOOP_FIELDS = [(''fs_fd'', c_int)]"

definition UV_PLATFORM_LOOP_FIELDS :: "target \<Rightarrow> fields" where
  "UV_PLATFORM_LOOP_FIELDS t = (case unix_os_header t of
     Linux_h \<Rightarrow> linux_UV_PLATFORM_LOOP_FIELDS t
   | Darwin_h \<Rightarrow> darwin_UV_PLATFORM_LOOP_FIELDS t
   | Sunos_h \<Rightarrow> sunos_UV_PLATFORM_LOOP_FIELDS t
   | Os390_h \<Rightarrow> os390_UV_PLATFORM_LOOP_FIELDS
   | Posix_h \<Rightarrow> posix_UV_PLATFORM_LOOP_FIELDS
   | Aix_h \<Rightarrow> aix_UV_PLATFORM_LOOP_FIELDS
   | _ \<Rightarrow> [])"

definition unix_UV_LOOP_PRIVATE_FIELDS :: "target \<Rightarrow> ctype \<Rightarrow> ctype \<Rightarrow> fields" where
  "unix_UV_LOOP_PRIVATE_FIELDS t uv_async_t uv_signal_t =
     [(''flags'', c_ulong),
      (''backend_fd'', c_int),
      (''pending_queue'', Arr 2 void_p),
      (''watcher_queue'', Arr 2 void_p),
      (''watchers'', Ptr ''uv__io_t*''),
      (''nwatchers'', c_uint),
      (''nfds'', c_uint),
      (''wq'', Arr 2 void_p),
      (''wq_mutex'', unix_typedef t ''uv_mutex_t''),
      (''wq_async'', uv_async_t),
      (''cloexec_lock'', unix_typedef t ''uv_rwlock_t''),
      (''closing_handles'', Ptr ''uv_handle_t''),
      (''process_handles'', Arr 2 void_p),
      (''prepare_handles'', Arr 2 void_p),
      (''check_handles'', Arr 2 void_p),
      (''idle_handles'', Arr 2 void_p),
      (''async_handles'', Arr 2 void_p),
      (''async_unused'', Fn ''void (*)(void)''),
      (''async_io_watcher'', uv__io_s t),
      (''async_wfd'', c_int),
      (''timer_heap'', Struct ''anonymous'' [(''min'', void_p), (''nelts'', c_uint)]),
      (''timer_counter'', c_uint64),
      (''time'', c_uint64),
      (''signal_pipefd'', Arr 2 c_int),
      (''signal_io_watcher'', uv__io_s t),
      (''child_watcher'', uv_signal_t),
      (''emfile_fd'', c_int)]
     @ UV_PLATFORM_LOOP_FIELDS t"

section \<open>Private fields of requests and handles\<close>

definition unix_UV_REQ_TYPE_PRIVATE :: "string list" where
  "unix_UV_REQ_TYPE_PRIVATE = []"

definition unix_UV_REQ_PRIVATE_FIELDS :: fields where
  "unix_UV_REQ_PRIVATE_FIELDS = []"

definition unix_UV_DIR_PRIVATE_FIELDS :: fields where
  "unix_UV_DIR_PRIVATE_FIELDS = [(''dir'', Ptr ''DIR'')]"

definition unix_UV_WRITE_PRIVATE_FIELDS :: fields where
  "unix_UV_WRITE_PRIVATE_FIELDS =
     [(''queue'', Arr 2 void_p),
      (''write_index'', c_uint),
      (''bufs'', Ptr ''uv_buf_t''),
      (''nbufs'', c_uint),
      (''error'', c_int),
      (''bufsml'', Arr 4 unix_uv_buf_t)]"

definition unix_UV_CONNECT_PRIVATE_FIELDS :: fields where
  "unix_UV_CONNECT_PRIVATE_FIELDS = [(''queue'', Arr 2 void_p)]"

definition unix_UV_SHUTDOWN_PRIVATE_FIELDS :: fields where
  "unix_UV_SHUTDOWN_PRIVATE_FIELDS = []"

definition unix_UV_UDP_SEND_PRIVATE_FIELDS :: fields where
  "unix_UV_UDP_SEND_PRIVATE_FIELDS =
     [(''queue'', Arr 2 void_p),
      (''addr'', Named ''struct sockaddr_storage''),
      (''nbufs'', c_uint),
      (''bufs'', Ptr ''uv_buf_t''),
      (''status'', Named ''ssize_t''),
      (''send_cb'', Fn ''uv_udp_send_cb''),
      (''bufsml'', Arr 4 unix_uv_buf_t)]"

definition unix_UV_HANDLE_PRIVATE_FIELDS :: fields where
  "unix_UV_HANDLE_PRIVATE_FIELDS = [(''next_closing'', Ptr ''uv_handle_t''), (''flags'', c_uint)]"

definition darwin_UV_STREAM_PRIVATE_PLATFORM_FIELDS :: fields where
  "darwin_UV_STREAM_PRIVATE_PLATFORM_FIELDS = [(''select'', void_p)]"

definition UV_STREAM_PRIVATE_PLATFORM_FIELDS :: "target \<Rightarrow> fields" where
  "UV_STREAM_PRIVATE_PLATFORM_FIELDS t =
     (if unix_os_header t = Darwin_h then darwin_UV_STREAM_PRIVATE_PLATFORM_FIELDS else [])"

definition unix_UV_STREAM_PRIVATE_FIELDS :: "target \<Rightarrow> fields" where
  "unix_UV_STREAM_PRIVATE_FIELDS t =
     [(''connect_req'', Ptr ''uv_connect_t''),
      (''shutdown_req'', Ptr ''uv_shutdown_t''),
      (''io_watcher'', uv__io_s t),
      (''write_queue'', Arr 2 void_p),
      (''write_completed_queue'', Arr 2 void_p),
      (''connection_cb'', Fn ''uv_connection_cb''),
      (''delayed_error'', c_int),
      (''accepted_fd'', c_int),
      (''queued_fds'', void_p)]
     @ UV_STREAM_PRIVATE_PLATFORM_FIELDS t"

definition unix_UV_TCP_PRIVATE_FIELDS :: fields where
  "unix_UV_TCP_PRIVATE_FIELDS = []"

definition unix_UV_UDP_PRIVATE_FIELDS :: "target \<Rightarrow> fields" where
  "unix_UV_UDP_PRIVATE_FIELDS t =
     [(''alloc_cb'', Fn ''uv_alloc_cb''),
      (''recv_cb'', Fn ''uv_udp_recv_cb''),
      (''io_watcher'', uv__io_s t),
      (''write_queue'', Arr 2 void_p),
      (''write_completed_queue'', Arr 2 void_p)]"

definition unix_UV_PIPE_PRIVATE_FIELDS :: fields where
  "unix_UV_PIPE_PRIVATE_FIELDS = [(''pipe_fname'', Ptr ''const char'')]"

definition unix_UV_POLL_PRIVATE_FIELDS :: "target \<Rightarrow> fields" where
  "unix_UV_POLL_PRIVATE_FIELDS t = [(''io_watcher'', uv__io_s t)]"

definition unix_UV_PREPARE_PRIVATE_FIELDS :: fields where
  "unix_UV_PREPARE_PRIVATE_FIELDS = [(''prepare_cb'', Fn ''uv_prepare_cb''), (''queue'', Arr 2 void_p)]"

definition unix_UV_CHECK_PRIVATE_FIELDS :: fields where
  "unix_UV_CHECK_PRIVATE_FIELDS = [(''check_cb'', Fn ''uv_check_cb''), (''queue'', Arr 2 void_p)]"

definition unix_UV_IDLE_PRIVATE_FIELDS :: fields where
  "unix_UV_IDLE_PRIVATE_FIELDS = [(''idle_cb'', Fn ''uv_idle_cb''), (''queue'', Arr 2 void_p)]"

definition unix_UV_ASYNC_PRIVATE_FIELDS :: fields where
  "unix_UV_ASYNC_PRIVATE_FIELDS =
     [(''async_cb'', Fn ''uv_async_cb''), (''queue'', Arr 2 void_p), (''pending'', c_int)]"

definition unix_UV_TIMER_PRIVATE_FIELDS :: fields where
  "unix_UV_TIMER_PRIVATE_FIELDS =
     [(''timer_cb'', Fn ''uv_timer_cb''),
      (''heap_node'', Arr 3 void_p),
      (''timeout'', c_uint64),
      (''repeat'', c_uint64),
      (''start_id'', c_uint64)]"

definition unix_UV_GETADDRINFO_PRIVATE_FIELDS :: fields where
  "unix_UV_GETADDRINFO_PRIVATE_FIELDS =
     [(''work_req'', uv__work),
      (''cb'', Fn ''uv_getaddrinfo_cb''),
      (''hints'', Ptr ''struct addrinfo''),
      (''hostname'', Ptr ''char''),
      (''service'', Ptr ''char''),
      (''addrinfo'', Ptr ''struct addrinfo''),
      (''retcode'', c_int)]"

definition unix_UV_GETNAMEINFO_PRIVATE_FIELDS :: "target \<Rightarrow> fields" where
  "unix_UV_GETNAMEINFO_PRIVATE_FIELDS t =
     [(''work_req'', uv__work),
      (''getnameinfo_cb'', Fn ''uv_getnameinfo_cb''),
      (''storage'', Named ''struct sockaddr_storage''),
      (''flags'', c_int),
      (''host'', Arr (NI_MAXHOST t) c_char),
      (''service'', Arr (NI_MAXSERV t) c_char),
      (''retcode'', c_int)]"

definition unix_UV_PROCESS_PRIVATE_FIELDS :: fields where
  "unix_UV_PROCESS_PRIVATE_FIELDS = [(''queue'', Arr 2 void_p), (''status'', c_int)]"

definition unix_UV_FS_PRIVATE_FIELDS :: "target \<Rightarrow> fields" where
  "unix_UV_FS_PRIVATE_FIELDS t =
     [(''new_path'', Ptr ''const char''),
      (''file'', unix_typedef t ''uv_file''),
      (''flags'', c_int),
      (''mode'', Named ''mode_t''),
      (''nbufs'', c_uint),
      (''bufs'', Ptr ''uv_buf_t''),
      (''off'', Named ''off_t''),
      (''uid'', unix_uv_uid_t),
      (''gid'', unix_uv_gid_t),
      (''atime'', c_double),
      (''mtime'', c_double),
      (''work_req'', uv__work),
      (''bufsml'', Arr 4 unix_uv_buf_t)]"

definition unix_UV_WORK_PRIVATE_FIELDS :: fields where
  "unix_UV_WORK_PRIVATE_FIELDS = [(''work_req'', uv__work)]"

definition unix_UV_TTY_PRIVATE_FIELDS :: fields where
  "unix_UV_TTY_PRIVATE_FIELDS = [(''orig_termios'', Named ''struct termios''), (''mode'', c_int)]"

definition unix_UV_SIGNAL_PRIVATE_FIELDS :: fields where
  "unix_UV_SIGNAL_PRIVATE_FIELDS =
     [(''tree_entry'', Struct ''anonymous''
        [(''rbe_left'', Ptr ''struct uv_signal_s''),
         (''rbe_right'', Ptr ''struct uv_signal_s''),
         (''rbe_parent'', Ptr ''struct uv_signal_s''),
         (''rbe_color'', c_int)]),
      (''caught_signals'', c_uint),
      (''dispatched_signals'', c_uint)]"

definition linux_UV_PLATFORM_FS_EVENT_FIELDS :: fields where
  "linux_UV_PLATFORM_FS_EVENT_FIELDS = [(''watchers'', Arr 2 void_p), (''wd'', c_int)]"

definition darwin_UV_PLATFORM_FS_EVENT_FIELDS :: "target \<Rightarrow> fields" where
  "darwin_UV_PLATFORM_FS_EVENT_FIELDS t =
     [(''event_watcher'', uv__io_s t),
      (''realpath'', Ptr ''char''),
      (''realpath_len'', c_int),
      (''cf_flags'', c_int),
      (''cf_cb'', Ptr ''uv_async_t''),
      (''cf_events'', Arr 2 void_p),
      (''cf_member'', Arr 2 void_p),
      (''cf_error'', c_int),
      (''cf_mutex'', unix_typedef t ''uv_mutex_t'')]"

definition bsd_UV_PLATFORM_FS_EVENT_FIELDS :: "target \<Rightarrow> fields" where
  "bsd_UV_PLATFORM_FS_EVENT_FIELDS t = [(''event_watcher'', uv__io_s t)]"

definition sunos_UV_PLATFORM_FS_EVENT_FIELDS :: "target \<Rightarrow> fields" where
  "sunos_UV_PLATFORM_FS_EVENT_FIELDS t =
     (if is_defined t ''PORT_SOURCE_FILE'' then [(''fo'', Named ''file_obj_t''), (''fd'', c_int)]
      else [])"

definition os390_UV_PLATFORM_FS_EVENT_FIELDS :: fields where
  "os390_UV_PLATFORM_FS_EVENT_FIELDS = [(''rfis_rftok'', Arr 8 c_char)]"

definition aix_UV_PLATFORM_FS_EVENT_FIELDS :: "target \<Rightarrow> fields" where
  "aix_UV_PLATFORM_FS_EVENT_FIELDS t =
     [(''event_watcher'', uv__io_s t), (''dir_filename'', Ptr ''char'')]"

definition UV_PLATFORM_FS_EVENT_FIELDS :: "target \<Rightarrow> fields" where
  "UV_PLATFORM_FS_EVENT_FIELDS t = (case unix_os_header t of
     Linux_h \<Rightarrow> linux_UV_PLATFORM_FS_EVENT_FIELDS
   | Darwin_h \<Rightarrow> darwin_UV_PLATFORM_FS_EVENT_FIELDS t
   | Bsd_h \<Rightarrow> bsd_UV_PLATFORM_FS_EVENT_FIELDS t
   | Sunos_h \<Rightarrow> sunos_UV_PLATFORM_FS_EVENT_FIELDS t
   | Os390_h \<Rightarrow> os390_UV_PLATFORM_FS_EVENT_FIELDS
   | Aix_h \<Rightarrow> aix_UV_PLATFORM_FS_EVENT_FIELDS t
   | _ \<Rightarrow> [])"

definition unix_UV_FS_EVENT_PRIVATE_FIELDS :: "target \<Rightarrow> fields" where
  "unix_UV_FS_EVENT_PRIVATE_FIELDS t = (''cb'', Fn ''uv_fs_event_cb'') # UV_PLATFORM_FS_EVENT_FIELDS t"

section \<open>Directory entry types and open flags\<close>

text \<open>\<^term>\<open>None\<close> stands for a system without \<open>HAVE_DIRENT_TYPES\<close>.\<close>

definition unix_UV__DT :: "target \<Rightarrow> (string \<times> int) list option" where
  "unix_UV__DT t = (if is_defined t ''DT_UNKNOWN'' then Some
     [(''UV__DT_FILE'', value_or t ''DT_REG'' (-1)),
      (''UV__DT_DIR'', value_or t ''DT_DIR'' (-2)),
      (''UV__DT_LINK'', value_or t ''DT_LNK'' (-3)),
      (''UV__DT_FIFO'', value_or t ''DT_FIFO'' (-4)),
      (''UV__DT_SOCKET'', value_or t ''DT_SOCK'' (-5)),
      (''UV__DT_CHAR'', value_or t ''DT_CHR'' (-6)),
      (''UV__DT_BLOCK'', value_or t ''DT_BLK'' (-7))]
   else None)"

definition unix_UV_FS_O_DIRECT :: "target \<Rightarrow> int" where
  "unix_UV_FS_O_DIRECT t =
     (if is_defined t ''__linux__'' \<and> is_defined t ''__arm__'' then 0x10000
      else if is_defined t ''__linux__'' \<and> is_defined t ''__m68k__'' then 0x10000
      else if is_defined t ''__linux__'' \<and> is_defined t ''__mips__'' then 0x08000
      else if is_defined t ''__linux__'' \<and> is_defined t ''__powerpc__'' then 0x20000
      else if is_defined t ''__linux__'' \<and> is_defined t ''__s390x__'' then 0x04000
      else if is_defined t ''__linux__'' \<and> is_defined t ''__x86_64__'' then 0x04000
      else value_or t ''O_DIRECT'' 0)"

definition unix_UV_FS_O :: "target \<Rightarrow> (string \<times> int) list" where
  "unix_UV_FS_O t =
     [(''UV_FS_O_APPEND'', value_or t ''O_APPEND'' 0),
      (''UV_FS_O_CREAT'', value_or t ''O_CREAT'' 0),
      (''UV_FS_O_DIRECT'', unix_UV_FS_O_DIRECT t),
      (''UV_FS_O_DIRECTORY'', value_or t ''O_DIRECTORY'' 0),
      (''UV_FS_O_DSYNC'', value_or t ''O_DSYNC'' 0),
      (''UV_FS_O_EXCL'', value_or t ''O_EXCL'' 0),
      (''UV_FS_O_EXLOCK'', value_or t ''O_EXLOCK'' 0),
      (''UV_FS_O_NOATIME'', value_or t ''O_NOATIME'' 0),
      (''UV_FS_O_NOCTTY'', value_or t ''O_NOCTTY'' 0),
      (''UV_FS_O_NOFOLLOW'', value_or t ''O_NOFOLLOW'' 0),
      (''UV_FS_O_NONBLOCK'', value_or t ''O_NONBLOCK'' 0),
      (''UV_FS_O_RDONLY'', value_or t ''O_RDONLY'' 0),
      (''UV_FS_O_RDWR'', value_or t ''O_RDWR'' 0),
      (''UV_FS_O_SYMLINK'', value_or t ''O_SYMLINK'' 0),
      (''UV_FS_O_SYNC'', value_or t ''O_SYNC'' 0),
      (''UV_FS_O_TRUNC'', value_or t ''O_TRUNC'' 0),
      (''UV_FS_O_WRONLY'', value_or t ''O_WRONLY'' 0),
      (''UV_FS_O_FILEMAP'', 0),
      (''UV_FS_O_RANDOM'', 0),
      (''UV_FS_O_SHORT_LIVED'', 0),
      (''UV_FS_O_SEQUENTIAL'', 0),
      (''UV_FS_O_TEMPORARY'', 0)]"

end
