(* ===== verification/Uv_Win.thy ===== *)
theory Uv_Win
  imports Uv_Unix
begin

text \<open>
  The platform part of libuv's types on Windows: \<open>uv/win.h\<close>. As on Unix, a macro that expands to
  fields is a list of fields, and one whose text uses types or macros of \<open>uv.h\<close> takes them as
  arguments: the request fields, or structs built from them.
\<close>

section \<open>Constants\<close>

definition win_SIGHUP :: int where "win_SIGHUP = 1"

definition win_SIGKILL :: int where "win_SIGKILL = 9"

definition win_SIGWINCH :: int where "win_SIGWINCH = 28"

definition win_NSIG :: "target \<Rightarrow> int" where
  "win_NSIG t =
     (let n = (case macros_def t ''NSIG'' of
                 Some n \<Rightarrow> if n \<le> win_SIGWINCH then None else Some n
               | None \<Rightarrow> None)
      in case n of Some n \<Rightarrow> n | None \<Rightarrow> win_SIGWINCH + 1)"

definition win_SIGABRT_COMPAT :: "target \<Rightarrow> int" where
  "win_SIGABRT_COMPAT t = value_or t ''SIGABRT_COMPAT'' 6"

text \<open>The signals that the C runtime defines, as the comment of the header lists them.\<close>

definition win_crt_signals :: "target \<Rightarrow> (string \<times> int) list" where
  "win_crt_signals t =
     [(''SIGINT'', 2), (''SIGILL'', 4), (''SIGABRT_COMPAT'', win_SIGABRT_COMPAT t), (''SIGFPE'', 8),
      (''SIGSEGV'', 11), (''SIGTERM'', 15), (''SIGBREAK'', 21), (''SIGABRT'', 22)]"

definition MAX_PIPENAME_LEN :: int where "MAX_PIPENAME_LEN = 256"

definition win_S_IFLNK :: "target \<Rightarrow> int" where
  "win_S_IFLNK t = value_or t ''S_IFLNK'' 0xA000"

definition UV_MSAFD_PROVIDER_COUNT :: nat where "UV_MSAFD_PROVIDER_COUNT = 3"

text \<open>The identifiers of the Winsock extension functions.\<close>

record guid =
  data1 :: "32 word"
  data2 :: "16 word"
  data3 :: "16 word"
  data4 :: "8 word list"

definition WSAID_ACCEPTEX :: guid where
  "WSAID_ACCEPTEX = \<lparr>data1 = 0xb5367df1, data2 = 0xcbac, data3 = 0x11cf,
     data4 = [0x95, 0xca, 0x00, 0x80, 0x5f, 0x48, 0xa1, 0x92]\<rparr>"

definition WSAID_CONNECTEX :: guid where
  "WSAID_CONNECTEX = \<lparr>data1 = 0x25a207b9, data2 = 0xddf3, data3 = 0x4660,
     data4 = [0x8e, 0xe9, 0x76, 0xe5, 0x8c, 0x74, 0x06, 0x3e]\<rparr>"

definition WSAID_GETACCEPTEXSOCKADDRS :: guid where
  "WSAID_GETACCEPTEXSOCKADDRS = \<lparr>data1 = 0xb5367df2, data2 = 0xcbac, data3 = 0x11cf,
     data4 = [0x95, 0xca, 0x00, 0x80, 0x5f, 0x48, 0xa1, 0x92]\<rparr>"

definition WSAID_DISCONNECTEX :: guid where
  "WSAID_DISCONNECTEX = \<lparr>data1 = 0x7fda2e11, data2 = 0x8630, data3 = 0x436f,
     data4 = [0xa0, 0x31, 0xf5, 0x36, 0xa6, 0xee, 0xc1, 0x57]\<rparr>"

definition WSAID_TRANSMITFILE :: guid where
  "WSAID_TRANSMITFILE = \<lparr>data1 = 0xb5367df0, data2 = 0xcbac, data3 = 0x11cf,
     data4 = [0x95, 0xca, 0x00, 0x80, 0x5f, 0x48, 0xa1, 0x92]\<rparr>"

section \<open>Types\<close>

text \<open>The typedefs that the header supplies where the system headers do not.\<close>

definition win_ssize_t :: "target \<Rightarrow> ctype" where
  "win_ssize_t t = (if \<not> is_defined t ''_SSIZE_T_'' \<and> \<not> is_defined t ''_SSIZE_T_DEFINED''
     then Named ''intptr_t'' else Named ''ssize_t'')"

definition win_pollfd :: ctype where
  "win_pollfd = Struct ''pollfd''
     [(''fd'', Named ''SOCKET''), (''events'', Named ''short''), (''revents'', Named ''short'')]"

definition win_SRWLOCK :: "target \<Rightarrow> ctype" where
  "win_SRWLOCK t = (if is_defined t ''WSAID_ACCEPTEX'' then Named ''SRWLOCK'' else Named ''PVOID'')"

definition win_NTSTATUS :: "target \<Rightarrow> ctype" where
  "win_NTSTATUS t = (if is_defined t ''_NTDEF_'' then Named ''NTSTATUS'' else Named ''LONG'')"

definition win_CONDITION_VARIABLE :: "target \<Rightarrow> ctype" where
  "win_CONDITION_VARIABLE t =
     (if is_defined t ''RTL_CONDITION_VARIABLE_INIT'' then Named ''CONDITION_VARIABLE''
      else Named ''PVOID'')"

definition AFD_POLL_HANDLE_INFO :: "target \<Rightarrow> ctype" where
  "AFD_POLL_HANDLE_INFO t = Struct ''_AFD_POLL_HANDLE_INFO''
     [(''Handle'', Named ''HANDLE''), (''Events'', Named ''ULONG''), (''Status'', win_NTSTATUS t)]"

definition AFD_POLL_INFO :: "target \<Rightarrow> ctype" where
  "AFD_POLL_INFO t = Struct ''_AFD_POLL_INFO''
     [(''Timeout'', Named ''LARGE_INTEGER''),
      (''NumberOfHandles'', Named ''ULONG''),
      (''Exclusive'', Named ''ULONG''),
      (''Handles'', Arr 1 (AFD_POLL_HANDLE_INFO t))]"

definition win_uv_buf_t :: ctype where
  "win_uv_buf_t = Struct ''uv_buf_t'' [(''len'', Named ''ULONG''), (''base'', Ptr ''char'')]"

definition win_typedefs :: "(string \<times> ctype) list" where
  "win_typedefs =
     [(''uv_file'', c_int),
      (''uv_os_sock_t'', Named ''SOCKET''),
      (''uv_os_fd_t'', Named ''HANDLE''),
      (''uv_pid_t'', c_int),
      (''uv_thread_t'', Named ''HANDLE''),
      (''uv_sem_t'', Named ''HANDLE''),
      (''uv_mutex_t'', Named ''CRITICAL_SECTION'')]"

definition win_typedef :: "string \<Rightarrow> ctype" where
  "win_typedef n = the (map_of win_typedefs n)"

definition win_uv_cond_t :: "target \<Rightarrow> ctype" where
  "win_uv_cond_t t = Union ''uv_cond_t''
     [(''cond_var'', win_CONDITION_VARIABLE t),
      (''unused_'', Struct ''anonymous''
         [(''waiters_count'', c_uint),
          (''waiters_count_lock'', Named ''CRITICAL_SECTION''),
          (''signal_event'', Named ''HANDLE''),
          (''broadcast_event'', Named ''HANDLE'')])]"

definition win_uv_rwlock_t :: "target \<Rightarrow> ctype" where
  "win_uv_rwlock_t t = Union ''uv_rwlock_t''
     [(''state_'', Struct ''anonymous''
         [(''num_readers_'', c_uint),
          (''num_readers_lock_'', Named ''CRITICAL_SECTION''),
          (''write_semaphore_'', Named ''HANDLE'')]),
      (''unused1_'', Struct ''anonymous'' [(''unused_'', win_SRWLOCK t)]),
      (''unused2_'', Struct ''anonymous''
         [(''unused1_'', win_typedef ''uv_mutex_t''), (''unused2_'', win_typedef ''uv_mutex_t'')])]"

definition win_uv_barrier_t :: ctype where
  "win_uv_barrier_t = Struct ''uv_barrier_t''
     [(''n'', c_uint),
      (''count'', c_uint),
      (''mutex'', win_typedef ''uv_mutex_t''),
      (''turnstile1'', win_typedef ''uv_sem_t''),
      (''turnstile2'', win_typedef ''uv_sem_t'')]"

definition win_uv_key_t :: ctype where
  "win_uv_key_t = Struct ''uv_key_t'' [(''tls_index'', Named ''DWORD'')]"

definition win_uv_once_t :: ctype where
  "win_uv_once_t = Struct ''uv_once_s'' [(''ran'', c_uchar), (''event'', Named ''HANDLE'')]"

definition win_uv_uid_t :: ctype where "win_uv_uid_t = c_uchar"

definition win_uv_gid_t :: ctype where "win_uv_gid_t = c_uchar"

definition win_uv__dirent_t :: ctype where
  "win_uv__dirent_t = Struct ''uv__dirent_s'' [(''d_type'', c_int), (''d_name'', Arr 1 c_char)]"

definition win_uv_lib_t :: ctype where
  "win_uv_lib_t = Struct ''uv_lib_t'' [(''handle'', Named ''HMODULE''), (''errmsg'', Ptr ''char'')]"

section \<open>Private fields of requests\<close>

definition win_UV_DIR_PRIVATE_FIELDS :: fields where
  "win_UV_DIR_PRIVATE_FIELDS =
     [(''dir_handle'', Named ''HANDLE''),
      (''find_data'', Named ''WIN32_FIND_DATAW''),
      (''need_find_call'', Named ''BOOL'')]"

definition win_UV_REQ_TYPE_PRIVATE :: "string list" where
  "win_UV_REQ_TYPE_PRIVATE =
     [''UV_ACCEPT'', ''UV_FS_EVENT_REQ'', ''UV_POLL_REQ'', ''UV_PROCESS_EXIT'', ''UV_READ'',
      ''UV_UDP_RECV'', ''UV_WAKEUP'', ''UV_SIGNAL_REQ'']"

definition win_UV_REQ_PRIVATE_FIELDS :: fields where
  "win_UV_REQ_PRIVATE_FIELDS =
     [(''u'', Union ''anonymous''
         [(''io'', Struct ''anonymous''
             [(''overlapped'', Named ''OVERLAPPED''), (''queued_bytes'', c_size_t)])]),
      (''next_req'', Ptr ''struct uv_req_s'')]"

definition win_UV_WRITE_PRIVATE_FIELDS :: fields where
  "win_UV_WRITE_PRIVATE_FIELDS =
     [(''coalesced'', c_int),
      (''write_buffer'', win_uv_buf_t),
      (''event_handle'', Named ''HANDLE''),
      (''wait_handle'', Named ''HANDLE'')]"

definition win_UV_CONNECT_PRIVATE_FIELDS :: fields where
  "win_UV_CONNECT_PRIVATE_FIELDS = []"

definition win_UV_SHUTDOWN_PRIVATE_FIELDS :: fields where
  "win_UV_SHUTDOWN_PRIVATE_FIELDS = []"

definition win_UV_UDP_SEND_PRIVATE_FIELDS :: fields where
  "win_UV_UDP_SEND_PRIVATE_FIELDS = []"

text \<open>The three structs of \<open>UV_PRIVATE_REQ_TYPES\<close>, given \<open>UV_REQ_FIELDS\<close>.\<close>

definition uv_pipe_accept_s :: "fields \<Rightarrow> ctype" where
  "uv_pipe_accept_s req_fields = Struct ''uv_pipe_accept_s'' (req_fields @
     [(''pipeHandle'', Named ''HANDLE''),
      (''next_pending'', Ptr ''struct uv_pipe_accept_s'')])"

definition uv_tcp_accept_s :: "target \<Rightarrow> fields \<Rightarrow> ctype" where
  "uv_tcp_accept_s t req_fields = Struct ''uv_tcp_accept_s'' (req_fields @
     [(''accept_socket'', Named ''SOCKET''),
      (''accept_buffer'', Arr (size_of t (Named ''struct sockaddr_storage'') * 2 + 32) c_char),
      (''event_handle'', Named ''HANDLE''),
      (''wait_handle'', Named ''HANDLE''),
      (''next_pending'', Ptr ''struct uv_tcp_accept_s'')])"

definition uv_read_s :: "fields \<Rightarrow> ctype" where
  "uv_read_s req_fields = Struct ''uv_read_s'' (req_fields @
     [(''event_handle'', Named ''HANDLE''), (''wait_handle'', Named ''HANDLE'')])"

definition win_UV_GETADDRINFO_PRIVATE_FIELDS :: fields where
  "win_UV_GETADDRINFO_PRIVATE_FIELDS =
     [(''work_req'', uv__work),
      (''getaddrinfo_cb'', Fn ''uv_getaddrinfo_cb''),
      (''alloc'', void_p),
      (''node'', Ptr ''WCHAR''),
      (''service'', Ptr ''WCHAR''),
      (''addrinfow'', Ptr ''struct addrinfoW''),
      (''addrinfo'', Ptr ''struct addrinfo''),
      (''retcode'', c_int)]"

text \<open>\<open>NI_MAXHOST\<close> and \<open>NI_MAXSERV\<close> come from the Winsock headers, which always define them.\<close>

definition win_UV_GETNAMEINFO_PRIVATE_FIELDS :: "target \<Rightarrow> fields" where
  "win_UV_GETNAMEINFO_PRIVATE_FIELDS t =
     [(''work_req'', uv__work),
      (''getnameinfo_cb'', Fn ''uv_getnameinfo_cb''),
      (''storage'', Named ''struct sockaddr_storage''),
      (''flags'', c_int),
      (''host'', Arr (nat (value_or t ''NI_MAXHOST'' 0)) c_char),
      (''service'', Arr (nat (value_or t ''NI_MAXSERV'' 0)) c_char),
      (''retcode'', c_int)]"

definition win_UV_FS_PRIVATE_FIELDS :: fields where
  "win_UV_FS_PRIVATE_FIELDS =
     [(''work_req'', uv__work),
      (''flags'', c_int),
      (''sys_errno_'', Named ''DWORD''),
      (''file'', Union ''anonymous'' [(''pathw'', Ptr ''WCHAR''), (''fd'', c_int)]),
      (''fs'', Union ''anonymous''
         [(''info'', Struct ''anonymous''
             [(''mode'', c_int),
              (''new_pathw'', Ptr ''WCHAR''),
              (''file_flags'', c_int),
              (''fd_out'', c_int),
              (''nbufs'', c_uint),
              (''bufs'', Ptr ''uv_buf_t''),
              (''offset'', Named ''int64_t''),
              (''bufsml'', Arr 4 win_uv_buf_t)]),
          (''time'', Struct ''anonymous'' [(''atime'', c_double), (''mtime'', c_double)])])]"

definition win_UV_WORK_PRIVATE_FIELDS :: fields where
  "win_UV_WORK_PRIVATE_FIELDS = [(''work_req'', uv__work)]"

section \<open>Private fields of handles\<close>

definition win_UV_HANDLE_PRIVATE_FIELDS :: fields where
  "win_UV_HANDLE_PRIVATE_FIELDS = [(''endgame_next'', Ptr ''uv_handle_t''), (''flags'', c_uint)]"

definition uv_stream_connection_fields :: fields where
  "uv_stream_connection_fields =
     [(''write_reqs_pending'', c_uint), (''shutdown_req'', Ptr ''uv_shutdown_t'')]"

definition uv_stream_server_fields :: fields where
  "uv_stream_server_fields = [(''connection_cb'', Fn ''uv_connection_cb'')]"

definition win_UV_STREAM_PRIVATE_FIELDS :: "ctype \<Rightarrow> fields" where
  "win_UV_STREAM_PRIVATE_FIELDS uv_read_t =
     [(''reqs_pending'', c_uint),
      (''activecnt'', c_int),
      (''read_req'', uv_read_t),
      (''stream'', Union ''anonymous''
         [(''conn'', Struct ''anonymous'' uv_stream_connection_fields),
          (''serv'', Struct ''anonymous'' uv_stream_server_fields)])]"

definition uv_tcp_server_fields :: fields where
  "uv_tcp_server_fields =
     [(''accept_reqs'', Ptr ''uv_tcp_accept_t''),
      (''processed_accepts'', c_uint),
      (''pending_accepts'', Ptr ''uv_tcp_accept_t''),
      (''func_acceptex'', Fn ''LPFN_ACCEPTEX'')]"

definition uv_tcp_connection_fields :: fields where
  "uv_tcp_connection_fields =
     [(''read_buffer'', win_uv_buf_t), (''func_connectex'', Fn ''LPFN_CONNECTEX'')]"

definition win_UV_TCP_PRIVATE_FIELDS :: fields where
  "win_UV_TCP_PRIVATE_FIELDS =
     [(''socket'', Named ''SOCKET''),
      (''delayed_error'', c_int),
      (''tcp'', Union ''anonymous''
         [(''serv'', Struct ''anonymous'' uv_tcp_server_fields),
          (''conn'', Struct ''anonymous'' uv_tcp_connection_fields)])]"

definition win_UV_UDP_PRIVATE_FIELDS :: "ctype \<Rightarrow> fields" where
  "win_UV_UDP_PRIVATE_FIELDS uv_req_t =
     [(''socket'', Named ''SOCKET''),
      (''reqs_pending'', c_uint),
      (''activecnt'', c_int),
      (''recv_req'', uv_req_t),
      (''recv_buffer'', win_uv_buf_t),
      (''recv_from'', Named ''struct sockaddr_storage''),
      (''recv_from_len'', c_int),
      (''recv_cb'', Fn ''uv_udp_recv_cb''),
      (''alloc_cb'', Fn ''uv_alloc_cb''),
      (''func_wsarecv'', Fn ''LPFN_WSARECV''),
      (''func_wsarecvfrom'', Fn ''LPFN_WSARECVFROM'')]"

definition uv_pipe_server_fields :: fields where
  "uv_pipe_server_fields =
     [(''pending_instances'', c_int),
      (''accept_reqs'', Ptr ''uv_pipe_accept_t''),
      (''pending_accepts'', Ptr ''uv_pipe_accept_t'')]"

definition uv_pipe_connection_fields :: "ctype \<Rightarrow> fields" where
  "uv_pipe_connection_fields uv_write_t =
     [(''eof_timer'', Ptr ''uv_timer_t''),
      (''dummy'', uv_write_t),
      (''ipc_remote_pid'', Named ''DWORD''),
      (''ipc_data_frame'', Union ''anonymous''
         [(''payload_remaining'', Named ''uint32_t''), (''dummy'', c_uint64)]),
      (''ipc_xfer_queue'', Arr 2 void_p),
      (''ipc_xfer_queue_length'', c_int),
      (''non_overlapped_writes_tail'', Ptr ''uv_write_t''),
      (''readfile_thread_lock'', Named ''CRITICAL_SECTION''),
      (''readfile_thread_handle'', Named ''HANDLE'')]"

definition win_UV_PIPE_PRIVATE_FIELDS :: "ctype \<Rightarrow> fields" where
  "win_UV_PIPE_PRIVATE_FIELDS uv_write_t =
     [(''handle'', Named ''HANDLE''),
      (''name'', Ptr ''WCHAR''),
      (''pipe'', Union ''anonymous''
         [(''serv'', Struct ''anonymous'' uv_pipe_server_fields),
          (''conn'', Struct ''anonymous'' (uv_pipe_connection_fields uv_write_t))])]"

definition win_UV_TTY_PRIVATE_FIELDS :: fields where
  "win_UV_TTY_PRIVATE_FIELDS =
     [(''handle'', Named ''HANDLE''),
      (''tty'', Union ''anonymous''
         [(''rd'', Struct ''anonymous''
             [(''unused_'', Named ''HANDLE''),
              (''read_line_buffer'', win_uv_buf_t),
              (''read_raw_wait'', Named ''HANDLE''),
              (''last_key'', Arr 8 c_char),
              (''last_key_offset'', c_uchar),
              (''last_key_len'', c_uchar),
              (''last_utf16_high_surrogate'', Named ''WCHAR''),
              (''last_input_record'', Named ''INPUT_RECORD'')]),
          (''wr'', Struct ''anonymous''
             [(''utf8_codepoint'', c_uint),
              (''utf8_bytes_left'', c_uchar),
              (''previous_eol'', c_uchar),
              (''ansi_parser_state'', Named ''unsigned short''),
              (''ansi_csi_argc'', c_uchar),
              (''ansi_csi_argv'', Arr 4 (Named ''unsigned short'')),
              (''saved_position'', Named ''COORD''),
              (''saved_attributes'', Named ''WORD'')])])]"

definition win_UV_POLL_PRIVATE_FIELDS :: "target \<Rightarrow> ctype \<Rightarrow> fields" where
  "win_UV_POLL_PRIVATE_FIELDS t uv_req_t =
     [(''socket'', Named ''SOCKET''),
      (''peer_socket'', Named ''SOCKET''),
      (''afd_poll_info_1'', AFD_POLL_INFO t),
      (''afd_poll_info_2'', AFD_POLL_INFO t),
      (''poll_req_1'', uv_req_t),
      (''poll_req_2'', uv_req_t),
      (''submitted_events_1'', c_uchar),
      (''submitted_events_2'', c_uchar),
      (''mask_events_1'', c_uchar),
      (''mask_events_2'', c_uchar),
      (''events'', c_uchar)]"

definition win_UV_TIMER_PRIVATE_FIELDS :: fields where
  "win_UV_TIMER_PRIVATE_FIELDS =
     [(''heap_node'', Arr 3 void_p),
      (''unused'', c_int),
      (''timeout'', c_uint64),
      (''repeat'', c_uint64),
      (''start_id'', c_uint64),
      (''timer_cb'', Fn ''uv_timer_cb'')]"

definition win_UV_ASYNC_PRIVATE_FIELDS :: "ctype \<Rightarrow> fields" where
  "win_UV_ASYNC_PRIVATE_FIELDS uv_req_t =
     [(''async_req'', uv_req_t), (''async_cb'', Fn ''uv_async_cb''), (''async_sent'', c_char)]"

definition win_UV_PREPARE_PRIVATE_FIELDS :: fields where
  "win_UV_PREPARE_PRIVATE_FIELDS =
     [(''prepare_prev'', Ptr ''uv_prepare_t''),
      (''prepare_next'', Ptr ''uv_prepare_t''),
      (''prepare_cb'', Fn ''uv_prepare_cb'')]"

definition win_UV_CHECK_PRIVATE_FIELDS :: fields where
  "win_UV_CHECK_PRIVATE_FIELDS =
     [(''check_prev'', Ptr ''uv_check_t''),
      (''check_next'', Ptr ''uv_check_t''),
      (''check_cb'', Fn ''uv_check_cb'')]"

definition win_UV_IDLE_PRIVATE_FIELDS :: fields where
  "win_UV_IDLE_PRIVATE_FIELDS =
     [(''idle_prev'', Ptr ''uv_idle_t''),
      (''idle_next'', Ptr ''uv_idle_t''),
      (''idle_cb'', Fn ''uv_idle_cb'')]"

definition win_UV_PROCESS_PRIVATE_FIELDS :: "fields \<Rightarrow> fields" where
  "win_UV_PROCESS_PRIVATE_FIELDS req_fields =
     [(''exit_req'', Struct ''uv_process_exit_s'' req_fields),
      (''child_stdio_buffer'', Ptr ''BYTE''),
      (''exit_signal'', c_int),
      (''wait_handle'', Named ''HANDLE''),
      (''process_handle'', Named ''HANDLE''),
      (''exit_cb_pending'', c_char)]"

definition win_UV_FS_EVENT_PRIVATE_FIELDS :: "fields \<Rightarrow> fields" where
  "win_UV_FS_EVENT_PRIVATE_FIELDS req_fields =
     [(''req'', Struct ''uv_fs_event_req_s'' req_fields),
      (''dir_handle'', Named ''HANDLE''),
      (''req_pending'', c_int),
      (''cb'', Fn ''uv_fs_event_cb''),
      (''filew'', Ptr ''WCHAR''),
      (''short_filew'', Ptr ''WCHAR''),
      (''dirw'', Ptr ''WCHAR''),
      (''buffer'', Ptr ''char'')]"

text \<open>\<open>RB_ENTRY(type)\<close> of \<open>uv/tree.h\<close> as a struct; \<open>uv_signal_s\<close> has one.\<close>

definition RB_ENTRY :: "string \<Rightarrow> ctype" where
  "RB_ENTRY type = Struct ''anonymous''
     [(''rbe_left'', Ptr (''struct '' @ type)),
      (''rbe_right'', Ptr (''struct '' @ type)),
      (''rbe_parent'', Ptr (''struct '' @ type)),
      (''rbe_color'', c_int)]"

definition win_UV_SIGNAL_PRIVATE_FIELDS :: "ctype \<Rightarrow> fields" where
  "win_UV_SIGNAL_PRIVATE_FIELDS uv_req_s =
     [(''tree_entry'', RB_ENTRY ''uv_signal_s''),
      (''signal_req'', uv_req_s),
      (''pending_signum'', c_ulong)]"

definition win_UV_LOOP_PRIVATE_FIELDS :: "ctype \<Rightarrow> fields" where
  "win_UV_LOOP_PRIVATE_FIELDS uv_async_t =
     [(''iocp'', Named ''HANDLE''),
      (''time'', c_uint64),
      (''pending_reqs_tail'', Ptr ''uv_req_t''),
      (''endgame_handles'', Ptr ''uv_handle_t''),
      (''timer_heap'', void_p),
      (''prepare_handles'', Ptr ''uv_prepare_t''),
      (''check_handles'', Ptr ''uv_check_t''),
      (''idle_handles'', Ptr ''uv_idle_t''),
      (''next_prepare_handle'', Ptr ''uv_prepare_t''),
      (''next_check_handle'', Ptr ''uv_check_t''),
      (''next_idle_handle'', Ptr ''uv_idle_t''),
      (''poll_peer_sockets'', Arr UV_MSAFD_PROVIDER_COUNT (Named ''SOCKET'')),
      (''active_tcp_streams'', c_uint),
      (''active_udp_streams'', c_uint),
      (''timer_counter'', c_uint64),
      (''wq'', Arr 2 void_p),
      (''wq_mutex'', win_typedef ''uv_mutex_t''),
      (''wq_async'', uv_async_t)]"

section \<open>Access modes and open flags\<close>

definition win_access_modes :: "target \<Rightarrow> (string \<times> int) list" where
  "win_access_modes t =
     [(''F_OK'', value_or t ''F_OK'' 0),
      (''R_OK'', value_or t ''R_OK'' 4),
      (''W_OK'', value_or t ''W_OK'' 2),
      (''X_OK'', value_or t ''X_OK'' 1)]"

text \<open>The macros with an underscore are those of the C runtime, which defines them all.\<close>

definition win_UV_FS_O :: "target \<Rightarrow> (string \<times> int) list" where
  "win_UV_FS_O t =
     [(''UV_FS_O_APPEND'', value_or t ''_O_APPEND'' 0),
      (''UV_FS_O_CREAT'', value_or t ''_O_CREAT'' 0),
      (''UV_FS_O_EXCL'', value_or t ''_O_EXCL'' 0),
      (''UV_FS_O_FILEMAP'', 0x20000000),
      (''UV_FS_O_RANDOM'', value_or t ''_O_RANDOM'' 0),
      (''UV_FS_O_RDONLY'', value_or t ''_O_RDONLY'' 0),
      (''UV_FS_O_RDWR'', value_or t ''_O_RDWR'' 0),
      (''UV_FS_O_SEQUENTIAL'', value_or t ''_O_SEQUENTIAL'' 0),
      (''UV_FS_O_SHORT_LIVED'', value_or t ''_O_SHORT_LIVED'' 0),
      (''UV_FS_O_TEMPORARY'', value_or t ''_O_TEMPORARY'' 0),
      (''UV_FS_O_TRUNC'', value_or t ''_O_TRUNC'' 0),
      (''UV_FS_O_WRONLY'', value_or t ''_O_WRONLY'' 0),
      (''UV_FS_O_DIRECT'', 0x02000000),
      (''UV_FS_O_DIRECTORY'', 0),
      (''UV_FS_O_DSYNC'', 0x04000000),
      (''UV_FS_O_EXLOCK'', 0x10000000),
      (''UV_FS_O_NOATIME'', 0),
      (''UV_FS_O_NOCTTY'', 0),
      (''UV_FS_O_NOFOLLOW'', 0),
      (''UV_FS_O_NONBLOCK'', 0),
      (''UV_FS_O_SYMLINK'', 0),
      (''UV_FS_O_SYNC'', 0x08000000)]"

section \<open>Types of Winsock functions\<close>

text \<open>
  The types of the extension functions, defined where the system headers lack them, and of two functions
  that are called through pointers: the result and the parameters, with the names of the system's types.
\<close>

definition winsock_extensions :: "target \<Rightarrow> (string \<times> ctype \<times> ctype list) list" where
  "winsock_extensions t =
    (if is_defined t ''WSAID_ACCEPTEX'' then [] else
       [(''LPFN_ACCEPTEX'', Named ''BOOL'',
         [Named ''SOCKET'', Named ''SOCKET'', Named ''PVOID'', Named ''DWORD'', Named ''DWORD'', Named ''DWORD'',
          Named ''LPDWORD'', Named ''LPOVERLAPPED'']),
        (''LPFN_CONNECTEX'', Named ''BOOL'',
         [Named ''SOCKET'', Ptr ''struct sockaddr'', Named ''int'', Named ''PVOID'', Named ''DWORD'', Named ''LPDWORD'',
          Named ''LPOVERLAPPED'']),
        (''LPFN_GETACCEPTEXSOCKADDRS'', Named ''void'',
         [Named ''PVOID'', Named ''DWORD'', Named ''DWORD'', Named ''DWORD'', Ptr ''LPSOCKADDR'', Named ''LPINT'',
          Ptr ''LPSOCKADDR'', Named ''LPINT'']),
        (''LPFN_DISCONNECTEX'', Named ''BOOL'', [Named ''SOCKET'', Named ''LPOVERLAPPED'', Named ''DWORD'', Named ''DWORD'']),
        (''LPFN_TRANSMITFILE'', Named ''BOOL'',
         [Named ''SOCKET'', Named ''HANDLE'', Named ''DWORD'', Named ''DWORD'', Named ''LPOVERLAPPED'',
          Named ''LPTRANSMIT_FILE_BUFFERS'', Named ''DWORD''])])"

definition winsock_receive :: "(string \<times> ctype \<times> ctype list) list" where
  "winsock_receive =
     [(''LPFN_WSARECV'', Named ''int'',
       [Named ''SOCKET'', Named ''LPWSABUF'', Named ''DWORD'', Named ''LPDWORD'', Named ''LPDWORD'', Named ''LPWSAOVERLAPPED'',
        Named ''LPWSAOVERLAPPED_COMPLETION_ROUTINE'']),
      (''LPFN_WSARECVFROM'', Named ''int'',
       [Named ''SOCKET'', Named ''LPWSABUF'', Named ''DWORD'', Named ''LPDWORD'', Named ''LPDWORD'', Ptr ''struct sockaddr'',
        Named ''LPINT'', Named ''LPWSAOVERLAPPED'', Named ''LPWSAOVERLAPPED_COMPLETION_ROUTINE''])]"

text \<open>Every overlapped operation has a place for its \<open>OVERLAPPED\<close>; only the parser of an accept buffer has none.\<close>

lemma winsock_overlapped:
  "list_all (\<lambda>(n, r, ps). n = ''LPFN_GETACCEPTEXSOCKADDRS''
     \<or> Named ''LPOVERLAPPED'' \<in> set ps \<or> Named ''LPWSAOVERLAPPED'' \<in> set ps) (winsock_extensions t @ winsock_receive)"
  by (simp add: winsock_extensions_def winsock_receive_def)

end
