(* ===== verification/Uv_Types.thy ===== *)
theory Uv_Types
  imports Uv_Win
begin

text \<open>
  The data model of \<open>uv.h\<close>: the handle and request classes and the other structs as C types over a
  target, the enumerations with the values their constants have, and the numeric macros.
\<close>

section \<open>Platforms and enumerations\<close>

text \<open>\<open>uv.h\<close> includes \<open>uv/win.h\<close> or \<open>uv/unix.h\<close>: the macros of one of them are the ones in scope.\<close>

definition by_platform :: "target \<Rightarrow> 'a \<Rightarrow> 'a \<Rightarrow> 'a" where
  "by_platform t win unix = (if is_defined t ''_WIN32'' then win else unix)"

text \<open>The values of enumeration constants: a constant without a value is one above the last.\<close>

fun enum_from :: "int \<Rightarrow> (string \<times> int option) list \<Rightarrow> (string \<times> int) list" where
  "enum_from n [] = []"
| "enum_from n ((c, None) # xs) = (c, n) # enum_from (n + 1) xs"
| "enum_from n ((c, Some v) # xs) = (c, v) # enum_from (v + 1) xs"

definition UV_HANDLE_TYPE_MAP :: "(string \<times> string) list" where
  "UV_HANDLE_TYPE_MAP =
     [(''ASYNC'', ''async''), (''CHECK'', ''check''), (''FS_EVENT'', ''fs_event''),
      (''FS_POLL'', ''fs_poll''), (''HANDLE'', ''handle''), (''IDLE'', ''idle''),
      (''NAMED_PIPE'', ''pipe''), (''POLL'', ''poll''), (''PREPARE'', ''prepare''),
      (''PROCESS'', ''process''), (''STREAM'', ''stream''), (''TCP'', ''tcp''),
      (''TIMER'', ''timer''), (''TTY'', ''tty''), (''UDP'', ''udp''), (''SIGNAL'', ''signal'')]"

definition UV_REQ_TYPE_MAP :: "(string \<times> string) list" where
  "UV_REQ_TYPE_MAP =
     [(''REQ'', ''req''), (''CONNECT'', ''connect''), (''WRITE'', ''write''),
      (''SHUTDOWN'', ''shutdown''), (''UDP_SEND'', ''udp_send''), (''FS'', ''fs''),
      (''WORK'', ''work''), (''GETADDRINFO'', ''getaddrinfo''),
      (''GETNAMEINFO'', ''getnameinfo''), (''RANDOM'', ''random'')]"

definition uv_handle_type :: "(string \<times> int) list" where
  "uv_handle_type = enum_from 0
     ((''UV_UNKNOWN_HANDLE'', Some 0)
      # map (\<lambda>(uc, lc). (''UV_'' @ uc, None)) UV_HANDLE_TYPE_MAP
      @ [(''UV_FILE'', None), (''UV_HANDLE_TYPE_MAX'', None)])"

definition uv_req_type :: "target \<Rightarrow> (string \<times> int) list" where
  "uv_req_type t = enum_from 0
     ((''UV_UNKNOWN_REQ'', Some 0)
      # map (\<lambda>(uc, lc). (''UV_'' @ uc, None)) UV_REQ_TYPE_MAP
      @ map (\<lambda>c. (c, None)) (by_platform t win_UV_REQ_TYPE_PRIVATE unix_UV_REQ_TYPE_PRIVATE)
      @ [(''UV_REQ_TYPE_MAX'', None)])"

definition uv_loop_option :: "(string \<times> int) list" where
  "uv_loop_option = enum_from 0 [(''UV_LOOP_BLOCK_SIGNAL'', Some 0), (''UV_METRICS_IDLE_TIME'', None)]"

definition uv_run_mode :: "(string \<times> int) list" where
  "uv_run_mode = enum_from 0
     [(''UV_RUN_DEFAULT'', Some 0), (''UV_RUN_ONCE'', None), (''UV_RUN_NOWAIT'', None)]"

definition uv_membership :: "(string \<times> int) list" where
  "uv_membership = enum_from 0 [(''UV_LEAVE_GROUP'', Some 0), (''UV_JOIN_GROUP'', None)]"

definition uv_tty_mode_t :: "(string \<times> int) list" where
  "uv_tty_mode_t = enum_from 0
     [(''UV_TTY_MODE_NORMAL'', None), (''UV_TTY_MODE_RAW'', None), (''UV_TTY_MODE_IO'', None)]"

definition uv_tty_vtermstate_t :: "(string \<times> int) list" where
  "uv_tty_vtermstate_t = enum_from 0 [(''UV_TTY_SUPPORTED'', None), (''UV_TTY_UNSUPPORTED'', None)]"

definition uv_dirent_type_t :: "(string \<times> int) list" where
  "uv_dirent_type_t = enum_from 0
     [(''UV_DIRENT_UNKNOWN'', None), (''UV_DIRENT_FILE'', None), (''UV_DIRENT_DIR'', None),
      (''UV_DIRENT_LINK'', None), (''UV_DIRENT_FIFO'', None), (''UV_DIRENT_SOCKET'', None),
      (''UV_DIRENT_CHAR'', None), (''UV_DIRENT_BLOCK'', None)]"

definition uv_fs_type :: "(string \<times> int) list" where
  "uv_fs_type = enum_from 0
     ((''UV_FS_UNKNOWN'', Some (-1))
      # map (\<lambda>c. (c, None))
        [''UV_FS_CUSTOM'', ''UV_FS_OPEN'', ''UV_FS_CLOSE'', ''UV_FS_READ'', ''UV_FS_WRITE'',
         ''UV_FS_SENDFILE'', ''UV_FS_STAT'', ''UV_FS_LSTAT'', ''UV_FS_FSTAT'', ''UV_FS_FTRUNCATE'',
         ''UV_FS_UTIME'', ''UV_FS_FUTIME'', ''UV_FS_ACCESS'', ''UV_FS_CHMOD'', ''UV_FS_FCHMOD'',
         ''UV_FS_FSYNC'', ''UV_FS_FDATASYNC'', ''UV_FS_UNLINK'', ''UV_FS_RMDIR'', ''UV_FS_MKDIR'',
         ''UV_FS_MKDTEMP'', ''UV_FS_RENAME'', ''UV_FS_SCANDIR'', ''UV_FS_LINK'', ''UV_FS_SYMLINK'',
         ''UV_FS_READLINK'', ''UV_FS_CHOWN'', ''UV_FS_FCHOWN'', ''UV_FS_REALPATH'',
         ''UV_FS_COPYFILE'', ''UV_FS_LCHOWN'', ''UV_FS_OPENDIR'', ''UV_FS_READDIR'',
         ''UV_FS_CLOSEDIR'', ''UV_FS_STATFS'', ''UV_FS_MKSTEMP'', ''UV_FS_LUTIME''])"

text \<open>Enumerations and macros whose constants are flags, to be combined with \<open>|\<close>.\<close>

definition uv_tcp_flags :: "(string \<times> int) list" where
  "uv_tcp_flags = enum_from 0 [(''UV_TCP_IPV6ONLY'', Some 1)]"

definition uv_udp_flags :: "(string \<times> int) list" where
  "uv_udp_flags = enum_from 0
     [(''UV_UDP_IPV6ONLY'', Some 1), (''UV_UDP_PARTIAL'', Some 2), (''UV_UDP_REUSEADDR'', Some 4),
      (''UV_UDP_MMSG_CHUNK'', Some 8), (''UV_UDP_MMSG_FREE'', Some 16),
      (''UV_UDP_LINUX_RECVERR'', Some 32), (''UV_UDP_RECVMMSG'', Some 256)]"

definition uv_poll_event :: "(string \<times> int) list" where
  "uv_poll_event = enum_from 0
     [(''UV_READABLE'', Some 1), (''UV_WRITABLE'', Some 2), (''UV_DISCONNECT'', Some 4),
      (''UV_PRIORITIZED'', Some 8)]"

definition uv_stdio_flags :: "(string \<times> int) list" where
  "uv_stdio_flags = enum_from 0
     [(''UV_IGNORE'', Some 0x00), (''UV_CREATE_PIPE'', Some 0x01), (''UV_INHERIT_FD'', Some 0x02),
      (''UV_INHERIT_STREAM'', Some 0x04), (''UV_READABLE_PIPE'', Some 0x10),
      (''UV_WRITABLE_PIPE'', Some 0x20), (''UV_NONBLOCK_PIPE'', Some 0x40),
      (''UV_OVERLAPPED_PIPE'', Some 0x40)]"

definition uv_process_flags :: "(string \<times> int) list" where
  "uv_process_flags = enum_from 0
     [(''UV_PROCESS_SETUID'', Some (push_bit 0 1)), (''UV_PROCESS_SETGID'', Some (push_bit 1 1)),
      (''UV_PROCESS_WINDOWS_VERBATIM_ARGUMENTS'', Some (push_bit 2 1)),
      (''UV_PROCESS_DETACHED'', Some (push_bit 3 1)),
      (''UV_PROCESS_WINDOWS_HIDE'', Some (push_bit 4 1)),
      (''UV_PROCESS_WINDOWS_HIDE_CONSOLE'', Some (push_bit 5 1)),
      (''UV_PROCESS_WINDOWS_HIDE_GUI'', Some (push_bit 6 1))]"

definition uv_fs_event :: "(string \<times> int) list" where
  "uv_fs_event = enum_from 0 [(''UV_RENAME'', Some 1), (''UV_CHANGE'', Some 2)]"

definition uv_fs_event_flags :: "(string \<times> int) list" where
  "uv_fs_event_flags = enum_from 0
     [(''UV_FS_EVENT_WATCH_ENTRY'', Some 1), (''UV_FS_EVENT_STAT'', Some 2),
      (''UV_FS_EVENT_RECURSIVE'', Some 4)]"

definition uv_thread_create_flags :: "(string \<times> int) list" where
  "uv_thread_create_flags = enum_from 0
     [(''UV_THREAD_NO_FLAGS'', Some 0x00), (''UV_THREAD_HAS_STACK_SIZE'', Some 0x01)]"

definition UV_FS_COPYFILE :: "(string \<times> int) list" where
  "UV_FS_COPYFILE =
     [(''UV_FS_COPYFILE_EXCL'', 0x0001), (''UV_FS_COPYFILE_FICLONE'', 0x0002),
      (''UV_FS_COPYFILE_FICLONE_FORCE'', 0x0004)]"

definition UV_FS_SYMLINK :: "(string \<times> int) list" where
  "UV_FS_SYMLINK = [(''UV_FS_SYMLINK_DIR'', 0x0001), (''UV_FS_SYMLINK_JUNCTION'', 0x0002)]"

section \<open>Numeric macros\<close>

definition UV_PRIORITY :: "target \<Rightarrow> (string \<times> int) list" where
  "UV_PRIORITY t =
     (if is_defined t ''__PASE__'' then
        [(''UV_PRIORITY_LOW'', 39), (''UV_PRIORITY_BELOW_NORMAL'', 15),
         (''UV_PRIORITY_NORMAL'', 0), (''UV_PRIORITY_ABOVE_NORMAL'', -4),
         (''UV_PRIORITY_HIGH'', -7), (''UV_PRIORITY_HIGHEST'', -10)]
      else
        [(''UV_PRIORITY_LOW'', 19), (''UV_PRIORITY_BELOW_NORMAL'', 10),
         (''UV_PRIORITY_NORMAL'', 0), (''UV_PRIORITY_ABOVE_NORMAL'', -7),
         (''UV_PRIORITY_HIGH'', -14), (''UV_PRIORITY_HIGHEST'', -20)])"

definition UV_MAXHOSTNAMESIZE :: "target \<Rightarrow> int" where
  "UV_MAXHOSTNAMESIZE t = (case macros_def t ''MAXHOSTNAMELEN'' of Some n \<Rightarrow> n + 1 | None \<Rightarrow> 256)"

definition UV_IF_NAMESIZE :: "target \<Rightarrow> int" where
  "UV_IF_NAMESIZE t = (case macros_def t ''IF_NAMESIZE'' of Some n \<Rightarrow> n + 1
     | None \<Rightarrow> (case macros_def t ''IFNAMSIZ'' of Some n \<Rightarrow> n + 1 | None \<Rightarrow> 16 + 1))"

text \<open>The directory entry types: on Windows they are libuv's own enumeration.\<close>

definition win_UV__DT :: "(string \<times> int option) list" where
  "win_UV__DT =
     [(''UV__DT_DIR'', map_of uv_dirent_type_t ''UV_DIRENT_DIR''),
      (''UV__DT_FILE'', map_of uv_dirent_type_t ''UV_DIRENT_FILE''),
      (''UV__DT_LINK'', map_of uv_dirent_type_t ''UV_DIRENT_LINK''),
      (''UV__DT_FIFO'', map_of uv_dirent_type_t ''UV_DIRENT_FIFO''),
      (''UV__DT_SOCKET'', map_of uv_dirent_type_t ''UV_DIRENT_SOCKET''),
      (''UV__DT_CHAR'', map_of uv_dirent_type_t ''UV_DIRENT_CHAR''),
      (''UV__DT_BLOCK'', map_of uv_dirent_type_t ''UV_DIRENT_BLOCK'')]"

section \<open>Requests and handles\<close>

definition uv_buf_t :: "target \<Rightarrow> ctype" where
  "uv_buf_t t = by_platform t win_uv_buf_t unix_uv_buf_t"

definition UV_REQ_FIELDS :: "target \<Rightarrow> fields" where
  "UV_REQ_FIELDS t =
     [(''data'', void_p),
      (''type'', Enum ''uv_req_type''),
      (''reserved'', Arr 6 void_p)]
     @ by_platform t win_UV_REQ_PRIVATE_FIELDS unix_UV_REQ_PRIVATE_FIELDS"

definition uv_req_s :: "target \<Rightarrow> ctype" where
  "uv_req_s t = Struct ''uv_req_s'' (UV_REQ_FIELDS t)"

definition uv_shutdown_s :: "target \<Rightarrow> ctype" where
  "uv_shutdown_s t = Struct ''uv_shutdown_s'' (UV_REQ_FIELDS t
     @ [(''handle'', Ptr ''uv_stream_t''), (''cb'', Fn ''uv_shutdown_cb'')]
     @ by_platform t win_UV_SHUTDOWN_PRIVATE_FIELDS unix_UV_SHUTDOWN_PRIVATE_FIELDS)"

definition UV_HANDLE_FIELDS :: "target \<Rightarrow> fields" where
  "UV_HANDLE_FIELDS t =
     [(''data'', void_p),
      (''loop'', Ptr ''uv_loop_t''),
      (''type'', Enum ''uv_handle_type''),
      (''close_cb'', Fn ''uv_close_cb''),
      (''handle_queue'', Arr 2 void_p),
      (''u'', Union ''anonymous'' [(''fd'', c_int), (''reserved'', Arr 4 void_p)])]
     @ by_platform t win_UV_HANDLE_PRIVATE_FIELDS unix_UV_HANDLE_PRIVATE_FIELDS"

definition uv_handle_s :: "target \<Rightarrow> ctype" where
  "uv_handle_s t = Struct ''uv_handle_s'' (UV_HANDLE_FIELDS t)"

definition UV_STREAM_FIELDS :: "target \<Rightarrow> fields" where
  "UV_STREAM_FIELDS t =
     [(''write_queue_size'', c_size_t),
      (''alloc_cb'', Fn ''uv_alloc_cb''),
      (''read_cb'', Fn ''uv_read_cb'')]
     @ by_platform t (win_UV_STREAM_PRIVATE_FIELDS (uv_read_s (UV_REQ_FIELDS t)))
         (unix_UV_STREAM_PRIVATE_FIELDS t)"

definition uv_stream_s :: "target \<Rightarrow> ctype" where
  "uv_stream_s t = Struct ''uv_stream_s'' (UV_HANDLE_FIELDS t @ UV_STREAM_FIELDS t)"

definition uv_write_s :: "target \<Rightarrow> ctype" where
  "uv_write_s t = Struct ''uv_write_s'' (UV_REQ_FIELDS t
     @ [(''cb'', Fn ''uv_write_cb''),
        (''send_handle'', Ptr ''uv_stream_t''),
        (''handle'', Ptr ''uv_stream_t'')]
     @ by_platform t win_UV_WRITE_PRIVATE_FIELDS unix_UV_WRITE_PRIVATE_FIELDS)"

definition uv_tcp_s :: "target \<Rightarrow> ctype" where
  "uv_tcp_s t = Struct ''uv_tcp_s'' (UV_HANDLE_FIELDS t @ UV_STREAM_FIELDS t
     @ by_platform t win_UV_TCP_PRIVATE_FIELDS unix_UV_TCP_PRIVATE_FIELDS)"

definition uv_connect_s :: "target \<Rightarrow> ctype" where
  "uv_connect_s t = Struct ''uv_connect_s'' (UV_REQ_FIELDS t
     @ [(''cb'', Fn ''uv_connect_cb''), (''handle'', Ptr ''uv_stream_t'')]
     @ by_platform t win_UV_CONNECT_PRIVATE_FIELDS unix_UV_CONNECT_PRIVATE_FIELDS)"

definition uv_udp_s :: "target \<Rightarrow> ctype" where
  "uv_udp_s t = Struct ''uv_udp_s'' (UV_HANDLE_FIELDS t
     @ [(''send_queue_size'', c_size_t), (''send_queue_count'', c_size_t)]
     @ by_platform t (win_UV_UDP_PRIVATE_FIELDS (uv_req_s t)) (unix_UV_UDP_PRIVATE_FIELDS t))"

definition uv_udp_send_s :: "target \<Rightarrow> ctype" where
  "uv_udp_send_s t = Struct ''uv_udp_send_s'' (UV_REQ_FIELDS t
     @ [(''handle'', Ptr ''uv_udp_t''), (''cb'', Fn ''uv_udp_send_cb'')]
     @ by_platform t win_UV_UDP_SEND_PRIVATE_FIELDS unix_UV_UDP_SEND_PRIVATE_FIELDS)"

definition uv_tty_s :: "target \<Rightarrow> ctype" where
  "uv_tty_s t = Struct ''uv_tty_s'' (UV_HANDLE_FIELDS t @ UV_STREAM_FIELDS t
     @ by_platform t win_UV_TTY_PRIVATE_FIELDS unix_UV_TTY_PRIVATE_FIELDS)"

definition uv_pipe_s :: "target \<Rightarrow> ctype" where
  "uv_pipe_s t = Struct ''uv_pipe_s'' (UV_HANDLE_FIELDS t @ UV_STREAM_FIELDS t
     @ [(''ipc'', c_int)]
     @ by_platform t (win_UV_PIPE_PRIVATE_FIELDS (uv_write_s t)) unix_UV_PIPE_PRIVATE_FIELDS)"

definition uv_poll_s :: "target \<Rightarrow> ctype" where
  "uv_poll_s t = Struct ''uv_poll_s'' (UV_HANDLE_FIELDS t
     @ [(''poll_cb'', Fn ''uv_poll_cb'')]
     @ by_platform t (win_UV_POLL_PRIVATE_FIELDS t (uv_req_s t)) (unix_UV_POLL_PRIVATE_FIELDS t))"

definition uv_prepare_s :: "target \<Rightarrow> ctype" where
  "uv_prepare_s t = Struct ''uv_prepare_s'' (UV_HANDLE_FIELDS t
     @ by_platform t win_UV_PREPARE_PRIVATE_FIELDS unix_UV_PREPARE_PRIVATE_FIELDS)"

definition uv_check_s :: "target \<Rightarrow> ctype" where
  "uv_check_s t = Struct ''uv_check_s'' (UV_HANDLE_FIELDS t
     @ by_platform t win_UV_CHECK_PRIVATE_FIELDS unix_UV_CHECK_PRIVATE_FIELDS)"

definition uv_idle_s :: "target \<Rightarrow> ctype" where
  "uv_idle_s t = Struct ''uv_idle_s'' (UV_HANDLE_FIELDS t
     @ by_platform t win_UV_IDLE_PRIVATE_FIELDS unix_UV_IDLE_PRIVATE_FIELDS)"

definition uv_async_s :: "target \<Rightarrow> ctype" where
  "uv_async_s t = Struct ''uv_async_s'' (UV_HANDLE_FIELDS t
     @ by_platform t (win_UV_ASYNC_PRIVATE_FIELDS (uv_req_s t)) unix_UV_ASYNC_PRIVATE_FIELDS)"

definition uv_timer_s :: "target \<Rightarrow> ctype" where
  "uv_timer_s t = Struct ''uv_timer_s'' (UV_HANDLE_FIELDS t
     @ by_platform t win_UV_TIMER_PRIVATE_FIELDS unix_UV_TIMER_PRIVATE_FIELDS)"

definition uv_getaddrinfo_s :: "target \<Rightarrow> ctype" where
  "uv_getaddrinfo_s t = Struct ''uv_getaddrinfo_s'' (UV_REQ_FIELDS t
     @ [(''loop'', Ptr ''uv_loop_t'')]
     @ by_platform t win_UV_GETADDRINFO_PRIVATE_FIELDS unix_UV_GETADDRINFO_PRIVATE_FIELDS)"

definition uv_getnameinfo_s :: "target \<Rightarrow> ctype" where
  "uv_getnameinfo_s t = Struct ''uv_getnameinfo_s'' (UV_REQ_FIELDS t
     @ [(''loop'', Ptr ''uv_loop_t'')]
     @ by_platform t (win_UV_GETNAMEINFO_PRIVATE_FIELDS t) (unix_UV_GETNAMEINFO_PRIVATE_FIELDS t))"

definition uv_process_s :: "target \<Rightarrow> ctype" where
  "uv_process_s t = Struct ''uv_process_s'' (UV_HANDLE_FIELDS t
     @ [(''exit_cb'', Fn ''uv_exit_cb''), (''pid'', c_int)]
     @ by_platform t (win_UV_PROCESS_PRIVATE_FIELDS (UV_REQ_FIELDS t)) unix_UV_PROCESS_PRIVATE_FIELDS)"

definition uv_work_s :: "target \<Rightarrow> ctype" where
  "uv_work_s t = Struct ''uv_work_s'' (UV_REQ_FIELDS t
     @ [(''loop'', Ptr ''uv_loop_t''),
        (''work_cb'', Fn ''uv_work_cb''),
        (''after_work_cb'', Fn ''uv_after_work_cb'')]
     @ by_platform t win_UV_WORK_PRIVATE_FIELDS unix_UV_WORK_PRIVATE_FIELDS)"

definition uv_timespec_t :: ctype where
  "uv_timespec_t = Struct ''uv_timespec_t'' [(''tv_sec'', c_long), (''tv_nsec'', c_long)]"

definition uv_stat_t :: ctype where
  "uv_stat_t = Struct ''uv_stat_t''
     [(''st_dev'', c_uint64), (''st_mode'', c_uint64), (''st_nlink'', c_uint64),
      (''st_uid'', c_uint64), (''st_gid'', c_uint64), (''st_rdev'', c_uint64),
      (''st_ino'', c_uint64), (''st_size'', c_uint64), (''st_blksize'', c_uint64),
      (''st_blocks'', c_uint64), (''st_flags'', c_uint64), (''st_gen'', c_uint64),
      (''st_atim'', uv_timespec_t), (''st_mtim'', uv_timespec_t),
      (''st_ctim'', uv_timespec_t), (''st_birthtim'', uv_timespec_t)]"

definition uv_fs_s :: "target \<Rightarrow> ctype" where
  "uv_fs_s t = Struct ''uv_fs_s'' (UV_REQ_FIELDS t
     @ [(''fs_type'', Enum ''uv_fs_type''),
        (''loop'', Ptr ''uv_loop_t''),
        (''cb'', Fn ''uv_fs_cb''),
        (''result'', by_platform t (win_ssize_t t) (Named ''ssize_t'')),
        (''ptr'', void_p),
        (''path'', Ptr ''const char''),
        (''statbuf'', uv_stat_t)]
     @ by_platform t win_UV_FS_PRIVATE_FIELDS (unix_UV_FS_PRIVATE_FIELDS t))"

definition uv_fs_event_s :: "target \<Rightarrow> ctype" where
  "uv_fs_event_s t = Struct ''uv_fs_event_s'' (UV_HANDLE_FIELDS t
     @ [(''path'', Ptr ''char'')]
     @ by_platform t (win_UV_FS_EVENT_PRIVATE_FIELDS (UV_REQ_FIELDS t))
         (unix_UV_FS_EVENT_PRIVATE_FIELDS t))"

definition uv_fs_poll_s :: "target \<Rightarrow> ctype" where
  "uv_fs_poll_s t = Struct ''uv_fs_poll_s'' (UV_HANDLE_FIELDS t @ [(''poll_ctx'', void_p)])"

definition uv_signal_s :: "target \<Rightarrow> ctype" where
  "uv_signal_s t = Struct ''uv_signal_s'' (UV_HANDLE_FIELDS t
     @ [(''signal_cb'', Fn ''uv_signal_cb''), (''signum'', c_int)]
     @ by_platform t (win_UV_SIGNAL_PRIVATE_FIELDS (uv_req_s t)) unix_UV_SIGNAL_PRIVATE_FIELDS)"

definition uv_random_s :: "target \<Rightarrow> ctype" where
  "uv_random_s t = Struct ''uv_random_s'' (UV_REQ_FIELDS t
     @ [(''loop'', Ptr ''uv_loop_t''),
        (''status'', c_int),
        (''buf'', void_p),
        (''buflen'', c_size_t),
        (''cb'', Fn ''uv_random_cb''),
        (''work_req'', uv__work)])"

definition uv_loop_s :: "target \<Rightarrow> ctype" where
  "uv_loop_s t = Struct ''uv_loop_s'' (
     [(''data'', void_p),
      (''active_handles'', c_uint),
      (''handle_queue'', Arr 2 void_p),
      (''active_reqs'', Union ''anonymous'' [(''unused'', void_p), (''count'', c_uint)]),
      (''internal_fields'', void_p),
      (''stop_flag'', c_uint)]
     @ by_platform t (win_UV_LOOP_PRIVATE_FIELDS (uv_async_s t))
         (unix_UV_LOOP_PRIVATE_FIELDS t (uv_async_s t) (uv_signal_s t)))"

section \<open>Other structs\<close>

definition uv_stdio_container_s :: ctype where
  "uv_stdio_container_s = Struct ''uv_stdio_container_s''
     [(''flags'', Enum ''uv_stdio_flags''),
      (''data'', Union ''anonymous'' [(''stream'', Ptr ''uv_stream_t''), (''fd'', c_int)])]"

definition uv_process_options_s :: "target \<Rightarrow> ctype" where
  "uv_process_options_s t = Struct ''uv_process_options_s''
     [(''exit_cb'', Fn ''uv_exit_cb''),
      (''file'', Ptr ''const char''),
      (''args'', Ptr ''char*''),
      (''env'', Ptr ''char*''),
      (''cwd'', Ptr ''const char''),
      (''flags'', c_uint),
      (''stdio_count'', c_int),
      (''stdio'', Ptr ''uv_stdio_container_t''),
      (''uid'', by_platform t win_uv_uid_t unix_uv_uid_t),
      (''gid'', by_platform t win_uv_gid_t unix_uv_gid_t)]"

definition uv_cpu_times_s :: ctype where
  "uv_cpu_times_s = Struct ''uv_cpu_times_s''
     [(''user'', c_uint64), (''nice'', c_uint64), (''sys'', c_uint64), (''idle'', c_uint64),
      (''irq'', c_uint64)]"

definition uv_cpu_info_s :: ctype where
  "uv_cpu_info_s = Struct ''uv_cpu_info_s''
     [(''model'', Ptr ''char''), (''speed'', c_int), (''cpu_times'', uv_cpu_times_s)]"

definition uv_interface_address_s :: ctype where
  "uv_interface_address_s = Struct ''uv_interface_address_s''
     [(''name'', Ptr ''char''),
      (''phys_addr'', Arr 6 c_char),
      (''is_internal'', c_int),
      (''address'', Union ''anonymous''
         [(''address4'', Named ''struct sockaddr_in''), (''address6'', Named ''struct sockaddr_in6'')]),
      (''netmask'', Union ''anonymous''
         [(''netmask4'', Named ''struct sockaddr_in''), (''netmask6'', Named ''struct sockaddr_in6'')])]"

definition uv_passwd_s :: ctype where
  "uv_passwd_s = Struct ''uv_passwd_s''
     [(''username'', Ptr ''char''), (''uid'', c_long), (''gid'', c_long), (''shell'', Ptr ''char''),
      (''homedir'', Ptr ''char'')]"

definition uv_utsname_s :: ctype where
  "uv_utsname_s = Struct ''uv_utsname_s''
     [(''sysname'', Arr 256 c_char), (''release'', Arr 256 c_char), (''version'', Arr 256 c_char),
      (''machine'', Arr 256 c_char)]"

definition uv_statfs_s :: ctype where
  "uv_statfs_s = Struct ''uv_statfs_s''
     [(''f_type'', c_uint64), (''f_bsize'', c_uint64), (''f_blocks'', c_uint64),
      (''f_bfree'', c_uint64), (''f_bavail'', c_uint64), (''f_files'', c_uint64),
      (''f_ffree'', c_uint64), (''f_spare'', Arr 4 c_uint64)]"

definition uv_dirent_s :: ctype where
  "uv_dirent_s = Struct ''uv_dirent_s''
     [(''name'', Ptr ''const char''), (''type'', Enum ''uv_dirent_type_t'')]"

definition uv_timeval_t :: ctype where
  "uv_timeval_t = Struct ''uv_timeval_t'' [(''tv_sec'', c_long), (''tv_usec'', c_long)]"

definition uv_timeval64_t :: ctype where
  "uv_timeval64_t = Struct ''uv_timeval64_t''
     [(''tv_sec'', Named ''int64_t''), (''tv_usec'', Named ''int32_t'')]"

definition uv_rusage_t :: ctype where
  "uv_rusage_t = Struct ''uv_rusage_t''
     [(''ru_utime'', uv_timeval_t), (''ru_stime'', uv_timeval_t), (''ru_maxrss'', c_uint64),
      (''ru_ixrss'', c_uint64), (''ru_idrss'', c_uint64), (''ru_isrss'', c_uint64),
      (''ru_minflt'', c_uint64), (''ru_majflt'', c_uint64), (''ru_nswap'', c_uint64),
      (''ru_inblock'', c_uint64), (''ru_oublock'', c_uint64), (''ru_msgsnd'', c_uint64),
      (''ru_msgrcv'', c_uint64), (''ru_nsignals'', c_uint64), (''ru_nvcsw'', c_uint64),
      (''ru_nivcsw'', c_uint64)]"

definition uv_env_item_s :: ctype where
  "uv_env_item_s = Struct ''uv_env_item_s'' [(''name'', Ptr ''char''), (''value'', Ptr ''char'')]"

definition uv_dir_s :: "target \<Rightarrow> ctype" where
  "uv_dir_s t = Struct ''uv_dir_s'' (
     [(''dirents'', Ptr ''uv_dirent_t''), (''nentries'', c_size_t), (''reserved'', Arr 4 void_p)]
     @ by_platform t win_UV_DIR_PRIVATE_FIELDS unix_UV_DIR_PRIVATE_FIELDS)"

definition uv_thread_options_s :: ctype where
  "uv_thread_options_s = Struct ''uv_thread_options_s''
     [(''flags'', c_uint), (''stack_size'', c_size_t)]"

section \<open>Type names\<close>

definition uv_handle_types :: "target \<Rightarrow> (string \<times> ctype) list" where
  "uv_handle_types t =
     [(''uv_loop_t'', uv_loop_s t), (''uv_handle_t'', uv_handle_s t), (''uv_dir_t'', uv_dir_s t),
      (''uv_stream_t'', uv_stream_s t), (''uv_tcp_t'', uv_tcp_s t), (''uv_udp_t'', uv_udp_s t),
      (''uv_pipe_t'', uv_pipe_s t), (''uv_tty_t'', uv_tty_s t), (''uv_poll_t'', uv_poll_s t),
      (''uv_timer_t'', uv_timer_s t), (''uv_prepare_t'', uv_prepare_s t),
      (''uv_check_t'', uv_check_s t), (''uv_idle_t'', uv_idle_s t), (''uv_async_t'', uv_async_s t),
      (''uv_process_t'', uv_process_s t), (''uv_fs_event_t'', uv_fs_event_s t),
      (''uv_fs_poll_t'', uv_fs_poll_s t), (''uv_signal_t'', uv_signal_s t)]"

definition uv_req_types :: "target \<Rightarrow> (string \<times> ctype) list" where
  "uv_req_types t =
     [(''uv_req_t'', uv_req_s t), (''uv_getaddrinfo_t'', uv_getaddrinfo_s t),
      (''uv_getnameinfo_t'', uv_getnameinfo_s t), (''uv_shutdown_t'', uv_shutdown_s t),
      (''uv_write_t'', uv_write_s t), (''uv_connect_t'', uv_connect_s t),
      (''uv_udp_send_t'', uv_udp_send_s t), (''uv_fs_t'', uv_fs_s t), (''uv_work_t'', uv_work_s t),
      (''uv_random_t'', uv_random_s t)]"

definition uv_other_types :: "(string \<times> ctype) list" where
  "uv_other_types =
     [(''uv_env_item_t'', uv_env_item_s), (''uv_cpu_info_t'', uv_cpu_info_s),
      (''uv_interface_address_t'', uv_interface_address_s), (''uv_dirent_t'', uv_dirent_s),
      (''uv_passwd_t'', uv_passwd_s), (''uv_utsname_t'', uv_utsname_s),
      (''uv_statfs_t'', uv_statfs_s)]"

text \<open>The unions over all handles and all requests, generated from the two tables.\<close>

definition uv_any_handle :: "target \<Rightarrow> ctype" where
  "uv_any_handle t = Union ''uv_any_handle''
     (map (\<lambda>(uc, name). (name, the (map_of (uv_handle_types t) (''uv_'' @ name @ ''_t''))))
       UV_HANDLE_TYPE_MAP)"

definition uv_any_req :: "target \<Rightarrow> ctype" where
  "uv_any_req t = Union ''uv_any_req''
     (map (\<lambda>(uc, name). (name, the (map_of (uv_req_types t) (''uv_'' @ name @ ''_t''))))
       UV_REQ_TYPE_MAP)"

end
