(* ===== verification/Uv_Layout.thy ===== *)
theory Uv_Layout
  imports Uv_Types
begin

text \<open>
  What the layout of libuv's types guarantees: the class hierarchy by common prefixes, on every
  target, and the encodings of the enumerations and flags.
\<close>

section \<open>Two targets\<close>

text \<open>Linux on x86-64 with glibc, and 64-bit Windows.\<close>

definition layout_table :: "(string \<times> nat \<times> nat) list \<Rightarrow> string \<Rightarrow> nat \<times> nat" where
  "layout_table tab n = (case map_of tab n of Some x \<Rightarrow> x | None \<Rightarrow> (8, 8))"

definition common_types :: "(string \<times> nat \<times> nat) list" where
  "common_types =
     [(''char'', 1, 1), (''unsigned char'', 1, 1), (''short'', 2, 2), (''unsigned short'', 2, 2),
      (''int'', 4, 4), (''unsigned int'', 4, 4), (''int32_t'', 4, 4), (''uint32_t'', 4, 4),
      (''struct sockaddr_storage'', 128, 8)]"

definition linux_x86_64 :: target where
  "linux_x86_64 = \<lparr>
     macros_def = [''__linux__'' \<mapsto> 1, ''__x86_64__'' \<mapsto> 1, ''PTHREAD_BARRIER_SERIAL_THREAD'' \<mapsto> -1,
       ''DT_UNKNOWN'' \<mapsto> 0, ''DT_FIFO'' \<mapsto> 1, ''DT_CHR'' \<mapsto> 2, ''DT_DIR'' \<mapsto> 4, ''DT_BLK'' \<mapsto> 6,
       ''DT_REG'' \<mapsto> 8, ''DT_LNK'' \<mapsto> 10, ''DT_SOCK'' \<mapsto> 12],
     little_endian = True, named_layout = layout_table (common_types @
       [(''pid_t'', 4, 4), (''uid_t'', 4, 4), (''gid_t'', 4, 4), (''mode_t'', 4, 4),
        (''pthread_once_t'', 4, 4), (''pthread_key_t'', 4, 4), (''pthread_mutex_t'', 40, 8),
        (''pthread_rwlock_t'', 56, 8), (''pthread_cond_t'', 48, 8), (''pthread_barrier_t'', 32, 8),
        (''sem_t'', 32, 8), (''struct termios'', 60, 4), (''struct sockaddr_in'', 16, 4),
        (''struct sockaddr_in6'', 28, 4)]),
     ptr_layout = (8, 8), fn_layout = (8, 8), enum_layout = (4, 4)\<rparr>"

definition win64 :: target where
  "win64 = \<lparr>
     macros_def = [''_WIN32'' \<mapsto> 1, ''_WIN64'' \<mapsto> 1, ''NI_MAXHOST'' \<mapsto> 1025, ''NI_MAXSERV'' \<mapsto> 32,
       ''WSAID_ACCEPTEX'' \<mapsto> 1],
     little_endian = True, named_layout = layout_table (common_types @
       [(''long'', 4, 4), (''unsigned long'', 4, 4), (''ULONG'', 4, 4), (''LONG'', 4, 4),
        (''DWORD'', 4, 4), (''BOOL'', 4, 4), (''WORD'', 2, 2), (''WCHAR'', 2, 2), (''COORD'', 4, 2),
        (''CRITICAL_SECTION'', 40, 8), (''OVERLAPPED'', 32, 8), (''INPUT_RECORD'', 20, 4),
        (''WIN32_FIND_DATAW'', 592, 4), (''struct sockaddr_in'', 16, 4),
        (''struct sockaddr_in6'', 28, 4)]),
     ptr_layout = (8, 8), fn_layout = (8, 8), enum_layout = (4, 4)\<rparr>"

lemma small_layout_ok: "snd x \<in> {1, 2, 4, 8} \<Longrightarrow> snd x dvd fst x \<Longrightarrow> layout_ok x"
  by (auto simp: layout_ok_def intro: exI [of _ 0] exI [of _ 1] exI [of _ 2] exI [of _ 3])

lemma layout_table_ok:
  assumes "\<forall>(n, x)\<in>set tab. snd x \<in> {1, 2, 4, 8} \<and> snd x dvd fst x"
  shows "layout_ok (layout_table tab n)"
  using assms by (auto simp: layout_table_def intro!: small_layout_ok dest!: map_of_SomeD split: option.splits)

interpretation linux: abi linux_x86_64
  by unfold_locales
    (auto simp: target_ok_def linux_x86_64_def common_types_def intro!: layout_table_ok small_layout_ok)

interpretation windows: abi win64
  by unfold_locales
    (auto simp: target_ok_def win64_def common_types_def intro!: layout_table_ok small_layout_ok)

section \<open>The classes\<close>

lemmas handle_struct_defs = uv_handle_s_def uv_stream_s_def uv_tcp_s_def uv_udp_s_def uv_pipe_s_def
  uv_tty_s_def uv_poll_s_def uv_timer_s_def uv_prepare_s_def uv_check_s_def uv_idle_s_def
  uv_async_s_def uv_process_s_def uv_fs_event_s_def uv_fs_poll_s_def uv_signal_s_def

lemmas req_struct_defs = uv_req_s_def uv_getaddrinfo_s_def uv_getnameinfo_s_def uv_shutdown_s_def
  uv_write_s_def uv_connect_s_def uv_udp_send_s_def uv_fs_s_def uv_work_s_def uv_random_s_def

definition handle_struct :: "target \<Rightarrow> string \<Rightarrow> ctype option" where
  "handle_struct t name = map_of (uv_handle_types t) (''uv_'' @ name @ ''_t'')"

definition req_struct :: "target \<Rightarrow> string \<Rightarrow> ctype option" where
  "req_struct t name = map_of (uv_req_types t) (''uv_'' @ name @ ''_t'')"

lemma handle_struct_prefix:
  assumes "(uc, name) \<in> set UV_HANDLE_TYPE_MAP"
  shows "\<exists>n rest. handle_struct t name = Some (Struct n (UV_HANDLE_FIELDS t @ rest))"
  using assms unfolding UV_HANDLE_TYPE_MAP_def
  by (auto simp: handle_struct_def uv_handle_types_def handle_struct_defs fun_upd_apply)

lemma req_struct_prefix:
  assumes "(uc, name) \<in> set UV_REQ_TYPE_MAP"
  shows "\<exists>n rest. req_struct t name = Some (Struct n (UV_REQ_FIELDS t @ rest))"
  using assms unfolding UV_REQ_TYPE_MAP_def
  by (auto simp: req_struct_def uv_req_types_def req_struct_defs fun_upd_apply)

context abi
begin

lemma prefix_data_at_0:
  assumes "fs = (''data'', void_p) # gs"
  shows "offset_of t (Struct n fs) ''data'' = Some 0"
  using first_field_at_0 [OF align_pos] assms by simp

lemma class_by_prefix:
  assumes "fs = (''data'', void_p) # gs" "(name, Struct n (fs @ rest)) \<in> set us"
  shows "extends t (Struct n (fs @ rest)) (Struct m fs)
    \<and> offset_of t (Struct n (fs @ rest)) ''data'' = Some 0
    \<and> size_of t (Struct n (fs @ rest)) \<le> size_of t (Union u us)"
proof (intro conjI)
  show "extends t (Struct n (fs @ rest)) (Struct m fs)" by (rule prefix_extends)
  show "offset_of t (Struct n (fs @ rest)) ''data'' = Some 0"
    by (rule prefix_data_at_0 [of _ "gs @ rest"]) (simp add: assms(1))
  show "size_of t (Struct n (fs @ rest)) \<le> size_of t (Union u us)"
    by (rule union_size [OF assms(2)])
qed

lemma handle_class:
  assumes "(uc, name) \<in> set UV_HANDLE_TYPE_MAP"
  shows "\<exists>H. handle_struct t name = Some H \<and> extends t H (uv_handle_s t)
    \<and> offset_of t H ''data'' = Some 0 \<and> size_of t H \<le> size_of t (uv_any_handle t)"
proof -
  obtain n rest where H: "handle_struct t name = Some (Struct n (UV_HANDLE_FIELDS t @ rest))"
    using handle_struct_prefix [OF assms] by blast
  have "(name, Struct n (UV_HANDLE_FIELDS t @ rest)) \<in>
      set (map (\<lambda>(uc, name). (name, the (handle_struct t name))) UV_HANDLE_TYPE_MAP)"
    using assms H by force
  from class_by_prefix [OF UV_HANDLE_FIELDS_def [unfolded append_Cons] this] H show ?thesis
    unfolding uv_any_handle_def uv_handle_s_def handle_struct_def by blast
qed

lemma req_class:
  assumes "(uc, name) \<in> set UV_REQ_TYPE_MAP"
  shows "\<exists>R. req_struct t name = Some R \<and> extends t R (uv_req_s t)
    \<and> offset_of t R ''data'' = Some 0 \<and> size_of t R \<le> size_of t (uv_any_req t)"
proof -
  obtain n rest where R: "req_struct t name = Some (Struct n (UV_REQ_FIELDS t @ rest))"
    using req_struct_prefix [OF assms] by blast
  have "(name, Struct n (UV_REQ_FIELDS t @ rest)) \<in>
      set (map (\<lambda>(uc, name). (name, the (req_struct t name))) UV_REQ_TYPE_MAP)"
    using assms R by force
  from class_by_prefix [OF UV_REQ_FIELDS_def [unfolded append_Cons] this] R show ?thesis
    unfolding uv_any_req_def uv_req_s_def req_struct_def by blast
qed

lemma stream_class:
  "extends t (uv_tcp_s t) (uv_stream_s t)" "extends t (uv_pipe_s t) (uv_stream_s t)"
  "extends t (uv_tty_s t) (uv_stream_s t)"
  using prefix_extends [of _ "UV_HANDLE_FIELDS t @ UV_STREAM_FIELDS t"]
  by (simp_all add: uv_tcp_s_def uv_pipe_s_def uv_tty_s_def uv_stream_s_def)

lemma all_sound:
  "\<forall>(n, ty)\<in>set (uv_handle_types t @ uv_req_types t @ uv_other_types). sound_layout t ty"
  unfolding uv_handle_types_def uv_req_types_def uv_other_types_def
  by (simp add: handle_struct_defs req_struct_defs uv_loop_s_def uv_dir_s_def uv_env_item_s_def
      uv_cpu_info_s_def uv_interface_address_s_def uv_dirent_s_def uv_passwd_s_def uv_utsname_s_def
      uv_statfs_s_def struct_sound)

end

section \<open>Properties of the types\<close>

text \<open>
  C23. Every handle type is a subclass of \<open>uv_handle_t\<close>, and every request type one of \<open>uv_req_t\<close>, on every
  target: the pointer to a handle can be used as a \<open>uv_handle_t*\<close> (all fields of \<open>UV_HANDLE_FIELDS\<close>
  are at the offsets and have the types they have there, and the object is large enough and aligned),
  its \<open>data\<close> is at offset 0, and a \<open>union uv_any_handle\<close> has room for it; the same holds for requests with
  \<open>UV_REQ_FIELDS\<close> and \<open>union uv_any_req\<close>.
\<close>

theorem class_cast:
  assumes "target_ok t"
  shows "((uc, name) \<in> set UV_HANDLE_TYPE_MAP \<longrightarrow> (\<exists>H. handle_struct t name = Some H \<and> extends t H (uv_handle_s t)
      \<and> offset_of t H ''data'' = Some 0 \<and> size_of t H \<le> size_of t (uv_any_handle t)))
    \<and> ((uc, name) \<in> set UV_REQ_TYPE_MAP \<longrightarrow> (\<exists>R. req_struct t name = Some R \<and> extends t R (uv_req_s t)
      \<and> offset_of t R ''data'' = Some 0 \<and> size_of t R \<le> size_of t (uv_any_req t)))"
  using assms by (blast intro: abi.handle_class abi.req_class abi.intro)

theorem class_cast_witness:
  "(\<exists>H. handle_struct linux_x86_64 ''tcp'' = Some H \<and> extends linux_x86_64 H (uv_handle_s linux_x86_64)
      \<and> offset_of linux_x86_64 H ''data'' = Some 0
      \<and> size_of linux_x86_64 H \<le> size_of linux_x86_64 (uv_any_handle linux_x86_64))
   \<and> (\<exists>R. req_struct win64 ''write'' = Some R \<and> extends win64 R (uv_req_s win64)
      \<and> offset_of win64 R ''data'' = Some 0 \<and> size_of win64 R \<le> size_of win64 (uv_any_req win64))"
proof -
  have "(''TCP'', ''tcp'') \<in> set UV_HANDLE_TYPE_MAP" "(''WRITE'', ''write'') \<in> set UV_REQ_TYPE_MAP"
    by (simp_all add: UV_HANDLE_TYPE_MAP_def UV_REQ_TYPE_MAP_def)
  then show ?thesis
    using class_cast [OF linux.ok, of "''TCP''" "''tcp''"] class_cast [OF windows.ok, of "''WRITE''" "''write''"] by blast
qed

text \<open>
  \<open>uv_tcp_t\<close>, \<open>uv_pipe_t\<close> and \<open>uv_tty_t\<close> are subclasses of \<open>uv_stream_t\<close>, and that of
  \<open>uv_handle_t\<close>, on every target.
\<close>

lemma stream_cast:
  assumes "target_ok t"
  shows "extends t (uv_tcp_s t) (uv_stream_s t) \<and> extends t (uv_pipe_s t) (uv_stream_s t)
    \<and> extends t (uv_tty_s t) (uv_stream_s t) \<and> extends t (uv_stream_s t) (uv_handle_s t)"
  using abi.stream_class [OF abi.intro [OF assms]] abi.prefix_extends [OF abi.intro [OF assms]]
  by (simp_all add: uv_stream_s_def uv_handle_s_def)

text \<open>
  The layout of every struct type of the API is sound on every target: each field is inside the
  object and aligned, the fields do not overlap, and the size is a multiple of the alignment.
\<close>

lemma api_structs_sound:
  assumes "target_ok t" "(n, ty) \<in> set (uv_handle_types t @ uv_req_types t @ uv_other_types)"
  shows "sound_layout t ty"
  using abi.all_sound [OF abi.intro [OF assms(1)]] assms(2) by fast

lemma loop_size: "size_of linux_x86_64 (uv_loop_s linux_x86_64) = 848"
  by code_simp

end
