(* ===== verification/Uv_Flags.thy ===== *)
theory Uv_Flags
  imports Uv_Types
begin

text \<open>
  What the constants of \<open>uv.h\<close> and of the platform headers guarantee: flags that are combined with
  \<open>|\<close> can be told apart, enumeration values are stable across platforms, and the fallbacks for
  missing system constants do not collide.
\<close>

unbundle bit_operations_syntax

section \<open>Flags\<close>

definition flag_union :: "(string \<times> int) list \<Rightarrow> int" where
  "flag_union fs = foldr (\<lambda>(c, v) acc. v OR acc) fs 0"

lemma flag_union_Cons: "flag_union ((c, v) # fs) = v OR flag_union fs"
  by (simp add: flag_union_def)

lemma bit_flag_union: "bit (flag_union fs) k \<longleftrightarrow> (\<exists>(c, v)\<in>set fs. bit v k)"
  by (induction fs) (auto simp: flag_union_def bit_or_iff)

lemma and_pow2_nonzero: "x AND 2 ^ k \<noteq> (0::int) \<longleftrightarrow> bit x k"
  by (metis and_exp_eq_0_iff_not_bit)

locale bit_flags =
  fixes flags :: "(string \<times> int) list"
  assumes one_bit: "(c, v) \<in> set flags \<Longrightarrow> v = 0 \<or> (\<exists>k. v = 2 ^ k)"
    and values_distinct: "distinct (map snd flags)"
begin

lemma same_value: "(c, v) \<in> set flags \<Longrightarrow> (d, v) \<in> set flags \<Longrightarrow> c = d"
  using values_distinct by (fastforce simp: distinct_map inj_on_def)

lemma test_flag:
  assumes "set sub \<subseteq> set flags" "(c, v) \<in> set flags" "v \<noteq> 0"
  shows "flag_union sub AND v \<noteq> 0 \<longleftrightarrow> (c, v) \<in> set sub"
proof -
  obtain k where v: "v = 2 ^ k" using one_bit assms(2,3) by blast
  have "bit w k \<longleftrightarrow> w = v" if "(d, w) \<in> set sub" for d w
  proof -
    have "w = 0 \<or> (\<exists>j. w = 2 ^ j)" using one_bit that assms(1) by blast
    then show ?thesis using v by (auto simp: bit_exp_iff)
  qed
  then have "bit (flag_union sub) k \<longleftrightarrow> (\<exists>d. (d, v) \<in> set sub)"
    by (auto simp: bit_flag_union)
  also have "\<dots> \<longleftrightarrow> (c, v) \<in> set sub"
    using same_value assms(1,2) by blast
  finally show ?thesis by (simp add: v and_pow2_nonzero)
qed

end

definition is_bit :: "int \<Rightarrow> bool" where
  "is_bit v \<longleftrightarrow> v = 0 \<or> v \<in> set (map (\<lambda>k. 2 ^ k) [0..<16])"

lemma bit_flagsI:
  assumes "list_all (\<lambda>(c, v). is_bit v) fs" "distinct (map snd fs)"
  shows "bit_flags fs"
  using assms by unfold_locales (auto simp: list_all_iff is_bit_def)

text \<open>The flag families; \<open>UV_OVERLAPPED_PIPE\<close> is the old name of \<open>UV_NONBLOCK_PIPE\<close>.\<close>

definition uv_flag_families :: "(string \<times> int) list list" where
  "uv_flag_families =
     [uv_tcp_flags, uv_udp_flags, uv_poll_event,
      filter (\<lambda>(c, v). c \<noteq> ''UV_OVERLAPPED_PIPE'') uv_stdio_flags,
      uv_process_flags, uv_fs_event, uv_fs_event_flags, uv_thread_create_flags,
      UV_FS_COPYFILE, UV_FS_SYMLINK]"

lemma flag_families_ok:
  "list_all (\<lambda>fs. list_all (\<lambda>(c, v). is_bit v) fs \<and> distinct (map snd fs)) uv_flag_families"
  by code_simp

lemma flag_families: "fs \<in> set uv_flag_families \<Longrightarrow> bit_flags fs"
  using flag_families_ok by (auto simp: list_all_iff intro!: bit_flagsI)

interpretation udp_flags: bit_flags uv_udp_flags
  by (rule flag_families) (simp add: uv_flag_families_def)

interpretation poll_events: bit_flags uv_poll_event
  by (rule flag_families) (simp add: uv_flag_families_def)

interpretation process_flags: bit_flags uv_process_flags
  by (rule flag_families) (simp add: uv_flag_families_def)

section \<open>Fallbacks\<close>

text \<open>
  Constants that are the system's when it defines them and otherwise a negative number of their
  own are pairwise different when those of the system are nonnegative and pairwise different.
\<close>

lemma fallbacks_distinct:
  assumes "distinct (map snd fs)" "\<And>m d. (m, d) \<in> set fs \<Longrightarrow> d < 0"
    and "\<And>m d v. (m, d) \<in> set fs \<Longrightarrow> macros_def t m = Some v \<Longrightarrow> 0 \<le> v"
    and "\<And>m m' v. m \<in> fst ` set fs \<Longrightarrow> m' \<in> fst ` set fs \<Longrightarrow>
      macros_def t m = Some v \<Longrightarrow> macros_def t m' = Some v \<Longrightarrow> m = m'"
    and "distinct (map fst fs)"
  shows "distinct (map (\<lambda>(m, d). value_or t m d) fs)"
proof -
  have "inj_on (\<lambda>(m, d). value_or t m d) (set fs)"
  proof (rule inj_onI, clarify)
    fix m d m' d'
    assume md: "(m, d) \<in> set fs" "(m', d') \<in> set fs" and eq: "value_or t m d = value_or t m' d'"
    have same: "d = d' \<Longrightarrow> m = m'" "m = m' \<Longrightarrow> d = d'"
      using md assms(1,5) by (fastforce simp: distinct_map inj_on_def)+
    show "m = m' \<and> d = d'"
    proof (cases "macros_def t m"; cases "macros_def t m'")
      fix v v' assume v: "macros_def t m = Some v" "macros_def t m' = Some v'"
      have "m \<in> fst ` set fs" "m' \<in> fst ` set fs" using md by (simp_all add: rev_image_eqI)
      moreover have "v = v'" using eq v by (simp add: value_or_def)
      ultimately have "m = m'" using assms(4) v by blast
      then show ?thesis using same by blast
    next
      fix v assume "macros_def t m = None" "macros_def t m' = Some v"
      then show ?thesis using assms(2) [OF md(1)] assms(3) [OF md(2)] eq by (simp add: value_or_def)
    next
      fix v assume "macros_def t m = Some v" "macros_def t m' = None"
      then show ?thesis using assms(2) [OF md(2)] assms(3) [OF md(1)] eq by (simp add: value_or_def)
    next
      assume "macros_def t m = None" "macros_def t m' = None"
      then show ?thesis using eq same by (simp add: value_or_def)
    qed
  qed
  moreover have "distinct fs" using assms(1) by (simp add: distinct_map)
  ultimately show ?thesis by (simp add: distinct_map)
qed

definition dt_macros :: "string list" where
  "dt_macros = [''DT_REG'', ''DT_DIR'', ''DT_LNK'', ''DT_FIFO'', ''DT_SOCK'', ''DT_CHR'', ''DT_BLK'']"

definition dt_fallbacks :: "(string \<times> int) list" where
  "dt_fallbacks = zip dt_macros [-1, -2, -3, -4, -5, -6, -7]"

lemma unix_DT_values:
  "unix_UV__DT t = Some xs \<Longrightarrow> map snd xs = map (\<lambda>(m, d). value_or t m d) dt_fallbacks"
  by (auto simp: unix_UV__DT_def dt_fallbacks_def dt_macros_def split: if_splits)

section \<open>Enumerations\<close>

lemma enum_from_implicit:
  "map snd (enum_from n (map (\<lambda>c. (c, None)) cs)) = map (\<lambda>i. n + int i) [0..<length cs]"
proof (induction cs arbitrary: n)
  case (Cons c cs)
  have "map (\<lambda>i. n + int i) [0..<Suc (length cs)] = n # map (\<lambda>i. n + 1 + int i) [0..<length cs]"
    by (simp add: upt_conv_Cons map_Suc_upt [symmetric] comp_def algebra_simps del: upt_Suc)
  then show ?case using Cons.IH [of "n + 1"] by simp
qed simp

lemma distinct_int_interval: "distinct (map (\<lambda>i. n + int i) [0..<k])"
  by (simp add: distinct_map inj_on_def)

lemma enum_counts:
  "distinct (map snd (enum_from 0 ((c, Some 0) # map (\<lambda>c. (c, None)) cs)))"
  using enum_from_implicit [of 1 cs] distinct_int_interval [of 1 "length cs"] by auto

lemma map_of_enum_append:
  assumes "x \<in> set (map fst xs)"
  shows "map_of (enum_from n (xs @ ys)) x = map_of (enum_from n xs) x"
  using assms
proof (induction xs arbitrary: n)
  case (Cons a xs)
  obtain c v where "a = (c, v)" by fastforce
  then show ?case using Cons by (cases v) (auto simp: fun_upd_apply)
qed simp

lemma enum_names: "map fst (enum_from n xs) = map fst xs"
  by (induction n xs rule: enum_from.induct) auto

definition req_constants :: "target \<Rightarrow> string list" where
  "req_constants t = map (\<lambda>(uc, lc). ''UV_'' @ uc) UV_REQ_TYPE_MAP
     @ by_platform t win_UV_REQ_TYPE_PRIVATE unix_UV_REQ_TYPE_PRIVATE @ [''UV_REQ_TYPE_MAX'']"

lemma uv_req_type_alt:
  "uv_req_type t = enum_from 0 ((''UV_UNKNOWN_REQ'', Some 0) # map (\<lambda>c. (c, None)) (req_constants t))"
  by (simp add: uv_req_type_def req_constants_def comp_def case_prod_unfold)

lemma public_req_constant:
  assumes "(uc, lc) \<in> set UV_REQ_TYPE_MAP"
  shows "map_of (uv_req_type t) (''UV_'' @ uc) =
    map_of (enum_from 0 ((''UV_UNKNOWN_REQ'', Some 0)
      # map (\<lambda>(uc, lc). (''UV_'' @ uc, None)) UV_REQ_TYPE_MAP)) (''UV_'' @ uc)"
  using map_of_enum_append [of "''UV_'' @ uc"
      "(''UV_UNKNOWN_REQ'', Some 0) # map (\<lambda>(uc, lc). (''UV_'' @ uc, None)) UV_REQ_TYPE_MAP" 0
      "map (\<lambda>c. (c, None)) (by_platform t win_UV_REQ_TYPE_PRIVATE unix_UV_REQ_TYPE_PRIVATE)
        @ [(''UV_REQ_TYPE_MAX'', None)]"] assms
  by (force simp: uv_req_type_def)

section \<open>Properties of the constants\<close>

text \<open>
  Flags of one family can be combined with \<open>|\<close> and told apart again with \<open>&\<close>: for every set of
  flags of a family and every nonzero flag of it, the test of the flag in the union of the set
  succeeds exactly when the flag is in the set.
\<close>

lemma flags_decode:
  assumes "fam \<in> set uv_flag_families" "set sub \<subseteq> set fam" "(c, v) \<in> set fam" "v \<noteq> 0"
  shows "flag_union sub AND v \<noteq> 0 \<longleftrightarrow> (c, v) \<in> set sub"
  using flag_families [OF assms(1)] assms(2-) by (rule bit_flags.test_flag)

text \<open>
  The types of directory entries are told apart on every Unix system with entry types: if the
  \<open>DT_\<close> constants that the system has are nonnegative and pairwise different, so are the seven
  \<open>UV__DT_\<close> values, whichever of the constants are missing.
\<close>

lemma dirent_types_distinct:
  assumes "unix_UV__DT t = Some xs"
    and "\<forall>m\<in>set dt_macros. \<forall>v. macros_def t m = Some v \<longrightarrow> 0 \<le> v"
    and "inj_on (macros_def t) {m \<in> set dt_macros. is_defined t m}"
  shows "distinct (map snd xs)"
proof -
  have in_macros: "m \<in> set dt_macros" if "(m, d) \<in> set dt_fallbacks" for m d
    using that unfolding dt_fallbacks_def by (rule set_zip_leftD)
  have "distinct (map (\<lambda>(m, d). value_or t m d) dt_fallbacks)"
  proof (rule fallbacks_distinct)
    show "distinct (map snd dt_fallbacks)" "distinct (map fst dt_fallbacks)" by code_simp+
    show "d < 0" if "(m, d) \<in> set dt_fallbacks" for m d
      using that by (auto simp: dt_fallbacks_def dt_macros_def)
    show "0 \<le> v" if "(m, d) \<in> set dt_fallbacks" "macros_def t m = Some v" for m d v
      using that in_macros assms(2) by blast
    show "m = m'" if "m \<in> fst ` set dt_fallbacks" "m' \<in> fst ` set dt_fallbacks"
      "macros_def t m = Some v" "macros_def t m' = Some v" for m m' v
      using that in_macros assms(3) by (auto simp: inj_on_def is_defined_def)
  qed
  then show ?thesis using unix_DT_values [OF assms(1)] by simp
qed

text \<open>
  The request types have the same numbers on every target: the private types that Windows adds
  come after them. On each target the constants are pairwise different.
\<close>

lemma req_types_stable:
  assumes "(uc, lc) \<in> set UV_REQ_TYPE_MAP"
  shows "map_of (uv_req_type t) (''UV_'' @ uc) = map_of (uv_req_type t') (''UV_'' @ uc)
    \<and> map_of (uv_req_type t) (''UV_'' @ uc) \<noteq> None \<and> distinct (map snd (uv_req_type t))"
proof (intro conjI)
  show "map_of (uv_req_type t) (''UV_'' @ uc) = map_of (uv_req_type t') (''UV_'' @ uc)"
    by (simp only: public_req_constant [OF assms])
  have "''UV_'' @ uc \<in> set (map fst (uv_req_type t))"
    using assms by (force simp: uv_req_type_def enum_names)
  then show "map_of (uv_req_type t) (''UV_'' @ uc) \<noteq> None" by (simp add: map_of_eq_None_iff)
  show "distinct (map snd (uv_req_type t))" unfolding uv_req_type_alt by (rule enum_counts)
qed

end
