(* ===== verification/C_Memory.thy ===== *)
theory C_Memory
  imports C_Layout
begin

text \<open>
  The memory of a C program as bytes at addresses, with loads and stores of scalar fields of
  structs. A byte that belongs to no object has no value, and an access to it or through \<open>NULL\<close> is
  \<^term>\<open>None\<close>.
\<close>

section \<open>Scalars as bytes\<close>

text \<open>A scalar of \<open>n\<close> bytes, least significant byte first.\<close>

fun to_bytes :: "nat \<Rightarrow> nat \<Rightarrow> 8 word list" where
  "to_bytes 0 v = []"
| "to_bytes (Suc n) v = of_nat v # to_bytes n (v div 256)"

fun from_bytes :: "8 word list \<Rightarrow> nat" where
  "from_bytes [] = 0"
| "from_bytes (b # bs) = unat b + 256 * from_bytes bs"

lemma length_to_bytes [simp]: "length (to_bytes n v) = n"
  by (induction n v rule: to_bytes.induct) auto

lemma from_to_bytes: "from_bytes (to_bytes n v) = v mod 256 ^ n"
proof (induction n v rule: to_bytes.induct)
  case (2 n v)
  have "v mod (256 * 256 ^ n) = 256 * (v div 256 mod 256 ^ n) + v mod 256"
    by (rule mod_mult2_eq)
  then show ?case using 2 by (simp add: unat_of_nat)
qed simp

lemma from_bytes_zero: "from_bytes (replicate n 0) = 0"
  by (induction n) auto

definition byte_order :: "target \<Rightarrow> 8 word list \<Rightarrow> 8 word list" where
  "byte_order t bs = (if little_endian t then bs else rev bs)"

lemma byte_order_twice [simp]: "byte_order t (byte_order t bs) = bs"
  and length_byte_order [simp]: "length (byte_order t bs) = length bs"
  by (simp_all add: byte_order_def)

lemma byte_order_zero [simp]: "byte_order t (replicate n 0) = replicate n 0"
  by (simp add: byte_order_def)

section \<open>Bytes in memory\<close>

type_synonym byte_mem = "nat \<rightharpoonup> 8 word"

fun read_bytes :: "byte_mem \<Rightarrow> nat \<Rightarrow> nat \<Rightarrow> 8 word list option" where
  "read_bytes m p 0 = Some []"
| "read_bytes m p (Suc n) = do { b \<leftarrow> m p; bs \<leftarrow> read_bytes m (Suc p) n; Some (b # bs) }"

fun write_bytes :: "byte_mem \<Rightarrow> nat \<Rightarrow> 8 word list \<Rightarrow> byte_mem option" where
  "write_bytes m p [] = Some m"
| "write_bytes m p (b # bs) =
     (if m p = None then None else write_bytes (m(p \<mapsto> b)) (Suc p) bs)"

definition mapped :: "byte_mem \<Rightarrow> nat \<Rightarrow> nat \<Rightarrow> bool" where
  "mapped m p n \<longleftrightarrow> {p..<p + n} \<subseteq> dom m"

lemma mapped_Suc [simp]: "mapped m p (Suc n) \<longleftrightarrow> m p \<noteq> None \<and> mapped m (Suc p) n"
proof -
  have "{p..<p + Suc n} = insert p {Suc p..<Suc p + n}" by auto
  then show ?thesis by (auto simp: mapped_def)
qed

lemma mapped_upd: "mapped m p n \<Longrightarrow> mapped (m(a \<mapsto> b)) p n"
  by (auto simp: mapped_def)

lemma write_bytes_mapped: "mapped m p (length bs) \<Longrightarrow> \<exists>m'. write_bytes m p bs = Some m'"
proof (induction bs arbitrary: m p)
  case (Cons b bs)
  then have "m p \<noteq> None" "mapped (m(p \<mapsto> b)) (Suc p) (length bs)"
    by (simp_all add: mapped_upd)
  then show ?case using Cons.IH by simp
qed simp

lemma write_bytes_outside:
  "write_bytes m p bs = Some m' \<Longrightarrow> a \<notin> {p..<p + length bs} \<Longrightarrow> m' a = m a"
  by (induction bs arbitrary: m p) (fastforce simp: fun_upd_apply split: if_splits)+

lemma write_bytes_dom: "write_bytes m p bs = Some m' \<Longrightarrow> dom m' = dom m"
proof (induction bs arbitrary: m p)
  case (Cons b bs)
  then have "m p \<noteq> None" "dom m' = dom (m(p \<mapsto> b))" by (simp_all split: if_splits)
  then show ?case by auto
qed simp

lemma read_bytes_cong:
  "(\<And>a. a \<in> {p..<p + n} \<Longrightarrow> m' a = m a) \<Longrightarrow> read_bytes m' p n = read_bytes m p n"
proof (induction n arbitrary: p)
  case (Suc n)
  have "m' p = m p" using Suc.prems by simp
  moreover have "read_bytes m' (Suc p) n = read_bytes m (Suc p) n"
    by (rule Suc.IH) (use Suc.prems in auto)
  ultimately show ?case by simp
qed simp

lemma read_write_same: "write_bytes m p bs = Some m' \<Longrightarrow> read_bytes m' p (length bs) = Some bs"
proof (induction bs arbitrary: m p)
  case (Cons b bs)
  then have m': "write_bytes (m(p \<mapsto> b)) (Suc p) bs = Some m'" by (simp split: if_splits)
  have "m' p = Some b" using write_bytes_outside [OF m', of p] by simp
  then show ?case using Cons.IH [OF m'] by simp
qed simp

lemma read_write_other:
  assumes "write_bytes m q bs = Some m'" "p + n \<le> q \<or> q + length bs \<le> p"
  shows "read_bytes m' p n = read_bytes m p n"
  by (rule read_bytes_cong) (use write_bytes_outside [OF assms(1)] assms(2) in auto)

lemma read_zero_block:
  "(\<And>a. a \<in> {p..<p + n} \<Longrightarrow> m a = Some 0) \<Longrightarrow> read_bytes m p n = Some (replicate n 0)"
proof (induction n arbitrary: p)
  case (Suc n)
  have "m p = Some 0" using Suc.prems by simp
  moreover have "read_bytes m (Suc p) n = Some (replicate n 0)"
    by (rule Suc.IH) (use Suc.prems in auto)
  ultimately show ?case by simp
qed simp

lemma mapped_sub: "mapped m p n \<Longrightarrow> off + k \<le> n \<Longrightarrow> mapped m (p + off) k"
  by (auto simp: mapped_def subset_iff)

section \<open>Fields of structs\<close>

text \<open>\<open>p->f\<close> for a pointer \<open>p\<close> to a struct of type \<open>ty\<close>.\<close>

definition load_field :: "target \<Rightarrow> ctype \<Rightarrow> string \<Rightarrow> nat \<Rightarrow> byte_mem \<Rightarrow> nat option" where
  "load_field t ty f p m = (if p = 0 then None else do {
     (off, fty) \<leftarrow> field_at t ty f;
     bs \<leftarrow> read_bytes m (p + off) (size_of t fty);
     Some (from_bytes (byte_order t bs)) })"

definition store_field :: "target \<Rightarrow> ctype \<Rightarrow> string \<Rightarrow> nat \<Rightarrow> nat \<Rightarrow> byte_mem \<Rightarrow> byte_mem option" where
  "store_field t ty f p v m = (if p = 0 then None else do {
     (off, fty) \<leftarrow> field_at t ty f;
     write_bytes m (p + off) (byte_order t (to_bytes (size_of t fty) v)) })"

text \<open>A pointer to an object of type \<open>ty\<close>.\<close>

definition obj_at :: "target \<Rightarrow> ctype \<Rightarrow> nat \<Rightarrow> byte_mem \<Rightarrow> bool" where
  "obj_at t ty p m \<longleftrightarrow> p \<noteq> 0 \<and> mapped m p (size_of t ty)"

lemma load_field_extends:
  "extends t sub base \<Longrightarrow> field_at t base f \<noteq> None \<Longrightarrow> load_field t sub f p m = load_field t base f p m"
  by (auto simp: extends_def load_field_def)

lemma load_store_same:
  assumes "store_field t ty f p v m = Some m'" "field_at t ty f = Some (off, fty)"
  shows "load_field t ty f p m' = Some (v mod 256 ^ size_of t fty)"
proof -
  have "read_bytes m' (p + off) (size_of t fty) = Some (byte_order t (to_bytes (size_of t fty) v))"
    using assms read_write_same [of m "p + off" "byte_order t (to_bytes (size_of t fty) v)" m']
    by (simp add: store_field_def split: if_splits)
  then show ?thesis
    using assms by (simp add: load_field_def store_field_def from_to_bytes split: if_splits)
qed

context abi
begin

lemma store_field_total:
  assumes "obj_at t (Struct n fs) p m" "field_at t (Struct n fs) f = Some (off, fty)"
  shows "\<exists>m'. store_field t (Struct n fs) f p v m = Some m' \<and> dom m' = dom m
    \<and> (\<forall>a. a \<notin> {p..<p + size_of t (Struct n fs)} \<longrightarrow> m' a = m a)"
proof -
  let ?bs = "byte_order t (to_bytes (size_of t fty) v)"
  have within: "off + size_of t fty \<le> size_of t (Struct n fs)" by (rule field_within [OF assms(2)])
  then have "mapped m (p + off) (length ?bs)"
    using assms(1) mapped_sub unfolding obj_at_def length_byte_order length_to_bytes by blast
  then obtain m' where m': "write_bytes m (p + off) ?bs = Some m'" using write_bytes_mapped by blast
  have "m' a = m a" if "a \<notin> {p..<p + size_of t (Struct n fs)}" for a
    using write_bytes_outside [OF m', of a] that within by auto
  then show ?thesis
    using m' write_bytes_dom [OF m'] assms by (auto simp: store_field_def obj_at_def)
qed

lemma load_store_other:
  assumes "store_field t (Struct n fs) f p v m = Some m'" "f \<noteq> g"
    "field_at t (Struct n fs) f \<noteq> None" "field_at t (Struct n fs) g \<noteq> None"
  shows "load_field t (Struct n fs) g p m' = load_field t (Struct n fs) g p m"
proof -
  obtain o1 ty1 o2 ty2 where f: "field_at t (Struct n fs) f = Some (o1, ty1)"
    and g: "field_at t (Struct n fs) g = Some (o2, ty2)" using assms(3,4) by auto
  have "read_bytes m' (p + o2) (size_of t ty2) = read_bytes m (p + o2) (size_of t ty2)"
    by (rule read_write_other [of _ "p + o1" "byte_order t (to_bytes (size_of t ty1) v)"])
      (use assms(1) f fields_apart [OF f g assms(2)] in \<open>auto simp: store_field_def split: if_splits\<close>)
  then show ?thesis using g by (simp add: load_field_def)
qed

end

end
