(* ===== verification/Uv_Util.thy ===== *)
theory Uv_Util
  imports C_Memory Uv_Layout
begin

text \<open>
  The C functions that the calc runtime calls (\<open>uvutil.c\<close>, \<open>uvutil.h\<close>): allocation of libuv objects in
  the collected heap, access to their fields, the allocator that libuv is given, and the number of
  processors. The functions of libuv, of the collector and of the C library are parameters.
\<close>

section \<open>State and libraries\<close>

text \<open>The memory, the standard output, and the state that the libraries keep.\<close>

record 'g cstate =
  bytes :: byte_mem
  stdout :: string
  lib_state :: 'g

text \<open>The function pointers that \<open>uv_replace_allocator\<close> takes.\<close>

record 'g uv_allocator =
  malloc_func :: "nat \<Rightarrow> 'g cstate \<Rightarrow> 'g cstate \<times> nat"
  realloc_func :: "nat \<Rightarrow> nat \<Rightarrow> 'g cstate \<Rightarrow> 'g cstate \<times> nat"
  calloc_func :: "nat \<Rightarrow> nat \<Rightarrow> 'g cstate \<Rightarrow> 'g cstate \<times> nat"
  free_func :: "nat \<Rightarrow> 'g cstate \<Rightarrow> 'g cstate"

record 'g clib =
  GC_malloc :: "nat \<Rightarrow> 'g cstate \<Rightarrow> 'g cstate \<times> nat"
  GC_malloc_uncollectable :: "nat \<Rightarrow> 'g cstate \<Rightarrow> 'g cstate \<times> nat"
  GC_realloc :: "nat \<Rightarrow> nat \<Rightarrow> 'g cstate \<Rightarrow> 'g cstate \<times> nat"
  GC_free :: "nat \<Rightarrow> 'g cstate \<Rightarrow> 'g cstate"
  uv_replace_allocator :: "'g uv_allocator \<Rightarrow> 'g cstate \<Rightarrow> 'g cstate \<times> int"
  uv_cpu_info :: "'g cstate \<Rightarrow> 'g cstate \<times> nat \<times> int \<times> int"
  uv_free_cpu_info :: "nat \<Rightarrow> int \<Rightarrow> 'g cstate \<Rightarrow> 'g cstate"
  uv_err_name :: "int \<Rightarrow> string"

text \<open>\<open>uvutil.h\<close> does not define \<open>GC_DEBUG\<close>, so \<open>GC_MALLOC\<close> is \<open>GC_malloc\<close>.\<close>

definition GC_MALLOC :: "'g clib \<Rightarrow> nat \<Rightarrow> 'g cstate \<Rightarrow> 'g cstate \<times> nat" where
  "GC_MALLOC lib sz = GC_malloc lib sz"

section \<open>Allocation\<close>

definition new_timer2 :: "target \<Rightarrow> 'g clib \<Rightarrow> 'g cstate \<Rightarrow> 'g cstate \<times> nat" where
  "new_timer2 t lib = GC_MALLOC lib (size_of t (uv_timer_s t))"

definition new_tcp :: "target \<Rightarrow> 'g clib \<Rightarrow> 'g cstate \<Rightarrow> 'g cstate \<times> nat" where
  "new_tcp t lib = GC_MALLOC lib (size_of t (uv_tcp_s t))"

definition new_addr :: "target \<Rightarrow> 'g clib \<Rightarrow> 'g cstate \<Rightarrow> 'g cstate \<times> nat" where
  "new_addr t lib = GC_MALLOC lib (size_of t (Named ''struct sockaddr_in''))"

definition new_idle :: "target \<Rightarrow> 'g clib \<Rightarrow> 'g cstate \<Rightarrow> 'g cstate \<times> nat" where
  "new_idle t lib = GC_MALLOC lib (size_of t (uv_idle_s t))"

definition new_write :: "target \<Rightarrow> 'g clib \<Rightarrow> 'g cstate \<Rightarrow> 'g cstate \<times> nat" where
  "new_write t lib = GC_MALLOC lib (size_of t (uv_write_s t))"

definition new_async :: "target \<Rightarrow> 'g clib \<Rightarrow> 'g cstate \<Rightarrow> 'g cstate \<times> nat" where
  "new_async t lib = GC_MALLOC lib (size_of t (uv_async_s t))"

definition new_conn :: "target \<Rightarrow> 'g clib \<Rightarrow> 'g cstate \<Rightarrow> 'g cstate \<times> nat" where
  "new_conn t lib = GC_malloc_uncollectable lib (size_of t (uv_connect_s t))"

definition new_pthread_cond_t :: "target \<Rightarrow> 'g clib \<Rightarrow> 'g cstate \<Rightarrow> 'g cstate \<times> nat" where
  "new_pthread_cond_t t lib = GC_MALLOC lib (size_of t (Named ''pthread_cond_t''))"

definition new_pthread_mutex_t :: "target \<Rightarrow> 'g clib \<Rightarrow> 'g cstate \<Rightarrow> 'g cstate \<times> nat" where
  "new_pthread_mutex_t t lib = GC_MALLOC lib (size_of t (Named ''pthread_mutex_t''))"

definition new_buf_t :: "target \<Rightarrow> 'g clib \<Rightarrow> 'g cstate \<Rightarrow> 'g cstate \<times> nat" where
  "new_buf_t t lib = GC_MALLOC lib (size_of t (uv_buf_t t))"

text \<open>\<open>GC_calloc\<close> multiplies in \<open>size_t\<close>, which wraps around.\<close>

definition GC_calloc :: "target \<Rightarrow> 'g clib \<Rightarrow> nat \<Rightarrow> nat \<Rightarrow> 'g cstate \<Rightarrow> 'g cstate \<times> nat" where
  "GC_calloc t lib count sz =
     GC_malloc_uncollectable lib ((count * sz) mod 256 ^ size_of t c_size_t)"

definition replace_allocator :: "target \<Rightarrow> 'g clib \<Rightarrow> 'g cstate \<Rightarrow> 'g cstate" where
  "replace_allocator t lib s = fst (uv_replace_allocator lib
     \<lparr>malloc_func = GC_malloc_uncollectable lib, realloc_func = GC_realloc lib,
      calloc_func = GC_calloc t lib, free_func = GC_free lib\<rparr> s)"

section \<open>Fields\<close>

definition with_bytes :: "(byte_mem \<Rightarrow> byte_mem option) \<Rightarrow> 'g cstate \<Rightarrow> 'g cstate option" where
  "with_bytes f s = map_option (\<lambda>m. s\<lparr>bytes := m\<rparr>) (f (bytes s))"

definition get_conn_stream :: "target \<Rightarrow> nat \<Rightarrow> 'g cstate \<Rightarrow> nat option" where
  "get_conn_stream t p s = load_field t (uv_connect_s t) ''handle'' p (bytes s)"

definition get_tcp_data :: "target \<Rightarrow> nat \<Rightarrow> 'g cstate \<Rightarrow> nat option" where
  "get_tcp_data t p s = load_field t (uv_tcp_s t) ''data'' p (bytes s)"

definition set_tcp_data :: "target \<Rightarrow> nat \<Rightarrow> nat \<Rightarrow> 'g cstate \<Rightarrow> 'g cstate option" where
  "set_tcp_data t p d = with_bytes (store_field t (uv_tcp_s t) ''data'' p d)"

definition get_buf_data :: "target \<Rightarrow> nat \<Rightarrow> 'g cstate \<Rightarrow> nat option" where
  "get_buf_data t p s = load_field t (uv_buf_t t) ''base'' p (bytes s)"

text \<open>\<open>ULONG\<close> is \<open>unsigned long\<close>: the value of \<open>len\<close> is converted to it.\<close>

definition get_buf_len :: "target \<Rightarrow> nat \<Rightarrow> 'g cstate \<Rightarrow> nat option" where
  "get_buf_len t p s =
     map_option (\<lambda>v. v mod 256 ^ size_of t c_ulong) (load_field t (uv_buf_t t) ''len'' p (bytes s))"

definition set_buf_data :: "target \<Rightarrow> nat \<Rightarrow> nat \<Rightarrow> 'g cstate \<Rightarrow> 'g cstate option" where
  "set_buf_data t p d = with_bytes (store_field t (uv_buf_t t) ''base'' p d)"

definition set_buf_len :: "target \<Rightarrow> nat \<Rightarrow> nat \<Rightarrow> 'g cstate \<Rightarrow> 'g cstate option" where
  "set_buf_len t p len = with_bytes (store_field t (uv_buf_t t) ''len'' p len)"

section \<open>The rest\<close>

definition print_uv_err :: "'g clib \<Rightarrow> int \<Rightarrow> 'g cstate \<Rightarrow> 'g cstate" where
  "print_uv_err lib err s = s\<lparr>stdout := stdout s @ uv_err_name lib err\<rparr>"

definition get_available_parallelism :: "'g clib \<Rightarrow> 'g cstate \<Rightarrow> 'g cstate \<times> int" where
  "get_available_parallelism lib s =
     (let (s, cpu_infos, count, err) = uv_cpu_info lib s
      in if err \<noteq> 0 then (s, -1)
         else (uv_free_cpu_info lib cpu_infos count s, count))"

section \<open>What the code relies on\<close>

text \<open>
  The memory holds the objects that the program still uses; what the collector reclaims is not
  among them. The contract of the allocation functions, as \<open>gc.h\<close> documents it: the result is \<open>NULL\<close>
  and no object changes, or it is a new cleared object of at least the size asked for.
\<close>

definition alloc_law :: "(nat \<Rightarrow> 'g cstate \<Rightarrow> 'g cstate \<times> nat) \<Rightarrow> bool" where
  "alloc_law alloc \<longleftrightarrow> (\<forall>n s s' p. alloc n s = (s', p) \<longrightarrow>
     (if p = 0 then bytes s' = bytes s
      else \<exists>k\<ge>n. {p..<p + k} \<inter> dom (bytes s) = {}
        \<and> bytes s' = (\<lambda>a. if a \<in> {p..<p + k} then Some 0 else bytes s a)))"

text \<open>A new object of size \<open>n\<close> at \<open>p\<close>: cleared, and apart from the objects there were.\<close>

definition new_object :: "nat \<Rightarrow> nat \<Rightarrow> 'g cstate \<Rightarrow> 'g cstate \<Rightarrow> bool" where
  "new_object n p s s' \<longleftrightarrow> mapped (bytes s') p n \<and> (\<forall>a\<in>{p..<p + n}. bytes s' a = Some 0)
     \<and> {p..<p + n} \<inter> dom (bytes s) = {} \<and> (\<forall>a\<in>dom (bytes s). bytes s' a = bytes s a)"

lemma alloc_law_new_object:
  assumes "alloc_law alloc" "alloc n s = (s', p)" "p \<noteq> 0"
  shows "new_object n p s s'"
proof -
  have "if p = 0 then bytes s' = bytes s
      else \<exists>k\<ge>n. {p..<p + k} \<inter> dom (bytes s) = {}
        \<and> bytes s' = (\<lambda>a. if a \<in> {p..<p + k} then Some 0 else bytes s a)"
    using assms(1,2) unfolding alloc_law_def by blast
  then obtain k where k: "n \<le> k" "{p..<p + k} \<inter> dom (bytes s) = {}"
    and s': "bytes s' = (\<lambda>a. if a \<in> {p..<p + k} then Some 0 else bytes s a)"
    using assms(3) by auto
  have sub: "{p..<p + n} \<subseteq> {p..<p + k}" using k(1) by auto
  then have zero: "\<forall>a\<in>{p..<p + n}. bytes s' a = Some 0" by (auto simp: s')
  moreover have "\<forall>a\<in>dom (bytes s). bytes s' a = bytes s a" using k(2) by (auto simp: s')
  moreover have "mapped (bytes s') p n" using zero by (auto simp: mapped_def)
  ultimately show ?thesis using sub k(2) unfolding new_object_def by blast
qed

text \<open>The constructors of \<open>uvutil.c\<close> with the types of their results.\<close>

definition constructors :: "target \<Rightarrow> 'g clib \<Rightarrow> (('g cstate \<Rightarrow> 'g cstate \<times> nat) \<times> ctype) list" where
  "constructors t lib =
     [(new_timer2 t lib, uv_timer_s t), (new_tcp t lib, uv_tcp_s t),
      (new_addr t lib, Named ''struct sockaddr_in''), (new_idle t lib, uv_idle_s t),
      (new_write t lib, uv_write_s t), (new_async t lib, uv_async_s t),
      (new_conn t lib, uv_connect_s t), (new_pthread_cond_t t lib, Named ''pthread_cond_t''),
      (new_pthread_mutex_t t lib, Named ''pthread_mutex_t''), (new_buf_t t lib, uv_buf_t t)]"

lemmas constructor_defs = new_timer2_def new_tcp_def new_addr_def new_idle_def new_write_def
  new_async_def new_conn_def new_pthread_cond_t_def new_pthread_mutex_t_def new_buf_t_def
  GC_MALLOC_def

lemma constructor_allocates:
  assumes "(f, ty) \<in> set (constructors t lib)"
  shows "f = GC_malloc lib (size_of t ty) \<or> f = GC_malloc_uncollectable lib (size_of t ty)"
  using assms unfolding constructors_def by (auto simp only: list.set insert_iff prod.inject empty_iff constructor_defs)

section \<open>Fields of the objects\<close>

lemma with_bytes_Some: "with_bytes f s = Some s' \<longleftrightarrow> (\<exists>m. f (bytes s) = Some m \<and> s' = s\<lparr>bytes := m\<rparr>)"
  by (auto simp: with_bytes_def)

lemma uv_tcp_s_struct: "\<exists>gs. uv_tcp_s t = Struct ''uv_tcp_s'' ((''data'', void_p) # gs)"
  by (simp add: uv_tcp_s_def UV_HANDLE_FIELDS_def)

lemma uv_handle_s_struct: "\<exists>gs. uv_handle_s t = Struct ''uv_handle_s'' ((''data'', void_p) # gs)"
  by (simp add: uv_handle_s_def UV_HANDLE_FIELDS_def)

definition buf_len_type :: "target \<Rightarrow> ctype" where
  "buf_len_type t = by_platform t (Named ''ULONG'') c_size_t"

context abi
begin

lemma first_field: "field_at t (Struct n ((f, ty) # fs)) f = Some (0, ty)"
  by (simp add: field_at_def Let_def)

lemma tcp_data: "field_at t (uv_tcp_s t) ''data'' = Some (0, void_p)"
  and handle_data: "field_at t (uv_handle_s t) ''data'' = Some (0, void_p)"
  using uv_tcp_s_struct [of t] uv_handle_s_struct [of t] first_field by fastforce+

lemma buf_fields:
  "\<exists>fs. uv_buf_t t = Struct ''uv_buf_t'' fs \<and> map_of fs ''base'' = Some (Ptr ''char'')
     \<and> map_of fs ''len'' = Some (buf_len_type t)"
  by (simp add: uv_buf_t_def by_platform_def unix_uv_buf_t_def win_uv_buf_t_def buf_len_type_def)

lemma field_at_type: "map_of fs f = Some ty \<Longrightarrow> \<exists>off. field_at t (Struct n fs) f = Some (off, ty)"
proof -
  have "map_of fs f = Some ty \<Longrightarrow> \<exists>off. map_of (place t k fs) f = Some (off, ty)" for k
    by (induction fs arbitrary: k) (auto simp: Let_def fun_upd_apply split: if_splits)
  then show "map_of fs f = Some ty \<Longrightarrow> \<exists>off. field_at t (Struct n fs) f = Some (off, ty)"
    by (simp add: field_at_def)
qed

end

context abi
begin

lemma constructed_types:
  assumes "(f, ty) \<in> set (constructors t lib)"
  shows "fields_of ty = [] \<or> (\<exists>n fs. ty = Struct n fs)"
  using assms unfolding constructors_def
  by (auto simp: uv_timer_s_def uv_tcp_s_def uv_idle_s_def uv_write_s_def uv_async_s_def uv_connect_s_def
      uv_buf_t_def by_platform_def unix_uv_buf_t_def win_uv_buf_t_def)

lemma new_object_field_zero:
  assumes "new_object (size_of t (Struct n fs)) p s s'" "p \<noteq> 0" "field_at t (Struct n fs) f \<noteq> None"
  shows "load_field t (Struct n fs) f p (bytes s') = Some 0"
proof -
  obtain off ty where f: "field_at t (Struct n fs) f = Some (off, ty)" using assms(3) by auto
  have "read_bytes (bytes s') (p + off) (size_of t ty) = Some (replicate (size_of t ty) 0)"
    by (rule read_zero_block) (use assms(1) field_within [OF f] in \<open>auto simp: new_object_def\<close>)
  then show ?thesis using f assms(2) by (simp add: load_field_def from_bytes_zero)
qed

lemma constructor_ok:
  assumes "alloc_law (GC_malloc lib)" "alloc_law (GC_malloc_uncollectable lib)"
    and "(f, ty) \<in> set (constructors t lib)" "f s = (s', p)"
  shows "if p = 0 then bytes s' = bytes s
    else new_object (size_of t ty) p s s' \<and>
      (\<forall>g. field_at t ty g \<noteq> None \<longrightarrow> load_field t ty g p (bytes s') = Some 0)"
proof -
  obtain alloc where alloc: "alloc_law alloc" "f = alloc (size_of t ty)"
    using constructor_allocates [OF assms(3)] assms(1,2) by auto
  show ?thesis
  proof (cases "p = 0")
    case True
    then show ?thesis using alloc assms(4) by (simp add: alloc_law_def)
  next
    case False
    then have new: "new_object (size_of t ty) p s s'"
      using alloc_law_new_object [OF alloc(1)] alloc(2) assms(4) by blast
    have "load_field t ty g p (bytes s') = Some 0" if g: "field_at t ty g \<noteq> None" for g
    proof -
      have "fields_of ty \<noteq> []" using g by (auto simp: field_at_def)
      then obtain n fs where "ty = Struct n fs" using constructed_types [OF assms(3)] by blast
      then show ?thesis using new_object_field_zero new False g by blast
    qed
    with new False show ?thesis by simp
  qed
qed

lemma set_get_tcp_data:
  assumes "obj_at t (uv_tcp_s t) p (bytes s)" "d < 256 ^ size_of t void_p"
  shows "\<exists>s'. set_tcp_data t p d s = Some s' \<and> get_tcp_data t p s' = Some d
    \<and> load_field t (uv_handle_s t) ''data'' p (bytes s') = Some d
    \<and> (\<forall>g. g \<noteq> ''data'' \<longrightarrow> load_field t (uv_tcp_s t) g p (bytes s') = load_field t (uv_tcp_s t) g p (bytes s))
    \<and> (\<forall>a. a \<notin> {p..<p + size_of t (uv_tcp_s t)} \<longrightarrow> bytes s' a = bytes s a)"
proof -
  obtain gs where tcp: "uv_tcp_s t = Struct ''uv_tcp_s'' gs" using uv_tcp_s_struct by blast
  obtain m where m: "store_field t (uv_tcp_s t) ''data'' p d (bytes s) = Some m"
    and frame: "\<forall>a. a \<notin> {p..<p + size_of t (uv_tcp_s t)} \<longrightarrow> m a = bytes s a"
    using store_field_total [of "''uv_tcp_s''" gs p "bytes s" "''data''" 0 void_p d] assms(1) tcp_data
    unfolding tcp by blast
  have get: "load_field t (uv_tcp_s t) ''data'' p m = Some d"
    using load_store_same [OF m tcp_data] assms(2) by simp
  moreover have "load_field t (uv_handle_s t) ''data'' p m = Some d"
    using get tcp_data handle_data by (simp add: load_field_def split: if_splits)
  moreover have "load_field t (uv_tcp_s t) g p m = load_field t (uv_tcp_s t) g p (bytes s)"
    if "g \<noteq> ''data''" for g
  proof (cases "field_at t (uv_tcp_s t) g")
    case None
    then show ?thesis by (simp add: load_field_def)
  next
    case (Some x)
    then show ?thesis using load_store_other [OF m [unfolded tcp]] that tcp_data unfolding tcp by simp
  qed
  ultimately show ?thesis
    using m frame by (auto simp: set_tcp_data_def get_tcp_data_def with_bytes_Some)
qed

lemma set_get_buf:
  assumes "obj_at t (uv_buf_t t) p (bytes s)" "d < 256 ^ size_of t (Ptr ''char'')"
    and "len < 256 ^ size_of t c_ulong" "size_of t c_ulong = size_of t (buf_len_type t)"
  shows "\<exists>s1 s2. set_buf_data t p d s = Some s1 \<and> set_buf_len t p len s1 = Some s2
    \<and> get_buf_data t p s2 = Some d \<and> get_buf_len t p s2 = Some len
    \<and> (\<forall>a. a \<notin> {p..<p + size_of t (uv_buf_t t)} \<longrightarrow> bytes s2 a = bytes s a)"
proof -
  obtain fs o1 o2 where buf: "uv_buf_t t = Struct ''uv_buf_t'' fs"
    and base: "field_at t (Struct ''uv_buf_t'' fs) ''base'' = Some (o1, Ptr ''char'')"
    and leng: "field_at t (Struct ''uv_buf_t'' fs) ''len'' = Some (o2, buf_len_type t)"
    using buf_fields field_at_type by meson
  note obj = assms(1) [unfolded buf]
  obtain m1 where m1: "store_field t (Struct ''uv_buf_t'' fs) ''base'' p d (bytes s) = Some m1"
    "dom m1 = dom (bytes s)" "\<forall>a. a \<notin> {p..<p + size_of t (Struct ''uv_buf_t'' fs)} \<longrightarrow> m1 a = bytes s a"
    using store_field_total [OF obj base] by blast
  have obj1: "obj_at t (Struct ''uv_buf_t'' fs) p m1" using obj m1(2) by (simp add: obj_at_def mapped_def)
  obtain m2 where m2: "store_field t (Struct ''uv_buf_t'' fs) ''len'' p len m1 = Some m2"
    "\<forall>a. a \<notin> {p..<p + size_of t (Struct ''uv_buf_t'' fs)} \<longrightarrow> m2 a = m1 a"
    using store_field_total [OF obj1 leng] by blast
  have "load_field t (Struct ''uv_buf_t'' fs) ''base'' p m2 = Some d"
    using load_store_other [OF m2(1), of "''base''"] load_store_same [OF m1(1) base] base leng assms(2)
    by simp
  moreover have "load_field t (Struct ''uv_buf_t'' fs) ''len'' p m2 = Some len"
    using load_store_same [OF m2(1) leng] assms(3,4) by simp
  ultimately show ?thesis
    using m1 m2 assms(3)
    by (simp add: set_buf_data_def set_buf_len_def get_buf_data_def get_buf_len_def with_bytes_def buf)
qed

end

section \<open>Properties\<close>

text \<open>
  C30. Each constructor of \<open>uvutil.c\<close> returns \<open>NULL\<close> and changes no object, or it returns a new object
  large enough for its type, cleared, and apart from all objects there were; every field of it reads
  as zero.
\<close>

theorem constructors_ok:
  assumes "target_ok t" "alloc_law (GC_malloc lib)" "alloc_law (GC_malloc_uncollectable lib)"
    and "(f, ty) \<in> set (constructors t lib)" "f s = (s', p)"
  shows "if p = 0 then bytes s' = bytes s
    else new_object (size_of t ty) p s s' \<and>
      (\<forall>g. field_at t ty g \<noteq> None \<longrightarrow> load_field t ty g p (bytes s') = Some 0)"
  using abi.constructor_ok [OF abi.intro [OF assms(1)]] assms(2-) by blast

text \<open>A collector that hands out consecutive blocks, and a libuv that sees four processors.\<close>

definition bump_alloc :: "nat \<Rightarrow> nat cstate \<Rightarrow> nat cstate \<times> nat" where
  "bump_alloc n s =
     (if {lib_state s..<lib_state s + n} \<inter> dom (bytes s) = {} \<and> lib_state s \<noteq> 0
      then (s\<lparr>bytes := \<lambda>a. if a \<in> {lib_state s..<lib_state s + n} then Some 0 else bytes s a,
              lib_state := lib_state s + n\<rparr>, lib_state s)
      else (s, 0))"

definition demo_clib :: "nat clib" where
  "demo_clib = \<lparr>GC_malloc = bump_alloc, GC_malloc_uncollectable = bump_alloc,
     GC_realloc = (\<lambda>p n s. bump_alloc n s), GC_free = (\<lambda>p s. s),
     uv_replace_allocator = (\<lambda>al s. (s, 0)), uv_cpu_info = (\<lambda>s. (s, 16, 4, 0)),
     uv_free_cpu_info = (\<lambda>p n s. s), uv_err_name = (\<lambda>e. ''EIO'')\<rparr>"

definition demo_cstate :: "nat cstate" where
  "demo_cstate = \<lparr>bytes = (\<lambda>a. None), stdout = [], lib_state = 4096\<rparr>"

lemma bump_alloc_law: "alloc_law bump_alloc"
  unfolding alloc_law_def bump_alloc_def by (auto split: if_splits)

lemma demo_new_buf:
  "new_buf_t linux_x86_64 demo_clib demo_cstate =
     (\<lparr>bytes = (\<lambda>a. if a \<in> {4096..<4112} then Some 0 else None), stdout = [], lib_state = 4112\<rparr>, 4096)"
proof -
  have "size_of linux_x86_64 (uv_buf_t linux_x86_64) = 16" by code_simp
  then show ?thesis
    by (simp add: new_buf_t_def GC_MALLOC_def demo_clib_def bump_alloc_def demo_cstate_def cong: if_cong)
qed

theorem constructors_ok_witness:
  "new_object (size_of linux_x86_64 (uv_buf_t linux_x86_64)) 4096 demo_cstate
     (fst (new_buf_t linux_x86_64 demo_clib demo_cstate))"
  using constructors_ok [OF linux.ok, of demo_clib "new_buf_t linux_x86_64 demo_clib" "uv_buf_t linux_x86_64"
      demo_cstate "fst (new_buf_t linux_x86_64 demo_clib demo_cstate)" 4096] bump_alloc_law demo_new_buf
  by (simp add: constructors_def) (simp add: demo_clib_def)

text \<open>
  C31. The user pointer of a TCP handle: what \<open>set_tcp_data\<close> stores, \<open>get_tcp_data\<close> returns, and code
  that sees the handle as a \<open>uv_handle_t\<close> reads it too; no other field of the handle and no other
  object changes.
\<close>

theorem tcp_data_roundtrip:
  assumes "target_ok t" "obj_at t (uv_tcp_s t) p (bytes s)" "d < 256 ^ size_of t void_p"
  shows "\<exists>s'. set_tcp_data t p d s = Some s' \<and> get_tcp_data t p s' = Some d
    \<and> load_field t (uv_handle_s t) ''data'' p (bytes s') = Some d
    \<and> (\<forall>g. g \<noteq> ''data'' \<longrightarrow> load_field t (uv_tcp_s t) g p (bytes s') = load_field t (uv_tcp_s t) g p (bytes s))
    \<and> (\<forall>a. a \<notin> {p..<p + size_of t (uv_tcp_s t)} \<longrightarrow> bytes s' a = bytes s a)"
  using abi.set_get_tcp_data [OF abi.intro [OF assms(1)]] assms(2-) by blast

definition zero_page :: "nat cstate" where
  "zero_page = \<lparr>bytes = (\<lambda>a. if a \<in> {4096..<8192} then Some 0 else None), stdout = [], lib_state = 8192\<rparr>"

lemma zero_page_obj: "size_of t ty \<le> 4096 \<Longrightarrow> obj_at t ty 4096 (bytes zero_page)"
  by (auto simp: obj_at_def mapped_def zero_page_def)

theorem tcp_data_roundtrip_witness:
  "\<exists>s'. set_tcp_data linux_x86_64 4096 7 zero_page = Some s' \<and> get_tcp_data linux_x86_64 4096 s' = Some 7"
proof -
  have sz: "size_of linux_x86_64 (uv_tcp_s linux_x86_64) = 248" by code_simp
  have "obj_at linux_x86_64 (uv_tcp_s linux_x86_64) 4096 (bytes zero_page)"
    by (rule zero_page_obj) (simp only: sz)
  from tcp_data_roundtrip [OF linux.ok this, of 7] show ?thesis by (auto simp: linux_x86_64_def)
qed

text \<open>
  C32. The fields of a buffer: after \<open>set_buf_data\<close> and \<open>set_buf_len\<close>, \<open>get_buf_data\<close> and \<open>get_buf_len\<close>
  return both values, on Unix and on Windows, where the fields have the other order and the length
  is a \<open>ULONG\<close>, provided \<open>unsigned long\<close> is as wide as the length. No other object changes.
\<close>

theorem buf_roundtrip:
  assumes "target_ok t" "obj_at t (uv_buf_t t) p (bytes s)" "d < 256 ^ size_of t (Ptr ''char'')"
    and "len < 256 ^ size_of t c_ulong" "size_of t c_ulong = size_of t (buf_len_type t)"
  shows "\<exists>s1 s2. set_buf_data t p d s = Some s1 \<and> set_buf_len t p len s1 = Some s2
    \<and> get_buf_data t p s2 = Some d \<and> get_buf_len t p s2 = Some len
    \<and> (\<forall>a. a \<notin> {p..<p + size_of t (uv_buf_t t)} \<longrightarrow> bytes s2 a = bytes s a)"
  using abi.set_get_buf [OF abi.intro [OF assms(1)]] assms(2-) by blast

theorem buf_roundtrip_witness:
  "\<exists>s1 s2. set_buf_data win64 4096 300 zero_page = Some s1 \<and> set_buf_len win64 4096 65536 s1 = Some s2
     \<and> get_buf_data win64 4096 s2 = Some 300 \<and> get_buf_len win64 4096 s2 = Some 65536"
proof -
  have sz: "size_of win64 (uv_buf_t win64) = 16" "size_of win64 c_ulong = 4"
    "size_of win64 (buf_len_type win64) = 4" "size_of win64 (Ptr ''char'') = 8" by code_simp+
  have "obj_at win64 (uv_buf_t win64) 4096 (bytes zero_page)"
    by (rule zero_page_obj) (simp only: sz)
  from buf_roundtrip [OF windows.ok this, of 300 65536] show ?thesis
    unfolding sz by auto
qed

text \<open>
  The contract of \<open>calloc\<close>: the result is \<open>NULL\<close> and no object changes, or it is a new cleared object of
  \<open>count * sz\<close> bytes.
\<close>

definition calloc_result :: "nat \<Rightarrow> 'g cstate \<Rightarrow> 'g cstate \<Rightarrow> nat \<Rightarrow> bool" where
  "calloc_result n s s' p \<longleftrightarrow> (if p = 0 then bytes s' = bytes s else new_object n p s s')"

lemma gc_calloc_result:
  assumes "alloc_law (GC_malloc_uncollectable lib)" "count * sz < 256 ^ size_of t c_size_t"
    and "GC_calloc t lib count sz s = (s', p)"
  shows "calloc_result (count * sz) s s' p"
proof -
  have *: "GC_malloc_uncollectable lib (count * sz) s = (s', p)" using assms(2,3) by (simp add: GC_calloc_def)
  then show ?thesis
    using assms(1) alloc_law_new_object [OF assms(1) *] by (auto simp: calloc_result_def alloc_law_def)
qed



text \<open>
  C34. \<open>GC_calloc\<close> does not notice overflow: when the product does not fit into a \<open>size_t\<close>, the
  collector is asked for fewer bytes than the caller needs, and the call can succeed.
\<close>

theorem gc_calloc_wraps:
  assumes "256 ^ size_of t c_size_t \<le> count * sz"
  shows "\<exists>n < count * sz. GC_calloc t lib count sz = GC_malloc_uncollectable lib n"
proof -
  have "(count * sz) mod 256 ^ size_of t c_size_t < count * sz"
    by (rule order.strict_trans2 [OF mod_less_divisor assms]) simp
  then show ?thesis unfolding GC_calloc_def by blast
qed

theorem gc_calloc_wraps_witness:
  "(\<exists>n < 2 ^ 63 * 2. GC_calloc linux_x86_64 demo_clib (2 ^ 63) 2 = GC_malloc_uncollectable demo_clib n)
   \<and> snd (GC_calloc linux_x86_64 demo_clib (2 ^ 63) 2 demo_cstate) = 4096"
proof
  have sz: "size_of linux_x86_64 c_size_t = 8" by code_simp
  show "\<exists>n < 2 ^ 63 * 2. GC_calloc linux_x86_64 demo_clib (2 ^ 63) 2 = GC_malloc_uncollectable demo_clib n"
    by (rule gc_calloc_wraps) (unfold sz, simp)
  show "snd (GC_calloc linux_x86_64 demo_clib (2 ^ 63) 2 demo_cstate) = 4096"
    unfolding GC_calloc_def sz by (simp add: demo_clib_def bump_alloc_def demo_cstate_def)
qed

text \<open>
  \<open>get_available_parallelism\<close> leaves the memory as it found it, on success and on failure, given that
  \<open>uv_free_cpu_info\<close> releases what a successful \<open>uv_cpu_info\<close> allocates and a failed one allocates nothing.
\<close>

lemma parallelism_no_leak:
  assumes "uv_cpu_info lib s = (s1, infos, count, err)"
    and "if err = 0 then bytes (uv_free_cpu_info lib infos count s1) = bytes s else bytes s1 = bytes s"
  shows "bytes (fst (get_available_parallelism lib s)) = bytes s
    \<and> snd (get_available_parallelism lib s) = (if err = 0 then count else -1)"
  using assms by (simp add: get_available_parallelism_def)

end
