(* ===== verification/Gc_Config.thy ===== *)
theory Gc_Config
  imports Calc_Prelude
begin

text \<open>
  The configuration of the collector's headers (\<open>gc/gc_config_macros.h\<close>). The header is a program of
  the preprocessor: its state is the set of the macros that are defined, with their bodies, and
  each \<open>#if\<close> block is a step on that state.
\<close>

section \<open>Preprocessor states\<close>

text \<open>The body of a macro: empty, an integer, or other text.\<close>

datatype body = Empty | Num int | Text string

type_synonym penv = "string \<rightharpoonup> body"

definition defd :: "penv \<Rightarrow> string \<Rightarrow> bool" where
  "defd e m \<longleftrightarrow> e m \<noteq> None"

text \<open>The value of a macro name in an \<open>#if\<close> expression: an undefined name is 0.\<close>

definition num :: "penv \<Rightarrow> string \<Rightarrow> int" where
  "num e m = (case e m of Some (Num n) \<Rightarrow> n | _ \<Rightarrow> 0)"

definition def_macro :: "string \<Rightarrow> body \<Rightarrow> penv \<Rightarrow> penv" where
  "def_macro m b e = e(m \<mapsto> b)"

definition def_if :: "bool \<Rightarrow> string \<Rightarrow> body \<Rightarrow> penv \<Rightarrow> penv" where
  "def_if c m b e = (if c then def_macro m b e else e)"

definition any_def :: "penv \<Rightarrow> string list \<Rightarrow> bool" where
  "any_def e ms \<longleftrightarrow> (\<exists>m\<in>set ms. defd e m)"

section \<open>Compiler version\<close>

definition GC_GNUC_PREREQ :: "penv \<Rightarrow> int \<Rightarrow> int \<Rightarrow> bool" where
  "GC_GNUC_PREREQ e major minor \<longleftrightarrow>
     defd e ''__GNUC__'' \<and> defd e ''__GNUC_MINOR__'' \<and>
     push_bit 16 major + minor \<le> push_bit 16 (num e ''__GNUC__'') + num e ''__GNUC_MINOR__''"

section \<open>Threads\<close>

text \<open>The old names of the thread macros.\<close>

definition old_thread_names :: "penv \<Rightarrow> penv" where
  "old_thread_names e =
    (let e = def_if (any_def e [''SOLARIS_THREADS'', ''_SOLARIS_THREADS'', ''_SOLARIS_PTHREADS'',
                        ''GC_SOLARIS_PTHREADS''] \<and> \<not> defd e ''GC_SOLARIS_THREADS'')
              ''GC_SOLARIS_THREADS'' Empty e;
         e = def_if (defd e ''IRIX_THREADS'') ''GC_IRIX_THREADS'' Empty e;
         e = def_if (defd e ''DGUX_THREADS'' \<and> \<not> defd e ''GC_DGUX386_THREADS'')
              ''GC_DGUX386_THREADS'' Empty e;
         e = def_if (defd e ''AIX_THREADS'') ''GC_AIX_THREADS'' Empty e;
         e = def_if (defd e ''HPUX_THREADS'') ''GC_HPUX_THREADS'' Empty e;
         e = def_if (defd e ''OSF1_THREADS'') ''GC_OSF1_THREADS'' Empty e;
         e = def_if (defd e ''LINUX_THREADS'') ''GC_LINUX_THREADS'' Empty e;
         e = def_if (defd e ''WIN32_THREADS'') ''GC_WIN32_THREADS'' Empty e;
         e = def_if (defd e ''RTEMS_THREADS'') ''GC_RTEMS_PTHREADS'' Empty e;
         e = def_if (defd e ''USE_LD_WRAP'') ''GC_USE_LD_WRAP'' Empty e
     in def_if (defd e ''GC_WIN32_PTHREADS'' \<and> \<not> defd e ''GC_WIN32_THREADS'')
          ''GC_WIN32_THREADS'' Empty e)"

text \<open>The thread macros of the systems that imply \<open>GC_THREADS\<close>.\<close>

definition thread_kinds :: "string list" where
  "thread_kinds =
     [''GC_AIX_THREADS'', ''GC_DARWIN_THREADS'', ''GC_DGUX386_THREADS'', ''GC_FREEBSD_THREADS'',
      ''GC_HPUX_THREADS'', ''GC_IRIX_THREADS'', ''GC_LINUX_THREADS'', ''GC_NETBSD_THREADS'',
      ''GC_OPENBSD_THREADS'', ''GC_OSF1_THREADS'', ''GC_SOLARIS_THREADS'', ''GC_WIN32_THREADS'',
      ''GC_RTEMS_PTHREADS'']"

text \<open>The system that \<open>GC_THREADS\<close> alone selects: the first branch that applies.\<close>

definition unix_thread_kind :: "penv \<Rightarrow> string option" where
  "unix_thread_kind e =
     (if defd e ''__linux__'' then Some ''GC_LINUX_THREADS''
      else if defd e ''__OpenBSD__'' then Some ''GC_OPENBSD_THREADS''
      else if any_def e [''_PA_RISC1_1'', ''_PA_RISC2_0'', ''hppa'', ''__HPPA'']
        \<or> (defd e ''__ia64'' \<and> defd e ''_HPUX_SOURCE'') then Some ''GC_HPUX_THREADS''
      else if defd e ''__HAIKU__'' then Some ''GC_HAIKU_THREADS''
      else if any_def e [''__DragonFly__'', ''__FreeBSD_kernel__'', ''__FreeBSD__'']
        \<and> \<not> defd e ''GC_NO_FREEBSD'' then Some ''GC_FREEBSD_THREADS''
      else if defd e ''__NetBSD__'' then Some ''GC_NETBSD_THREADS''
      else if any_def e [''__alpha'', ''__alpha__''] then Some ''GC_OSF1_THREADS''
      else if any_def e [''mips'', ''__mips'', ''_mips'']
        \<and> \<not> any_def e [''nec_ews'', ''_nec_ews'', ''ultrix'', ''__ultrix''] then Some ''GC_IRIX_THREADS''
      else if defd e ''__sparc'' \<or> (any_def e [''sun'', ''__sun'']
        \<and> any_def e [''i386'', ''__i386__'', ''__amd64'', ''__amd64__'']) then Some ''GC_SOLARIS_THREADS''
      else if defd e ''__APPLE__'' \<and> defd e ''__MACH__'' then Some ''GC_DARWIN_THREADS''
      else None)"

definition select_threads :: "penv \<Rightarrow> penv" where
  "select_threads e =
    (if any_def e thread_kinds then def_if (\<not> defd e ''GC_THREADS'') ''GC_THREADS'' Empty e
     else if defd e ''GC_THREADS'' then
       (let e = (case unix_thread_kind e of Some k \<Rightarrow> def_macro k Empty e | None \<Rightarrow> e);
            e = def_if (defd e ''DGUX'' \<and> any_def e [''i386'', ''__i386__''])
                  ''GC_DGUX386_THREADS'' Empty e;
            e = def_if (defd e ''_AIX'') ''GC_AIX_THREADS'' Empty e;
            e = def_if (any_def e [''_WIN32'', ''_MSC_VER'', ''__BORLANDC__'', ''__CYGWIN32__'',
                          ''__CYGWIN__'', ''__CEGCC__'', ''_WIN32_WCE'', ''__MINGW32__'']
                        \<and> \<not> defd e ''GC_WIN32_THREADS'') ''GC_WIN32_THREADS'' Empty e
        in def_if (defd e ''__rtems__'' \<and> any_def e [''i386'', ''__i386__''])
             ''GC_RTEMS_PTHREADS'' Empty e)
     else e)"

definition posix_threads :: "penv \<Rightarrow> penv" where
  "posix_threads e =
    (let e = e(''GC_PTHREADS'' := None);
         e = def_if ((\<not> defd e ''GC_WIN32_THREADS'' \<or> defd e ''GC_WIN32_PTHREADS''
                      \<or> defd e ''__CYGWIN32__'' \<or> defd e ''__CYGWIN__'') \<and> defd e ''GC_THREADS''
                     \<and> \<not> defd e ''NN_PLATFORM_CTR'' \<and> \<not> defd e ''NN_BUILD_TARGET_PLATFORM_NX'')
              ''GC_PTHREADS'' Empty e;
         e = def_if (\<not> defd e ''_PTHREADS'' \<and> defd e ''GC_NETBSD_THREADS'') ''_PTHREADS'' Empty e;
         e = def_if (defd e ''GC_DGUX386_THREADS'' \<and> \<not> defd e ''_POSIX4A_DRAFT10_SOURCE'')
              ''_POSIX4A_DRAFT10_SOURCE'' (Num 1) e
     in def_if (\<not> defd e ''_REENTRANT'' \<and> defd e ''GC_PTHREADS'' \<and> \<not> defd e ''GC_WIN32_THREADS'')
          ''_REENTRANT'' (Num 1) e)"

definition gc_thread_config :: "penv \<Rightarrow> penv" where
  "gc_thread_config e = posix_threads (select_threads (old_thread_names e))"

section \<open>Linkage\<close>

definition gc_dll :: "penv \<Rightarrow> penv" where
  "gc_dll e = def_if (\<not> defd e ''GC_NOT_DLL'' \<and> \<not> defd e ''GC_DLL''
     \<and> ((defd e ''_DLL'' \<and> \<not> defd e ''__GNUC__'') \<or> (defd e ''DLL_EXPORT'' \<and> defd e ''GC_BUILD'')))
     ''GC_DLL'' Empty e"

text \<open>The body of \<open>GC_API\<close> in a DLL build; \<^term>\<open>None\<close> where the header leaves it to the default.\<close>

definition dll_api :: "penv \<Rightarrow> string option" where
  "dll_api e =
     (if defd e ''__CEGCC__'' then
        Some (if defd e ''GC_BUILD'' then ''__declspec(dllexport)'' else ''__declspec(dllimport)'')
      else if defd e ''__MINGW32__'' then
        Some (if defd e ''__cplusplus'' \<and> defd e ''GC_BUILD'' then ''extern __declspec(dllexport)''
              else if defd e ''GC_BUILD'' \<or> defd e ''__MINGW32_DELAY_LOAD__'' then ''__declspec(dllexport)''
              else ''extern __declspec(dllimport)'')
      else if any_def e [''_MSC_VER'', ''__DMC__'', ''__BORLANDC__'', ''__CYGWIN__''] then
        Some (if defd e ''GC_BUILD'' then ''extern __declspec(dllexport)'' else ''__declspec(dllimport)'')
      else if defd e ''__WATCOMC__'' then
        Some (if defd e ''GC_BUILD'' then ''extern __declspec(dllexport)''
              else ''extern __declspec(dllimport)'')
      else if defd e ''__SYMBIAN32__'' then
        Some (if defd e ''GC_BUILD'' then ''extern EXPORT_C'' else ''extern IMPORT_C'')
      else if defd e ''__GNUC__'' then
        (if defd e ''GC_BUILD'' \<and> \<not> defd e ''GC_NO_VISIBILITY''
            \<and> (GC_GNUC_PREREQ e 4 0 \<or> defd e ''GC_VISIBILITY_HIDDEN_SET'')
         then Some ''extern __attribute__((__visibility__(\"default\")))'' else None)
      else None)"

definition gc_api :: "penv \<Rightarrow> penv" where
  "gc_api e =
    (let e = (if defd e ''GC_DLL'' \<and> \<not> defd e ''GC_API''
              then (case dll_api e of Some b \<Rightarrow> def_macro ''GC_API'' (Text b) e | None \<Rightarrow> e) else e);
         e = def_if (\<not> defd e ''GC_API'') ''GC_API'' (Text ''extern'') e;
         e = def_if (\<not> defd e ''GC_CALL'') ''GC_CALL'' Empty e
     in def_if (\<not> defd e ''GC_CALLBACK'') ''GC_CALLBACK'' (Text ''GC_CALL'') e)"

section \<open>Attributes\<close>

definition attr_malloc :: "penv \<Rightarrow> body" where
  "attr_malloc e =
     (if defd e ''GC_OOM_FUNC_RETURNS_ALIAS'' then Empty
      else if GC_GNUC_PREREQ e 3 1 then Text ''__attribute__((__malloc__))''
      else if defd e ''_MSC_VER'' \<and> 1900 \<le> num e ''_MSC_VER'' \<and> \<not> defd e ''__EDG__''
      then Text ''__declspec(allocator) __declspec(noalias) __declspec(restrict)''
      else if defd e ''_MSC_VER'' \<and> 1400 \<le> num e ''_MSC_VER''
      then Text ''__declspec(noalias) __declspec(restrict)''
      else Empty)"

text \<open>
  Whether the \<open>alloc_size\<close> attribute is there; clang's answer to \<open>__has_attribute\<close> is a parameter.
\<close>

definition has_alloc_size :: "bool \<Rightarrow> penv \<Rightarrow> bool" where
  "has_alloc_size has_attr e =
     (if defd e ''__clang__'' then has_attr else GC_GNUC_PREREQ e 4 3 \<and> \<not> defd e ''__ICC'')"

definition attr_alloc_size :: "bool \<Rightarrow> penv \<Rightarrow> penv" where
  "attr_alloc_size has_attr e =
    (let e = (if defd e ''GC_ATTR_ALLOC_SIZE'' then e
              else let e = e(''GC_ATTR_CALLOC_SIZE'' := None)
                   in if has_alloc_size has_attr e
                      then def_macro ''GC_ATTR_CALLOC_SIZE'' (Text ''__attribute__((__alloc_size__(n, s)))'')
                            (def_macro ''GC_ATTR_ALLOC_SIZE'' (Text ''__attribute__((__alloc_size__(argnum)))'') e)
                      else def_macro ''GC_ATTR_ALLOC_SIZE'' Empty e)
     in def_if (\<not> defd e ''GC_ATTR_CALLOC_SIZE'') ''GC_ATTR_CALLOC_SIZE'' Empty e)"

definition attr_deprecated :: "penv \<Rightarrow> body" where
  "attr_deprecated e =
     (if defd e ''GC_BUILD'' then Empty
      else if GC_GNUC_PREREQ e 4 0 then Text ''__attribute__((__deprecated__))''
      else if defd e ''_MSC_VER'' \<and> 1200 \<le> num e ''_MSC_VER'' then Text ''__declspec(deprecated)''
      else Empty)"

definition gc_attributes :: "bool \<Rightarrow> penv \<Rightarrow> penv" where
  "gc_attributes has_attr e =
    (let e = def_if (\<not> defd e ''GC_ATTR_MALLOC'') ''GC_ATTR_MALLOC'' (attr_malloc e) e;
         e = attr_alloc_size has_attr e;
         e = def_if (\<not> defd e ''GC_ATTR_NONNULL'') ''GC_ATTR_NONNULL''
               (if GC_GNUC_PREREQ e 4 0 then Text ''__attribute__((__nonnull__(argnum)))'' else Empty) e;
         e = def_if (\<not> defd e ''GC_ATTR_CONST'') ''GC_ATTR_CONST''
               (if GC_GNUC_PREREQ e 4 0 then Text ''__attribute__((__const__))'' else Empty) e
     in def_if (\<not> defd e ''GC_ATTR_DEPRECATED'') ''GC_ATTR_DEPRECATED'' (attr_deprecated e) e)"

section \<open>Call stacks\<close>

definition sgi_caller :: "penv \<Rightarrow> penv" where
  "sgi_caller e =
    (if defd e ''__sgi'' \<and> \<not> defd e ''__GNUC__'' \<and> 720 \<le> num e ''_COMPILER_VERSION''
     then def_macro ''GC_RETURN_ADDR'' (Text ''(GC_word)__return_address'')
           (def_macro ''GC_ADD_CALLER'' Empty e)
     else e)"

text \<open>The system header \<open>features.h\<close> is a parameter, a step on the state of the preprocessor.\<close>

definition glibc_backtrace :: "(penv \<Rightarrow> penv) \<Rightarrow> penv \<Rightarrow> penv" where
  "glibc_backtrace features e =
    (if any_def e [''__linux__'', ''__GLIBC__''] then
       (let e = (if defd e ''__native_client__'' then e else features e);
            e = def_if ((num e ''__GLIBC__'' = 2 \<and> 1 \<le> num e ''__GLIBC_MINOR__'' \<or> 2 < num e ''__GLIBC__'')
                        \<and> \<not> any_def e [''__ia64__'', ''GC_MISSING_EXECINFO_H'', ''GC_HAVE_BUILTIN_BACKTRACE''])
                  ''GC_HAVE_BUILTIN_BACKTRACE'' Empty e
        in def_if (any_def e [''__i386__'', ''__amd64__'', ''__x86_64__'']) ''GC_CAN_SAVE_CALL_STACKS'' Empty e)
     else e)"

definition other_backtrace :: "penv \<Rightarrow> penv" where
  "other_backtrace e =
    (let e = def_if (defd e ''_MSC_VER'' \<and> 1200 \<le> num e ''_MSC_VER''
               \<and> \<not> any_def e [''_M_ARM'', ''_M_ARM64'', ''_AMD64_'', ''_M_X64'', ''_WIN32_WCE'',
                    ''GC_HAVE_NO_BUILTIN_BACKTRACE'', ''GC_HAVE_BUILTIN_BACKTRACE''])
               ''GC_HAVE_BUILTIN_BACKTRACE'' Empty e;
         e = def_if (defd e ''GC_HAVE_BUILTIN_BACKTRACE'' \<and> \<not> defd e ''GC_CAN_SAVE_CALL_STACKS'')
               ''GC_CAN_SAVE_CALL_STACKS'' Empty e
     in def_if (defd e ''__sparc__'') ''GC_CAN_SAVE_CALL_STACKS'' Empty e)"

definition add_caller :: "penv \<Rightarrow> penv" where
  "add_caller e =
    (if any_def e [''__linux__'', ''__DragonFly__'', ''__FreeBSD__'', ''__FreeBSD_kernel__'', ''__HAIKU__'',
           ''__NetBSD__'', ''__OpenBSD__'', ''HOST_ANDROID'', ''__ANDROID__'']
        \<and> \<not> defd e ''GC_CAN_SAVE_CALL_STACKS''
     then let e = def_macro ''GC_ADD_CALLER'' Empty e
       in if GC_GNUC_PREREQ e 2 95
          then let e = def_macro ''GC_RETURN_ADDR'' (Text ''(GC_word)__builtin_return_address(0)'') e
            in if GC_GNUC_PREREQ e 4 0 \<and> any_def e [''__i386__'', ''__amd64__'', ''__x86_64__'']
                 \<and> \<not> defd e ''GC_NO_RETURN_ADDR_PARENT''
               then def_macro ''GC_RETURN_ADDR_PARENT''
                     (Text ''(GC_word)__builtin_extract_return_addr(__builtin_return_address(1))'')
                     (def_macro ''GC_HAVE_RETURN_ADDR_PARENT'' Empty e)
               else e
          else def_macro ''GC_RETURN_ADDR'' (Num 0) e
     else e)"

definition gc_call_stacks :: "(penv \<Rightarrow> penv) \<Rightarrow> penv \<Rightarrow> penv" where
  "gc_call_stacks features e = add_caller (other_backtrace (glibc_backtrace features (sgi_caller e)))"

section \<open>Interception of thread functions\<close>

definition no_dlopen :: "penv \<Rightarrow> penv" where
  "no_dlopen e = def_if (any_def e [''GC_DARWIN_THREADS'', ''GC_WIN32_PTHREADS'', ''__native_client__'',
       ''GC_RTEMS_PTHREADS''] \<and> \<not> defd e ''GC_NO_DLOPEN'') ''GC_NO_DLOPEN'' Empty e"

definition no_sigmask :: "penv \<Rightarrow> penv" where
  "no_sigmask e = def_if (any_def e [''GC_DARWIN_THREADS'', ''GC_WIN32_PTHREADS'', ''GC_OPENBSD_THREADS'',
       ''__native_client__''] \<and> \<not> defd e ''GC_NO_PTHREAD_SIGMASK'') ''GC_NO_PTHREAD_SIGMASK'' Empty e"

definition nacl_exit :: "penv \<Rightarrow> penv" where
  "nacl_exit e =
    (if defd e ''__native_client__'' then
       (let e = def_if (\<not> defd e ''GC_PTHREAD_CREATE_CONST'') ''GC_PTHREAD_CREATE_CONST'' Empty e
        in if defd e ''GC_HAVE_PTHREAD_EXIT'' then e
           else def_macro ''GC_PTHREAD_EXIT_ATTRIBUTE'' Empty (def_macro ''GC_HAVE_PTHREAD_EXIT'' Empty e))
     else e)"

definition have_exit :: "penv \<Rightarrow> penv" where
  "have_exit e =
    (if \<not> any_def e [''GC_HAVE_PTHREAD_EXIT'', ''HOST_ANDROID'', ''__ANDROID__'']
        \<and> any_def e [''GC_LINUX_THREADS'', ''GC_SOLARIS_THREADS'']
     then let e = def_macro ''GC_HAVE_PTHREAD_EXIT'' Empty e
       in def_macro ''GC_PTHREAD_EXIT_ATTRIBUTE''
            (if GC_GNUC_PREREQ e 2 7 then Text ''__attribute__((__noreturn__))''
             else if defd e ''__NORETURN'' then Text ''__NORETURN'' else Empty) e
     else e)"

definition no_cancel :: "penv \<Rightarrow> penv" where
  "no_cancel e = def_if ((\<not> defd e ''GC_HAVE_PTHREAD_EXIT'' \<or> defd e ''__native_client__'')
       \<and> \<not> defd e ''GC_NO_PTHREAD_CANCEL'') ''GC_NO_PTHREAD_CANCEL'' Empty e"

definition gc_intercept :: "penv \<Rightarrow> penv" where
  "gc_intercept e =
    (if defd e ''GC_PTHREADS'' then no_cancel (have_exit (nacl_exit (no_sigmask (no_dlopen e)))) else e)"

section \<open>C++\<close>

definition attr_explicit :: "penv \<Rightarrow> body" where
  "attr_explicit e =
     (if 201103 \<le> num e ''__cplusplus'' \<and> \<not> defd e ''__clang__'' \<or> 201103 \<le> num e ''_MSVC_LANG''
        \<or> defd e ''CPPCHECK'' then Text ''explicit'' else Empty)"

definition no_exceptions :: "penv \<Rightarrow> bool" where
  "no_exceptions e \<longleftrightarrow> defd e ''__DMC__''
     \<or> (defd e ''__BORLANDC__'' \<and> any_def e [''_RWSTD_NO_EXCEPTIONS'', ''_RWSTD_NO_EX_SPEC''])
     \<or> (defd e ''_MSC_VER'' \<and> defd e ''_HAS_EXCEPTIONS'' \<and> num e ''_HAS_EXCEPTIONS'' = 0)
     \<or> (defd e ''__WATCOMC__'' \<and> \<not> defd e ''_CPPUNWIND'')"

definition gc_cplusplus :: "penv \<Rightarrow> penv" where
  "gc_cplusplus e =
    (if defd e ''__cplusplus'' then
       (let e = def_if (\<not> defd e ''GC_ATTR_EXPLICIT'') ''GC_ATTR_EXPLICIT'' (attr_explicit e) e
        in if defd e ''GC_NOEXCEPT'' then e
           else if no_exceptions e then
             def_if (\<not> defd e ''GC_NEW_ABORTS_ON_OOM'') ''GC_NEW_ABORTS_ON_OOM'' Empty
               (def_macro ''GC_NOEXCEPT'' Empty e)
           else if 201103 \<le> num e ''__cplusplus'' \<or> 201103 \<le> num e ''_MSVC_LANG''
           then def_macro ''GC_NOEXCEPT'' (Text ''noexcept'') e
           else def_macro ''GC_NOEXCEPT'' (Text ''throw()'') e)
     else e)"

section \<open>The header\<close>

definition gc_std_types :: "penv \<Rightarrow> penv" where
  "gc_std_types e =
    (let e = def_macro ''__GC'' Empty e
     in def_if (defd e ''_WIN32_WCE'' \<and> \<not> defd e ''__GNUC__'' \<and> \<not> defd e ''_PTRDIFF_T_DEFINED'')
          ''_PTRDIFF_T_DEFINED'' Empty e)"

text \<open>The standard headers that are included with the types define none of the macros tested here.\<close>

definition gc_config :: "bool \<Rightarrow> (penv \<Rightarrow> penv) \<Rightarrow> penv \<Rightarrow> penv" where
  "gc_config has_attr features e =
    (if defd e ''GC_H''
     then gc_cplusplus (gc_intercept (gc_call_stacks features (gc_attributes has_attr
            (gc_api (gc_dll (gc_std_types (gc_thread_config e)))))))
     else e)"

section \<open>What a step writes\<close>

text \<open>
  A step of the preprocessor that writes only the macros of a list. The laws of such a step move
  facts about other macros over it.
\<close>

locale pp_step =
  fixes step :: "penv \<Rightarrow> penv" and writes :: "string list"
  assumes frame: "m \<notin> set writes \<Longrightarrow> step e m = e m"
begin

lemma defd_frame: "m \<notin> set writes \<Longrightarrow> defd (step e) m = defd e m"
  by (simp add: defd_def frame)

lemma num_frame: "m \<notin> set writes \<Longrightarrow> num (step e) m = num e m"
  by (simp add: num_def frame)

lemma any_def_frame: "set ms \<inter> set writes = {} \<Longrightarrow> any_def (step e) ms = any_def e ms"
  using defd_frame by (fastforce simp: any_def_def)

end

lemma pp_step_comp:
  assumes "pp_step f ms" "pp_step g ns"
  shows "pp_step (\<lambda>e. g (f e)) (ms @ ns)"
  using assms by (simp add: pp_step_def)

lemma def_macro_frame: "m \<noteq> n \<Longrightarrow> def_macro n b e m = e m"
  by (simp add: def_macro_def)

lemma def_if_frame: "m \<noteq> n \<Longrightarrow> def_if c n b e m = e m"
  by (simp add: def_if_def def_macro_def)

lemma defd_cong: "e m = e' m \<Longrightarrow> defd e m = defd e' m"
  by (simp add: defd_def)

lemma defd_def_if: "defd (def_if c n b e) m \<longleftrightarrow> (c \<and> m = n) \<or> defd e m"
  by (simp add: def_if_def def_macro_def defd_def)

lemma defd_def_macro: "defd (def_macro n b e) m \<longleftrightarrow> m = n \<or> defd e m"
  by (simp add: def_macro_def defd_def)

lemma defd_upd_None: "defd (e(n := None)) m \<longleftrightarrow> m \<noteq> n \<and> defd e m"
  by (cases "m = n") (simp_all add: defd_def)

lemmas defd_simps = defd_def_if defd_def_macro defd_upd_None

interpretation posix: pp_step posix_threads
  "[''GC_PTHREADS'', ''_PTHREADS'', ''_POSIX4A_DRAFT10_SOURCE'', ''_REENTRANT'']"
  by unfold_locales (simp add: posix_threads_def Let_def def_if_frame)

interpretation types: pp_step gc_std_types "[''__GC'', ''_PTRDIFF_T_DEFINED'']"
  by unfold_locales (simp add: gc_std_types_def Let_def def_if_frame def_macro_frame)

interpretation dll: pp_step gc_dll "[''GC_DLL'']"
  by unfold_locales (simp add: gc_dll_def def_if_frame)

interpretation api: pp_step gc_api "[''GC_API'', ''GC_CALL'', ''GC_CALLBACK'']"
  by unfold_locales (simp add: gc_api_def Let_def def_if_frame def_macro_frame split: option.split)

interpretation attrs: pp_step "gc_attributes has_attr"
  "[''GC_ATTR_MALLOC'', ''GC_ATTR_ALLOC_SIZE'', ''GC_ATTR_CALLOC_SIZE'', ''GC_ATTR_NONNULL'',
    ''GC_ATTR_CONST'', ''GC_ATTR_DEPRECATED'']"
  by unfold_locales (simp add: gc_attributes_def attr_alloc_size_def Let_def def_if_frame def_macro_frame)

interpretation sgi: pp_step sgi_caller "[''GC_ADD_CALLER'', ''GC_RETURN_ADDR'']"
  by unfold_locales (simp add: sgi_caller_def def_macro_frame)

interpretation other: pp_step other_backtrace "[''GC_HAVE_BUILTIN_BACKTRACE'', ''GC_CAN_SAVE_CALL_STACKS'']"
  by unfold_locales (simp add: other_backtrace_def Let_def def_if_frame)

interpretation caller: pp_step add_caller
  "[''GC_ADD_CALLER'', ''GC_RETURN_ADDR'', ''GC_HAVE_RETURN_ADDR_PARENT'', ''GC_RETURN_ADDR_PARENT'']"
  by unfold_locales (simp add: add_caller_def Let_def def_macro_frame)

interpretation dlopen: pp_step no_dlopen "[''GC_NO_DLOPEN'']"
  by unfold_locales (simp add: no_dlopen_def def_if_frame)

interpretation sigmask: pp_step no_sigmask "[''GC_NO_PTHREAD_SIGMASK'']"
  by unfold_locales (simp add: no_sigmask_def def_if_frame)

interpretation nacl: pp_step nacl_exit
  "[''GC_PTHREAD_CREATE_CONST'', ''GC_HAVE_PTHREAD_EXIT'', ''GC_PTHREAD_EXIT_ATTRIBUTE'']"
  by unfold_locales (simp add: nacl_exit_def Let_def def_if_frame def_macro_frame)

interpretation exit: pp_step have_exit "[''GC_HAVE_PTHREAD_EXIT'', ''GC_PTHREAD_EXIT_ATTRIBUTE'']"
  by unfold_locales (simp add: have_exit_def Let_def def_macro_frame)

interpretation cancel: pp_step no_cancel "[''GC_NO_PTHREAD_CANCEL'']"
  by unfold_locales (simp add: no_cancel_def def_if_frame)

interpretation cxx: pp_step gc_cplusplus "[''GC_ATTR_EXPLICIT'', ''GC_NOEXCEPT'', ''GC_NEW_ABORTS_ON_OOM'']"
  by unfold_locales (simp add: gc_cplusplus_def Let_def def_if_frame def_macro_frame)

section \<open>Consistency\<close>

text \<open>
  What the header relies on: \<open>features.h\<close> leaves the macros of the collector, \<open>_REENTRANT\<close> and the macros
  that name the target of the compiler alone.
\<close>

definition client_macro :: "string \<Rightarrow> bool" where
  "client_macro m \<longleftrightarrow>
     take 3 m = ''GC_'' \<or> m \<in> {''_REENTRANT'', ''__native_client__'', ''HOST_ANDROID'', ''__ANDROID__''}"

definition features_ok :: "(penv \<Rightarrow> penv) \<Rightarrow> bool" where
  "features_ok features \<longleftrightarrow>
     (\<forall>e m. client_macro m \<longrightarrow> features e m = e m)"

definition intercept_macros :: "string list" where
  "intercept_macros = [''GC_NO_DLOPEN'', ''GC_NO_PTHREAD_SIGMASK'', ''GC_PTHREAD_CREATE_CONST'',
     ''GC_HAVE_PTHREAD_EXIT'', ''GC_PTHREAD_EXIT_ATTRIBUTE'', ''GC_NO_PTHREAD_CANCEL'']"

definition stack_macros :: "string list" where
  "stack_macros = [''GC_ADD_CALLER'', ''GC_RETURN_ADDR'', ''GC_HAVE_RETURN_ADDR_PARENT'',
     ''GC_RETURN_ADDR_PARENT'', ''GC_HAVE_BUILTIN_BACKTRACE'', ''GC_CAN_SAVE_CALL_STACKS'']"

interpretation intercept: pp_step gc_intercept intercept_macros
  by unfold_locales
    (simp add: gc_intercept_def intercept_macros_def dlopen.frame sigmask.frame nacl.frame exit.frame cancel.frame)

lemma glibc_backtrace_frame:
  assumes "features_ok features" "client_macro m"
    and "m \<notin> {''GC_HAVE_BUILTIN_BACKTRACE'', ''GC_CAN_SAVE_CALL_STACKS''}"
  shows "glibc_backtrace features e m = e m"
proof -
  have "features e m = e m" using assms(1,2) unfolding features_ok_def by blast
  then show ?thesis using assms(3) by (simp add: glibc_backtrace_def Let_def def_if_frame)
qed

lemma call_stacks_frame:
  assumes "features_ok features" "client_macro m" "m \<notin> set stack_macros"
  shows "gc_call_stacks features e m = e m"
  using assms glibc_backtrace_frame [OF assms(1,2)]
  by (simp add: gc_call_stacks_def stack_macros_def caller.frame other.frame sgi.frame)

text \<open>The macros that \<open>gc.h\<close> uses in every declaration.\<close>

definition interface_macros :: "string list" where
  "interface_macros = [''GC_API'', ''GC_CALL'', ''GC_CALLBACK'', ''GC_ATTR_MALLOC'', ''GC_ATTR_ALLOC_SIZE'',
     ''GC_ATTR_CALLOC_SIZE'', ''GC_ATTR_NONNULL'', ''GC_ATTR_CONST'', ''GC_ATTR_DEPRECATED'']"

lemma api_defines: "list_all (defd (gc_api e)) [''GC_API'', ''GC_CALL'', ''GC_CALLBACK'']"
  by (simp add: gc_api_def Let_def defd_simps)

lemma attributes_define:
  "list_all (defd (gc_attributes b e)) [''GC_ATTR_MALLOC'', ''GC_ATTR_ALLOC_SIZE'', ''GC_ATTR_CALLOC_SIZE'',
     ''GC_ATTR_NONNULL'', ''GC_ATTR_CONST'', ''GC_ATTR_DEPRECATED'']"
  by (simp add: gc_attributes_def attr_alloc_size_def Let_def defd_simps)

lemma select_threads_implies:
  assumes "any_def (select_threads e) thread_kinds"
  shows "defd (select_threads e) ''GC_THREADS''"
proof (cases "any_def e thread_kinds")
  case True
  then show ?thesis by (simp add: select_threads_def defd_simps)
next
  case kinds: False
  show ?thesis
  proof (cases "defd e ''GC_THREADS''")
    case True
    then show ?thesis using kinds by (simp add: select_threads_def Let_def defd_simps split: option.split)
  next
    case False
    then have "select_threads e = e" using kinds by (simp add: select_threads_def)
    then show ?thesis using assms kinds by simp
  qed
qed

lemma thread_kinds_imply:
  assumes "any_def (gc_thread_config e) thread_kinds"
  shows "defd (gc_thread_config e) ''GC_THREADS''"
proof -
  have "any_def (posix_threads e) thread_kinds = any_def e thread_kinds" for e
    by (rule posix.any_def_frame) (simp add: thread_kinds_def)
  moreover have "defd (posix_threads e) ''GC_THREADS'' = defd e ''GC_THREADS''" for e
    by (rule posix.defd_frame) simp
  ultimately show ?thesis
    using assms select_threads_implies by (simp add: gc_thread_config_def)
qed

lemma posix_threads_imply:
  assumes "defd (posix_threads e) ''GC_PTHREADS''"
  shows "defd (posix_threads e) ''GC_THREADS''
    \<and> (defd (posix_threads e) ''GC_WIN32_THREADS'' \<or> defd (posix_threads e) ''_REENTRANT'')"
  using assms by (simp add: posix_threads_def Let_def defd_simps) blast

lemma add_caller_address:
  assumes "defd e ''GC_ADD_CALLER'' \<Longrightarrow> defd e ''GC_RETURN_ADDR''"
  shows "defd (add_caller e) ''GC_ADD_CALLER'' \<Longrightarrow> defd (add_caller e) ''GC_RETURN_ADDR''"
  using assms by (auto simp: add_caller_def Let_def defd_simps split: if_splits)

lemma intercept_exit:
  assumes "defd e ''GC_HAVE_PTHREAD_EXIT'' \<Longrightarrow> defd e ''GC_PTHREAD_EXIT_ATTRIBUTE''"
  shows "defd (gc_intercept e) ''GC_HAVE_PTHREAD_EXIT'' \<Longrightarrow> defd (gc_intercept e) ''GC_PTHREAD_EXIT_ATTRIBUTE''"
proof -
  have nacl: "defd (nacl_exit e) ''GC_HAVE_PTHREAD_EXIT'' \<Longrightarrow> defd (nacl_exit e) ''GC_PTHREAD_EXIT_ATTRIBUTE''"
    if "defd e ''GC_HAVE_PTHREAD_EXIT'' \<Longrightarrow> defd e ''GC_PTHREAD_EXIT_ATTRIBUTE''" for e
    using that by (auto simp: nacl_exit_def Let_def defd_simps split: if_splits)
  have exit: "defd (have_exit e) ''GC_HAVE_PTHREAD_EXIT'' \<Longrightarrow> defd (have_exit e) ''GC_PTHREAD_EXIT_ATTRIBUTE''"
    if "defd e ''GC_HAVE_PTHREAD_EXIT'' \<Longrightarrow> defd e ''GC_PTHREAD_EXIT_ATTRIBUTE''" for e
    using that by (auto simp: have_exit_def Let_def defd_simps split: if_splits)
  have "defd (no_sigmask (no_dlopen e)) m = defd e m"
    if "m = ''GC_HAVE_PTHREAD_EXIT'' \<or> m = ''GC_PTHREAD_EXIT_ATTRIBUTE''" for m
    using that by (auto simp: sigmask.defd_frame dlopen.defd_frame)
  then have "defd (have_exit (nacl_exit (no_sigmask (no_dlopen e)))) ''GC_HAVE_PTHREAD_EXIT'' \<Longrightarrow>
      defd (have_exit (nacl_exit (no_sigmask (no_dlopen e)))) ''GC_PTHREAD_EXIT_ATTRIBUTE''"
    using assms by (intro exit nacl) auto
  then show "defd (gc_intercept e) ''GC_HAVE_PTHREAD_EXIT'' \<Longrightarrow> defd (gc_intercept e) ''GC_PTHREAD_EXIT_ATTRIBUTE''"
    using assms by (simp add: gc_intercept_def cancel.defd_frame split: if_splits)
qed

lemma intercept_cancel:
  assumes "defd e ''GC_PTHREADS''"
  shows "defd (gc_intercept e) ''GC_HAVE_PTHREAD_EXIT'' \<or> defd (gc_intercept e) ''GC_NO_PTHREAD_CANCEL''"
  using assms by (auto simp: gc_intercept_def no_cancel_def defd_simps)

text \<open>The steps between the threads and the interception leave the macros of both alone.\<close>

definition neutral :: "string \<Rightarrow> bool" where
  "neutral m \<longleftrightarrow> client_macro m \<and> m \<notin> set stack_macros
     \<and> m \<notin> set interface_macros \<and> m \<noteq> ''GC_DLL''
     \<and> m \<notin> {''GC_ATTR_EXPLICIT'', ''GC_NOEXCEPT'', ''GC_NEW_ABORTS_ON_OOM''}"

lemma middle_frame:
  assumes "features_ok features" "neutral m" "m \<notin> {''__GC'', ''_PTRDIFF_T_DEFINED''}"
  shows "gc_call_stacks features (gc_attributes has_attr (gc_api (gc_dll (gc_std_types e)))) m = e m"
  using assms
  by (simp add: neutral_def call_stacks_frame attrs.frame api.frame dll.frame types.frame interface_macros_def)

lemma gc_config_threads:
  assumes "features_ok features" "defd e ''GC_H''" "neutral m" "m \<notin> set intercept_macros"
    and "m \<notin> {''__GC'', ''_PTRDIFF_T_DEFINED''}"
  shows "gc_config has_attr features e m = gc_thread_config e m"
  using assms middle_frame [OF assms(1,3,5)]
  by (simp add: gc_config_def cxx.frame intercept.frame neutral_def)

lemma call_stacks_address:
  assumes "features_ok features" "\<not> defd e ''GC_ADD_CALLER''"
    and "defd (gc_call_stacks features e) ''GC_ADD_CALLER''"
  shows "defd (gc_call_stacks features e) ''GC_RETURN_ADDR''"
proof -
  have "defd (other_backtrace (glibc_backtrace features e')) m = defd e' m"
    if "m = ''GC_ADD_CALLER'' \<or> m = ''GC_RETURN_ADDR''" for m e'
    using that glibc_backtrace_frame [OF assms(1), of m] by (auto simp: client_macro_def defd_def other.frame)
  moreover have "defd (sgi_caller e) ''GC_ADD_CALLER'' \<Longrightarrow> defd (sgi_caller e) ''GC_RETURN_ADDR''"
    using assms(2) by (auto simp: sgi_caller_def defd_simps split: if_splits)
  ultimately show ?thesis
    using add_caller_address assms(3) unfolding gc_call_stacks_def by blast
qed

lemma gc_config_middle:
  assumes "defd e ''GC_H''" "m \<notin> set intercept_macros"
    and "m \<notin> {''GC_ATTR_EXPLICIT'', ''GC_NOEXCEPT'', ''GC_NEW_ABORTS_ON_OOM''}"
  shows "gc_config has_attr features e m =
    gc_call_stacks features (gc_attributes has_attr (gc_api (gc_dll (gc_std_types (gc_thread_config e))))) m"
  using assms by (simp add: gc_config_def cxx.frame intercept.frame)

lemma gc_config_interface:
  assumes "features_ok features" "defd e ''GC_H''"
  shows "list_all (defd (gc_config has_attr features e)) interface_macros"
proof -
  let ?e = "gc_dll (gc_std_types (gc_thread_config e))"
  have "defd (gc_config has_attr features e) m = defd (gc_attributes has_attr (gc_api ?e)) m"
    if "m \<in> set interface_macros" for m
    using that call_stacks_frame [OF assms(1), of m] gc_config_middle [OF assms(2), of m]
    by (auto simp: client_macro_def defd_def interface_macros_def intercept_macros_def stack_macros_def)
  moreover have "list_all (defd (gc_attributes has_attr (gc_api ?e))) interface_macros"
    using attributes_define [of has_attr "gc_api ?e"] api_defines [of ?e]
    by (simp add: interface_macros_def attrs.defd_frame)
  ultimately show ?thesis by (simp add: list_all_iff)
qed

lemma gc_config_caller:
  assumes "features_ok features" "defd e ''GC_H''" "\<not> defd (gc_thread_config e) ''GC_ADD_CALLER''"
    and "defd (gc_config has_attr features e) ''GC_ADD_CALLER''"
  shows "defd (gc_config has_attr features e) ''GC_RETURN_ADDR''"
proof -
  let ?e = "gc_attributes has_attr (gc_api (gc_dll (gc_std_types (gc_thread_config e))))"
  have "defd (gc_config has_attr features e) m = defd (gc_call_stacks features ?e) m"
    if "m = ''GC_ADD_CALLER'' \<or> m = ''GC_RETURN_ADDR''" for m
    by (rule defd_cong, rule gc_config_middle [OF assms(2)]) (use that in \<open>auto simp: intercept_macros_def\<close>)
  moreover have "\<not> defd ?e ''GC_ADD_CALLER''"
    using assms(3) by (simp add: attrs.defd_frame api.defd_frame dll.defd_frame types.defd_frame)
  ultimately show ?thesis using call_stacks_address [OF assms(1)] assms(4) by simp
qed

lemma let_frame:
  assumes "x m = v" "\<And>e. e m = v \<Longrightarrow> g e m = v"
  shows "(let e = x in g e) m = v"
  using assms by (simp add: Let_def)

lemma old_names_frame:
  assumes "m \<notin> set thread_kinds" "m \<noteq> ''GC_USE_LD_WRAP''"
  shows "old_thread_names e m = e m"
proof -
  have keep: "def_if c n b e m = e m" if "n \<in> insert ''GC_USE_LD_WRAP'' (set thread_kinds)" for c n b e
    by (rule def_if_frame) (use assms that in blast)
  have kinds: "''GC_SOLARIS_THREADS'' \<in> set thread_kinds" "''GC_IRIX_THREADS'' \<in> set thread_kinds"
    "''GC_DGUX386_THREADS'' \<in> set thread_kinds" "''GC_AIX_THREADS'' \<in> set thread_kinds"
    "''GC_HPUX_THREADS'' \<in> set thread_kinds" "''GC_OSF1_THREADS'' \<in> set thread_kinds"
    "''GC_LINUX_THREADS'' \<in> set thread_kinds" "''GC_WIN32_THREADS'' \<in> set thread_kinds"
    "''GC_RTEMS_PTHREADS'' \<in> set thread_kinds"
    by (simp_all add: thread_kinds_def)
  show ?thesis
    unfolding old_thread_names_def by (intro let_frame) (simp_all only: keep kinds insert_iff simp_thms)
qed

lemma unix_thread_kind_cases:
  "unix_thread_kind e = Some k \<Longrightarrow> k \<in> set thread_kinds \<or> k = ''GC_HAIKU_THREADS''"
  by (simp only: unix_thread_kind_def option.inject split: if_splits) (simp_all add: thread_kinds_def)

lemma select_threads_frame:
  assumes "m \<notin> set thread_kinds" "m \<noteq> ''GC_HAIKU_THREADS''" "m \<noteq> ''GC_THREADS''"
  shows "select_threads e m = e m"
proof -
  have "(case unix_thread_kind e of Some k \<Rightarrow> def_macro k Empty e | None \<Rightarrow> e) m = e m" for e
    using unix_thread_kind_cases [of e] assms by (fastforce intro: def_macro_frame split: option.split)
  then show ?thesis
    using assms by (simp add: select_threads_def Let_def def_if_frame thread_kinds_def)
qed

lemma thread_config_frame:
  assumes "m \<notin> set thread_kinds"
    and "m \<notin> {''GC_HAIKU_THREADS'', ''GC_THREADS'', ''GC_USE_LD_WRAP'', ''GC_PTHREADS'', ''_PTHREADS'',
      ''_POSIX4A_DRAFT10_SOURCE'', ''_REENTRANT''}"
  shows "gc_thread_config e m = e m"
  using assms by (simp add: gc_thread_config_def posix.frame select_threads_frame old_names_frame)

section \<open>Linux\<close>

text \<open>The macros of other systems and of older clients, which a plain Linux compilation does not define.\<close>

definition foreign_macros :: "string list" where
  "foreign_macros =
     [''SOLARIS_THREADS'', ''_SOLARIS_THREADS'', ''_SOLARIS_PTHREADS'', ''IRIX_THREADS'', ''DGUX_THREADS'',
      ''AIX_THREADS'', ''HPUX_THREADS'', ''OSF1_THREADS'', ''LINUX_THREADS'', ''WIN32_THREADS'', ''RTEMS_THREADS'',
      ''USE_LD_WRAP'', ''DGUX'', ''_AIX'', ''_WIN32'', ''_MSC_VER'', ''__BORLANDC__'', ''__CYGWIN32__'', ''__CYGWIN__'',
      ''__CEGCC__'', ''_WIN32_WCE'', ''__MINGW32__'', ''__rtems__'', ''NN_PLATFORM_CTR'',
      ''NN_BUILD_TARGET_PLATFORM_NX'', ''__native_client__'', ''HOST_ANDROID'', ''__ANDROID__'']"

definition plain_linux :: "penv \<Rightarrow> bool" where
  "plain_linux e \<longleftrightarrow> defd e ''__linux__'' \<and> defd e ''GC_H'' \<and> defd e ''GC_THREADS'' \<and> \<not> any_def e foreign_macros
     \<and> (\<forall>m. take 3 m = ''GC_'' \<longrightarrow> defd e m \<longrightarrow> m = ''GC_H'' \<or> m = ''GC_THREADS'')"

lemma plain_linux_foreign: "plain_linux e \<Longrightarrow> m \<in> set foreign_macros \<Longrightarrow> \<not> defd e m"
  by (auto simp: plain_linux_def any_def_def)

lemma plain_linux_gc:
  "plain_linux e \<Longrightarrow> take 3 m = ''GC_'' \<Longrightarrow> m \<noteq> ''GC_H'' \<Longrightarrow> m \<noteq> ''GC_THREADS'' \<Longrightarrow> \<not> defd e m"
  by (auto simp: plain_linux_def)

lemma def_if_False: "def_if False m b e = e"
  by (simp add: def_if_def)

lemma def_if_skip: "\<not> c \<Longrightarrow> def_if c m b e = e"
  by (simp add: def_if_def)

lemma let_skip: "\<not> c \<Longrightarrow> g e = e \<Longrightarrow> (let e' = def_if c m b e in g e') = e"
  by (simp add: def_if_def)

lemma any_def_Cons: "any_def e (m # ms) \<longleftrightarrow> defd e m \<or> any_def e ms"
  and any_def_Nil: "\<not> any_def e []"
  by (simp_all add: any_def_def)

lemma linux_old_names:
  assumes "plain_linux e"
  shows "old_thread_names e = e"
proof -
  note gc = plain_linux_gc [OF assms]
  have names: "\<not> defd e m"
    if "m \<in> {''SOLARIS_THREADS'', ''_SOLARIS_THREADS'', ''_SOLARIS_PTHREADS'', ''IRIX_THREADS'', ''DGUX_THREADS'',
      ''AIX_THREADS'', ''HPUX_THREADS'', ''OSF1_THREADS'', ''LINUX_THREADS'', ''WIN32_THREADS'', ''RTEMS_THREADS'',
      ''USE_LD_WRAP''}" for m
    by (rule plain_linux_foreign [OF assms]) (use that in \<open>auto simp: foreign_macros_def\<close>)
  show ?thesis
    unfolding old_thread_names_def
    by (intro let_skip def_if_skip) (simp_all add: names gc any_def_Cons any_def_Nil)
qed

lemma let_step: "x = y \<Longrightarrow> g y = z \<Longrightarrow> (let e = x in g e) = z"
  by simp

lemma linux_select:
  assumes "plain_linux e"
  shows "select_threads e = def_macro ''GC_LINUX_THREADS'' Empty e"
proof -
  let ?e = "def_macro ''GC_LINUX_THREADS'' Empty e"
  have kinds: "\<not> any_def e thread_kinds"
    using plain_linux_gc [OF assms] by (auto simp: any_def_def thread_kinds_def)
  have sys: "unix_thread_kind e = Some ''GC_LINUX_THREADS''" "defd e ''GC_THREADS''"
    using assms by (simp_all add: unix_thread_kind_def plain_linux_def)
  have "list_all (\<lambda>m. m \<in> set foreign_macros \<and> m \<noteq> ''GC_LINUX_THREADS'')
      [''DGUX'', ''_AIX'', ''_WIN32'', ''_MSC_VER'', ''__BORLANDC__'', ''__CYGWIN32__'', ''__CYGWIN__'',
       ''__CEGCC__'', ''_WIN32_WCE'', ''__MINGW32__'', ''__rtems__'']" by code_simp
  then have "list_all (\<lambda>m. \<not> defd ?e m)
      [''DGUX'', ''_AIX'', ''_WIN32'', ''_MSC_VER'', ''__BORLANDC__'', ''__CYGWIN32__'', ''__CYGWIN__'',
       ''__CEGCC__'', ''_WIN32_WCE'', ''__MINGW32__'', ''__rtems__'']"
    using plain_linux_foreign [OF assms] by (simp only: defd_def_macro list.pred_inject simp_thms)
  then have names: "\<not> defd ?e ''DGUX''" "\<not> defd ?e ''_AIX''" "\<not> any_def ?e [''_WIN32'', ''_MSC_VER'', ''__BORLANDC__'',
      ''__CYGWIN32__'', ''__CYGWIN__'', ''__CEGCC__'', ''_WIN32_WCE'', ''__MINGW32__'']" "\<not> defd ?e ''__rtems__''"
    by (simp_all only: list.pred_inject any_def_Cons any_def_Nil simp_thms)
  show ?thesis
    unfolding select_threads_def if_not_P [OF kinds] if_P [OF sys(2)]
    by (rule let_step [where y = ?e], simp only: sys option.case, intro let_skip def_if_skip)
      (simp_all only: names simp_thms)
qed

lemma linux_threads:
  assumes "plain_linux e" "m \<in> set thread_kinds \<union> {''GC_PTHREADS'', ''_REENTRANT'', ''GC_WIN32_PTHREADS''}"
  shows "defd (gc_thread_config e) m \<longleftrightarrow>
    m \<in> {''GC_LINUX_THREADS'', ''GC_PTHREADS'', ''_REENTRANT''}"
proof -
  let ?e = "def_macro ''GC_LINUX_THREADS'' Empty e"
  have names: "\<not> defd e ''NN_PLATFORM_CTR''" "\<not> defd e ''NN_BUILD_TARGET_PLATFORM_NX''"
    by (rule plain_linux_foreign [OF assms(1)], simp add: foreign_macros_def)+
  have gc: "\<not> defd e m" if "m \<in> set thread_kinds \<union> {''GC_PTHREADS'', ''GC_WIN32_PTHREADS''}" for m
    by (rule plain_linux_gc [OF assms(1)]) (use that in \<open>auto simp: thread_kinds_def\<close>)
  then have "\<not> defd e ''GC_WIN32_THREADS''" "\<not> defd e ''GC_NETBSD_THREADS''" "\<not> defd e ''GC_DGUX386_THREADS''"
    by (simp_all add: thread_kinds_def)
  moreover have "defd e ''GC_THREADS''" using assms(1) by (simp add: plain_linux_def)
  ultimately have posix: "defd (posix_threads ?e) ''GC_PTHREADS''" "defd (posix_threads ?e) ''_REENTRANT''"
    using names by (simp_all add: posix_threads_def Let_def defd_simps)
  have "defd (posix_threads ?e) m = defd ?e m" if "m \<noteq> ''GC_PTHREADS''" "m \<noteq> ''_REENTRANT''"
    by (rule posix.defd_frame) (use that assms(2) in \<open>auto simp: thread_kinds_def\<close>)
  then have "defd (posix_threads ?e) m \<longleftrightarrow> m \<in> {''GC_LINUX_THREADS'', ''GC_PTHREADS'', ''_REENTRANT''}"
    using posix gc assms(2) by (cases "m = ''GC_PTHREADS'' \<or> m = ''_REENTRANT''") (auto simp: defd_def_macro)
  then show ?thesis
    by (simp only: gc_thread_config_def linux_old_names [OF assms(1)] linux_select [OF assms(1)])
qed

lemma linux_intercept:
  assumes "defd e ''GC_PTHREADS''" "defd e ''GC_LINUX_THREADS''"
    and "\<not> any_def e (intercept_macros @ [''GC_DARWIN_THREADS'', ''GC_WIN32_PTHREADS'', ''GC_RTEMS_PTHREADS'',
      ''GC_OPENBSD_THREADS'', ''__native_client__'', ''HOST_ANDROID'', ''__ANDROID__''])"
  shows "filter (defd (gc_intercept e)) intercept_macros = [''GC_HAVE_PTHREAD_EXIT'', ''GC_PTHREAD_EXIT_ATTRIBUTE'']"
proof -
  have "no_dlopen e = e" "no_sigmask e = e" "nacl_exit e = e"
    using assms(3) by (simp_all add: any_def_def no_dlopen_def no_sigmask_def nacl_exit_def def_if_False)
  moreover have "\<not> any_def e [''GC_HAVE_PTHREAD_EXIT'', ''HOST_ANDROID'', ''__ANDROID__'']"
    using assms(3) by (simp add: any_def_def intercept_macros_def)
  ultimately show ?thesis
    using assms
    by (simp add: gc_intercept_def have_exit_def no_cancel_def Let_def defd_simps any_def_Cons any_def_Nil intercept_macros_def)
qed

section \<open>The parts of the result\<close>

definition thread_macros :: "string list" where
  "thread_macros = thread_kinds @ [''GC_THREADS'', ''GC_PTHREADS'', ''_REENTRANT'', ''GC_WIN32_PTHREADS'']"

definition target_macros :: "string list" where
  "target_macros = [''__native_client__'', ''HOST_ANDROID'', ''__ANDROID__'']"

abbreviation before_intercept :: "bool \<Rightarrow> (penv \<Rightarrow> penv) \<Rightarrow> penv \<Rightarrow> penv" where
  "before_intercept has_attr features e \<equiv>
     gc_call_stacks features (gc_attributes has_attr (gc_api (gc_dll (gc_std_types (gc_thread_config e)))))"

lemma macros_neutral:
  "list_all (\<lambda>m. neutral m \<and> m \<notin> {''__GC'', ''_PTRDIFF_T_DEFINED''}) (thread_macros @ intercept_macros @ target_macros)"
  "list_all (\<lambda>m. m \<notin> set intercept_macros) thread_macros"
  "list_all (\<lambda>m. m \<notin> {''GC_ATTR_EXPLICIT'', ''GC_NOEXCEPT'', ''GC_NEW_ABORTS_ON_OOM''}) intercept_macros"
  "list_all (\<lambda>m. m \<notin> set thread_kinds \<and> m \<notin> {''GC_HAIKU_THREADS'', ''GC_THREADS'', ''GC_USE_LD_WRAP'',
     ''GC_PTHREADS'', ''_PTHREADS'', ''_POSIX4A_DRAFT10_SOURCE'', ''_REENTRANT''})
     (''GC_ADD_CALLER'' # ''GC_WIN32_PTHREADS'' # intercept_macros @ target_macros)"
  by code_simp+

lemma config_threads_defd:
  assumes "features_ok features" "defd e ''GC_H''" "m \<in> set thread_macros"
  shows "defd (gc_config has_attr features e) m = defd (gc_thread_config e) m"
  by (rule defd_cong, rule gc_config_threads [OF assms(1,2)])
    (use macros_neutral assms(3) in \<open>simp_all add: list_all_iff\<close>)

lemma config_intercept_defd:
  assumes "defd e ''GC_H''" "m \<in> set intercept_macros"
  shows "defd (gc_config has_attr features e) m = defd (gc_intercept (before_intercept has_attr features e)) m"
proof -
  have "m \<notin> set [''GC_ATTR_EXPLICIT'', ''GC_NOEXCEPT'', ''GC_NEW_ABORTS_ON_OOM'']"
    using macros_neutral(3) assms(2) by (simp add: list_all_iff)
  then show ?thesis using assms(1) cxx.defd_frame by (simp add: gc_config_def)
qed

lemma before_intercept_defd:
  assumes "features_ok features" "m \<in> set (thread_macros @ intercept_macros @ target_macros)"
  shows "defd (before_intercept has_attr features e) m = defd (gc_thread_config e) m"
  by (rule defd_cong, rule middle_frame [OF assms(1)])
    (use macros_neutral(1) assms(2) in \<open>simp_all only: list_all_iff simp_thms\<close>)

lemma thread_config_keeps:
  assumes "m \<in> set (''GC_ADD_CALLER'' # ''GC_WIN32_PTHREADS'' # intercept_macros @ target_macros)"
  shows "defd (gc_thread_config e) m = defd e m"
  by (rule defd_cong, rule thread_config_frame)
    (use macros_neutral(4) assms in \<open>simp_all only: list_all_iff simp_thms\<close>)

lemma linux_thread_macros:
  assumes "plain_linux e" "m \<in> set thread_macros"
  shows "defd (gc_thread_config e) m \<longleftrightarrow> m \<in> {''GC_LINUX_THREADS'', ''GC_THREADS'', ''GC_PTHREADS'', ''_REENTRANT''}"
proof (cases "m = ''GC_THREADS''")
  case True
  have "defd (gc_thread_config e) ''GC_PTHREADS''" using linux_threads [OF assms(1)] by simp
  then show ?thesis using True posix_threads_imply unfolding gc_thread_config_def by blast
next
  case False
  have "m \<in> set thread_kinds \<union> {''GC_PTHREADS'', ''_REENTRANT'', ''GC_WIN32_PTHREADS''}"
    using assms(2) False by (simp only: thread_macros_def set_append list.set Un_iff insert_iff simp_thms)
  from linux_threads [OF assms(1) this] show ?thesis using False by (simp only: insert_iff simp_thms)
qed

lemma linux_before_intercept:
  assumes "features_ok features" "plain_linux e"
  shows "filter (defd (gc_intercept (before_intercept has_attr features e))) intercept_macros =
    [''GC_HAVE_PTHREAD_EXIT'', ''GC_PTHREAD_EXIT_ATTRIBUTE'']"
proof (rule linux_intercept)
  let ?m = "before_intercept has_attr features e"
  have t: "defd ?m m \<longleftrightarrow> m \<in> {''GC_LINUX_THREADS'', ''GC_THREADS'', ''GC_PTHREADS'', ''_REENTRANT''}"
    if "m \<in> set thread_macros" for m
    using that before_intercept_defd [OF assms(1)] linux_thread_macros [OF assms(2)] by simp
  have "\<not> defd e m" if "m \<in> set intercept_macros" for m
    by (rule plain_linux_gc [OF assms(2)]) (use that in \<open>auto simp: intercept_macros_def\<close>)
  moreover have "\<not> defd e m" if "m \<in> set target_macros" for m
    by (rule plain_linux_foreign [OF assms(2)]) (use that in \<open>auto simp: target_macros_def foreign_macros_def\<close>)
  ultimately have i: "\<not> defd ?m m" if "m \<in> set (intercept_macros @ target_macros)" for m
    using that before_intercept_defd [OF assms(1), of m] thread_config_keeps [of m] by auto
  show "defd ?m ''GC_PTHREADS''" "defd ?m ''GC_LINUX_THREADS''"
    using t by (simp_all add: thread_macros_def thread_kinds_def)
  have "list_all (\<lambda>m. m \<in> set thread_macros) [''GC_DARWIN_THREADS'', ''GC_WIN32_PTHREADS'', ''GC_RTEMS_PTHREADS'',
      ''GC_OPENBSD_THREADS'']" by code_simp
  then show "\<not> any_def ?m (intercept_macros @ [''GC_DARWIN_THREADS'', ''GC_WIN32_PTHREADS'', ''GC_RTEMS_PTHREADS'',
      ''GC_OPENBSD_THREADS'', ''__native_client__'', ''HOST_ANDROID'', ''__ANDROID__''])"
    using t i by (auto simp: any_def_def target_macros_def)
qed

section \<open>Properties of the configuration\<close>


text \<open>The predefined macros of gcc on Linux and of \<open>uvutil.h\<close>, and the version that \<open>features.h\<close> defines.\<close>

definition linux_env :: penv where
  "linux_env = map_of [(''__linux__'', Num 1), (''__x86_64__'', Num 1), (''__GNUC__'', Num 11),
     (''__GNUC_MINOR__'', Num 4), (''GC_H'', Empty), (''GC_THREADS'', Empty)]"

definition glibc_features :: "penv \<Rightarrow> penv" where
  "glibc_features e = e(''__GLIBC__'' \<mapsto> Num 2, ''__GLIBC_MINOR__'' \<mapsto> Num 35)"

lemma glibc_features_ok: "features_ok glibc_features"
  by (auto simp: features_ok_def glibc_features_def client_macro_def fun_upd_apply)

lemma linux_env_plain: "plain_linux linux_env"
  by (auto simp: plain_linux_def linux_env_def defd_def any_def_def foreign_macros_def split: if_splits)


text \<open>
  \<open>uvutil.h\<close> defines \<open>GC_THREADS\<close> before it includes \<open>gc.h\<close>. On Linux this selects the Linux threads
  and no other system's, as POSIX threads, and every interception is on: \<open>pthread_exit\<close> with its
  attribute, and none of \<open>dlopen\<close>, \<open>pthread_sigmask\<close> and \<open>pthread_cancel\<close> is switched off.
\<close>

lemma linux_config:
  assumes "features_ok features" "plain_linux e"
  shows "filter (defd (gc_config has_attr features e)) (thread_macros @ intercept_macros) =
    [''GC_LINUX_THREADS'', ''GC_THREADS'', ''GC_PTHREADS'', ''_REENTRANT'',
     ''GC_HAVE_PTHREAD_EXIT'', ''GC_PTHREAD_EXIT_ATTRIBUTE'']"
proof -
  let ?e = "gc_config has_attr features e"
  let ?m = "before_intercept has_attr features e"
  have h: "defd e ''GC_H''" using assms(2) by (simp add: plain_linux_def)
  have "filter (defd ?e) thread_macros =
      filter (\<lambda>m. m \<in> {''GC_LINUX_THREADS'', ''GC_THREADS'', ''GC_PTHREADS'', ''_REENTRANT''}) thread_macros"
    by (rule filter_cong) (simp_all only: config_threads_defd [OF assms(1) h] linux_thread_macros [OF assms(2)])
  also have "\<dots> = [''GC_LINUX_THREADS'', ''GC_THREADS'', ''GC_PTHREADS'', ''_REENTRANT'']" by code_simp
  finally have t: "filter (defd ?e) thread_macros = \<dots>" .
  have "filter (defd ?e) intercept_macros = filter (defd (gc_intercept ?m)) intercept_macros"
    by (rule filter_cong) (simp_all add: config_intercept_defd [OF h])
  also have "\<dots> = [''GC_HAVE_PTHREAD_EXIT'', ''GC_PTHREAD_EXIT_ATTRIBUTE'']"
    by (rule linux_before_intercept [OF assms])
  finally show ?thesis using t by simp
qed

end
