(* ===== verification/Gc_Api.thy ===== *)
theory Gc_Api
  imports Gc_Config "HOL-Library.Word"
begin

unbundle bit_operations_syntax

text \<open>
  The parts of \<open>gc/gc.h\<close> that are code: the start-up sequence \<open>GC_INIT\<close>, assembled by the preprocessor
  from the client's configuration macros, and the macros on pointers. The state of the preprocessor
  is the one that \<open>Gc_Config\<close> computes; the library behind the declarations is a parameter.
\<close>

section \<open>Pointers\<close>

text \<open>\<open>GC_word\<close> is as wide as a pointer.\<close>

definition GC_HIDE_POINTER :: "'w::len word \<Rightarrow> 'w word" where
  "GC_HIDE_POINTER p = NOT p"

definition GC_REVEAL_POINTER :: "'w::len word \<Rightarrow> 'w word" where
  "GC_REVEAL_POINTER p = GC_HIDE_POINTER p"

text \<open>
  The checked pointer arithmetic. An expression with a side effect on the variable \<open>x\<close> yields its
  value and the new value of \<open>x\<close>; \<open>sz\<close> is \<open>sizeof(*x)\<close>. The library functions of the debugging version
  are parameters.
\<close>

record 'p ptr_lib =
  GC_same_obj :: "'p \<Rightarrow> 'p \<Rightarrow> 'p"
  GC_pre_incr :: "'p \<Rightarrow> 'p \<Rightarrow> 'p \<times> 'p"
  GC_post_incr :: "'p \<Rightarrow> 'p \<Rightarrow> 'p \<times> 'p"

definition debug_pointers :: "penv \<Rightarrow> bool" where
  "debug_pointers e \<longleftrightarrow> defd e ''GC_DEBUG'' \<and> defd e ''__GNUC__''"

definition GC_PTR_ADD :: "penv \<Rightarrow> ('w::len word) ptr_lib \<Rightarrow> 'w word \<Rightarrow> 'w word \<Rightarrow> 'w word \<Rightarrow> 'w word" where
  "GC_PTR_ADD e lib sz x n =
     (if debug_pointers e then GC_same_obj lib (x + n * sz) x else x + n * sz)"

definition GC_PRE_INCR :: "penv \<Rightarrow> ('w::len word) ptr_lib \<Rightarrow> 'w word \<Rightarrow> 'w word \<Rightarrow> 'w word \<Rightarrow> 'w word \<times> 'w word" where
  "GC_PRE_INCR e lib sz x n =
     (if debug_pointers e then GC_pre_incr lib x (n * sz) else (x + n * sz, x + n * sz))"

definition GC_POST_INCR :: "penv \<Rightarrow> ('w::len word) ptr_lib \<Rightarrow> 'w word \<Rightarrow> 'w word \<Rightarrow> 'w word \<times> 'w word" where
  "GC_POST_INCR e lib sz x =
     (if debug_pointers e then GC_post_incr lib x (1 * sz) else (x, x + sz))"

definition GC_POST_DECR :: "penv \<Rightarrow> ('w::len word) ptr_lib \<Rightarrow> 'w word \<Rightarrow> 'w word \<Rightarrow> 'w word \<times> 'w word" where
  "GC_POST_DECR e lib sz x =
     (if debug_pointers e then GC_post_incr lib x (- 1 * sz) else (x, x - sz))"

section \<open>Start-up\<close>

text \<open>The calls of \<open>GC_INIT\<close>; the assignment of \<open>GC_dont_gc\<close> is listed as a call too.\<close>

datatype gc_call =
    GC_set_dont_expand int | GC_set_force_unmap_on_gcollect int | assign_GC_dont_gc int
  | GC_set_max_retries int | GC_set_allocd_bytes_per_finalizer int | GC_set_free_space_divisor int
  | GC_set_full_freq int | GC_set_time_limit int | GC_set_markers_count int | GC_set_suspend_signal int
  | GC_set_thr_restart_signal int | GC_set_max_heap_size int
  | GC_init
  | GC_add_roots nat nat | GC_gcollect | GC_set_warn_proc string | GC_expand_hp nat

text \<open>The library: what a call does to its state, the result of \<open>GC_expand_hp\<close>, and two queries.\<close>

record 'g collector =
  exec :: "gc_call \<Rightarrow> 'g \<Rightarrow> 'g"
  expand_result :: "nat \<Rightarrow> 'g \<Rightarrow> int"
  GC_get_heap_size :: "'g \<Rightarrow> nat"
  GC_find_limit :: "nat \<Rightarrow> int \<Rightarrow> 'g \<Rightarrow> nat"

text \<open>The symbols of the linked program; the weak symbol \<open>__dso_handle\<close> is 0 when it is missing.\<close>

record image =
  data_start :: nat
  data_end :: nat
  bss_start :: nat
  bss_end :: nat
  aix_data :: nat
  aix_end :: nat
  dso_handle :: nat

text \<open>The calls made so far, and the collector.\<close>

record 'g startup =
  calls :: "gc_call list"
  col :: 'g

definition run_call :: "'g collector \<Rightarrow> gc_call \<Rightarrow> 'g startup \<Rightarrow> 'g startup" where
  "run_call lib c s = s\<lparr>calls := calls s @ [c], col := exec lib c (col s)\<rparr>"

definition conf :: "bool \<Rightarrow> gc_call \<Rightarrow> gc_call list" where
  "conf b c = (if b then [c] else [])"

text \<open>A macro that is given a value by the client, unless a static analyser reads the header.\<close>

definition configured :: "penv \<Rightarrow> string \<Rightarrow> bool" where
  "configured e m \<longleftrightarrow> defd e m \<and> \<not> defd e ''CPPCHECK''"

text \<open>The parts of \<open>GC_INIT\<close>; \<open>val\<close> gives the values of the client's macros.\<close>

definition GC_INIT_CONF_DONT_EXPAND :: "penv \<Rightarrow> gc_call list" where
  "GC_INIT_CONF_DONT_EXPAND e = conf (defd e ''GC_DONT_EXPAND'') (GC_set_dont_expand 1)"

definition GC_INIT_CONF_FORCE_UNMAP_ON_GCOLLECT :: "penv \<Rightarrow> gc_call list" where
  "GC_INIT_CONF_FORCE_UNMAP_ON_GCOLLECT e =
     conf (defd e ''GC_FORCE_UNMAP_ON_GCOLLECT'') (GC_set_force_unmap_on_gcollect 1)"

definition GC_INIT_CONF_MAX_RETRIES :: "penv \<Rightarrow> (string \<Rightarrow> int) \<Rightarrow> gc_call list" where
  "GC_INIT_CONF_MAX_RETRIES e val =
     (if defd e ''GC_DONT_GC'' then [assign_GC_dont_gc 1]
      else conf (configured e ''GC_MAX_RETRIES'') (GC_set_max_retries (val ''GC_MAX_RETRIES'')))"

definition GC_INIT_CONF_ALLOCD_BYTES_PER_FINALIZER :: "penv \<Rightarrow> (string \<Rightarrow> int) \<Rightarrow> gc_call list" where
  "GC_INIT_CONF_ALLOCD_BYTES_PER_FINALIZER e val = conf (configured e ''GC_ALLOCD_BYTES_PER_FINALIZER'')
     (GC_set_allocd_bytes_per_finalizer (val ''GC_ALLOCD_BYTES_PER_FINALIZER''))"

definition GC_INIT_CONF_FREE_SPACE_DIVISOR :: "penv \<Rightarrow> (string \<Rightarrow> int) \<Rightarrow> gc_call list" where
  "GC_INIT_CONF_FREE_SPACE_DIVISOR e val = conf (configured e ''GC_FREE_SPACE_DIVISOR'')
     (GC_set_free_space_divisor (val ''GC_FREE_SPACE_DIVISOR''))"

definition GC_INIT_CONF_FULL_FREQ :: "penv \<Rightarrow> (string \<Rightarrow> int) \<Rightarrow> gc_call list" where
  "GC_INIT_CONF_FULL_FREQ e val = conf (configured e ''GC_FULL_FREQ'') (GC_set_full_freq (val ''GC_FULL_FREQ''))"

definition GC_INIT_CONF_TIME_LIMIT :: "penv \<Rightarrow> (string \<Rightarrow> int) \<Rightarrow> gc_call list" where
  "GC_INIT_CONF_TIME_LIMIT e val = conf (configured e ''GC_TIME_LIMIT'') (GC_set_time_limit (val ''GC_TIME_LIMIT''))"

definition GC_INIT_CONF_MARKERS :: "penv \<Rightarrow> (string \<Rightarrow> int) \<Rightarrow> gc_call list" where
  "GC_INIT_CONF_MARKERS e val = conf (configured e ''GC_MARKERS'' \<and> defd e ''GC_THREADS'')
     (GC_set_markers_count (val ''GC_MARKERS''))"

definition GC_INIT_CONF_SUSPEND_SIGNAL :: "penv \<Rightarrow> (string \<Rightarrow> int) \<Rightarrow> gc_call list" where
  "GC_INIT_CONF_SUSPEND_SIGNAL e val = conf (configured e ''GC_SIG_SUSPEND'' \<and> defd e ''GC_THREADS'')
     (GC_set_suspend_signal (val ''GC_SIG_SUSPEND''))"

definition GC_INIT_CONF_THR_RESTART_SIGNAL :: "penv \<Rightarrow> (string \<Rightarrow> int) \<Rightarrow> gc_call list" where
  "GC_INIT_CONF_THR_RESTART_SIGNAL e val = conf (configured e ''GC_SIG_THR_RESTART'' \<and> defd e ''GC_THREADS'')
     (GC_set_thr_restart_signal (val ''GC_SIG_THR_RESTART''))"

definition GC_INIT_CONF_MAXIMUM_HEAP_SIZE :: "penv \<Rightarrow> (string \<Rightarrow> int) \<Rightarrow> gc_call list" where
  "GC_INIT_CONF_MAXIMUM_HEAP_SIZE e val = conf (configured e ''GC_MAXIMUM_HEAP_SIZE'')
     (GC_set_max_heap_size (val ''GC_MAXIMUM_HEAP_SIZE''))"

definition GC_INIT_CONF_IGNORE_WARN :: "penv \<Rightarrow> gc_call list" where
  "GC_INIT_CONF_IGNORE_WARN e = conf (defd e ''GC_IGNORE_WARN'') (GC_set_warn_proc ''GC_ignore_warn_proc'')"

definition cygwin :: "penv \<Rightarrow> bool" where
  "cygwin e \<longleftrightarrow> defd e ''__CYGWIN32__'' \<or> defd e ''__CYGWIN__''"

definition GC_DATASTART :: "penv \<Rightarrow> image \<Rightarrow> nat" where
  "GC_DATASTART e im =
     (if cygwin e then (if data_start im < bss_start im then data_start im else bss_start im) else aix_data im)"

definition GC_DATAEND :: "penv \<Rightarrow> image \<Rightarrow> nat" where
  "GC_DATAEND e im =
     (if cygwin e then (if data_end im > bss_end im then data_end im else bss_end im) else aix_end im)"

definition GC_INIT_CONF_ROOTS :: "'g collector \<Rightarrow> image \<Rightarrow> penv \<Rightarrow> 'g startup \<Rightarrow> 'g startup" where
  "GC_INIT_CONF_ROOTS lib im e s =
     (if cygwin e then run_call lib GC_gcollect (run_call lib (GC_add_roots (GC_DATASTART e im) (GC_DATAEND e im)) s)
      else if defd e ''_AIX'' then run_call lib (GC_add_roots (GC_DATASTART e im) (GC_DATAEND e im)) s
      else if (defd e ''HOST_ANDROID'' \<or> defd e ''__ANDROID__'') \<and> defd e ''IGNORE_DYNAMIC_LOADING'' then
        (if dso_handle im \<noteq> 0
         then run_call lib (GC_add_roots (dso_handle im) (GC_find_limit lib (dso_handle im) 1 (col s))) s else s)
      else s)"

text \<open>The comparison and the subtraction are made in \<open>size_t\<close>, of \<open>w\<close> bits.\<close>

definition to_size_t :: "nat \<Rightarrow> int \<Rightarrow> nat" where
  "to_size_t w v = nat (v mod 2 ^ w)"

definition GC_INIT_CONF_INITIAL_HEAP_SIZE ::
  "'g collector \<Rightarrow> nat \<Rightarrow> penv \<Rightarrow> (string \<Rightarrow> int) \<Rightarrow> 'g startup \<Rightarrow> 'g startup" where
  "GC_INIT_CONF_INITIAL_HEAP_SIZE lib w e val s =
     (if configured e ''GC_INITIAL_HEAP_SIZE'' then
        (let heap_size = GC_get_heap_size lib (col s)
         in if heap_size < to_size_t w (val ''GC_INITIAL_HEAP_SIZE'')
            then run_call lib (GC_expand_hp (to_size_t w (val ''GC_INITIAL_HEAP_SIZE'' - int heap_size))) s else s)
      else s)"

definition GC_INIT :: "'g collector \<Rightarrow> image \<Rightarrow> nat \<Rightarrow> penv \<Rightarrow> (string \<Rightarrow> int) \<Rightarrow> 'g startup \<Rightarrow> 'g startup" where
  "GC_INIT lib im w e val s =
    (let s = fold (run_call lib) (GC_INIT_CONF_DONT_EXPAND e) s;
         s = fold (run_call lib) (GC_INIT_CONF_FORCE_UNMAP_ON_GCOLLECT e) s;
         s = fold (run_call lib) (GC_INIT_CONF_MAX_RETRIES e val) s;
         s = fold (run_call lib) (GC_INIT_CONF_ALLOCD_BYTES_PER_FINALIZER e val) s;
         s = fold (run_call lib) (GC_INIT_CONF_FREE_SPACE_DIVISOR e val) s;
         s = fold (run_call lib) (GC_INIT_CONF_FULL_FREQ e val) s;
         s = fold (run_call lib) (GC_INIT_CONF_TIME_LIMIT e val) s;
         s = fold (run_call lib) (GC_INIT_CONF_MARKERS e val) s;
         s = fold (run_call lib) (GC_INIT_CONF_SUSPEND_SIGNAL e val) s;
         s = fold (run_call lib) (GC_INIT_CONF_THR_RESTART_SIGNAL e val) s;
         s = fold (run_call lib) (GC_INIT_CONF_MAXIMUM_HEAP_SIZE e val) s;
         s = run_call lib GC_init s;
         s = GC_INIT_CONF_ROOTS lib im e s;
         s = fold (run_call lib) (GC_INIT_CONF_IGNORE_WARN e) s
     in GC_INIT_CONF_INITIAL_HEAP_SIZE lib w e val s)"

section \<open>Pointer macros\<close>

lemma reveal_hidden: "GC_REVEAL_POINTER (GC_HIDE_POINTER p) = p"
  by (simp add: GC_REVEAL_POINTER_def GC_HIDE_POINTER_def)

text \<open>A hidden pointer never equals the pointer, so a conservative scan does not find it.\<close>

lemma hidden_differs: "GC_HIDE_POINTER p \<noteq> p"
proof
  assume "GC_HIDE_POINTER p = p"
  then have "bit (NOT p) 0 = bit p 0" by (simp add: GC_HIDE_POINTER_def)
  then show False by (simp add: bit_not_iff)
qed

text \<open>The documented results of the checking functions: \<open>GC_same_obj\<close> returns its first argument, the
  increments add a number of bytes.\<close>

definition ptr_lib_ok :: "('w::len word) ptr_lib \<Rightarrow> bool" where
  "ptr_lib_ok lib \<longleftrightarrow> (\<forall>p q. GC_same_obj lib p q = p)
     \<and> (\<forall>p k. GC_pre_incr lib p k = (p + k, p + k)) \<and> (\<forall>p k. GC_post_incr lib p k = (p, p + k))"

lemma debug_pointers_agree:
  assumes "ptr_lib_ok lib"
  shows "GC_PTR_ADD e lib sz x n = x + n * sz"
    and "GC_PRE_INCR e lib sz x n = (x + n * sz, x + n * sz)"
    and "GC_POST_INCR e lib sz x = (x, x + sz)"
    and "GC_POST_DECR e lib sz x = (x, x - sz)"
  using assms by (simp_all add: ptr_lib_ok_def GC_PTR_ADD_def GC_PRE_INCR_def GC_POST_INCR_def GC_POST_DECR_def)

section \<open>The start-up sequence\<close>

text \<open>What may be called before and what after the real initialisation.\<close>

fun pre_init :: "gc_call \<Rightarrow> bool" where
  "pre_init GC_init = False"
| "pre_init (GC_add_roots lo hi) = False"
| "pre_init GC_gcollect = False"
| "pre_init (GC_set_warn_proc f) = False"
| "pre_init (GC_expand_hp n) = False"
| "pre_init c = True"

fun thread_setting :: "gc_call \<Rightarrow> bool" where
  "thread_setting (GC_set_markers_count n) = True"
| "thread_setting (GC_set_suspend_signal n) = True"
| "thread_setting (GC_set_thr_restart_signal n) = True"
| "thread_setting c = False"

text \<open>A call after the initialisation, with the documented requirement on root segments.\<close>

fun post_init :: "gc_call \<Rightarrow> bool" where
  "post_init (GC_add_roots lo hi) = (lo \<le> hi)"
| "post_init GC_gcollect = True"
| "post_init (GC_set_warn_proc f) = True"
| "post_init (GC_expand_hp n) = (0 < n)"
| "post_init c = False"

definition pre_calls :: "penv \<Rightarrow> (string \<Rightarrow> int) \<Rightarrow> gc_call list" where
  "pre_calls e val = GC_INIT_CONF_DONT_EXPAND e @ GC_INIT_CONF_FORCE_UNMAP_ON_GCOLLECT e
     @ GC_INIT_CONF_MAX_RETRIES e val @ GC_INIT_CONF_ALLOCD_BYTES_PER_FINALIZER e val
     @ GC_INIT_CONF_FREE_SPACE_DIVISOR e val @ GC_INIT_CONF_FULL_FREQ e val @ GC_INIT_CONF_TIME_LIMIT e val
     @ GC_INIT_CONF_MARKERS e val @ GC_INIT_CONF_SUSPEND_SIGNAL e val @ GC_INIT_CONF_THR_RESTART_SIGNAL e val
     @ GC_INIT_CONF_MAXIMUM_HEAP_SIZE e val"

lemmas pre_conf_defs = GC_INIT_CONF_DONT_EXPAND_def GC_INIT_CONF_FORCE_UNMAP_ON_GCOLLECT_def
  GC_INIT_CONF_MAX_RETRIES_def GC_INIT_CONF_ALLOCD_BYTES_PER_FINALIZER_def GC_INIT_CONF_FREE_SPACE_DIVISOR_def
  GC_INIT_CONF_FULL_FREQ_def GC_INIT_CONF_TIME_LIMIT_def GC_INIT_CONF_MARKERS_def
  GC_INIT_CONF_SUSPEND_SIGNAL_def GC_INIT_CONF_THR_RESTART_SIGNAL_def GC_INIT_CONF_MAXIMUM_HEAP_SIZE_def

lemma list_all_conf: "list_all P (conf b c) \<longleftrightarrow> (b \<longrightarrow> P c)"
  by (simp add: conf_def)

lemma pre_calls_pre_init: "list_all pre_init (pre_calls e val)"
  by (simp add: pre_calls_def pre_conf_defs list_all_conf)

lemma pre_calls_threads: "\<not> defd e ''GC_THREADS'' \<Longrightarrow> list_all (\<lambda>c. \<not> thread_setting c) (pre_calls e val)"
  by (simp add: pre_calls_def pre_conf_defs list_all_conf)

lemma calls_run_call: "calls (run_call lib c s) = calls s @ [c]"
  by (simp add: run_call_def)

lemma calls_fold: "calls (fold (run_call lib) cs s) = calls s @ cs"
  by (induction cs arbitrary: s) (simp_all add: calls_run_call)

definition after_roots :: "'g collector \<Rightarrow> image \<Rightarrow> penv \<Rightarrow> (string \<Rightarrow> int) \<Rightarrow> 'g startup \<Rightarrow> 'g startup" where
  "after_roots lib im e val s = fold (run_call lib) (GC_INIT_CONF_IGNORE_WARN e)
     (GC_INIT_CONF_ROOTS lib im e (run_call lib GC_init (fold (run_call lib) (pre_calls e val) s)))"

lemma GC_INIT_split:
  "GC_INIT lib im w e val s = GC_INIT_CONF_INITIAL_HEAP_SIZE lib w e val (after_roots lib im e val s)"
  by (simp add: GC_INIT_def after_roots_def pre_calls_def Let_def)

text \<open>An image whose segments do not end before they start.\<close>

definition image_ok :: "'g collector \<Rightarrow> image \<Rightarrow> bool" where
  "image_ok lib im \<longleftrightarrow> data_start im \<le> data_end im \<and> bss_start im \<le> bss_end im \<and> aix_data im \<le> aix_end im
     \<and> (\<forall>g. dso_handle im \<le> GC_find_limit lib (dso_handle im) 1 g)"

lemma roots_calls:
  assumes "image_ok lib im"
  shows "\<exists>post. calls (GC_INIT_CONF_ROOTS lib im e s) = calls s @ post \<and> list_all post_init post"
  using assms
  by (auto simp: GC_INIT_CONF_ROOTS_def calls_run_call image_ok_def GC_DATASTART_def GC_DATAEND_def)

lemma to_size_t_diff:
  assumes "h < to_size_t w v"
  shows "to_size_t w (v - int h) = to_size_t w v - h"
proof -
  have "(v - int h) mod 2 ^ w = (v mod 2 ^ w - int h) mod 2 ^ w" by (simp add: mod_diff_left_eq)
  also have "\<dots> = v mod 2 ^ w - int h"
  proof (rule mod_pos_pos_trivial)
    show "0 \<le> v mod 2 ^ w - int h" using assms by (simp add: to_size_t_def zless_nat_eq_int_zless)
    have "v mod 2 ^ w < 2 ^ w" by simp
    then show "v mod 2 ^ w - int h < 2 ^ w" by linarith
  qed
  finally show ?thesis by (simp add: to_size_t_def nat_diff_distrib')
qed

text \<open>The heap grows by the missing bytes, or not at all when it is large enough already.\<close>

lemma initial_heap_size_calls:
  assumes "configured e ''GC_INITIAL_HEAP_SIZE''"
  shows "GC_INIT_CONF_INITIAL_HEAP_SIZE lib w e val s =
    (let h = GC_get_heap_size lib (col s); v = to_size_t w (val ''GC_INITIAL_HEAP_SIZE'')
     in if h < v then run_call lib (GC_expand_hp (v - h)) s else s)"
  using assms by (simp add: GC_INIT_CONF_INITIAL_HEAP_SIZE_def Let_def to_size_t_diff)

lemma initial_heap_post:
  "\<exists>post. calls (GC_INIT_CONF_INITIAL_HEAP_SIZE lib w e val s) = calls s @ post \<and> list_all post_init post"
proof (cases "configured e ''GC_INITIAL_HEAP_SIZE''")
  case True
  then show ?thesis by (auto simp: initial_heap_size_calls Let_def calls_run_call)
next
  case False
  then show ?thesis by (auto simp: GC_INIT_CONF_INITIAL_HEAP_SIZE_def)
qed

text \<open>A successful \<open>GC_expand_hp\<close> adds at least the bytes asked for.\<close>

definition expand_law :: "'g collector \<Rightarrow> bool" where
  "expand_law lib \<longleftrightarrow> (\<forall>n g. expand_result lib n g \<noteq> 0 \<longrightarrow>
     GC_get_heap_size lib g + n \<le> GC_get_heap_size lib (exec lib (GC_expand_hp n) g))"

lemma initial_heap_reached:
  assumes "expand_law lib" "configured e ''GC_INITIAL_HEAP_SIZE''" "\<forall>n. expand_result lib n (col s) \<noteq> 0"
  shows "to_size_t w (val ''GC_INITIAL_HEAP_SIZE'')
    \<le> GC_get_heap_size lib (col (GC_INIT_CONF_INITIAL_HEAP_SIZE lib w e val s))"
proof -
  let ?h = "GC_get_heap_size lib (col s)" and ?v = "to_size_t w (val ''GC_INITIAL_HEAP_SIZE'')"
  have "?h + (?v - ?h) \<le> GC_get_heap_size lib (exec lib (GC_expand_hp (?v - ?h)) (col s))"
    using assms(1,3) by (simp add: expand_law_def)
  then have "?v \<le> GC_get_heap_size lib (exec lib (GC_expand_hp (?v - ?h)) (col s))" by linarith
  then show ?thesis by (simp add: initial_heap_size_calls [OF assms(2)] Let_def run_call_def)
qed


text \<open>A collector that only counts its heap, started with an initial size of a megabyte.\<close>

definition counting_collector :: "nat collector" where
  "counting_collector = \<lparr>exec = (\<lambda>c h. case c of GC_init \<Rightarrow> 65536 | GC_expand_hp n \<Rightarrow> h + n | _ \<Rightarrow> h),
     expand_result = (\<lambda>n h. 1), GC_get_heap_size = (\<lambda>h. h), GC_find_limit = (\<lambda>p up h. p)\<rparr>"

definition demo_image :: image where
  "demo_image = \<lparr>data_start = 4096, data_end = 8192, bss_start = 8192, bss_end = 12288,
     aix_data = 0, aix_end = 0, dso_handle = 0\<rparr>"

definition megabyte_env :: penv where
  "megabyte_env = linux_env(''GC_INITIAL_HEAP_SIZE'' \<mapsto> Num 1048576)"


end
