(* ===== verification/Gc_Cord.thy ===== *)
theory Gc_Cord
  imports Gc_Config
begin

text \<open>
  The macros of the cord package (\<open>gc/cord.h\<close>, \<open>gc/cord_pos.h\<close>, \<open>gc/ec.h\<close>): extensible cords, which
  collect characters in a buffer, and positions, which cache the leaf of a cord that holds the current
  character. The functions behind the macros are in a library and are parameters; \<open>cord_text\<close> is the
  string that a cord stands for.
\<close>

section \<open>Data\<close>

text \<open>The buffer of an extensible cord; \<open>ec_bufptr\<close> is the offset of the pointer in \<open>ec_buf\<close>.\<close>

record 'c CORD_ec =
  ec_cord :: 'c
  ec_bufptr :: nat
  ec_buf :: string

text \<open>A position; \<open>cur_leaf\<close> is the string that the pointer of this name points to.\<close>

record 'c CORD_pe =
  pe_cord :: 'c
  pe_start_pos :: nat

record 'c CORD_Pos =
  cur_pos :: nat
  path_len :: int
  cur_leaf :: string
  cur_start :: nat
  cur_end :: nat
  path :: "'c CORD_pe list"
  function_buf :: string

record 'c cord_lib =
  CORD_EMPTY :: 'c
  CORD_ec_flush_buf :: "'c CORD_ec \<Rightarrow> 'c CORD_ec"
  CORD_set_pos :: "'c CORD_Pos \<Rightarrow> 'c \<Rightarrow> nat \<Rightarrow> 'c CORD_Pos"
  CORD__pos_fetch :: "'c CORD_Pos \<Rightarrow> char"
  CORD__next :: "'c CORD_Pos \<Rightarrow> 'c CORD_Pos"
  CORD__prev :: "'c CORD_Pos \<Rightarrow> 'c CORD_Pos"

section \<open>Extensible cords\<close>

definition CORD_BUFSZ :: "penv \<Rightarrow> nat" where
  "CORD_BUFSZ e = (if defd e ''CORD_BUFSZ'' then nat (num e ''CORD_BUFSZ'') else 128)"

definition CORD_ec_init :: "'c cord_lib \<Rightarrow> 'c CORD_ec \<Rightarrow> 'c CORD_ec" where
  "CORD_ec_init lib x = x\<lparr>ec_cord := CORD_EMPTY lib, ec_bufptr := 0\<rparr>"

text \<open>A store outside the buffer is undefined: \<^term>\<open>None\<close>.\<close>

definition CORD_ec_append :: "penv \<Rightarrow> 'c cord_lib \<Rightarrow> 'c CORD_ec \<Rightarrow> char \<Rightarrow> 'c CORD_ec option" where
  "CORD_ec_append e lib x c =
    (let x = (if ec_bufptr x = CORD_BUFSZ e then CORD_ec_flush_buf lib x else x)
     in if ec_bufptr x < length (ec_buf x)
        then Some (x\<lparr>ec_buf := (ec_buf x)[ec_bufptr x := c], ec_bufptr := ec_bufptr x + 1\<rparr>)
        else None)"

definition CORD_ec_to_cord :: "'c cord_lib \<Rightarrow> 'c CORD_ec \<Rightarrow> 'c CORD_ec \<times> 'c" where
  "CORD_ec_to_cord lib x = (let x = CORD_ec_flush_buf lib x in (x, ec_cord x))"

text \<open>The loop of the client in the comment of \<open>ec.h\<close>, with the characters that it reads.\<close>

fun ec_append_all :: "penv \<Rightarrow> 'c cord_lib \<Rightarrow> string \<Rightarrow> 'c CORD_ec \<Rightarrow> 'c CORD_ec option" where
  "ec_append_all e lib [] x = Some x"
| "ec_append_all e lib (c # cs) x = Option.bind (CORD_ec_append e lib x c) (ec_append_all e lib cs)"

section \<open>Positions\<close>

definition CORD_POS_INVALID :: int where
  "CORD_POS_INVALID = 0x55555555"

definition CORD_pos_fetch :: "'c cord_lib \<Rightarrow> 'c CORD_Pos \<Rightarrow> char option" where
  "CORD_pos_fetch lib p =
    (if cur_end p \<noteq> 0 then
       (if cur_start p \<le> cur_pos p \<and> cur_pos p - cur_start p < length (cur_leaf p)
        then Some (cur_leaf p ! (cur_pos p - cur_start p)) else None)
     else Some (CORD__pos_fetch lib p))"

definition CORD_next :: "'c cord_lib \<Rightarrow> 'c CORD_Pos \<Rightarrow> 'c CORD_Pos" where
  "CORD_next lib p =
    (if cur_pos p + 1 < cur_end p then p\<lparr>cur_pos := cur_pos p + 1\<rparr> else CORD__next lib p)"

definition CORD_prev :: "'c cord_lib \<Rightarrow> 'c CORD_Pos \<Rightarrow> 'c CORD_Pos" where
  "CORD_prev lib p =
    (if cur_end p \<noteq> 0 \<and> cur_pos p > cur_start p then p\<lparr>cur_pos := cur_pos p - 1\<rparr> else CORD__prev lib p)"

definition CORD_pos_to_index :: "'c CORD_Pos \<Rightarrow> nat" where
  "CORD_pos_to_index p = cur_pos p"

definition CORD_pos_to_cord :: "'c CORD_Pos \<Rightarrow> 'c option" where
  "CORD_pos_to_cord p = (case path p of [] \<Rightarrow> None | pe # _ \<Rightarrow> Some (pe_cord pe))"

definition CORD_pos_valid :: "'c CORD_Pos \<Rightarrow> bool" where
  "CORD_pos_valid p \<longleftrightarrow> path_len p \<noteq> CORD_POS_INVALID"

definition CORD_pos_chars_left :: "'c CORD_Pos \<Rightarrow> int" where
  "CORD_pos_chars_left p = int (cur_end p) - int (cur_pos p)"

definition CORD_pos_advance :: "'c cord_lib \<Rightarrow> 'c CORD_Pos \<Rightarrow> nat \<Rightarrow> 'c CORD_Pos" where
  "CORD_pos_advance lib p n = CORD_next lib (p\<lparr>cur_pos := cur_pos p + (n - 1)\<rparr>)"

text \<open>The address of the current character, as an offset in the leaf.\<close>

definition CORD_pos_cur_char_addr :: "'c CORD_Pos \<Rightarrow> nat" where
  "CORD_pos_cur_char_addr p = cur_pos p - cur_start p"

text \<open>
  The loop \<open>CORD_FOR\<close> with a body that works on a state of its own and may fail. The loop runs as long
  as the position is valid, so the recursion is on fuel; running out of it is \<^term>\<open>None\<close>.
\<close>

fun cord_for_loop :: "'c cord_lib \<Rightarrow> nat \<Rightarrow> ('c CORD_Pos \<Rightarrow> 's \<Rightarrow> 's option) \<Rightarrow> 'c CORD_Pos \<Rightarrow> 's \<Rightarrow> 's option" where
  "cord_for_loop lib 0 body p s = (if CORD_pos_valid p then None else Some s)"
| "cord_for_loop lib (Suc fuel) body p s =
     (if CORD_pos_valid p then Option.bind (body p s) (cord_for_loop lib fuel body (CORD_next lib p)) else Some s)"

definition CORD_FOR :: "'c cord_lib \<Rightarrow> nat \<Rightarrow> 'c CORD_Pos \<Rightarrow> 'c \<Rightarrow> ('c CORD_Pos \<Rightarrow> 's \<Rightarrow> 's option) \<Rightarrow> 's \<Rightarrow> 's option" where
  "CORD_FOR lib fuel p x body s = cord_for_loop lib fuel body (CORD_set_pos lib p x 0) s"

section \<open>Linkage\<close>

definition cord_api :: "penv \<Rightarrow> string option" where
  "cord_api e =
    (if defd e ''CORD_BUILD'' then
       (if any_def e [''__MINGW32__'', ''__CEGCC__''] then Some ''__declspec(dllexport)''
        else if any_def e [''_MSC_VER'', ''__DMC__'', ''__BORLANDC__'', ''__CYGWIN__'', ''__WATCOMC__'']
        then Some ''extern __declspec(dllexport)''
        else if defd e ''__GNUC__'' \<and> \<not> defd e ''GC_NO_VISIBILITY''
          \<and> (4 \<le> num e ''__GNUC__'' \<or> defd e ''GC_VISIBILITY_HIDDEN_SET'')
        then Some ''extern __attribute__((__visibility__(\"default\")))'' else None)
     else if any_def e [''__MINGW32__'', ''__CEGCC__'', ''_MSC_VER'', ''__DMC__'', ''__BORLANDC__'', ''__CYGWIN__'']
     then Some ''__declspec(dllimport)''
     else if defd e ''__WATCOMC__'' then Some ''extern __declspec(dllimport)'' else None)"

definition cord_linkage :: "penv \<Rightarrow> penv" where
  "cord_linkage e =
    (let e = (if defd e ''GC_DLL'' \<and> \<not> defd e ''CORD_NOT_DLL''
              then (case cord_api e of Some b \<Rightarrow> def_macro ''CORD_API'' (Text b) e | None \<Rightarrow> e) else e)
     in def_if (\<not> defd e ''CORD_API'') ''CORD_API'' (Text ''extern'') e)"

interpretation cord: pp_step cord_linkage "[''CORD_API'']"
  by unfold_locales (simp add: cord_linkage_def Let_def def_if_frame def_macro_frame split: option.split)

lemma cord_api_defined: "defd (cord_linkage e) ''CORD_API''"
  by (simp add: cord_linkage_def Let_def defd_simps)

section \<open>Extensible cords: correctness\<close>

text \<open>The string that the structure stands for, as the comment on it says.\<close>

definition ec_text :: "('c \<Rightarrow> string) \<Rightarrow> 'c CORD_ec \<Rightarrow> string" where
  "ec_text cord_text x = cord_text (ec_cord x) @ take (ec_bufptr x) (ec_buf x)"

definition ec_ok :: "penv \<Rightarrow> 'c CORD_ec \<Rightarrow> bool" where
  "ec_ok e x \<longleftrightarrow> length (ec_buf x) = CORD_BUFSZ e + 1 \<and> ec_bufptr x \<le> CORD_BUFSZ e
     \<and> CHR 0x00 \<notin> set (take (ec_bufptr x) (ec_buf x))"

text \<open>
  What the header promises of the library: flushing moves the buffer, which holds no NUL, into the
  cord; the empty cord stands for the empty string.
\<close>

definition flush_law :: "penv \<Rightarrow> ('c \<Rightarrow> string) \<Rightarrow> 'c cord_lib \<Rightarrow> bool" where
  "flush_law e cord_text lib \<longleftrightarrow> cord_text (CORD_EMPTY lib) = []
     \<and> (\<forall>x. ec_ok e x \<longrightarrow> cord_text (ec_cord (CORD_ec_flush_buf lib x)) = ec_text cord_text x
          \<and> ec_bufptr (CORD_ec_flush_buf lib x) = 0
          \<and> length (ec_buf (CORD_ec_flush_buf lib x)) = length (ec_buf x))"

lemma ec_init_ok:
  assumes "flush_law e cord_text lib" "length (ec_buf x) = CORD_BUFSZ e + 1"
  shows "ec_ok e (CORD_ec_init lib x)" "ec_text cord_text (CORD_ec_init lib x) = []"
  using assms by (simp_all add: ec_ok_def CORD_ec_init_def ec_text_def flush_law_def)

lemma flush_keeps:
  assumes "flush_law e cord_text lib" "ec_ok e x"
  shows "ec_ok e (CORD_ec_flush_buf lib x)" "ec_text cord_text (CORD_ec_flush_buf lib x) = ec_text cord_text x"
    "ec_bufptr (CORD_ec_flush_buf lib x) = 0"
  using assms by (simp_all add: flush_law_def ec_ok_def ec_text_def)

text \<open>One step of the append, once the buffer has room.\<close>

lemma ec_store:
  assumes "ec_ok e x" "ec_bufptr x < CORD_BUFSZ e" "c \<noteq> CHR 0x00"
  defines "y \<equiv> x\<lparr>ec_buf := (ec_buf x)[ec_bufptr x := c], ec_bufptr := ec_bufptr x + 1\<rparr>"
  shows "ec_ok e y" "ec_text cord_text y = ec_text cord_text x @ [c]" "ec_bufptr x < length (ec_buf x)"
proof -
  show len: "ec_bufptr x < length (ec_buf x)" using assms(1,2) by (simp add: ec_ok_def)
  then have "take (ec_bufptr x + 1) ((ec_buf x)[ec_bufptr x := c]) = take (ec_bufptr x) (ec_buf x) @ [c]"
    by (simp add: take_Suc_conv_app_nth)
  then show "ec_ok e y" "ec_text cord_text y = ec_text cord_text x @ [c]"
    using assms(1-3) by (simp_all add: y_def ec_ok_def ec_text_def)
qed

lemma ec_append_ok:
  assumes "flush_law e cord_text lib" "ec_ok e x" "0 < CORD_BUFSZ e" "c \<noteq> CHR 0x00"
  shows "\<exists>y. CORD_ec_append e lib x c = Some y \<and> ec_ok e y \<and> ec_text cord_text y = ec_text cord_text x @ [c]"
proof -
  let ?x = "if ec_bufptr x = CORD_BUFSZ e then CORD_ec_flush_buf lib x else x"
  have x: "ec_ok e ?x" "ec_bufptr ?x < CORD_BUFSZ e" and same: "ec_text cord_text ?x = ec_text cord_text x"
    using flush_keeps [OF assms(1,2)] assms(2,3) by (auto simp: ec_ok_def)
  show ?thesis
    using ec_store(1,3) [OF x assms(4)] ec_store(2) [OF x assms(4), of cord_text] same
    by (simp add: CORD_ec_append_def Let_def)
qed

lemma ec_append_all_ok:
  assumes "flush_law e cord_text lib" "0 < CORD_BUFSZ e"
  shows "ec_ok e x \<Longrightarrow> CHR 0x00 \<notin> set cs \<Longrightarrow>
    \<exists>y. ec_append_all e lib cs x = Some y \<and> ec_ok e y \<and> ec_text cord_text y = ec_text cord_text x @ cs"
proof (induction cs arbitrary: x)
  case (Cons c cs)
  obtain y where y: "CORD_ec_append e lib x c = Some y" "ec_ok e y" "ec_text cord_text y = ec_text cord_text x @ [c]"
    using ec_append_ok [OF assms(1) Cons.prems(1) assms(2), of c] Cons.prems(2) by (metis list.set_intros(1))
  moreover obtain z where "ec_append_all e lib cs y = Some z" "ec_ok e z"
    "ec_text cord_text z = ec_text cord_text y @ cs"
    using Cons.IH [OF y(2)] Cons.prems(2) by (metis list.set_intros(2))
  ultimately show ?case by simp
qed simp

section \<open>Positions: correctness\<close>

text \<open>
  A position stands for an index into a cord. The cached leaf, when there is one, agrees with the cord
  from \<open>cur_start\<close> up to \<open>cur_end\<close> and holds the current character.
\<close>

definition leaf_ok :: "string \<Rightarrow> 'c CORD_Pos \<Rightarrow> bool" where
  "leaf_ok t p \<longleftrightarrow> cur_start p \<le> cur_pos p \<and> cur_pos p < cur_end p \<and> cur_end p \<le> length t
     \<and> (\<forall>k. cur_start p \<le> k \<and> k < cur_end p \<longrightarrow>
          k - cur_start p < length (cur_leaf p) \<and> cur_leaf p ! (k - cur_start p) = t ! k)"

definition pos_at :: "('c \<Rightarrow> string) \<Rightarrow> 'c \<Rightarrow> 'c CORD_Pos \<Rightarrow> nat \<Rightarrow> bool" where
  "pos_at cord_text x p i \<longleftrightarrow> CORD_pos_valid p \<and> CORD_pos_to_cord p = Some x \<and> CORD_pos_to_index p = i
     \<and> i < length (cord_text x) \<and> (cur_end p \<noteq> 0 \<longrightarrow> leaf_ok (cord_text x) p)"

text \<open>Being at an index, or being invalid when the index is outside the cord.\<close>

definition moved_to :: "('c \<Rightarrow> string) \<Rightarrow> 'c \<Rightarrow> 'c CORD_Pos \<Rightarrow> int \<Rightarrow> bool" where
  "moved_to cord_text x p i \<longleftrightarrow>
     (if 0 \<le> i \<and> i < int (length (cord_text x)) then pos_at cord_text x p (nat i) else \<not> CORD_pos_valid p)"

text \<open>What \<open>cord.h\<close> promises of the functions behind the macros.\<close>

definition pos_law :: "('c \<Rightarrow> string) \<Rightarrow> 'c cord_lib \<Rightarrow> bool" where
  "pos_law cord_text lib \<longleftrightarrow>
     (\<forall>p x i. moved_to cord_text x (CORD_set_pos lib p x i) (int i))
     \<and> (\<forall>p x i. pos_at cord_text x p i \<longrightarrow> CORD__pos_fetch lib p = cord_text x ! i
          \<and> moved_to cord_text x (CORD__next lib p) (int i + 1)
          \<and> moved_to cord_text x (CORD__prev lib p) (int i - 1))"

lemma pos_fetch_at:
  assumes "pos_law cord_text lib" "pos_at cord_text x p i"
  shows "CORD_pos_fetch lib p = Some (cord_text x ! i)"
proof (cases "cur_end p = 0")
  case True
  then show ?thesis using assms by (simp add: CORD_pos_fetch_def pos_law_def)
next
  case False
  then have "leaf_ok (cord_text x) p" "cur_pos p = i"
    using assms(2) by (simp_all add: pos_at_def CORD_pos_to_index_def)
  then show ?thesis using False by (simp add: CORD_pos_fetch_def leaf_ok_def)
qed

text \<open>A move inside the cached leaf.\<close>

lemma pos_at_cached:
  assumes "pos_at cord_text x p i" "cur_end p \<noteq> 0" "cur_start p \<le> k" "k < cur_end p"
  shows "pos_at cord_text x (p\<lparr>cur_pos := k\<rparr>) k"
proof -
  have "leaf_ok (cord_text x) p" using assms(1,2) by (simp add: pos_at_def)
  then have "leaf_ok (cord_text x) (p\<lparr>cur_pos := k\<rparr>)" "k < length (cord_text x)"
    using assms(3,4) by (auto simp: leaf_ok_def)
  then show ?thesis
    using assms(1) by (simp add: pos_at_def CORD_pos_to_index_def CORD_pos_to_cord_def CORD_pos_valid_def)
qed

lemma pos_at_leaf:
  assumes "pos_at cord_text x p i" "cur_end p \<noteq> 0"
  shows "cur_start p \<le> i" "i < cur_end p" "cur_pos p = i"
  using assms by (auto simp: pos_at_def leaf_ok_def CORD_pos_to_index_def)

lemma moved_to_at: "pos_at cord_text x p k \<Longrightarrow> i = int k \<Longrightarrow> moved_to cord_text x p i"
  by (simp add: moved_to_def pos_at_def)

lemma next_at:
  assumes "pos_law cord_text lib" "pos_at cord_text x p i"
  shows "moved_to cord_text x (CORD_next lib p) (int i + 1)"
proof (cases "cur_pos p + 1 < cur_end p")
  case True
  then have "cur_end p \<noteq> 0" by simp
  note leaf = pos_at_leaf [OF assms(2) this]
  have "pos_at cord_text x (p\<lparr>cur_pos := i + 1\<rparr>) (i + 1)"
    by (rule pos_at_cached [OF assms(2)]) (use True leaf in auto)
  then show ?thesis using True leaf by (intro moved_to_at [of _ _ _ "i + 1"]) (simp_all add: CORD_next_def)
next
  case False
  then show ?thesis using assms by (simp add: CORD_next_def pos_law_def)
qed

lemma prev_at:
  assumes "pos_law cord_text lib" "pos_at cord_text x p i"
  shows "moved_to cord_text x (CORD_prev lib p) (int i - 1)"
proof (cases "cur_end p \<noteq> 0 \<and> cur_pos p > cur_start p")
  case True
  note leaf = pos_at_leaf [OF assms(2) conjunct1 [OF True]]
  have "pos_at cord_text x (p\<lparr>cur_pos := i - 1\<rparr>) (i - 1)"
    by (rule pos_at_cached [OF assms(2)]) (use True leaf in auto)
  then show ?thesis using True leaf by (intro moved_to_at [of _ _ _ "i - 1"]) (auto simp: CORD_prev_def)
next
  case False
  then show ?thesis using assms by (auto simp: CORD_prev_def pos_law_def)
qed

lemma advance_at:
  assumes "pos_at cord_text x p i" "0 < n" "int n < CORD_pos_chars_left p"
  shows "pos_at cord_text x (CORD_pos_advance lib p n) (i + n)"
proof -
  have e: "cur_end p \<noteq> 0" using assms(3) by (auto simp: CORD_pos_chars_left_def)
  note leaf = pos_at_leaf [OF assms(1) this]
  have "i + n < cur_end p" using assms(3) leaf by (simp add: CORD_pos_chars_left_def)
  then show ?thesis
    using pos_at_cached [OF assms(1) e, of "i + n"] assms(2) leaf by (simp add: CORD_pos_advance_def CORD_next_def)
qed

lemma cord_for_loop_at:
  assumes "pos_law cord_text lib"
    and body: "\<And>p s i. pos_at cord_text x p i \<Longrightarrow> body p s = Some (f (cord_text x ! i) s)"
  shows "moved_to cord_text x p (int i) \<Longrightarrow> i \<le> length (cord_text x) \<Longrightarrow> length (cord_text x) - i \<le> fuel \<Longrightarrow>
    cord_for_loop lib fuel body p s = Some (fold f (drop i (cord_text x)) s)"
proof (induction fuel arbitrary: p i s)
  case 0
  then show ?case by (simp add: moved_to_def)
next
  case (Suc fuel)
  show ?case
  proof (cases "i < length (cord_text x)")
    case True
    then have p: "pos_at cord_text x p i" using Suc.prems(1) by (simp add: moved_to_def)
    then have "CORD_pos_valid p" by (simp add: pos_at_def)
    moreover have "cord_for_loop lib fuel body (CORD_next lib p) (f (cord_text x ! i) s) =
        Some (fold f (drop (i + 1) (cord_text x)) (f (cord_text x ! i) s))"
      using next_at [OF assms(1) p] True Suc.prems(3) by (intro Suc.IH) (simp_all add: add.commute)
    ultimately show ?thesis using body [OF p] Cons_nth_drop_Suc [OF True] by (simp flip: Cons_nth_drop_Suc [OF True])
  next
    case False
    then show ?thesis using Suc.prems by (simp add: moved_to_def)
  qed
qed

section \<open>Properties of cords\<close>

text \<open>
  C39. Characters appended one by one to an initialised extensible cord never leave its buffer,
  whatever their number, and the cord that \<open>CORD_ec_to_cord\<close> returns stands for exactly the appended
  string, for every positive \<open>CORD_BUFSZ\<close> and every string without NUL.
\<close>

theorem ec_builds_string:
  assumes "flush_law e cord_text lib" "0 < CORD_BUFSZ e" "length (ec_buf x) = CORD_BUFSZ e + 1"
    and "CHR 0x00 \<notin> set cs"
  shows "\<exists>y. ec_append_all e lib cs (CORD_ec_init lib x) = Some y
    \<and> cord_text (snd (CORD_ec_to_cord lib y)) = cs"
proof -
  note init = ec_init_ok [OF assms(1,3)]
  obtain y where y: "ec_append_all e lib cs (CORD_ec_init lib x) = Some y" "ec_ok e y" "ec_text cord_text y = cs"
    using ec_append_all_ok [OF assms(1,2) init(1) assms(4)] init(2) by auto
  moreover have "cord_text (snd (CORD_ec_to_cord lib y)) = cs"
    using assms(1) y(2,3) by (simp add: flush_law_def CORD_ec_to_cord_def Let_def)
  ultimately show ?thesis by blast
qed

text \<open>A library whose cords are strings and whose positions always cache the whole string.\<close>

definition string_pos :: "string CORD_Pos \<Rightarrow> string \<Rightarrow> int \<Rightarrow> string CORD_Pos" where
  "string_pos p x i =
    (if 0 \<le> i \<and> i < int (length x)
     then \<lparr>cur_pos = nat i, path_len = 0, cur_leaf = x, cur_start = 0, cur_end = length x,
       path = [\<lparr>pe_cord = x, pe_start_pos = 0\<rparr>], function_buf = []\<rparr>
     else p\<lparr>path_len := CORD_POS_INVALID\<rparr>)"

definition string_lib :: "string cord_lib" where
  "string_lib = \<lparr>CORD_EMPTY = [],
     CORD_ec_flush_buf = (\<lambda>x. x\<lparr>ec_cord := ec_cord x @ take (ec_bufptr x) (ec_buf x), ec_bufptr := 0\<rparr>),
     CORD_set_pos = (\<lambda>p x i. string_pos p x (int i)),
     CORD__pos_fetch = (\<lambda>p. pe_cord (hd (path p)) ! cur_pos p),
     CORD__next = (\<lambda>p. string_pos p (pe_cord (hd (path p))) (int (cur_pos p) + 1)),
     CORD__prev = (\<lambda>p. string_pos p (pe_cord (hd (path p))) (int (cur_pos p) - 1))\<rparr>"

lemma string_flush_law: "flush_law e (\<lambda>x. x) string_lib"
  by (simp add: flush_law_def string_lib_def ec_text_def)

lemma string_pos_moved: "moved_to (\<lambda>x. x) x (string_pos p x i) i"
  by (auto simp: moved_to_def pos_at_def string_pos_def CORD_pos_valid_def CORD_POS_INVALID_def
      CORD_pos_to_cord_def CORD_pos_to_index_def leaf_ok_def)

lemma pos_at_cord: "pos_at cord_text x p i \<Longrightarrow> pe_cord (hd (path p)) = x \<and> cur_pos p = i"
  by (auto simp: pos_at_def CORD_pos_to_cord_def CORD_pos_to_index_def split: list.splits)

lemma string_pos_law: "pos_law (\<lambda>x. x) string_lib"
  unfolding pos_law_def by (auto simp: string_lib_def string_pos_moved dest!: pos_at_cord)

definition small_buffer :: penv where
  "small_buffer = [''CORD_BUFSZ'' \<mapsto> Num 2]"

theorem ec_builds_string_witness:
  "\<exists>y. ec_append_all small_buffer string_lib ''hello''
       (CORD_ec_init string_lib \<lparr>ec_cord = ''old'', ec_bufptr = 2, ec_buf = ''xyz''\<rparr>) = Some y
    \<and> snd (CORD_ec_to_cord string_lib y) = ''hello''"
proof -
  have "CORD_BUFSZ small_buffer = 2" by (simp add: CORD_BUFSZ_def small_buffer_def defd_def num_def)
  then show ?thesis
    using ec_builds_string [OF string_flush_law, of small_buffer
        "\<lparr>ec_cord = ''old'', ec_bufptr = 2, ec_buf = ''xyz''\<rparr>" "''hello''"] by simp
qed

text \<open>
  C35. The moves of a position agree with the moves of the index that it stands for: \<open>CORD_next\<close> and
  \<open>CORD_prev\<close> go to the neighbouring index, or invalidate the position at the ends of the cord;
  \<open>CORD_pos_advance\<close> goes on by a number of characters that are in the cache; the address of the current
  character lies in the cached leaf and holds the character of the cord.
\<close>

theorem position_moves:
  assumes "pos_law cord_text lib" "pos_at cord_text x p i"
  shows "moved_to cord_text x (CORD_next lib p) (int i + 1) \<and> moved_to cord_text x (CORD_prev lib p) (int i - 1)
    \<and> (0 < n \<and> int n < CORD_pos_chars_left p \<longrightarrow> pos_at cord_text x (CORD_pos_advance lib p n) (i + n))
    \<and> (cur_end p = 0 \<or> CORD_pos_cur_char_addr p < length (cur_leaf p)
        \<and> cur_leaf p ! CORD_pos_cur_char_addr p = cord_text x ! i)"
proof (intro conjI)
  show "moved_to cord_text x (CORD_next lib p) (int i + 1)" by (rule next_at [OF assms])
  show "moved_to cord_text x (CORD_prev lib p) (int i - 1)" by (rule prev_at [OF assms])
  show "0 < n \<and> int n < CORD_pos_chars_left p \<longrightarrow> pos_at cord_text x (CORD_pos_advance lib p n) (i + n)"
    using advance_at [OF assms(2)] by blast
  show "cur_end p = 0 \<or> CORD_pos_cur_char_addr p < length (cur_leaf p)
      \<and> cur_leaf p ! CORD_pos_cur_char_addr p = cord_text x ! i"
  proof (cases "cur_end p = 0")
    case False
    then have "leaf_ok (cord_text x) p" "cur_pos p = i"
      using assms(2) by (simp_all add: pos_at_def CORD_pos_to_index_def)
    then show ?thesis by (simp add: leaf_ok_def CORD_pos_cur_char_addr_def)
  qed simp
qed

definition empty_pos :: "string CORD_Pos" where
  "empty_pos = \<lparr>cur_pos = 0, path_len = 0, cur_leaf = [], cur_start = 0, cur_end = 0, path = [], function_buf = []\<rparr>"

theorem position_moves_witness:
  "pos_at (\<lambda>x. x) ''hello'' (CORD_pos_advance string_lib (string_pos empty_pos ''hello'' 1) 3) 4
   \<and> \<not> CORD_pos_valid (CORD_prev string_lib (string_pos empty_pos ''hello'' 0))"
proof
  have at: "pos_at (\<lambda>x. x) ''hello'' (string_pos empty_pos ''hello'' (int i)) i" if "i < 5" for i
    using string_pos_moved [of "''hello''" empty_pos "int i"] that by (simp add: moved_to_def)
  have "CORD_pos_chars_left (string_pos empty_pos ''hello'' 1) = 4"
    by (simp add: string_pos_def CORD_pos_chars_left_def)
  then show "pos_at (\<lambda>x. x) ''hello'' (CORD_pos_advance string_lib (string_pos empty_pos ''hello'' 1) 3) 4"
    using position_moves [OF string_pos_law at [of 1], of 3] by simp
  show "\<not> CORD_pos_valid (CORD_prev string_lib (string_pos empty_pos ''hello'' 0))"
    using position_moves [OF string_pos_law at [of 0]] by (simp add: moved_to_def)
qed

text \<open>
  C40. \<open>CORD_FOR\<close> with \<open>CORD_pos_fetch\<close> in its body ends and sees every character of the cord once, in
  order, whichever parts of the cord the library caches: the fast paths of \<open>CORD_pos_fetch\<close> and
  \<open>CORD_next\<close> read inside the cached leaf and agree with the library functions that they replace.
\<close>

theorem cord_for_visits_all:
  assumes "pos_law cord_text lib" "length (cord_text x) \<le> fuel"
  shows "CORD_FOR lib fuel p x (\<lambda>p s. map_option (\<lambda>c. f c s) (CORD_pos_fetch lib p)) s
    = Some (fold f (cord_text x) s)"
proof -
  have "moved_to cord_text x (CORD_set_pos lib p x 0) (int 0)"
    using assms(1) unfolding pos_law_def by blast
  then show ?thesis
    using cord_for_loop_at [OF assms(1), of x _ f "CORD_set_pos lib p x 0" 0 fuel s] assms
    by (simp add: CORD_FOR_def pos_fetch_at)
qed

theorem cord_for_visits_all_witness:
  "CORD_FOR string_lib 3 \<lparr>cur_pos = 0, path_len = 0, cur_leaf = [], cur_start = 0, cur_end = 0, path = [],
       function_buf = []\<rparr> ''abc'' (\<lambda>p s. map_option (\<lambda>c. c # s) (CORD_pos_fetch string_lib p)) []
    = Some ''cba''"
  using cord_for_visits_all [OF string_pos_law, of "''abc''" 3 _ "(#)" "[]"] by simp

end
