(* ===== verification/Gc_Alloc.thy ===== *)
theory Gc_Alloc
  imports Gc_Config
begin

text \<open>
  The allocation macros of \<open>gc/gc.h\<close>, \<open>gc/gc_gcj.h\<close> and \<open>gc/leak_detector.h\<close>, which choose between the
  plain and the debugging functions of the collector, and what the header documents of these
  functions: objects with an optional debugging header, their finalizers, and when an object may be freed.
\<close>

section \<open>Expansions\<close>

text \<open>The body of a macro: the function that it calls, with the arguments as they are written.\<close>

type_synonym expansion = "string \<times> string list"

definition GC_EXTRAS :: "penv \<Rightarrow> string list" where
  "GC_EXTRAS e = (if defd e ''GC_ADD_CALLER'' then [''GC_RETURN_ADDR'', ''__FILE__'', ''__LINE__'']
                  else [''__FILE__'', ''__LINE__''])"

definition GC_EXTRA_PARAMS :: "penv \<Rightarrow> string list" where
  "GC_EXTRA_PARAMS e = (if defd e ''GC_ADD_CALLER'' then [''GC_word ra'', ''const char * s'', ''int i'']
                        else [''const char * s'', ''int i''])"

definition malloc_macros :: "penv \<Rightarrow> (string \<times> expansion) list" where
  "malloc_macros e =
    (if defd e ''GC_DEBUG_REPLACEMENT'' then
       [(''GC_MALLOC'', ''GC_debug_malloc_replacement'', [''sz'']),
        (''GC_REALLOC'', ''GC_debug_realloc_replacement'', [''old'', ''sz''])]
     else if defd e ''GC_DEBUG'' then
       [(''GC_MALLOC'', ''GC_debug_malloc'', ''sz'' # GC_EXTRAS e),
        (''GC_REALLOC'', ''GC_debug_realloc'', ''old'' # ''sz'' # GC_EXTRAS e)]
     else
       [(''GC_MALLOC'', ''GC_malloc'', [''sz'']),
        (''GC_REALLOC'', ''GC_realloc'', [''old'', ''sz''])])"

definition debug_macros :: "penv \<Rightarrow> (string \<times> expansion) list" where
  "debug_macros e =
    [(''GC_MALLOC_ATOMIC'', ''GC_debug_malloc_atomic'', ''sz'' # GC_EXTRAS e),
     (''GC_STRDUP'', ''GC_debug_strdup'', ''s'' # GC_EXTRAS e),
     (''GC_STRNDUP'', ''GC_debug_strndup'', ''s'' # ''sz'' # GC_EXTRAS e),
     (''GC_MALLOC_ATOMIC_UNCOLLECTABLE'', ''GC_debug_malloc_atomic_uncollectable'', ''sz'' # GC_EXTRAS e),
     (''GC_MALLOC_UNCOLLECTABLE'', ''GC_debug_malloc_uncollectable'', ''sz'' # GC_EXTRAS e),
     (''GC_MALLOC_IGNORE_OFF_PAGE'', ''GC_debug_malloc_ignore_off_page'', ''sz'' # GC_EXTRAS e),
     (''GC_MALLOC_ATOMIC_IGNORE_OFF_PAGE'', ''GC_debug_malloc_atomic_ignore_off_page'', ''sz'' # GC_EXTRAS e),
     (''GC_FREE'', ''GC_debug_free'', [''p'']),
     (''GC_REGISTER_FINALIZER'', ''GC_debug_register_finalizer'', [''p'', ''f'', ''d'', ''of'', ''od'']),
     (''GC_REGISTER_FINALIZER_IGNORE_SELF'', ''GC_debug_register_finalizer_ignore_self'',
        [''p'', ''f'', ''d'', ''of'', ''od'']),
     (''GC_REGISTER_FINALIZER_NO_ORDER'', ''GC_debug_register_finalizer_no_order'',
        [''p'', ''f'', ''d'', ''of'', ''od'']),
     (''GC_REGISTER_FINALIZER_UNREACHABLE'', ''GC_debug_register_finalizer_unreachable'',
        [''p'', ''f'', ''d'', ''of'', ''od'']),
     (''GC_END_STUBBORN_CHANGE'', ''GC_debug_end_stubborn_change'', [''p'']),
     (''GC_PTR_STORE_AND_DIRTY'', ''GC_debug_ptr_store_and_dirty'', [''p'', ''q'']),
     (''GC_GENERAL_REGISTER_DISAPPEARING_LINK'', ''GC_general_register_disappearing_link'',
        [''link'', ''GC_base((void *)(obj))'']),
     (''GC_REGISTER_LONG_LINK'', ''GC_register_long_link'', [''link'', ''GC_base((void *)(obj))'']),
     (''GC_REGISTER_DISPLACEMENT'', ''GC_debug_register_displacement'', [''n''])]"

definition plain_macros :: "(string \<times> expansion) list" where
  "plain_macros =
    [(''GC_MALLOC_ATOMIC'', ''GC_malloc_atomic'', [''sz'']),
     (''GC_STRDUP'', ''GC_strdup'', [''s'']),
     (''GC_STRNDUP'', ''GC_strndup'', [''s'', ''sz'']),
     (''GC_MALLOC_ATOMIC_UNCOLLECTABLE'', ''GC_malloc_atomic_uncollectable'', [''sz'']),
     (''GC_MALLOC_UNCOLLECTABLE'', ''GC_malloc_uncollectable'', [''sz'']),
     (''GC_MALLOC_IGNORE_OFF_PAGE'', ''GC_malloc_ignore_off_page'', [''sz'']),
     (''GC_MALLOC_ATOMIC_IGNORE_OFF_PAGE'', ''GC_malloc_atomic_ignore_off_page'', [''sz'']),
     (''GC_FREE'', ''GC_free'', [''p'']),
     (''GC_REGISTER_FINALIZER'', ''GC_register_finalizer'', [''p'', ''f'', ''d'', ''of'', ''od'']),
     (''GC_REGISTER_FINALIZER_IGNORE_SELF'', ''GC_register_finalizer_ignore_self'',
        [''p'', ''f'', ''d'', ''of'', ''od'']),
     (''GC_REGISTER_FINALIZER_NO_ORDER'', ''GC_register_finalizer_no_order'',
        [''p'', ''f'', ''d'', ''of'', ''od'']),
     (''GC_REGISTER_FINALIZER_UNREACHABLE'', ''GC_register_finalizer_unreachable'',
        [''p'', ''f'', ''d'', ''of'', ''od'']),
     (''GC_END_STUBBORN_CHANGE'', ''GC_end_stubborn_change'', [''p'']),
     (''GC_PTR_STORE_AND_DIRTY'', ''GC_ptr_store_and_dirty'', [''p'', ''q'']),
     (''GC_GENERAL_REGISTER_DISAPPEARING_LINK'', ''GC_general_register_disappearing_link'', [''link'', ''obj'']),
     (''GC_REGISTER_LONG_LINK'', ''GC_register_long_link'', [''link'', ''obj'']),
     (''GC_REGISTER_DISPLACEMENT'', ''GC_register_displacement'', [''n''])]"

definition wcsdup_macros :: "penv \<Rightarrow> (string \<times> expansion) list" where
  "wcsdup_macros e =
    (if \<not> defd e ''GC_REQUIRE_WCSDUP'' then []
     else if defd e ''GC_DEBUG'' then [(''GC_WCSDUP'', ''GC_debug_wcsdup'', ''s'' # GC_EXTRAS e)]
     else [(''GC_WCSDUP'', ''GC_wcsdup'', [''s''])])"

definition stubborn_macros :: "(string \<times> expansion) list" where
  "stubborn_macros = [(''GC_MALLOC_STUBBORN'', ''GC_MALLOC'', [''sz'']), (''GC_NEW_STUBBORN'', ''GC_NEW'', [''t'']),
     (''GC_CHANGE_STUBBORN'', ''GC_change_stubborn'', [''p''])]"

definition new_macros :: "(string \<times> expansion) list" where
  "new_macros = [(''GC_NEW'', ''GC_MALLOC'', [''sizeof(t)'']), (''GC_NEW_ATOMIC'', ''GC_MALLOC_ATOMIC'', [''sizeof(t)'']),
     (''GC_NEW_UNCOLLECTABLE'', ''GC_MALLOC_UNCOLLECTABLE'', [''sizeof(t)''])]"

definition gcj_macros :: "penv \<Rightarrow> (string \<times> expansion) list" where
  "gcj_macros e =
    (if defd e ''GC_DEBUG'' then
       [(''GC_GCJ_MALLOC'', ''GC_debug_gcj_malloc'', ''s'' # ''d'' # GC_EXTRAS e),
        (''GC_GCJ_MALLOC_IGNORE_OFF_PAGE'', ''GC_debug_gcj_malloc'', ''s'' # ''d'' # GC_EXTRAS e)]
     else
       [(''GC_GCJ_MALLOC'', ''GC_gcj_malloc'', [''s'', ''d'']),
        (''GC_GCJ_MALLOC_IGNORE_OFF_PAGE'', ''GC_gcj_malloc_ignore_off_page'', [''s'', ''d''])])"

definition gc_macros :: "penv \<Rightarrow> (string \<times> expansion) list" where
  "gc_macros e = malloc_macros e @ (if defd e ''GC_DEBUG'' then debug_macros e else plain_macros)
     @ wcsdup_macros e @ stubborn_macros @ new_macros"

text \<open>
  The leak detector defines \<open>GC_DEBUG\<close> and renames the functions of the C library. The product of
  \<open>calloc\<close> is passed as it is written.
\<close>

definition leak_macros :: "penv \<Rightarrow> (string \<times> expansion) list" where
  "leak_macros e =
    [(''malloc'', ''GC_MALLOC'', [''n'']), (''calloc'', ''GC_MALLOC'', [''(m)*(n)'']), (''free'', ''GC_FREE'', [''p'']),
     (''realloc'', ''GC_REALLOC'', [''p'', ''n'']), (''strdup'', ''GC_STRDUP'', [''s'']),
     (''strndup'', ''GC_STRNDUP'', [''s'', ''n''])]
    @ (if defd e ''GC_REQUIRE_WCSDUP'' then [(''wcsdup'', ''GC_WCSDUP'', [''s''])] else [])
    @ [(''memalign'', ''GC_memalign'', [''a'', ''n'']), (''posix_memalign'', ''GC_posix_memalign'', [''p'', ''a'', ''n''])]
    @ (if defd e ''CHECK_LEAKS'' then [] else [(''CHECK_LEAKS'', ''GC_gcollect'', [])])"

definition leak_env :: "penv \<Rightarrow> penv" where
  "leak_env e = def_if (\<not> defd e ''GC_DEBUG'') ''GC_DEBUG'' Empty e"

text \<open>
  The function that a macro ends in; a name that is no macro stays. The macros are at most three
  deep (\<open>GC_NEW_STUBBORN\<close>, \<open>GC_NEW\<close>, \<open>GC_MALLOC\<close>), and a macro of the leak detector adds one.
\<close>

definition rename :: "(string \<times> expansion) list \<Rightarrow> string \<Rightarrow> string" where
  "rename ms m = (case map_of ms m of Some (f, args) \<Rightarrow> f | None \<Rightarrow> m)"

definition macro_fn :: "penv \<Rightarrow> string \<Rightarrow> string" where
  "macro_fn e m = (let ms = gc_macros e in rename ms (rename ms (rename ms m)))"

definition leak_fn :: "penv \<Rightarrow> string \<Rightarrow> string" where
  "leak_fn e m = (let e = leak_env e in macro_fn e (rename (leak_macros e) m))"

lemma rename_simps:
  "rename [] m = m"
  "rename ((n, f, args) # ms) m = (if m = n then f else rename ms m)"
  by (simp_all add: rename_def)

section \<open>What the collector documents\<close>

text \<open>
  The functions of the library by name, with their effect on its state. A registration yields the
  values that it writes through its last two arguments, or \<^term>\<open>None\<close> when there is no memory to
  register a finalizer and they stay unchanged. Pointers to functions are addresses, 0 is \<open>NULL\<close>.
\<close>

record 'g gc_funs =
  alloc :: "string \<Rightarrow> nat \<Rightarrow> 'g \<Rightarrow> 'g \<times> nat"
  free_fn :: "string \<Rightarrow> nat \<Rightarrow> 'g \<Rightarrow> 'g"
  register_finalizer :: "string \<Rightarrow> nat \<Rightarrow> nat \<Rightarrow> nat \<Rightarrow> 'g \<Rightarrow> 'g \<times> (nat \<times> nat) option"
  GC_base :: "nat \<Rightarrow> 'g \<Rightarrow> nat"

datatype obj_kind = Normal | Atomic | Uncollectable | Atomic_Uncollectable

record heap_obj =
  extent :: nat
  kind :: obj_kind

text \<open>
  What a client sees of the state: the objects that it can still reach, by their base addresses, and
  their finalizers; and the size of the header that the debugging functions put in front of an object.
\<close>

record 'g gc_view =
  objs :: "'g \<Rightarrow> nat \<Rightarrow> heap_obj option"
  fin :: "'g \<Rightarrow> nat \<Rightarrow> (nat \<times> nat) option"
  debug_header :: nat

definition is_debug :: "string \<Rightarrow> bool" where
  "is_debug f \<longleftrightarrow> take 9 f = ''GC_debug_''"

definition header :: "'g gc_view \<Rightarrow> string \<Rightarrow> nat" where
  "header v f = (if is_debug f then debug_header v else 0)"

definition alloc_kinds :: "(string \<times> obj_kind) list" where
  "alloc_kinds =
    [(''GC_malloc'', Normal), (''GC_debug_malloc'', Normal), (''GC_debug_malloc_replacement'', Normal),
     (''GC_malloc_ignore_off_page'', Normal), (''GC_debug_malloc_ignore_off_page'', Normal),
     (''GC_malloc_atomic'', Atomic), (''GC_debug_malloc_atomic'', Atomic),
     (''GC_malloc_atomic_ignore_off_page'', Atomic), (''GC_debug_malloc_atomic_ignore_off_page'', Atomic),
     (''GC_malloc_uncollectable'', Uncollectable), (''GC_debug_malloc_uncollectable'', Uncollectable),
     (''GC_malloc_atomic_uncollectable'', Atomic_Uncollectable),
     (''GC_debug_malloc_atomic_uncollectable'', Atomic_Uncollectable)]"

text \<open>\<open>covers v g b p\<close>: the address \<open>p\<close> lies in the object at \<open>b\<close>.\<close>

definition covers :: "'g gc_view \<Rightarrow> 'g \<Rightarrow> nat \<Rightarrow> nat \<Rightarrow> bool" where
  "covers v g b p \<longleftrightarrow> (\<exists>ob. objs v g b = Some ob \<and> b \<le> p \<and> p < b + extent ob)"

text \<open>The result \<open>p\<close> is a new object of kind \<open>k\<close> with room for \<open>n\<close> bytes behind its header.\<close>

definition allocated :: "'g gc_view \<Rightarrow> string \<Rightarrow> obj_kind \<Rightarrow> nat \<Rightarrow> nat \<Rightarrow> 'g \<Rightarrow> 'g \<Rightarrow> bool" where
  "allocated v f k n p g g' \<longleftrightarrow>
    (\<exists>b ob. 0 < b \<and> p = b + header v f \<and> objs v g b = None \<and> objs v g' = (objs v g)(b \<mapsto> ob)
      \<and> kind ob = k \<and> header v f + n \<le> extent ob \<and> header v f < extent ob
      \<and> (\<forall>q. b \<le> q \<and> q < b + extent ob \<longrightarrow> (\<forall>b'. \<not> covers v g b' q))
      \<and> fin v g b = None \<and> fin v g' = fin v g)"

definition unchanged :: "'g gc_view \<Rightarrow> 'g \<Rightarrow> 'g \<Rightarrow> bool" where
  "unchanged v g g' \<longleftrightarrow> objs v g' = objs v g \<and> fin v g' = fin v g"

definition heap_law :: "'g gc_view \<Rightarrow> 'g gc_funs \<Rightarrow> bool" where
  "heap_law v lib \<longleftrightarrow> (\<forall>f k n g g' p. (f, k) \<in> set alloc_kinds \<and> alloc lib f n g = (g', p) \<longrightarrow>
     (if p = 0 then unchanged v g g' else allocated v f k n p g g'))"

text \<open>
  \<open>GC_free\<close> requires the base of an object, \<open>GC_debug_free\<close> what a debugging function returned; the
  object should not be enabled for finalization. Freeing \<open>NULL\<close> does nothing.
\<close>

definition may_free :: "'g gc_view \<Rightarrow> string \<Rightarrow> nat \<Rightarrow> 'g \<Rightarrow> bool" where
  "may_free v f p g \<longleftrightarrow> p = 0 \<or>
     (\<exists>b. objs v g b \<noteq> None \<and> p = b + header v f \<and> fin v g b = None)"

definition free_law :: "'g gc_view \<Rightarrow> 'g gc_funs \<Rightarrow> bool" where
  "free_law v lib \<longleftrightarrow> (\<forall>f p g. f \<in> {''GC_free'', ''GC_debug_free''} \<and> may_free v f p g \<longrightarrow>
     (if p = 0 then unchanged v g (free_fn lib f p g)
      else objs v (free_fn lib f p g) = (objs v g)(p - header v f := None) \<and> fin v (free_fn lib f p g) = fin v g))"

definition base_law :: "'g gc_view \<Rightarrow> 'g gc_funs \<Rightarrow> bool" where
  "base_law v lib \<longleftrightarrow> (\<forall>p g. (\<forall>b. covers v g b p \<longrightarrow> 0 < b \<and> GC_base lib p g = b)
     \<and> ((\<forall>b. \<not> covers v g b p) \<longrightarrow> GC_base lib p g = 0))"

definition set_fin :: "nat \<Rightarrow> nat \<Rightarrow> nat \<Rightarrow> (nat \<Rightarrow> (nat \<times> nat) option) \<Rightarrow> nat \<Rightarrow> (nat \<times> nat) option" where
  "set_fin b fn cd m = m(b := if fn = 0 then None else Some (fn, cd))"

definition register_law :: "'g gc_view \<Rightarrow> 'g gc_funs \<Rightarrow> bool" where
  "register_law v lib \<longleftrightarrow> (\<forall>f b fn cd g g' old.
     f \<in> {''GC_register_finalizer_ignore_self'', ''GC_debug_register_finalizer_ignore_self''} \<and> objs v g b \<noteq> None
     \<and> register_finalizer lib f (b + header v f) fn cd g = (g', old) \<longrightarrow>
       objs v g' = objs v g
       \<and> (case old of None \<Rightarrow> fn \<noteq> 0 \<and> fin v g' = fin v g
          | Some o' \<Rightarrow> fin v g' = set_fin b fn cd (fin v g)
              \<and> o' = (case fin v g b of None \<Rightarrow> (0, 0) | Some fc \<Rightarrow> fc)))"

section \<open>Allocating and freeing with the same macros\<close>

definition alloc_macros :: "string list" where
  "alloc_macros = [''GC_MALLOC'', ''GC_MALLOC_ATOMIC'', ''GC_MALLOC_UNCOLLECTABLE'', ''GC_MALLOC_ATOMIC_UNCOLLECTABLE'',
     ''GC_MALLOC_IGNORE_OFF_PAGE'', ''GC_MALLOC_ATOMIC_IGNORE_OFF_PAGE'', ''GC_NEW'', ''GC_NEW_ATOMIC'',
     ''GC_NEW_UNCOLLECTABLE'', ''GC_MALLOC_STUBBORN'', ''GC_NEW_STUBBORN'']"

text \<open>The macros that \<open>GC_DEBUG_REPLACEMENT\<close> redirects.\<close>

definition malloc_based :: "string \<Rightarrow> bool" where
  "malloc_based m \<longleftrightarrow> m \<in> set [''GC_MALLOC'', ''GC_NEW'', ''GC_MALLOC_STUBBORN'', ''GC_NEW_STUBBORN'']"

definition macro_kind :: "string \<Rightarrow> obj_kind" where
  "macro_kind m =
    (if m \<in> set [''GC_MALLOC_ATOMIC'', ''GC_MALLOC_ATOMIC_IGNORE_OFF_PAGE'', ''GC_NEW_ATOMIC''] then Atomic
     else if m \<in> set [''GC_MALLOC_UNCOLLECTABLE'', ''GC_NEW_UNCOLLECTABLE''] then Uncollectable
     else if m = ''GC_MALLOC_ATOMIC_UNCOLLECTABLE'' then Atomic_Uncollectable else Normal)"

text \<open>
  Which function a macro ends in depends on two macros of the client only. The names are taken from the
  tables with a fixed state of the preprocessor, which can be evaluated.
\<close>

definition plain_env :: "bool \<Rightarrow> bool \<Rightarrow> penv" where
  "plain_env repl dbg = Map.empty(''GC_DEBUG_REPLACEMENT'' := if repl then Some Empty else None,
     ''GC_DEBUG'' := if dbg then Some Empty else None)"

lemma plain_env_defd:
  "defd (plain_env repl dbg) ''GC_DEBUG_REPLACEMENT'' = repl" "defd (plain_env repl dbg) ''GC_DEBUG'' = dbg"
  "\<not> defd (plain_env repl dbg) ''GC_REQUIRE_WCSDUP''"
  by (simp_all add: plain_env_def defd_def)

abbreviation drop_args :: "(string \<times> expansion) list \<Rightarrow> (string \<times> string) list" where
  "drop_args ms \<equiv> map (\<lambda>(m, f, args). (m, f)) ms"

lemma rename_drop_args: "rename ms m = (case map_of (drop_args ms) m of Some f \<Rightarrow> f | None \<Rightarrow> m)"
  by (induction ms) (auto simp: rename_def fun_upd_apply)

lemma rename_plain_env:
  assumes "m \<noteq> ''GC_WCSDUP''"
  shows "rename (gc_macros e) m =
    rename (gc_macros (plain_env (defd e ''GC_DEBUG_REPLACEMENT'') (defd e ''GC_DEBUG''))) m"
proof -
  let ?p = "plain_env (defd e ''GC_DEBUG_REPLACEMENT'') (defd e ''GC_DEBUG'')"
  have "drop_args (malloc_macros e) = drop_args (malloc_macros ?p)"
    by (simp add: malloc_macros_def plain_env_defd)
  moreover have "drop_args (debug_macros e) = drop_args (debug_macros ?p)" by (simp add: debug_macros_def)
  moreover have "map_of (drop_args (wcsdup_macros e)) m = None" "wcsdup_macros ?p = []"
    using assms by (simp_all add: wcsdup_macros_def plain_env_defd)
  ultimately have "map_of (drop_args (gc_macros e)) m = map_of (drop_args (gc_macros ?p)) m"
    by (cases "defd e ''GC_DEBUG''") (simp_all add: gc_macros_def plain_env_defd map_add_def del: map_of_eq_None_iff split: option.split)
  then show ?thesis by (simp only: rename_drop_args)
qed

definition client_macros :: "string list" where
  "client_macros = ''GC_FREE'' # ''GC_REGISTER_FINALIZER_IGNORE_SELF'' # alloc_macros"

lemma client_macros_eval:
  assumes "m \<in> set client_macros"
  shows "macro_fn e m = macro_fn (plain_env (defd e ''GC_DEBUG_REPLACEMENT'') (defd e ''GC_DEBUG'')) m"
proof -
  define ok where "ok r d \<longleftrightarrow> list_all (\<lambda>m. m \<noteq> ''GC_WCSDUP'' \<and> rename (gc_macros (plain_env r d)) m \<noteq> ''GC_WCSDUP''
    \<and> rename (gc_macros (plain_env r d)) (rename (gc_macros (plain_env r d)) m) \<noteq> ''GC_WCSDUP'') client_macros" for r d
  have "ok False False" "ok False True" "ok True False" "ok True True" unfolding ok_def by code_simp+
  then have "ok (defd e ''GC_DEBUG_REPLACEMENT'') (defd e ''GC_DEBUG'')"
    by (cases "defd e ''GC_DEBUG_REPLACEMENT''"; cases "defd e ''GC_DEBUG''") simp_all
  then show ?thesis
    using assms rename_plain_env [of _ e] by (simp add: macro_fn_def Let_def ok_def list_all_iff)
qed

text \<open>The calls that the macros make.\<close>

definition gc_alloc :: "penv \<Rightarrow> 'g gc_funs \<Rightarrow> string \<Rightarrow> nat \<Rightarrow> 'g \<Rightarrow> 'g \<times> nat" where
  "gc_alloc e lib m n g = alloc lib (macro_fn e m) n g"

definition GC_FREE :: "penv \<Rightarrow> 'g gc_funs \<Rightarrow> nat \<Rightarrow> 'g \<Rightarrow> 'g" where
  "GC_FREE e lib p g = free_fn lib (macro_fn e ''GC_FREE'') p g"

definition GC_REGISTER_FINALIZER_IGNORE_SELF ::
  "penv \<Rightarrow> 'g gc_funs \<Rightarrow> nat \<Rightarrow> nat \<Rightarrow> nat \<Rightarrow> 'g \<Rightarrow> 'g \<times> (nat \<times> nat) option" where
  "GC_REGISTER_FINALIZER_IGNORE_SELF e lib p fn cd g =
     register_finalizer lib (macro_fn e ''GC_REGISTER_FINALIZER_IGNORE_SELF'') p fn cd g"

text \<open>The functions behind the macros, in the order of \<^term>\<open>client_macros\<close>.\<close>

definition fn_table :: "bool \<Rightarrow> bool \<Rightarrow> string list" where
  "fn_table r d =
    (if d then
       (let m = (if r then ''GC_debug_malloc_replacement'' else ''GC_debug_malloc'') in
        [''GC_debug_free'', ''GC_debug_register_finalizer_ignore_self'', m, ''GC_debug_malloc_atomic'',
         ''GC_debug_malloc_uncollectable'', ''GC_debug_malloc_atomic_uncollectable'', ''GC_debug_malloc_ignore_off_page'',
         ''GC_debug_malloc_atomic_ignore_off_page'', m, ''GC_debug_malloc_atomic'', ''GC_debug_malloc_uncollectable'', m, m])
     else
       (let m = (if r then ''GC_debug_malloc_replacement'' else ''GC_malloc'') in
        [''GC_free'', ''GC_register_finalizer_ignore_self'', m, ''GC_malloc_atomic'',
         ''GC_malloc_uncollectable'', ''GC_malloc_atomic_uncollectable'', ''GC_malloc_ignore_off_page'',
         ''GC_malloc_atomic_ignore_off_page'', m, ''GC_malloc_atomic'', ''GC_malloc_uncollectable'', m, m]))"

lemma macro_table: "map (macro_fn (plain_env r d)) client_macros = fn_table r d"
  by (induct r; induct d; code_simp)

lemma client_macro_cases:
  assumes "m \<in> set client_macros"
    and "\<And>r d. list_all (\<lambda>(m, f). P r d f m) (zip client_macros (fn_table r d))"
  shows "P (defd e ''GC_DEBUG_REPLACEMENT'') (defd e ''GC_DEBUG'') (macro_fn e m) m"
proof -
  let ?p = "plain_env (defd e ''GC_DEBUG_REPLACEMENT'') (defd e ''GC_DEBUG'')"
  have "(m, macro_fn ?p m) \<in> set (zip client_macros (map (macro_fn ?p) client_macros))"
    using assms(1) by (simp add: zip_map2 zip_same_conv_map image_iff)
  then have "P (defd e ''GC_DEBUG_REPLACEMENT'') (defd e ''GC_DEBUG'') (macro_fn ?p m) m"
    using assms(2) unfolding macro_table list_all_iff by blast
  then show ?thesis unfolding client_macros_eval [OF assms(1), of e] .
qed

lemma alloc_macro_kind:
  assumes "m \<in> set alloc_macros"
  shows "(macro_fn e m, macro_kind m) \<in> set alloc_kinds"
proof -
  have "m \<in> {''GC_FREE'', ''GC_REGISTER_FINALIZER_IGNORE_SELF''} \<or> (macro_fn e m, macro_kind m) \<in> set alloc_kinds"
  proof (rule client_macro_cases [of m "\<lambda>r d f m. m \<in> {''GC_FREE'', ''GC_REGISTER_FINALIZER_IGNORE_SELF''}
      \<or> (f, macro_kind m) \<in> set alloc_kinds"])
    show "m \<in> set client_macros" using assms by (simp add: client_macros_def)
    show "list_all (\<lambda>(m, f). m \<in> {''GC_FREE'', ''GC_REGISTER_FINALIZER_IGNORE_SELF''}
        \<or> (f, macro_kind m) \<in> set alloc_kinds) (zip client_macros (fn_table r d))" for r d
      by (simp add: client_macros_def alloc_macros_def fn_table_def Let_def alloc_kinds_def macro_kind_def)
  qed
  then show ?thesis using assms by (auto simp: alloc_macros_def)
qed

lemma macro_is_debug:
  assumes "m \<in> set client_macros"
  shows "is_debug (macro_fn e m) \<longleftrightarrow> defd e ''GC_DEBUG'' \<or> (defd e ''GC_DEBUG_REPLACEMENT'' \<and> malloc_based m)"
  by (rule client_macro_cases [of m "\<lambda>r d f m. is_debug f \<longleftrightarrow> d \<or> (r \<and> malloc_based m)", OF assms])
    (simp add: client_macros_def alloc_macros_def fn_table_def Let_def is_debug_def malloc_based_def)

lemma free_and_register_fn:
  "macro_fn e ''GC_FREE'' = (if defd e ''GC_DEBUG'' then ''GC_debug_free'' else ''GC_free'')"
  "macro_fn e ''GC_REGISTER_FINALIZER_IGNORE_SELF'' =
     (if defd e ''GC_DEBUG'' then ''GC_debug_register_finalizer_ignore_self'' else ''GC_register_finalizer_ignore_self'')"
proof -
  have table: "macro_fn (plain_env r d) ''GC_FREE'' = (if d then ''GC_debug_free'' else ''GC_free'')"
    "macro_fn (plain_env r d) ''GC_REGISTER_FINALIZER_IGNORE_SELF'' =
      (if d then ''GC_debug_register_finalizer_ignore_self'' else ''GC_register_finalizer_ignore_self'')" for r d
    using macro_table [of r d] by (simp_all add: client_macros_def fn_table_def Let_def split: if_splits)
  have "macro_fn e m = macro_fn (plain_env (defd e ''GC_DEBUG_REPLACEMENT'') (defd e ''GC_DEBUG'')) m"
    if "m \<in> {''GC_FREE'', ''GC_REGISTER_FINALIZER_IGNORE_SELF''}" for m
    by (rule client_macros_eval) (use that in \<open>auto simp: client_macros_def\<close>)
  then show "macro_fn e ''GC_FREE'' = (if defd e ''GC_DEBUG'' then ''GC_debug_free'' else ''GC_free'')"
    "macro_fn e ''GC_REGISTER_FINALIZER_IGNORE_SELF'' =
     (if defd e ''GC_DEBUG'' then ''GC_debug_register_finalizer_ignore_self'' else ''GC_register_finalizer_ignore_self'')"
    by (simp_all only: table insert_iff simp_thms)
qed

text \<open>Under the leak detector \<open>malloc\<close>, \<open>calloc\<close> and \<open>free\<close> are debugging functions, whatever the client defines.\<close>

lemma leak_functions:
  "leak_fn e ''free'' = ''GC_debug_free''" "is_debug (leak_fn e ''malloc'')" "is_debug (leak_fn e ''calloc'')"
proof -
  have d: "defd (leak_env e) ''GC_DEBUG''" by (simp add: leak_env_def defd_simps)
  have "rename (leak_macros e') ''free'' = ''GC_FREE''" "rename (leak_macros e') ''malloc'' = ''GC_MALLOC''"
    "rename (leak_macros e') ''calloc'' = ''GC_MALLOC''" for e'
    by (simp_all add: leak_macros_def rename_simps)
  then show "leak_fn e ''free'' = ''GC_debug_free''" "is_debug (leak_fn e ''malloc'')" "is_debug (leak_fn e ''calloc'')"
    using d macro_is_debug [of "''GC_MALLOC''" "leak_env e"] free_and_register_fn(1) [of "leak_env e"]
    by (simp_all add: leak_fn_def Let_def client_macros_def alloc_macros_def)
qed

text \<open>Objects are not empty.\<close>

definition view_ok :: "'g gc_view \<Rightarrow> 'g \<Rightarrow> bool" where
  "view_ok v g \<longleftrightarrow> (\<forall>b ob. objs v g b = Some ob \<longrightarrow> 0 < extent ob)"

lemma allocated_may_free:
  assumes "allocated v f k n p g g'" "is_debug f = is_debug f'"
  shows "may_free v f' p g'"
  using assms by (auto simp: allocated_def may_free_def header_def)

lemma allocated_freed:
  assumes "free_law v lib" "allocated v f k n p g g'" "p \<noteq> 0" "is_debug f = is_debug f'"
    and "f' \<in> {''GC_free'', ''GC_debug_free''}"
  shows "unchanged v g (free_fn lib f' p g')"
proof -
  obtain b ob where b: "p = b + header v f'" "objs v g b = None" "objs v g' = (objs v g)(b \<mapsto> ob)" "fin v g' = fin v g"
    using assms(2,4) unfolding allocated_def header_def by auto
  have "may_free v f' p g'" by (rule allocated_may_free [OF assms(2,4)])
  then have "objs v (free_fn lib f' p g') = (objs v g')(p - header v f' := None) \<and> fin v (free_fn lib f' p g') = fin v g'"
    using assms(1,3,5) unfolding free_law_def by (metis (full_types))
  then show ?thesis using b fun_upd_idem_iff [of "objs v g" b None] by (simp add: unchanged_def)
qed

lemma allocated_debug_not_plain:
  assumes "allocated v f k n p g g'" "is_debug f" "\<not> is_debug f'" "0 < debug_header v" "view_ok v g"
  shows "\<not> may_free v f' p g'"
proof
  assume free: "may_free v f' p g'"
  obtain b ob where b: "0 < b" "p = b + debug_header v" "objs v g' = (objs v g)(b \<mapsto> ob)"
    "debug_header v < extent ob" "\<And>q b'. b \<le> q \<Longrightarrow> q < b + extent ob \<Longrightarrow> \<not> covers v g b' q"
    using assms(1,2) unfolding allocated_def header_def by auto
  obtain b' where "objs v g' b' \<noteq> None" "p = b'"
    using free b(1,2) assms(3) by (auto simp: may_free_def header_def)
  then obtain ob' where "objs v g p = Some ob'" using b(2,3) assms(4) by (auto split: if_splits)
  then have "covers v g p p" using assms(5) by (simp add: covers_def view_ok_def)
  then show False using b(2,4,5) by simp
qed

text \<open>
  C15. What the allocation macros return may be given to \<open>GC_FREE\<close> of the same configuration, and to
  no other function than the matching one: only with \<open>GC_DEBUG_REPLACEMENT\<close> and without \<open>GC_DEBUG\<close> does
  \<open>GC_MALLOC\<close>, with the macros that are built on it, return an object with a debugging header, while
  \<open>GC_FREE\<close> is \<open>GC_free\<close>, which requires the base of the object.
\<close>

theorem free_matches_alloc:
  assumes "heap_law v lib" "view_ok v g" "0 < debug_header v"
    and "m \<in> set alloc_macros" "gc_alloc e lib m n g = (g', p)" "p \<noteq> 0"
  shows "may_free v (macro_fn e ''GC_FREE'') p g' \<longleftrightarrow>
    defd e ''GC_DEBUG'' \<or> \<not> (defd e ''GC_DEBUG_REPLACEMENT'' \<and> malloc_based m)"
proof -
  let ?f = "macro_fn e m" and ?free = "macro_fn e ''GC_FREE''"
  have m: "m \<in> set client_macros" "''GC_FREE'' \<in> set client_macros"
    using assms(4) by (simp_all add: client_macros_def)
  have new: "allocated v ?f (macro_kind m) n p g g'"
    using assms(1,5,6) alloc_macro_kind [OF assms(4)] by (simp add: heap_law_def gc_alloc_def)
  have "is_debug ?free \<longleftrightarrow> defd e ''GC_DEBUG''"
    using macro_is_debug [OF m(2), of e] by (simp add: malloc_based_def)
  then show ?thesis
    using allocated_may_free [OF new, of ?free] allocated_debug_not_plain [OF new _ _ assms(3,2), of ?free]
      macro_is_debug [OF m(1), of e] by blast
qed

end
