(* ===== verification/Gc_Heap_Ref.thy ===== *)
theory Gc_Heap_Ref
  imports Gc_Alloc
begin

text \<open>
  A small collector that keeps the laws of \<open>Gc_Alloc\<close>: its objects lie one behind the other from
  address 1 on, and its memory is limited to a megabyte. It shows that the laws can hold together, and
  the examples of the properties run on it.
\<close>

section \<open>Cells\<close>

text \<open>A cell has one byte more than its length, so that no object is empty.\<close>

record cell =
  len :: nat
  cell_kind :: obj_kind
  live :: bool
  cell_fin :: "(nat \<times> nat) option"

type_synonym cells = "cell list"

fun place_cells :: "nat \<Rightarrow> cells \<Rightarrow> (nat \<times> cell) list" where
  "place_cells s [] = []"
| "place_cells s (c # cs) = (s, c) # place_cells (s + Suc (len c)) cs"

definition total :: "cells \<Rightarrow> nat" where
  "total cs = sum_list (map (\<lambda>c. Suc (len c)) cs)"

lemma total_simps [simp]: "total [] = 0" "total (c # cs) = Suc (len c) + total cs"
  by (simp_all add: total_def)

lemma place_cells_append: "place_cells s (xs @ ys) = place_cells s xs @ place_cells (s + total xs) ys"
  by (induction xs arbitrary: s) (simp_all add: add.assoc)

lemma place_range: "(b, c) \<in> set (place_cells s cs) \<Longrightarrow> s \<le> b \<and> b + Suc (len c) \<le> s + total cs"
  by (induction cs arbitrary: s) fastforce+

lemma place_unique:
  assumes "(b, c) \<in> set (place_cells s cs)" "(b', c') \<in> set (place_cells s cs)"
    and "b \<le> q" "q \<le> b + len c" "b' \<le> q" "q \<le> b' + len c'"
  shows "(b, c) = (b', c')"
  using assms
proof (induction cs arbitrary: s)
  case (Cons d cs)
  have "x + Suc (len e) \<le> b \<or> x = s \<and> e = d \<or> s + Suc (len d) \<le> x"
    if "(x, e) \<in> set (place_cells s (d # cs))" for x e
    using that place_range [of x e "s + Suc (len d)" cs] by auto
  with Cons show ?case
    using place_range [of b c "s + Suc (len d)" cs] place_range [of b' c' "s + Suc (len d)" cs] by fastforce
qed simp

lemma place_distinct: "distinct (map fst (place_cells s cs))"
proof (induction cs arbitrary: s)
  case (Cons c cs)
  have "s \<notin> fst ` set (place_cells (s + Suc (len c)) cs)"
    using place_range [of s _ "s + Suc (len c)" cs] by fastforce
  with Cons show ?case by simp
qed simp

definition cell_at :: "cells \<Rightarrow> nat \<Rightarrow> cell option" where
  "cell_at cs b = map_of (place_cells 1 cs) b"

lemma cell_at_iff: "cell_at cs b = Some c \<longleftrightarrow> (b, c) \<in> set (place_cells 1 cs)"
  by (simp add: cell_at_def place_distinct)

definition upd_cell :: "nat \<Rightarrow> (cell \<Rightarrow> cell) \<Rightarrow> cells \<Rightarrow> cells" where
  "upd_cell b h cs = map (\<lambda>(a, c). if a = b then h c else c) (place_cells 1 cs)"

lemma place_upd:
  assumes "\<And>c. len (h c) = len c"
  shows "place_cells s (map (\<lambda>(a, c). if a = b then h c else c) (place_cells s cs)) =
    map (\<lambda>(a, c). (a, if a = b then h c else c)) (place_cells s cs)"
  by (induction cs arbitrary: s) (simp_all add: assms)

lemma cell_at_upd:
  assumes "\<And>c. len (h c) = len c"
  shows "cell_at (upd_cell b h cs) a = (if a = b then map_option h (cell_at cs a) else cell_at cs a)"
proof -
  have "map_of (map (\<lambda>(a, c). (a, if a = b then h c else c)) xs) a =
      (if a = b then map_option h (map_of xs a) else map_of xs a)" for xs
    by (induction xs) (auto simp: fun_upd_apply)
  then show ?thesis by (simp add: cell_at_def upd_cell_def place_upd [OF assms])
qed

section \<open>The collector\<close>

definition ref_view :: "cells gc_view" where
  "ref_view = \<lparr>objs = (\<lambda>cs b. case cell_at cs b of
       Some c \<Rightarrow> if live c then Some \<lparr>extent = Suc (len c), kind = cell_kind c\<rparr> else None | None \<Rightarrow> None),
     fin = (\<lambda>cs b. case cell_at cs b of Some c \<Rightarrow> if live c then cell_fin c else None | None \<Rightarrow> None),
     debug_header = 16\<rparr>"

definition ref_alloc :: "string \<Rightarrow> nat \<Rightarrow> cells \<Rightarrow> cells \<times> nat" where
  "ref_alloc f n cs =
    (let h = header ref_view f; b = 1 + total cs in
     if b + h + n \<le> 1048576
     then (cs @ [\<lparr>len = h + n, cell_kind = the (map_of alloc_kinds f), live = True, cell_fin = None\<rparr>], b + h)
     else (cs, 0))"

definition ref_free :: "string \<Rightarrow> nat \<Rightarrow> cells \<Rightarrow> cells" where
  "ref_free f p cs = (if p = 0 then cs
     else upd_cell (p - header ref_view f) (\<lambda>c. c\<lparr>live := False, cell_fin := None\<rparr>) cs)"

definition ref_register :: "string \<Rightarrow> nat \<Rightarrow> nat \<Rightarrow> nat \<Rightarrow> cells \<Rightarrow> cells \<times> (nat \<times> nat) option" where
  "ref_register f p fn cd cs =
    (let b = p - header ref_view f in
     (upd_cell b (\<lambda>c. c\<lparr>cell_fin := if fn = 0 then None else Some (fn, cd)\<rparr>) cs,
      Some (case fin ref_view cs b of None \<Rightarrow> (0, 0) | Some fc \<Rightarrow> fc)))"

definition ref_base :: "nat \<Rightarrow> cells \<Rightarrow> nat" where
  "ref_base p cs = (case find (\<lambda>(b, c). live c \<and> b \<le> p \<and> p \<le> b + len c) (place_cells 1 cs) of
     Some (b, c) \<Rightarrow> b | None \<Rightarrow> 0)"

definition ref_funs :: "cells gc_funs" where
  "ref_funs = \<lparr>alloc = ref_alloc, free_fn = ref_free, register_finalizer = ref_register, GC_base = ref_base\<rparr>"

lemma covers_ref: "covers ref_view cs b p \<longleftrightarrow> (\<exists>c. cell_at cs b = Some c \<and> live c \<and> b \<le> p \<and> p \<le> b + len c)"
  by (auto simp: covers_def ref_view_def split: option.splits if_splits)

lemma covers_below: "covers ref_view cs b p \<Longrightarrow> 0 < b \<and> p < 1 + total cs"
  using place_range [of b _ 1 cs] by (fastforce simp: covers_ref cell_at_iff)

lemma ref_view_ok: "view_ok ref_view cs"
  by (auto simp: view_ok_def ref_view_def split: option.splits if_splits)

lemma cell_at_end: "cell_at cs (Suc (total cs)) = None"
  using place_range [of "1 + total cs" _ 1 cs] cell_at_iff [of cs "1 + total cs"] by fastforce

lemma cell_at_append: "cell_at (cs @ [c]) b = (if b = 1 + total cs then Some c else cell_at cs b)"
  using cell_at_end [of cs] by (simp add: cell_at_def place_cells_append map_add_def fun_upd_apply split: option.split)

lemma ref_alloc_new:
  assumes "(f, k) \<in> set alloc_kinds" "ref_alloc f n cs = (cs', p)" "p \<noteq> 0"
  shows "allocated ref_view f k n p cs cs'"
proof -
  let ?h = "header ref_view f" and ?b = "Suc (total cs)"
  let ?c = "\<lparr>len = ?h + n, cell_kind = k, live = True, cell_fin = None\<rparr>"
  have "distinct (map fst alloc_kinds)" by code_simp
  then have "map_of alloc_kinds f = Some k" using assms(1) by (simp add: map_of_eq_Some_iff)
  then have cs': "cs' = cs @ [?c]" "p = ?b + ?h"
    using assms(2,3) by (auto simp: ref_alloc_def Let_def split: if_splits)
  have at: "cell_at cs' b = (if b = ?b then Some ?c else cell_at cs b)" for b
    by (simp add: cs' cell_at_append)
  have "objs ref_view cs ?b = None" "fin ref_view cs ?b = None"
    by (simp_all add: ref_view_def cell_at_end)
  moreover have "objs ref_view cs' = (objs ref_view cs)(?b \<mapsto> \<lparr>extent = Suc (?h + n), kind = k\<rparr>)"
    by (rule ext) (simp add: ref_view_def at)
  moreover have "fin ref_view cs' = fin ref_view cs"
    by (rule ext) (simp add: ref_view_def at cell_at_end)
  moreover have "\<forall>q. ?b \<le> q \<longrightarrow> (\<forall>b'. \<not> covers ref_view cs b' q)" using covers_below by fastforce
  ultimately show ?thesis
    unfolding allocated_def cs'(2)
    by (intro exI [of _ ?b] exI [of _ "\<lparr>extent = Suc (?h + n), kind = k\<rparr>"]) simp
qed

lemma ref_heap_law: "heap_law ref_view ref_funs"
  unfolding heap_law_def
proof (intro allI impI)
  fix f k n cs cs' p
  assume a: "(f, k) \<in> set alloc_kinds \<and> alloc ref_funs f n cs = (cs', p)"
  show "if p = 0 then unchanged ref_view cs cs' else allocated ref_view f k n p cs cs'"
  proof (cases "p = 0")
    case True
    then have "cs' = cs" using a by (auto simp: ref_funs_def ref_alloc_def Let_def split: if_splits)
    then show ?thesis using True by (simp add: unchanged_def)
  next
    case False
    then show ?thesis using a ref_alloc_new by (simp add: ref_funs_def)
  qed
qed

lemma ref_base_law: "base_law ref_view ref_funs"
  unfolding base_law_def
proof (intro allI conjI impI)
  fix p cs b assume c: "covers ref_view cs b p"
  show "0 < b" using covers_below [OF c] by simp
  let ?P = "\<lambda>(b, c). live c \<and> b \<le> p \<and> p \<le> b + len c"
  obtain d where d: "(b, d) \<in> set (place_cells 1 cs)" "live d" "b \<le> p" "p \<le> b + len d"
    using c by (auto simp: covers_ref cell_at_iff)
  then obtain b' d' where f: "find ?P (place_cells 1 cs) = Some (b', d')"
    using find_None_iff [of ?P "place_cells 1 cs"] by (cases "find ?P (place_cells 1 cs)") auto
  then have "(b', d') \<in> set (place_cells 1 cs)" "?P (b', d')" by (auto simp: find_Some_iff) (metis nth_mem)
  then have "(b, d) = (b', d')" using place_unique [OF d(1) _ d(3,4)] by auto
  then show "GC_base ref_funs p cs = b" using f by (simp add: ref_funs_def ref_base_def)
next
  fix p cs assume "\<forall>b. \<not> covers ref_view cs b p"
  then have "find (\<lambda>(b, c). live c \<and> b \<le> p \<and> p \<le> b + len c) (place_cells 1 cs) = None"
    by (auto simp: find_None_iff covers_ref cell_at_iff)
  then show "GC_base ref_funs p cs = 0" by (simp add: ref_funs_def ref_base_def)
qed

lemma ref_free_law: "free_law ref_view ref_funs"
  unfolding free_law_def
proof (intro allI impI)
  fix f p cs
  let ?b = "p - header ref_view f"
  assume a: "f \<in> {''GC_free'', ''GC_debug_free''} \<and> may_free ref_view f p cs"
  show "if p = 0 then unchanged ref_view cs (free_fn ref_funs f p cs)
    else objs ref_view (free_fn ref_funs f p cs) = (objs ref_view cs)(?b := None)
      \<and> fin ref_view (free_fn ref_funs f p cs) = fin ref_view cs"
  proof (cases "p = 0")
    case True
    then show ?thesis by (simp add: ref_funs_def ref_free_def unchanged_def)
  next
    case False
    then have "fin ref_view cs ?b = None" using a by (auto simp: may_free_def)
    then show ?thesis using False
      by (auto simp: ref_funs_def ref_free_def ref_view_def cell_at_upd fun_eq_iff split: option.splits)
  qed
qed

lemma ref_register_law: "register_law ref_view ref_funs"
  unfolding register_law_def
  by (auto simp: ref_funs_def ref_register_def Let_def ref_view_def cell_at_upd set_fin_def fun_eq_iff
      split: option.splits if_splits)

lemmas ref_laws = ref_heap_law ref_base_law ref_free_law ref_register_law

section \<open>Examples\<close>

theorem free_matches_alloc_witness:
  "may_free ref_view (macro_fn (plain_env True True) ''GC_FREE'') 17
     (fst (gc_alloc (plain_env True True) ref_funs ''GC_NEW'' 8 []))
   \<and> \<not> may_free ref_view (macro_fn (plain_env True False) ''GC_FREE'') 17
     (fst (gc_alloc (plain_env True False) ref_funs ''GC_NEW'' 8 []))"
proof -
  have 1: "gc_alloc (plain_env True d) ref_funs ''GC_NEW'' 8 [] =
      (fst (gc_alloc (plain_env True d) ref_funs ''GC_NEW'' 8 []), 17)" for d
  proof -
    have "is_debug (macro_fn (plain_env True d) ''GC_NEW'')"
      using macro_is_debug [of "''GC_NEW''" "plain_env True d"]
      by (simp add: client_macros_def alloc_macros_def plain_env_defd malloc_based_def)
    then show ?thesis by (simp add: gc_alloc_def ref_funs_def ref_alloc_def header_def ref_view_def)
  qed
  have "''GC_NEW'' \<in> set alloc_macros" "malloc_based ''GC_NEW''" "0 < debug_header ref_view"
    by (simp_all add: alloc_macros_def malloc_based_def ref_view_def)
  then show ?thesis
    using free_matches_alloc [OF ref_heap_law ref_view_ok _ _ 1, of True]
      free_matches_alloc [OF ref_heap_law ref_view_ok _ _ 1, of False]
    by (simp add: plain_env_defd)
qed

end
