(* ===== verification/Gc_Cpp.thy ===== *)
theory Gc_Cpp
  imports Gc_Heap_Ref
begin

text \<open>
  The C++ interface of the collector (\<open>gc/gc_cpp.h\<close>): the configuration, the operators \<open>new\<close> and \<open>delete\<close> of
  the class \<open>gc\<close> and of the global scope, and the class \<open>gc_cleanup\<close>, whose constructors and destructors
  register and remove the finalizer that runs the destructors of an object.
\<close>

section \<open>Configuration\<close>

definition no_operator_new_array :: "penv \<Rightarrow> penv" where
  "no_operator_new_array e = def_if (\<not> defd e ''GC_NO_OPERATOR_NEW_ARRAY'' \<and> \<not> defd e ''_ENABLE_ARRAYNEW''
       \<and> (defd e ''__BORLANDC__'' \<and> num e ''__BORLANDC__'' < 0x450
          \<or> (defd e ''__GNUC__'' \<and> \<not> GC_GNUC_PREREQ e 2 6)
          \<or> (defd e ''_MSC_VER'' \<and> num e ''_MSC_VER'' \<le> 1020)
          \<or> (defd e ''__WATCOMC__'' \<and> num e ''__WATCOMC__'' < 1050)))
     ''GC_NO_OPERATOR_NEW_ARRAY'' Empty e"

definition operator_new_array :: "penv \<Rightarrow> penv" where
  "operator_new_array e = def_if (\<not> defd e ''GC_NO_OPERATOR_NEW_ARRAY'' \<and> \<not> defd e ''GC_OPERATOR_NEW_ARRAY'')
     ''GC_OPERATOR_NEW_ARRAY'' Empty e"

definition placement_delete :: "penv \<Rightarrow> penv" where
  "placement_delete e = def_if ((\<not> defd e ''__BORLANDC__'' \<or> 0x0620 < num e ''__BORLANDC__'')
       \<and> \<not> defd e ''__sgi'' \<and> \<not> defd e ''__WATCOMC__''
       \<and> (\<not> defd e ''_MSC_VER'' \<or> 1020 < num e ''_MSC_VER''))
     ''GC_PLACEMENT_DELETE'' Empty e"

definition gc_cpp_config :: "penv \<Rightarrow> penv" where
  "gc_cpp_config e = placement_delete (operator_new_array (no_operator_new_array e))"

interpretation no_array: pp_step no_operator_new_array "[''GC_NO_OPERATOR_NEW_ARRAY'']"
  by unfold_locales (simp add: no_operator_new_array_def def_if_frame)

interpretation new_array: pp_step operator_new_array "[''GC_OPERATOR_NEW_ARRAY'']"
  by unfold_locales (simp add: operator_new_array_def def_if_frame)

interpretation placement: pp_step placement_delete "[''GC_PLACEMENT_DELETE'']"
  by unfold_locales (simp add: placement_delete_def def_if_frame)

lemma operator_new_array_decided:
  "defd (gc_cpp_config e) ''GC_NO_OPERATOR_NEW_ARRAY'' \<or> defd (gc_cpp_config e) ''GC_OPERATOR_NEW_ARRAY''"
proof -
  have "defd (operator_new_array e) ''GC_NO_OPERATOR_NEW_ARRAY'' \<or> defd (operator_new_array e) ''GC_OPERATOR_NEW_ARRAY''" for e
    by (simp add: operator_new_array_def defd_simps) blast
  then show ?thesis by (simp add: gc_cpp_config_def placement.defd_frame)
qed

section \<open>Operators\<close>

text \<open>Running out of memory: an exception, or the end of the program.\<close>

datatype new_error = Bad_alloc | Abort_on_oom

definition oom_error :: "penv \<Rightarrow> new_error" where
  "oom_error e = (if defd e ''GC_NEW_ABORTS_ON_OOM'' \<or> defd e ''_LIBCPP_NO_EXCEPTIONS'' then Abort_on_oom else Bad_alloc)"

definition GC_OP_NEW_OOM_CHECK :: "penv \<Rightarrow> 'g \<times> nat \<Rightarrow> 'g \<times> (new_error + nat)" where
  "GC_OP_NEW_OOM_CHECK e r = (case r of (g, obj) \<Rightarrow> (g, if obj \<noteq> 0 then Inr obj else Inl (oom_error e)))"

text \<open>Without \<open>GC_ATOMIC_UNCOLLECTABLE\<close> there is no \<open>PointerFreeNoGC\<close>, and its value is a default case.\<close>

datatype GCPlacement = UseGC | NoGC | PointerFreeGC | PointerFreeNoGC

fun placement_macro :: "penv \<Rightarrow> GCPlacement \<Rightarrow> string" where
  "placement_macro e UseGC = ''GC_MALLOC''"
| "placement_macro e PointerFreeGC = ''GC_MALLOC_ATOMIC''"
| "placement_macro e PointerFreeNoGC =
     (if defd e ''GC_ATOMIC_UNCOLLECTABLE'' then ''GC_MALLOC_ATOMIC_UNCOLLECTABLE'' else ''GC_MALLOC_UNCOLLECTABLE'')"
| "placement_macro e NoGC = ''GC_MALLOC_UNCOLLECTABLE''"

definition gc_operator_new :: "penv \<Rightarrow> 'g gc_funs \<Rightarrow> nat \<Rightarrow> 'g \<Rightarrow> 'g \<times> (new_error + nat)" where
  "gc_operator_new e lib sz g = GC_OP_NEW_OOM_CHECK e (gc_alloc e lib ''GC_MALLOC'' sz g)"

definition gc_operator_new_gcp :: "penv \<Rightarrow> 'g gc_funs \<Rightarrow> nat \<Rightarrow> GCPlacement \<Rightarrow> 'g \<Rightarrow> 'g \<times> (new_error + nat)" where
  "gc_operator_new_gcp e lib sz gcp g = GC_OP_NEW_OOM_CHECK e (gc_alloc e lib (placement_macro e gcp) sz g)"

definition gc_operator_new_at :: "nat \<Rightarrow> nat \<Rightarrow> 'g \<Rightarrow> 'g \<times> nat" where
  "gc_operator_new_at sz p g = (g, p)"

definition gc_operator_delete :: "penv \<Rightarrow> 'g gc_funs \<Rightarrow> nat \<Rightarrow> 'g \<Rightarrow> 'g" where
  "gc_operator_delete e lib obj g = GC_FREE e lib obj g"

definition gc_operator_delete_at :: "nat \<Rightarrow> nat \<Rightarrow> 'g \<Rightarrow> 'g" where
  "gc_operator_delete_at p q g = g"

definition gc_operator_delete_gcp :: "penv \<Rightarrow> 'g gc_funs \<Rightarrow> nat \<Rightarrow> GCPlacement \<Rightarrow> 'g \<Rightarrow> 'g" where
  "gc_operator_delete_gcp e lib p gcp g = GC_FREE e lib p g"

definition gc_operator_new_array :: "penv \<Rightarrow> 'g gc_funs \<Rightarrow> nat \<Rightarrow> 'g \<Rightarrow> 'g \<times> (new_error + nat)" where
  "gc_operator_new_array e lib sz = gc_operator_new e lib sz"

definition gc_operator_new_array_gcp ::
  "penv \<Rightarrow> 'g gc_funs \<Rightarrow> nat \<Rightarrow> GCPlacement \<Rightarrow> 'g \<Rightarrow> 'g \<times> (new_error + nat)" where
  "gc_operator_new_array_gcp e lib sz gcp = gc_operator_new_gcp e lib sz gcp"

definition gc_operator_new_array_at :: "nat \<Rightarrow> nat \<Rightarrow> 'g \<Rightarrow> 'g \<times> nat" where
  "gc_operator_new_array_at sz p g = (g, p)"

definition gc_operator_delete_array :: "penv \<Rightarrow> 'g gc_funs \<Rightarrow> nat \<Rightarrow> 'g \<Rightarrow> 'g" where
  "gc_operator_delete_array e lib obj = gc_operator_delete e lib obj"

definition gc_operator_delete_array_at :: "nat \<Rightarrow> nat \<Rightarrow> 'g \<Rightarrow> 'g" where
  "gc_operator_delete_array_at p q g = g"

definition gc_operator_delete_array_gcp :: "penv \<Rightarrow> 'g gc_funs \<Rightarrow> nat \<Rightarrow> GCPlacement \<Rightarrow> 'g \<Rightarrow> 'g" where
  "gc_operator_delete_array_gcp e lib p gcp = gc_operator_delete e lib p"

text \<open>When the operators of the global scope are defined inline.\<close>

definition std_new_inlined :: "penv \<Rightarrow> bool" where
  "std_new_inlined e \<longleftrightarrow> \<not> defd e ''GC_NO_INLINE_STD_NEW''
     \<and> (any_def e [''_MSC_VER'', ''__DMC__'']
        \<or> (any_def e [''__BORLANDC__'', ''__CYGWIN__'', ''__CYGWIN32__'', ''__MINGW32__'', ''__WATCOMC__'']
           \<and> \<not> defd e ''GC_BUILD'' \<and> \<not> defd e ''GC_NOT_DLL''))"

definition std_operator_new :: "penv \<Rightarrow> 'g gc_funs \<Rightarrow> nat \<Rightarrow> 'g \<Rightarrow> 'g \<times> (new_error + nat)" where
  "std_operator_new e lib sz g = GC_OP_NEW_OOM_CHECK e (gc_alloc e lib ''GC_MALLOC_UNCOLLECTABLE'' sz g)"

definition std_operator_delete :: "penv \<Rightarrow> 'g gc_funs \<Rightarrow> nat \<Rightarrow> 'g \<Rightarrow> 'g" where
  "std_operator_delete e lib obj g = GC_FREE e lib obj g"

definition std_operator_new_array :: "penv \<Rightarrow> 'g gc_funs \<Rightarrow> nat \<Rightarrow> 'g \<Rightarrow> 'g \<times> (new_error + nat)" where
  "std_operator_new_array e lib sz g = GC_OP_NEW_OOM_CHECK e (gc_alloc e lib ''GC_MALLOC_UNCOLLECTABLE'' sz g)"

definition std_operator_delete_array :: "penv \<Rightarrow> 'g gc_funs \<Rightarrow> nat \<Rightarrow> 'g \<Rightarrow> 'g" where
  "std_operator_delete_array e lib obj g = GC_FREE e lib obj g"

text \<open>The sized forms of C++14 ignore the size.\<close>

definition std_operator_delete_sized :: "penv \<Rightarrow> 'g gc_funs \<Rightarrow> nat \<Rightarrow> nat \<Rightarrow> 'g \<Rightarrow> 'g" where
  "std_operator_delete_sized e lib obj sz g = GC_FREE e lib obj g"

definition std_operator_delete_array_sized :: "penv \<Rightarrow> 'g gc_funs \<Rightarrow> nat \<Rightarrow> nat \<Rightarrow> 'g \<Rightarrow> 'g" where
  "std_operator_delete_array_sized e lib obj sz g = GC_FREE e lib obj g"

definition msvc_operator_new :: "penv \<Rightarrow> 'g gc_funs \<Rightarrow> nat \<Rightarrow> 'g \<Rightarrow> 'g \<times> (new_error + nat)" where
  "msvc_operator_new e lib sz g = GC_OP_NEW_OOM_CHECK e
     (alloc lib (if defd e ''GC_DEBUG'' then ''GC_debug_malloc_uncollectable'' else ''GC_malloc_uncollectable'') sz g)"

definition msvc_operator_new_array :: "penv \<Rightarrow> 'g gc_funs \<Rightarrow> nat \<Rightarrow> 'g \<Rightarrow> 'g \<times> (new_error + nat)" where
  "msvc_operator_new_array e lib sz = msvc_operator_new e lib sz"

text \<open>The placement form with a clean-up function, which is registered for collectible objects only.\<close>

definition operator_new_cleanup ::
  "penv \<Rightarrow> 'g gc_funs \<Rightarrow> nat \<Rightarrow> GCPlacement \<Rightarrow> nat \<Rightarrow> nat \<Rightarrow> 'g \<Rightarrow> 'g \<times> (new_error + nat)" where
  "operator_new_cleanup e lib sz gcp cleanup clientData g =
    (let (g, obj) = gc_alloc e lib (placement_macro e gcp) sz g;
         g = (if gcp = UseGC \<and> cleanup \<noteq> 0 \<and> obj \<noteq> 0
              then fst (GC_REGISTER_FINALIZER_IGNORE_SELF e lib obj cleanup clientData g) else g)
     in GC_OP_NEW_OOM_CHECK e (g, obj))"

definition operator_delete_cleanup :: "penv \<Rightarrow> 'g gc_funs \<Rightarrow> nat \<Rightarrow> GCPlacement \<Rightarrow> nat \<Rightarrow> nat \<Rightarrow> 'g \<Rightarrow> 'g" where
  "operator_delete_cleanup e lib p gcp cleanup clientData g = GC_FREE e lib p g"

definition operator_new_array_cleanup ::
  "penv \<Rightarrow> 'g gc_funs \<Rightarrow> nat \<Rightarrow> GCPlacement \<Rightarrow> nat \<Rightarrow> nat \<Rightarrow> 'g \<Rightarrow> 'g \<times> (new_error + nat)" where
  "operator_new_array_cleanup e lib sz gcp cleanup clientData =
     operator_new_cleanup e lib sz gcp cleanup clientData"

section \<open>The class \<open>gc_cleanup\<close>\<close>

text \<open>\<open>cl\<close> is the address of \<open>gc_cleanup::cleanup\<close>; the variables \<open>oldProc\<close> and \<open>oldData\<close> start as 0.\<close>

definition gc_cleanup_ctor :: "'g gc_funs \<Rightarrow> nat \<Rightarrow> nat \<Rightarrow> 'g \<Rightarrow> 'g" where
  "gc_cleanup_ctor lib cl this g =
    (let base = GC_base lib this g in
     if base \<noteq> 0 then
       (let (g, old) = register_finalizer lib ''GC_register_finalizer_ignore_self'' base cl (this - base) g;
            (oldProc, oldData) = (case old of None \<Rightarrow> (0, 0) | Some o' \<Rightarrow> o')
        in if oldProc \<noteq> 0
           then fst (register_finalizer lib ''GC_register_finalizer_ignore_self'' base oldProc oldData g) else g)
     else g)"

definition gc_cleanup_dtor :: "'g gc_funs \<Rightarrow> nat \<Rightarrow> 'g \<Rightarrow> 'g" where
  "gc_cleanup_dtor lib this g =
    (let base = GC_base lib this g in
     if base = 0 then g
     else fst (register_finalizer lib ''GC_register_finalizer_ignore_self'' base 0 0 g))"

text \<open>The finalizer calls the virtual destructor, which depends on the class of the object.\<close>

definition gc_cleanup_cleanup :: "(nat \<Rightarrow> 'g \<Rightarrow> 'g) \<Rightarrow> nat \<Rightarrow> nat \<Rightarrow> 'g \<Rightarrow> 'g" where
  "gc_cleanup_cleanup destructor obj displ g = destructor (obj + displ) g"

text \<open>
  The construction of an object runs the constructors of its subobjects of class \<open>gc_cleanup\<close> in order,
  and \<open>delete\<close> their destructors in reverse order, then the operator.
\<close>

definition construct :: "'g gc_funs \<Rightarrow> nat \<Rightarrow> nat list \<Rightarrow> 'g \<Rightarrow> 'g" where
  "construct lib cl ts = fold (gc_cleanup_ctor lib cl) ts"

definition destroy :: "'g gc_funs \<Rightarrow> nat list \<Rightarrow> 'g \<Rightarrow> 'g" where
  "destroy lib ts = fold (gc_cleanup_dtor lib) (rev ts)"

definition delete_object :: "penv \<Rightarrow> 'g gc_funs \<Rightarrow> nat list \<Rightarrow> nat \<Rightarrow> 'g \<Rightarrow> 'g" where
  "delete_object e lib ts p g = gc_operator_delete e lib p (destroy lib ts g)"

section \<open>Finalizers of one object\<close>

text \<open>A registered finalizer is a function, and a library that never lacks memory for one.\<close>

definition fin_ok :: "'g gc_view \<Rightarrow> 'g \<Rightarrow> bool" where
  "fin_ok v g \<longleftrightarrow> (\<forall>b fn cd. fin v g b = Some (fn, cd) \<longrightarrow> fn \<noteq> 0)"

definition register_total :: "'g gc_funs \<Rightarrow> bool" where
  "register_total lib \<longleftrightarrow> (\<forall>f p fn cd g. snd (register_finalizer lib f p fn cd g) \<noteq> None)"

lemma register_plain:
  assumes "register_law v lib" "objs v g b \<noteq> None"
    and "register_finalizer lib ''GC_register_finalizer_ignore_self'' b fn cd g = (g', old)"
  shows "objs v g' = objs v g"
    and "old = None \<Longrightarrow> fn \<noteq> 0 \<and> fin v g' = fin v g"
    and "old = Some o' \<Longrightarrow> fin v g' = set_fin b fn cd (fin v g) \<and> o' = (case fin v g b of None \<Rightarrow> (0, 0) | Some fc \<Rightarrow> fc)"
proof -
  let ?f = "''GC_register_finalizer_ignore_self''"
  have "b + header v ?f = b" by (simp add: header_def is_debug_def)
  then have "objs v g' = objs v g \<and> (case old of None \<Rightarrow> fn \<noteq> 0 \<and> fin v g' = fin v g
      | Some o' \<Rightarrow> fin v g' = set_fin b fn cd (fin v g) \<and> o' = (case fin v g b of None \<Rightarrow> (0, 0) | Some fc \<Rightarrow> fc))"
    using assms unfolding register_law_def by (metis insertI1)
  then show "objs v g' = objs v g" "old = None \<Longrightarrow> fn \<noteq> 0 \<and> fin v g' = fin v g"
    "old = Some o' \<Longrightarrow> fin v g' = set_fin b fn cd (fin v g) \<and> o' = (case fin v g b of None \<Rightarrow> (0, 0) | Some fc \<Rightarrow> fc)"
    by auto
qed

lemma covers_cong: "objs v g' = objs v g \<Longrightarrow> covers v g' b p = covers v g b p"
  by (simp add: covers_def)

lemma covers_base:
  assumes "base_law v lib" "covers v g b t"
  shows "GC_base lib t g = b" "0 < b" "objs v g b \<noteq> None"
  using assms unfolding base_law_def by (blast, blast, auto simp: covers_def)

text \<open>One constructor: the finalizer that is there wins, and only this object is touched.\<close>

definition registers :: "'g gc_view \<Rightarrow> nat \<Rightarrow> nat \<Rightarrow> nat set \<Rightarrow> 'g \<Rightarrow> 'g \<Rightarrow> bool" where
  "registers v cl b ts g g' \<longleftrightarrow> objs v g' = objs v g \<and> fin_ok v g' \<and> (\<forall>b'. b' \<noteq> b \<longrightarrow> fin v g' b' = fin v g b')
     \<and> (fin v g' b = fin v g b \<or> (\<exists>t\<in>ts. fin v g' b = Some (cl, t - b)))"

lemma ctor_registers:
  assumes laws: "base_law v lib" "register_law v lib" and "covers v g b t" "fin_ok v g" "cl \<noteq> 0"
  shows "registers v cl b {t} g (gc_cleanup_ctor lib cl t g)"
    and "register_total lib \<Longrightarrow> fin v (gc_cleanup_ctor lib cl t g) b =
      (case fin v g b of None \<Rightarrow> Some (cl, t - b) | Some fc \<Rightarrow> Some fc)"
proof -
  let ?f = "''GC_register_finalizer_ignore_self''"
  note b = covers_base [OF laws(1) assms(3)]
  obtain g1 old where r1: "register_finalizer lib ?f b cl (t - b) g = (g1, old)" by fastforce
  note r1' = register_plain [OF laws(2) b(3) r1]
  define od where "od = (case old of None \<Rightarrow> (0, 0) | Some o' \<Rightarrow> o')"
  obtain g2 old2 where r2: "register_finalizer lib ?f b (fst od) (snd od) g1 = (g2, old2)" by fastforce
  have "objs v g1 b \<noteq> None" using b(3) r1'(1) by simp
  note r2' = register_plain [OF laws(2) this r2]
  have eq: "gc_cleanup_ctor lib cl t g = (if fst od \<noteq> 0 then g2 else g1)"
    using b(1,2) r1 r2 by (simp add: gc_cleanup_ctor_def Let_def od_def case_prod_beta)
  show "registers v cl b {t} g (gc_cleanup_ctor lib cl t g)"
    unfolding eq registers_def using r1' r2' assms(4,5)
    by (cases old; cases old2; cases "fin v g b") (auto simp: od_def set_fin_def fin_ok_def fun_upd_apply split: if_splits)
  assume "register_total lib"
  then have "old \<noteq> None" "old2 \<noteq> None" using r1 r2 unfolding register_total_def by (metis snd_conv)+
  then obtain o1 o2 where o: "old = Some o1" "old2 = Some o2" by blast
  have od: "od = (case fin v g b of None \<Rightarrow> (0, 0) | Some fc \<Rightarrow> fc)" using r1'(3) [OF o(1)] o(1) by (simp add: od_def)
  show "fin v (gc_cleanup_ctor lib cl t g) b = (case fin v g b of None \<Rightarrow> Some (cl, t - b) | Some fc \<Rightarrow> Some fc)"
  proof (cases "fin v g b")
    case None
    then show ?thesis unfolding eq using r1'(3) [OF o(1)] assms(5) by (simp add: od set_fin_def)
  next
    case (Some fc)
    then have "fst fc \<noteq> 0" using assms(4) by (cases fc) (auto simp: fin_ok_def)
    then show ?thesis unfolding eq using r2'(3) [OF o(2)] Some by (simp add: od set_fin_def)
  qed
qed

lemma registers_trans:
  assumes "registers v cl b S g g1" "registers v cl b T g1 g2"
  shows "registers v cl b (S \<union> T) g g2"
  using assms by (auto simp: registers_def)

lemma construct_registers:
  assumes laws: "base_law v lib" "register_law v lib" and "cl \<noteq> 0"
  shows "list_all (covers v g b) ts \<Longrightarrow> fin_ok v g \<Longrightarrow> registers v cl b (set ts) g (construct lib cl ts g)"
proof (induction ts arbitrary: g)
  case Nil
  then show ?case by (simp add: construct_def registers_def)
next
  case (Cons t ts)
  let ?g = "gc_cleanup_ctor lib cl t g"
  have t: "registers v cl b {t} g ?g" using ctor_registers(1) [OF laws] Cons.prems assms(3) by simp
  then have "objs v ?g = objs v g" "fin_ok v ?g" by (simp_all add: registers_def)
  then have "registers v cl b (set ts) ?g (construct lib cl ts ?g)"
    using Cons.IH Cons.prems(1) by (simp add: covers_cong [of v ?g g] list_all_iff)
  from registers_trans [OF t this] show ?case by (simp add: construct_def)
qed

lemma construct_first:
  assumes laws: "base_law v lib" "register_law v lib" and "cl \<noteq> 0" "register_total lib"
  shows "list_all (covers v g b) ts \<Longrightarrow> fin_ok v g \<Longrightarrow> ts \<noteq> [] \<Longrightarrow>
    fin v (construct lib cl ts g) b = (case fin v g b of None \<Rightarrow> Some (cl, hd ts - b) | Some fc \<Rightarrow> Some fc)"
proof (induction ts arbitrary: g)
  case (Cons t ts)
  let ?g = "gc_cleanup_ctor lib cl t g"
  have t: "registers v cl b {t} g ?g" using ctor_registers(1) [OF laws] Cons.prems assms(3) by simp
  then have ok: "objs v ?g = objs v g" "fin_ok v ?g" by (simp_all add: registers_def)
  have f: "fin v ?g b = (case fin v g b of None \<Rightarrow> Some (cl, t - b) | Some fc \<Rightarrow> Some fc)"
    using ctor_registers(2) [OF laws _ _ assms(3,4)] Cons.prems by simp
  show ?case
  proof (cases "ts = []")
    case True
    then show ?thesis using f by (simp add: construct_def split: option.split)
  next
    case False
    then have "fin v (construct lib cl ts ?g) b = fin v ?g b"
      using Cons.IH [of ?g] ok Cons.prems(1) f
      by (cases "fin v g b") (simp_all add: covers_cong [of v ?g g] list_all_iff)
    then show ?thesis using f by (simp add: construct_def split: option.split)
  qed
qed simp

text \<open>One destructor removes the finalizer; removing needs no memory.\<close>

lemma dtor_unregisters:
  assumes "base_law v lib" "register_law v lib" "covers v g b t"
  shows "objs v (gc_cleanup_dtor lib t g) = objs v g" "fin v (gc_cleanup_dtor lib t g) = (fin v g)(b := None)"
proof -
  note b = covers_base [OF assms(1,3)]
  obtain g' old where r: "register_finalizer lib ''GC_register_finalizer_ignore_self'' b 0 0 g = (g', old)" by fastforce
  have "gc_cleanup_dtor lib t g = g'" using b(1,2) r by (simp add: gc_cleanup_dtor_def Let_def)
  moreover have "objs v g' = objs v g" "fin v g' = (fin v g)(b := None)"
    using register_plain [OF assms(2) b(3) r] by (cases old; simp add: set_fin_def)+
  ultimately show "objs v (gc_cleanup_dtor lib t g) = objs v g"
    "fin v (gc_cleanup_dtor lib t g) = (fin v g)(b := None)" by simp_all
qed

lemma destroy_unregisters:
  assumes "base_law v lib" "register_law v lib" "list_all (covers v g b) ts"
  shows "objs v (destroy lib ts g) = objs v g"
    and "fin v (destroy lib ts g) = (if ts = [] then fin v g else (fin v g)(b := None))"
proof -
  have "objs v (fold (gc_cleanup_dtor lib) us g) = objs v g
      \<and> fin v (fold (gc_cleanup_dtor lib) us g) = (if us = [] then fin v g else (fin v g)(b := None))"
    if "list_all (covers v g b) us" for us g
    using that
  proof (induction us arbitrary: g)
    case (Cons t us)
    have "covers v g b t" using Cons.prems by simp
    note t = dtor_unregisters [OF assms(1,2) this]
    have "list_all (covers v (gc_cleanup_dtor lib t g) b) us"
      using Cons.prems by (simp add: list_all_iff covers_cong [OF t(1)])
    from Cons.IH [OF this] show ?case by (simp add: t)
  qed simp
  from this [of g "rev ts"] assms(3) show "objs v (destroy lib ts g) = objs v g"
    "fin v (destroy lib ts g) = (if ts = [] then fin v g else (fin v g)(b := None))"
    by (simp_all add: destroy_def list_all_rev)
qed

section \<open>Properties of the C++ interface\<close>

text \<open>
  The forms of \<open>new\<close> that allocate, with the kind of object that they make: all but the one that is given
  an address.
\<close>

definition placement_kind :: "penv \<Rightarrow> GCPlacement \<Rightarrow> obj_kind" where
  "placement_kind e gcp = macro_kind (placement_macro e gcp)"

definition new_operators :: "penv \<Rightarrow> 'g gc_funs \<Rightarrow> nat \<Rightarrow> (('g \<Rightarrow> 'g \<times> (new_error + nat)) \<times> obj_kind) list" where
  "new_operators e lib sz =
     [(gc_operator_new e lib sz, Normal), (gc_operator_new_array e lib sz, Normal),
      (std_operator_new e lib sz, Uncollectable), (std_operator_new_array e lib sz, Uncollectable),
      (msvc_operator_new e lib sz, Uncollectable), (msvc_operator_new_array e lib sz, Uncollectable)]
     @ concat (map (\<lambda>gcp. [(gc_operator_new_gcp e lib sz gcp, placement_kind e gcp),
          (gc_operator_new_array_gcp e lib sz gcp, placement_kind e gcp),
          (operator_new_cleanup e lib sz gcp 0 0, placement_kind e gcp),
          (operator_new_array_cleanup e lib sz gcp 0 0, placement_kind e gcp)])
        [UseGC, NoGC, PointerFreeGC, PointerFreeNoGC])"

lemma placement_macro_alloc: "placement_macro e gcp \<in> set alloc_macros"
  by (cases gcp) (simp_all add: alloc_macros_def)

lemma macro_in_kinds: "(macro_fn e (placement_macro e gcp), placement_kind e gcp) \<in> set alloc_kinds"
  unfolding placement_kind_def by (rule alloc_macro_kind [OF placement_macro_alloc])

lemma fixed_macros_in_kinds:
  "(macro_fn e ''GC_MALLOC'', Normal) \<in> set alloc_kinds"
  "(macro_fn e ''GC_MALLOC_UNCOLLECTABLE'', Uncollectable) \<in> set alloc_kinds"
  using alloc_macro_kind [of "''GC_MALLOC''" e] alloc_macro_kind [of "''GC_MALLOC_UNCOLLECTABLE''" e]
  by (simp_all add: alloc_macros_def macro_kind_def)

text \<open>Every one of them allocates with one function of the right kind and checks the result.\<close>

lemma new_operator_shape:
  assumes "(f, k) \<in> set (new_operators e lib sz)"
  shows "\<exists>fn. (fn, k) \<in> set alloc_kinds \<and> f = (\<lambda>g. GC_OP_NEW_OOM_CHECK e (alloc lib fn sz g))"
proof -
  let ?shape = "\<lambda>f k. \<exists>fn. (fn, k) \<in> set alloc_kinds \<and> f = (\<lambda>g. GC_OP_NEW_OOM_CHECK e (alloc lib fn sz g))"
  have clean: "operator_new_cleanup e lib sz gcp 0 0 = gc_operator_new_gcp e lib sz gcp" for gcp
    by (rule ext) (simp add: operator_new_cleanup_def gc_operator_new_gcp_def split: prod.split)
  have gcp: "?shape (gc_operator_new_gcp e lib sz gcp) (placement_kind e gcp)" for gcp
    by (rule exI [of _ "macro_fn e (placement_macro e gcp)"])
      (simp add: macro_in_kinds gc_operator_new_gcp_def gc_alloc_def fun_eq_iff)
  have new: "?shape (gc_operator_new e lib sz) Normal"
    by (rule exI [of _ "macro_fn e ''GC_MALLOC''"])
      (simp add: fixed_macros_in_kinds gc_operator_new_def gc_alloc_def fun_eq_iff)
  have std: "?shape (std_operator_new e lib sz) Uncollectable"
    by (rule exI [of _ "macro_fn e ''GC_MALLOC_UNCOLLECTABLE''"])
      (simp add: fixed_macros_in_kinds std_operator_new_def gc_alloc_def fun_eq_iff)
  have "std_operator_new_array e lib sz = std_operator_new e lib sz"
    by (simp add: std_operator_new_array_def std_operator_new_def fun_eq_iff)
  moreover have msvc: "?shape (msvc_operator_new e lib sz) Uncollectable"
    by (rule exI [of _ "if defd e ''GC_DEBUG'' then ''GC_debug_malloc_uncollectable'' else ''GC_malloc_uncollectable''"])
      (simp add: alloc_kinds_def msvc_operator_new_def fun_eq_iff)
  ultimately show ?thesis
    using assms new std gcp
    by (auto simp: new_operators_def clean gc_operator_new_array_def msvc_operator_new_array_def
        gc_operator_new_array_gcp_def operator_new_array_cleanup_def)
qed




lemma ref_register_total: "register_total ref_funs"
  by (simp add: register_total_def ref_funs_def ref_register_def Let_def)

definition one_object :: cells where
  "one_object = [\<lparr>len = 64, cell_kind = Normal, live = True, cell_fin = None\<rparr>]"

lemma one_object_covers: "covers ref_view one_object 1 t \<longleftrightarrow> 1 \<le> t \<and> t \<le> 65"
  by (auto simp: covers_ref one_object_def cell_at_def)

lemma one_object_fin: "fin ref_view one_object b = None"
  by (simp add: ref_view_def one_object_def cell_at_def fun_upd_apply)




end
