(* ===== verification/Gc_Allocator.thy ===== *)
theory Gc_Allocator
  imports Gc_Cpp
begin

text \<open>
  The allocators for the containers of the C++ library (\<open>gc/gc_allocator.h\<close>): \<open>gc_allocator\<close>, its form for
  large objects \<open>gc_allocator_ignore_off_page\<close>, and \<open>traceable_allocator\<close>. Sizes are words of the width
  of \<open>size_t\<close>, whose product wraps, and a type is known by its name.
\<close>

section \<open>Helpers\<close>

definition allocator_config :: "penv \<Rightarrow> penv" where
  "allocator_config e = def_if (\<not> defd e ''GC_NO_MEMBER_TEMPLATES'' \<and> defd e ''_MSC_VER'' \<and> num e ''_MSC_VER'' \<le> 1200)
     ''GC_NO_MEMBER_TEMPLATES'' Empty e"

definition GC_ALLOCATOR_THROW_OR_ABORT :: "penv \<Rightarrow> new_error" where
  "GC_ALLOCATOR_THROW_OR_ABORT e =
     (if defd e ''GC_NEW_ABORTS_ON_OOM'' \<or> defd e ''_LIBCPP_NO_EXCEPTIONS'' then Abort_on_oom else Bad_alloc)"

text \<open>The specialisations of \<open>GC_type_traits\<close> that the header makes; the client may add others.\<close>

definition declared_ptrfree :: "string list" where
  "declared_ptrfree = [''char'', ''signed char'', ''unsigned char'', ''signed short'', ''unsigned short'',
     ''signed int'', ''unsigned int'', ''signed long'', ''unsigned long'', ''float'', ''double'', ''long double'']"

definition GC_is_ptr_free :: "string list \<Rightarrow> string \<Rightarrow> bool" where
  "GC_is_ptr_free client T \<longleftrightarrow> T \<in> set (declared_ptrfree @ client)"

text \<open>The general template, and its specialisation for \<open>GC_true_type\<close>, which Watcom does not have.\<close>

definition selective_alloc_false :: "penv \<Rightarrow> 'g gc_funs \<Rightarrow> nat \<Rightarrow> bool \<Rightarrow> 'g \<Rightarrow> 'g \<times> (new_error + nat)" where
  "selective_alloc_false e lib n ignore_off_page g =
    (let (g, obj) = (if ignore_off_page then gc_alloc e lib ''GC_MALLOC_IGNORE_OFF_PAGE'' n g
                     else gc_alloc e lib ''GC_MALLOC'' n g)
     in if obj = 0 then (g, Inl (GC_ALLOCATOR_THROW_OR_ABORT e)) else (g, Inr obj))"

definition selective_alloc_true :: "penv \<Rightarrow> 'g gc_funs \<Rightarrow> nat \<Rightarrow> bool \<Rightarrow> 'g \<Rightarrow> 'g \<times> (new_error + nat)" where
  "selective_alloc_true e lib n ignore_off_page g =
    (let (g, obj) = (if ignore_off_page then gc_alloc e lib ''GC_MALLOC_ATOMIC_IGNORE_OFF_PAGE'' n g
                     else gc_alloc e lib ''GC_MALLOC_ATOMIC'' n g)
     in if obj = 0 then (g, Inl (GC_ALLOCATOR_THROW_OR_ABORT e)) else (g, Inr obj))"

definition GC_selective_alloc :: "penv \<Rightarrow> 'g gc_funs \<Rightarrow> nat \<Rightarrow> bool \<Rightarrow> bool \<Rightarrow> 'g \<Rightarrow> 'g \<times> (new_error + nat)" where
  "GC_selective_alloc e lib n ptr_free ignore_off_page =
    (if ptr_free \<and> \<not> defd e ''__WATCOMC__'' then selective_alloc_true e lib n ignore_off_page
     else selective_alloc_false e lib n ignore_off_page)"

section \<open>The allocators\<close>

text \<open>A type of the elements: its name, its size, and the types that the client has declared free of pointers.\<close>

record (overloaded) 's elem =
  tname :: string
  tsize :: "'s::len word"
  client_ptrfree :: "string list"

definition gc_allocator_allocate :: "penv \<Rightarrow> 'g gc_funs \<Rightarrow> 's::len elem \<Rightarrow> 's word \<Rightarrow> 'g \<Rightarrow> 'g \<times> (new_error + nat)" where
  "gc_allocator_allocate e lib T n =
     GC_selective_alloc e lib (unat (n * tsize T)) (GC_is_ptr_free (client_ptrfree T) (tname T)) False"

definition gc_allocator_deallocate :: "penv \<Rightarrow> 'g gc_funs \<Rightarrow> nat \<Rightarrow> 's::len word \<Rightarrow> 'g \<Rightarrow> 'g" where
  "gc_allocator_deallocate e lib p n = GC_FREE e lib p"

definition gc_allocator_max_size :: "'s::len elem \<Rightarrow> 's word" where
  "gc_allocator_max_size T = (- 1) div tsize T"

definition ignore_off_page_allocate :: "penv \<Rightarrow> 'g gc_funs \<Rightarrow> 's::len elem \<Rightarrow> 's word \<Rightarrow> 'g \<Rightarrow> 'g \<times> (new_error + nat)" where
  "ignore_off_page_allocate e lib T n =
     GC_selective_alloc e lib (unat (n * tsize T)) (GC_is_ptr_free (client_ptrfree T) (tname T)) True"

definition ignore_off_page_deallocate :: "penv \<Rightarrow> 'g gc_funs \<Rightarrow> nat \<Rightarrow> 's::len word \<Rightarrow> 'g \<Rightarrow> 'g" where
  "ignore_off_page_deallocate e lib p n = GC_FREE e lib p"

definition ignore_off_page_max_size :: "'s::len elem \<Rightarrow> 's word" where
  "ignore_off_page_max_size T = (- 1) div tsize T"

definition traceable_allocate :: "penv \<Rightarrow> 'g gc_funs \<Rightarrow> 's::len elem \<Rightarrow> 's word \<Rightarrow> 'g \<Rightarrow> 'g \<times> (new_error + nat)" where
  "traceable_allocate e lib T n g =
    (let (g, obj) = gc_alloc e lib ''GC_MALLOC_UNCOLLECTABLE'' (unat (n * tsize T)) g
     in if obj = 0 then (g, Inl (GC_ALLOCATOR_THROW_OR_ABORT e)) else (g, Inr obj))"

definition traceable_deallocate :: "penv \<Rightarrow> 'g gc_funs \<Rightarrow> nat \<Rightarrow> 's::len word \<Rightarrow> 'g \<Rightarrow> 'g" where
  "traceable_deallocate e lib p n = GC_FREE e lib p"

definition traceable_max_size :: "'s::len elem \<Rightarrow> 's word" where
  "traceable_max_size T = (- 1) div tsize T"

text \<open>
  The allocators have no state: any two of one class are equal, whatever their types of elements. To
  construct an element is to copy it to the address, to destroy it is to run its destructor.
\<close>

datatype allocator = gc_allocator | gc_allocator_ignore_off_page | traceable_allocator

fun allocator_eq :: "allocator \<times> 's elem \<Rightarrow> allocator \<times> 's elem \<Rightarrow> bool option" where
  "allocator_eq (a, T1) (b, T2) = (if a = b then Some True else None)"

fun allocator_neq :: "allocator \<times> 's elem \<Rightarrow> allocator \<times> 's elem \<Rightarrow> bool option" where
  "allocator_neq (a, T1) (b, T2) = (if a = b then Some False else None)"

definition allocator_construct :: "(nat \<Rightarrow> 'x \<Rightarrow> 'g \<Rightarrow> 'g) \<Rightarrow> nat \<Rightarrow> 'x \<Rightarrow> 'g \<Rightarrow> 'g" where
  "allocator_construct copy_ctor p val g = (let (g, obj) = gc_operator_new_at 0 p g in copy_ctor obj val g)"

definition allocator_destroy :: "(nat \<Rightarrow> 'g \<Rightarrow> 'g) \<Rightarrow> nat \<Rightarrow> 'g \<Rightarrow> 'g" where
  "allocator_destroy dtor p = dtor p"

fun allocate :: "allocator \<Rightarrow> penv \<Rightarrow> 'g gc_funs \<Rightarrow> 's::len elem \<Rightarrow> 's word \<Rightarrow> 'g \<Rightarrow> 'g \<times> (new_error + nat)" where
  "allocate gc_allocator = gc_allocator_allocate"
| "allocate gc_allocator_ignore_off_page = ignore_off_page_allocate"
| "allocate traceable_allocator = traceable_allocate"

fun deallocate :: "allocator \<Rightarrow> penv \<Rightarrow> 'g gc_funs \<Rightarrow> nat \<Rightarrow> 's::len word \<Rightarrow> 'g \<Rightarrow> 'g" where
  "deallocate gc_allocator = gc_allocator_deallocate"
| "deallocate gc_allocator_ignore_off_page = ignore_off_page_deallocate"
| "deallocate traceable_allocator = traceable_deallocate"

fun max_size :: "allocator \<Rightarrow> 's::len elem \<Rightarrow> 's word" where
  "max_size gc_allocator = gc_allocator_max_size"
| "max_size gc_allocator_ignore_off_page = ignore_off_page_max_size"
| "max_size traceable_allocator = traceable_max_size"

text \<open>The kind of the objects: of an allocator, its elements and the compiler.\<close>

definition elements_kind :: "penv \<Rightarrow> allocator \<Rightarrow> 's::len elem \<Rightarrow> obj_kind" where
  "elements_kind e a T =
    (if a = traceable_allocator then Uncollectable
     else if GC_is_ptr_free (client_ptrfree T) (tname T) \<and> \<not> defd e ''__WATCOMC__'' then Atomic else Normal)"

section \<open>Checked allocation\<close>

text \<open>
  What the allocators share with the operators \<open>new\<close>: one allocation macro and a check of the result. The
  clients need only this.
\<close>

locale checked_alloc =
  fixes op :: "penv \<Rightarrow> 'g gc_funs \<Rightarrow> 'a \<Rightarrow> 'g \<Rightarrow> 'g \<times> (new_error + nat)"
    and bytes :: "'a \<Rightarrow> nat"
    and macro :: "penv \<Rightarrow> string"
  assumes op_eq: "op e lib x g = GC_OP_NEW_OOM_CHECK e (gc_alloc e lib (macro e) (bytes x) g)"
    and macro_alloc: "macro e \<in> set alloc_macros"
begin

lemma result:
  assumes "heap_law v lib" "op e lib x g = (g', r)"
  shows "case r of Inr p \<Rightarrow> p \<noteq> 0 \<and> allocated v (macro_fn e (macro e)) (macro_kind (macro e)) (bytes x) p g g'
    | Inl err \<Rightarrow> unchanged v g g' \<and> err = oom_error e"
proof -
  obtain p where p: "alloc lib (macro_fn e (macro e)) (bytes x) g = (g', p)"
    "r = (if p \<noteq> 0 then Inr p else Inl (oom_error e))"
    using assms(2) by (cases "alloc lib (macro_fn e (macro e)) (bytes x) g")
      (auto simp: op_eq GC_OP_NEW_OOM_CHECK_def gc_alloc_def)
  have "if p = 0 then unchanged v g g' else allocated v (macro_fn e (macro e)) (macro_kind (macro e)) (bytes x) p g g'"
    using assms(1) alloc_macro_kind [OF macro_alloc] p(1) unfolding heap_law_def by blast
  then show ?thesis using p(2) by auto
qed

lemma freed:
  assumes "heap_law v lib" "free_law v lib" "defd e ''GC_DEBUG'' \<or> \<not> defd e ''GC_DEBUG_REPLACEMENT''"
    and "op e lib x g = (g', Inr p)"
  shows "unchanged v g (GC_FREE e lib p g')"
proof -
  have p: "p \<noteq> 0" "allocated v (macro_fn e (macro e)) (macro_kind (macro e)) (bytes x) p g g'"
    using result [OF assms(1,4)] by simp_all
  have "is_debug (macro_fn e (macro e)) = is_debug (macro_fn e ''GC_FREE'')"
    using assms(3) macro_is_debug [of "macro e" e] macro_is_debug [of "''GC_FREE''" e] macro_alloc [of e]
    by (auto simp: client_macros_def malloc_based_def)
  from allocated_freed [OF assms(2) p(2,1) this] show ?thesis
    by (simp add: GC_FREE_def free_and_register_fn)
qed

end

text \<open>The operators \<open>new\<close>, and the allocators with the macro that each of them uses.\<close>

interpretation op_new: checked_alloc gc_operator_new "\<lambda>n. n" "\<lambda>e. ''GC_MALLOC''"
  by unfold_locales (simp_all add: gc_operator_new_def alloc_macros_def)

interpretation op_new_gcp: checked_alloc "\<lambda>e lib n. gc_operator_new_gcp e lib n gcp" "\<lambda>n. n" "\<lambda>e. placement_macro e gcp" for gcp
  by unfold_locales (simp_all add: gc_operator_new_gcp_def placement_macro_alloc)

interpretation op_std_new: checked_alloc std_operator_new "\<lambda>n. n" "\<lambda>e. ''GC_MALLOC_UNCOLLECTABLE''"
  by unfold_locales (simp_all add: std_operator_new_def alloc_macros_def)

definition allocator_macro :: "penv \<Rightarrow> allocator \<Rightarrow> 's::len elem \<Rightarrow> string" where
  "allocator_macro e a T =
    (case elements_kind e a T of
       Uncollectable \<Rightarrow> ''GC_MALLOC_UNCOLLECTABLE''
     | Atomic \<Rightarrow> (if a = gc_allocator then ''GC_MALLOC_ATOMIC'' else ''GC_MALLOC_ATOMIC_IGNORE_OFF_PAGE'')
     | _ \<Rightarrow> (if a = gc_allocator then ''GC_MALLOC'' else ''GC_MALLOC_IGNORE_OFF_PAGE''))"

interpretation allocators: checked_alloc "\<lambda>e lib. allocate a e lib T" "\<lambda>n. unat (n * tsize T)" "\<lambda>e. allocator_macro e a T" for a T
proof unfold_locales
  show "allocator_macro e a T \<in> set alloc_macros" for e
    by (cases a) (simp_all add: allocator_macro_def elements_kind_def alloc_macros_def)
  show "allocate a e lib T n g = GC_OP_NEW_OOM_CHECK e (gc_alloc e lib (allocator_macro e a T) (unat (n * tsize T)) g)"
    for e n g and lib :: "'g gc_funs"
    by (cases a) (auto simp: allocator_macro_def elements_kind_def gc_allocator_allocate_def ignore_off_page_allocate_def
        traceable_allocate_def GC_selective_alloc_def selective_alloc_true_def selective_alloc_false_def
        GC_OP_NEW_OOM_CHECK_def GC_ALLOCATOR_THROW_OR_ABORT_def oom_error_def split: prod.split)
qed

lemma allocator_macro_kind: "macro_kind (allocator_macro e a T) = elements_kind e a T"
  by (cases a) (simp_all add: allocator_macro_def elements_kind_def macro_kind_def)

section \<open>Properties of the allocators\<close>

text \<open>\<open>max_size\<close> is exactly the bound below which the product of the sizes does not wrap.\<close>

lemma max_size_tight:
  assumes "tsize T \<noteq> 0"
  shows "n \<le> max_size a T \<longleftrightarrow> unat (n * tsize T) = unat n * unat (tsize T)"
proof -
  have s: "0 < unat (tsize T)" using assms by (simp add: unat_gt_0)
  have "unat (max_size a T) = (2 ^ LENGTH('a) - 1) div unat (tsize T)"
    by (cases a) (simp_all add: gc_allocator_max_size_def ignore_off_page_max_size_def traceable_max_size_def
        unat_div unsigned_minus_1_eq_mask mask_eq_exp_minus_1)
  then have "n \<le> max_size a T \<longleftrightarrow> unat n * unat (tsize T) \<le> 2 ^ LENGTH('a) - 1"
    using s by (simp add: word_le_nat_alt less_eq_div_iff_mult_less_eq)
  also have "\<dots> \<longleftrightarrow> unat n * unat (tsize T) < 2 ^ LENGTH('a)"
    by (metis One_nat_def Suc_pred le_imp_less_Suc less_Suc_eq_le zero_less_numeral zero_less_power)
  also have "\<dots> \<longleftrightarrow> unat (n * tsize T) = unat n * unat (tsize T)" by (rule unat_mult_lem)
  finally show ?thesis .
qed

lemma deallocate_free: "deallocate a e lib p n = GC_FREE e lib p"
  by (cases a) (simp_all add: gc_allocator_deallocate_def ignore_off_page_deallocate_def traceable_deallocate_def)



end
