(* ===== verification/Gc_Redirects.thy ===== *)
theory Gc_Redirects
  imports Gc_Config
begin

text \<open>
  The redirections of the thread functions: \<open>gc/gc_pthread_redirects.h\<close>, which \<open>gc.h\<close> includes for POSIX
  threads, and the part of \<open>gc.h\<close> for the threads of Windows. A collector that stops the world has to
  know every thread, so the calls that make and end threads are renamed to its own functions. The
  system headers that are included on the way are parameters.
\<close>

section \<open>POSIX threads\<close>

text \<open>\<open>#undef\<close> followed by \<open>#define\<close>, and the name that a call of a function is expanded to.\<close>

definition redirect :: "string \<Rightarrow> string \<Rightarrow> penv \<Rightarrow> penv" where
  "redirect f g e = def_macro f (Text g) (e(f := None))"

definition expand :: "penv \<Rightarrow> string \<Rightarrow> string" where
  "expand e f = (case e f of Some (Text g) \<Rightarrow> g | _ \<Rightarrow> f)"

text \<open>The macros and the functions that the first half of the header defines and declares.\<close>

definition pthread_decl_macros :: "penv \<Rightarrow> penv" where
  "pthread_decl_macros e =
    (let e = def_if (\<not> defd e ''GC_SUSPEND_THREAD_ID'') ''GC_SUSPEND_THREAD_ID'' (Text ''pthread_t'') e;
         e = def_if (\<not> defd e ''GC_PTHREAD_CREATE_CONST'') ''GC_PTHREAD_CREATE_CONST'' (Text ''const'') e
     in def_if (defd e ''GC_HAVE_PTHREAD_EXIT'' \<and> \<not> defd e ''GC_PTHREAD_EXIT_DECLARED'')
          ''GC_PTHREAD_EXIT_DECLARED'' Empty e)"

definition sigmask_declared :: "penv \<Rightarrow> bool" where
  "sigmask_declared e \<longleftrightarrow> any_def e [''GC_PTHREAD_SIGMASK_NEEDED'', ''_BSD_SOURCE'', ''_GNU_SOURCE'']
     \<or> 199506 \<le> num e ''_POSIX_C_SOURCE'' \<or> 500 \<le> num e ''_XOPEN_SOURCE''"

definition pthread_decls :: "penv \<Rightarrow> string list" where
  "pthread_decls e =
     (if defd e ''GC_NO_DLOPEN'' then [] else [''GC_dlopen''])
     @ (if \<not> defd e ''GC_NO_PTHREAD_SIGMASK'' \<and> sigmask_declared e then [''GC_pthread_sigmask''] else [])
     @ [''GC_pthread_create'', ''GC_pthread_join'', ''GC_pthread_detach'']
     @ (if defd e ''GC_NO_PTHREAD_CANCEL'' then [] else [''GC_pthread_cancel''])
     @ (if defd e ''GC_HAVE_PTHREAD_EXIT'' \<and> \<not> defd e ''GC_PTHREAD_EXIT_DECLARED'' then [''GC_pthread_exit''] else [])"

text \<open>The second half.\<close>

definition thread_redirects :: "penv \<Rightarrow> penv" where
  "thread_redirects e =
    (if \<not> defd e ''GC_NO_THREAD_REDIRECTS'' \<and> \<not> defd e ''GC_USE_LD_WRAP'' then
       (let e = redirect ''pthread_create'' ''GC_pthread_create'' e;
            e = redirect ''pthread_join'' ''GC_pthread_join'' e;
            e = redirect ''pthread_detach'' ''GC_pthread_detach'' e;
            e = (if defd e ''GC_NO_PTHREAD_SIGMASK'' then e else redirect ''pthread_sigmask'' ''GC_pthread_sigmask'' e);
            e = (if defd e ''GC_NO_DLOPEN'' then e else redirect ''dlopen'' ''GC_dlopen'' e);
            e = (if defd e ''GC_NO_PTHREAD_CANCEL'' then e else redirect ''pthread_cancel'' ''GC_pthread_cancel'' e)
        in if defd e ''GC_HAVE_PTHREAD_EXIT'' then redirect ''pthread_exit'' ''GC_pthread_exit'' e else e)
     else e)"

text \<open>The header with its guard: the state of the preprocessor after it, and the functions it declares.\<close>

definition pthread_redirects :: "(penv \<Rightarrow> penv) \<Rightarrow> penv \<Rightarrow> penv \<times> string list" where
  "pthread_redirects system e =
    (if defd e ''GC_PTHREAD_REDIRECTS_H'' then (e, [])
     else
       (let e = def_macro ''GC_PTHREAD_REDIRECTS_H'' Empty e in
        if defd e ''GC_H'' \<and> defd e ''GC_PTHREADS'' then
          (let (e, decls) = (if defd e ''GC_PTHREAD_REDIRECTS_ONLY'' then (e, [])
                 else (let e = system e in (pthread_decl_macros e, pthread_decls e)))
           in (thread_redirects e, decls))
        else (e, [])))"

definition gc_h_pthreads :: "(penv \<Rightarrow> penv) \<Rightarrow> penv \<Rightarrow> penv \<times> string list" where
  "gc_h_pthreads system e = (if defd e ''GC_PTHREADS'' then pthread_redirects system e else (e, []))"

section \<open>What is redirected\<close>

definition pthread_calls :: "string list" where
  "pthread_calls = [''pthread_create'', ''pthread_join'', ''pthread_detach'', ''pthread_sigmask'', ''dlopen'',
     ''pthread_cancel'', ''pthread_exit'']"

definition redirected :: "penv \<Rightarrow> string list" where
  "redirected e =
    (if defd e ''GC_NO_THREAD_REDIRECTS'' \<or> defd e ''GC_USE_LD_WRAP'' then []
     else [''pthread_create'', ''pthread_join'', ''pthread_detach'']
       @ (if defd e ''GC_NO_PTHREAD_SIGMASK'' then [] else [''pthread_sigmask''])
       @ (if defd e ''GC_NO_DLOPEN'' then [] else [''dlopen''])
       @ (if defd e ''GC_NO_PTHREAD_CANCEL'' then [] else [''pthread_cancel''])
       @ (if defd e ''GC_HAVE_PTHREAD_EXIT'' then [''pthread_exit''] else []))"

lemma redirect_apply: "redirect f g e m = (if m = f then Some (Text g) else e m)"
  by (simp add: redirect_def def_macro_def)

lemma defd_redirect: "defd (redirect f g e) m \<longleftrightarrow> m = f \<or> defd e m"
  by (simp add: defd_def redirect_apply)

lemma thread_redirects_apply:
  "thread_redirects e m = (if m \<in> set (redirected e) then Some (Text (''GC_'' @ m)) else e m)"
  by (simp add: thread_redirects_def redirected_def Let_def defd_redirect redirect_apply)

interpretation decl_macros: pp_step pthread_decl_macros
  "[''GC_SUSPEND_THREAD_ID'', ''GC_PTHREAD_CREATE_CONST'', ''GC_PTHREAD_EXIT_DECLARED'']"
  by unfold_locales (simp add: pthread_decl_macros_def Let_def def_if_frame)

text \<open>The system headers leave the macros of the collector alone.\<close>

definition system_ok :: "(penv \<Rightarrow> penv) \<Rightarrow> bool" where
  "system_ok system \<longleftrightarrow> (\<forall>e m. take 3 m = ''GC_'' \<longrightarrow> system e m = e m)"

abbreviation after_system :: "(penv \<Rightarrow> penv) \<Rightarrow> penv \<Rightarrow> penv" where
  "after_system system e \<equiv> system (def_macro ''GC_PTHREAD_REDIRECTS_H'' Empty e)"

lemma after_system_gc:
  assumes "system_ok system" "take 3 m = ''GC_''" "m \<noteq> ''GC_PTHREAD_REDIRECTS_H''"
  shows "defd (after_system system e) m = defd e m"
  using assms by (simp add: defd_def system_ok_def def_macro_frame)

lemma redirected_after_system:
  assumes "system_ok system"
  shows "redirected (pthread_decl_macros (after_system system e)) = redirected e"
  by (simp add: redirected_def decl_macros.defd_frame after_system_gc [OF assms])

text \<open>The header as \<open>gc.h\<close> includes it for the first time.\<close>

lemma pthread_redirects_first:
  assumes "system_ok system" "defd e ''GC_H''" "defd e ''GC_PTHREADS''"
    and "\<not> defd e ''GC_PTHREAD_REDIRECTS_H''" "\<not> defd e ''GC_PTHREAD_REDIRECTS_ONLY''"
    and r: "gc_h_pthreads system e = (e', decls)"
  shows "m \<in> set (redirected e) \<Longrightarrow> e' m = Some (Text (''GC_'' @ m))"
    and "take 3 m \<noteq> ''GC_'' \<Longrightarrow> m \<notin> set (redirected e) \<Longrightarrow> e' m = after_system system e m"
    and "decls = pthread_decls (after_system system e)"
proof -
  have "e' = thread_redirects (pthread_decl_macros (after_system system e)) \<and> decls = pthread_decls (after_system system e)"
    using r assms(2-5) by (simp add: gc_h_pthreads_def pthread_redirects_def Let_def defd_simps)
  moreover have "pthread_decl_macros e0 m = e0 m" if "take 3 m \<noteq> ''GC_''" for e0
    by (rule decl_macros.frame) (use that in auto)
  ultimately show "m \<in> set (redirected e) \<Longrightarrow> e' m = Some (Text (''GC_'' @ m))"
    "take 3 m \<noteq> ''GC_'' \<Longrightarrow> m \<notin> set (redirected e) \<Longrightarrow> e' m = after_system system e m"
    "decls = pthread_decls (after_system system e)"
    by (auto simp: thread_redirects_apply redirected_after_system [OF assms(1)])
qed

text \<open>
  Every redirected function is declared by the header, except that \<open>GC_pthread_sigmask\<close> depends on
  the feature macros while its redirection does not.
\<close>

lemma redirects_declared:
  assumes "system_ok system" "\<not> defd e ''GC_PTHREAD_EXIT_DECLARED''" "m \<in> set (redirected e)"
  shows "''GC_'' @ m \<in> set (pthread_decls (after_system system e))
    \<longleftrightarrow> m = ''pthread_sigmask'' \<longrightarrow> sigmask_declared (after_system system e)"
  using assms(2,3) by (auto simp: redirected_def pthread_decls_def after_system_gc [OF assms(1)] split: if_splits)

section \<open>Threads of Windows\<close>

definition windows_h_before :: "penv \<Rightarrow> penv" where
  "windows_h_before e = def_if (\<not> defd e ''CPPCHECK'' \<and> \<not> defd e ''GC_WINDOWS_H_INCLUDED'' \<and> defd e ''WINAPI'')
     ''GC_WINDOWS_H_INCLUDED'' Empty e"

definition win32_part :: "penv \<Rightarrow> bool" where
  "win32_part e \<longleftrightarrow> defd e ''GC_WIN32_THREADS''
     \<and> (\<not> defd e ''GC_PTHREADS'' \<or> defd e ''GC_BUILD'' \<or> defd e ''GC_WINDOWS_H_INCLUDED'')"

definition win32_decl_part :: "penv \<Rightarrow> bool" where
  "win32_decl_part e \<longleftrightarrow> (\<not> defd e ''GC_NO_THREAD_DECLS'' \<or> defd e ''GC_BUILD'') \<and> \<not> defd e ''GC_DONT_INCL_WINDOWS_H''"

text \<open>\<open>process.h\<close> and \<open>windows.h\<close> are parameters.\<close>

definition win32_includes :: "(penv \<Rightarrow> penv) \<Rightarrow> (penv \<Rightarrow> penv) \<Rightarrow> penv \<Rightarrow> penv" where
  "win32_includes process windows e =
    (let e = (if \<not> defd e ''_WIN32_WCE'' \<and> \<not> defd e ''__CEGCC__'' then process e else e)
     in if defd e ''GC_BUILD'' \<or> \<not> defd e ''GC_DONT_INCLUDE_WINDOWS_H''
        then def_macro ''GC_WINDOWS_H_INCLUDED'' Empty (windows e) else e)"

definition win32_decl_macros :: "penv \<Rightarrow> penv" where
  "win32_decl_macros e =
    (let e = def_if (defd e ''GC_UNDERSCORE_STDCALL'') ''GC_CreateThread'' (Text ''_GC_CreateThread'') e;
         e = def_if (defd e ''GC_UNDERSCORE_STDCALL'') ''GC_ExitThread'' (Text ''_GC_ExitThread'') e;
         e = def_if (\<not> defd e ''DECLSPEC_NORETURN'') ''DECLSPEC_NORETURN''
              (if defd e ''GC_WINDOWS_H_INCLUDED'' then Empty else Text ''__declspec(noreturn)'') e;
         e = def_macro ''GC_WIN32_SIZE_T'' (Text (if defd e ''_WIN64'' then ''GC_uintptr_t''
              else if defd e ''GC_WINDOWS_H_INCLUDED'' then ''DWORD'' else ''unsigned long'')) e
     in def_if (defd e ''GC_INSIDE_DLL'' \<and> defd e ''GC_UNDERSCORE_STDCALL'') ''GC_DllMain'' (Text ''_GC_DllMain'') e)"

definition GC_uintptr_t :: "penv \<Rightarrow> string" where
  "GC_uintptr_t e = (if any_def e [''_UINTPTR_T'', ''_UINTPTR_T_DEFINED'', ''UINTPTR_MAX''] then ''uintptr_t'' else ''GC_word'')"

definition win32_decls :: "penv \<Rightarrow> string list" where
  "win32_decls e =
     (if defd e ''GC_INSIDE_DLL'' then [''GC_DllMain''] else []) @ [''GC_CreateThread'', ''GC_ExitThread'']
     @ (if \<not> defd e ''_WIN32_WCE'' \<and> \<not> defd e ''__CEGCC__'' then [''GC_beginthreadex'', ''GC_endthreadex''] else [])"

definition win32_redirects :: "penv \<Rightarrow> penv" where
  "win32_redirects e =
    (let e = def_if (defd e ''GC_WINMAIN_REDIRECT'') ''WinMain'' (Text ''GC_WinMain'') e;
         e = def_macro ''GC_use_DllMain'' (Text ''GC_use_threads_discovery'') e
     in if defd e ''GC_NO_THREAD_REDIRECTS'' then e
        else
          (let e = def_macro ''CreateThread'' (Text ''GC_CreateThread'') e;
               e = def_macro ''ExitThread'' (Text ''GC_ExitThread'') e;
               e = redirect ''_beginthreadex'' ''GC_beginthreadex'' e
           in redirect ''_endthreadex'' ''GC_endthreadex'' e))"

definition gc_h_win32 :: "(penv \<Rightarrow> penv) \<Rightarrow> (penv \<Rightarrow> penv) \<Rightarrow> penv \<Rightarrow> penv \<times> string list" where
  "gc_h_win32 process windows e =
    (let e = windows_h_before e in
     if win32_part e then
       (if win32_decl_part e
        then (let e = win32_includes process windows e in (win32_redirects (win32_decl_macros e), win32_decls e))
        else (win32_redirects e, []))
     else (e, []))"

definition win32_calls :: "string list" where
  "win32_calls = [''CreateThread'', ''ExitThread'', ''_beginthreadex'', ''_endthreadex'']"

definition win32_target :: "string \<Rightarrow> string" where
  "win32_target f = ''GC_'' @ (if take 1 f = ''_'' then drop 1 f else f)"

lemma win32_redirects_calls:
  assumes "\<not> defd e ''GC_NO_THREAD_REDIRECTS''"
  shows "list_all (\<lambda>f. expand (win32_redirects e) f = win32_target f) win32_calls"
  using assms by (simp add: win32_redirects_def Let_def defd_simps win32_calls_def win32_target_def expand_def redirect_apply
      def_macro_frame) (simp add: def_macro_def)

interpretation win32_decl: pp_step win32_decl_macros
  "[''GC_CreateThread'', ''GC_ExitThread'', ''DECLSPEC_NORETURN'', ''GC_WIN32_SIZE_T'', ''GC_DllMain'']"
  by unfold_locales (simp add: win32_decl_macros_def Let_def def_if_frame def_macro_frame)

interpretation windows_before: pp_step windows_h_before "[''GC_WINDOWS_H_INCLUDED'']"
  by unfold_locales (simp add: windows_h_before_def def_if_frame)

text \<open>
  With its own declarations the header redirects the four calls that make and end threads to functions
  that it declares; Windows CE has no \<open>_beginthreadex\<close>, and its redirection is to a name that nothing
  declares.
\<close>

lemma win32_redirects_declared:
  assumes "system_ok process" "system_ok windows" "\<not> defd e ''GC_NO_THREAD_REDIRECTS''" "\<not> defd e ''GC_NO_THREAD_DECLS''"
    and "\<not> defd e ''GC_DONT_INCL_WINDOWS_H''" "defd e ''GC_WIN32_THREADS''" "\<not> defd e ''GC_PTHREADS''"
    and "gc_h_win32 process windows e = (e', decls)"
  shows "list_all (\<lambda>f. expand e' f = win32_target f) win32_calls"
    and "set decls \<inter> set (map win32_target win32_calls) =
      (if any_def (win32_includes process windows (windows_h_before e)) [''_WIN32_WCE'', ''__CEGCC__'']
       then {''GC_CreateThread'', ''GC_ExitThread''} else set (map win32_target win32_calls))"
proof -
  let ?e = "win32_includes process windows (windows_h_before e)"
  have "win32_part (windows_h_before e)" "win32_decl_part (windows_h_before e)"
    using assms(4-7) by (simp_all add: win32_part_def win32_decl_part_def windows_before.defd_frame)
  then have r: "e' = win32_redirects (win32_decl_macros ?e)" "decls = win32_decls ?e"
    using assms(8) by (simp_all add: gc_h_win32_def Let_def)
  have "\<not> defd ?e ''GC_NO_THREAD_REDIRECTS''"
    using assms(1-3) by (simp add: win32_includes_def Let_def defd_def system_ok_def def_macro_frame windows_before.frame)
  then show "list_all (\<lambda>f. expand e' f = win32_target f) win32_calls"
    unfolding r(1) by (intro win32_redirects_calls) (simp add: win32_decl.defd_frame)
  show "set decls \<inter> set (map win32_target win32_calls) =
      (if any_def ?e [''_WIN32_WCE'', ''__CEGCC__''] then {''GC_CreateThread'', ''GC_ExitThread''}
       else set (map win32_target win32_calls))"
    unfolding r(2) by (auto simp: win32_decls_def win32_calls_def win32_target_def any_def_Cons any_def_Nil)
qed

text \<open>The type of the stack size has the width of a pointer, as \<open>SIZE_T\<close> of \<open>CreateThread\<close> has.\<close>

fun win_type_size :: "bool \<Rightarrow> string \<Rightarrow> nat" where
  "win_type_size win64 t = (if t \<in> set [''GC_uintptr_t'', ''uintptr_t'', ''GC_word''] then (if win64 then 8 else 4)
     else if t \<in> set [''DWORD'', ''unsigned long''] then 4 else 0)"

lemma win32_stack_size_type:
  "win_type_size (defd e ''_WIN64'') (expand (win32_decl_macros e) ''GC_WIN32_SIZE_T'') = (if defd e ''_WIN64'' then 8 else 4)"
proof -
  have "expand (win32_decl_macros e) ''GC_WIN32_SIZE_T'' \<in>
      (if defd e ''_WIN64'' then {''GC_uintptr_t''} else {''DWORD'', ''unsigned long''})"
    by (simp add: win32_decl_macros_def Let_def expand_def def_if_frame defd_simps) (simp add: def_macro_def)
  then show ?thesis by (auto split: if_splits)
qed

section \<open>Linux\<close>

lemma filter_defd: "filter P xs = ys \<Longrightarrow> x \<in> set xs \<Longrightarrow> P x \<longleftrightarrow> x \<in> set ys"
  by auto

text \<open>The macros of the redirections that the configuration does not write.\<close>

definition redirect_switches :: "string list" where
  "redirect_switches = [''GC_H'', ''GC_NO_THREAD_REDIRECTS'', ''GC_PTHREAD_REDIRECTS_H'', ''GC_PTHREAD_REDIRECTS_ONLY'',
     ''GC_PTHREAD_EXIT_DECLARED'']"

lemma switches_neutral:
  "list_all (\<lambda>m. neutral m \<and> m \<notin> {''__GC'', ''_PTRDIFF_T_DEFINED''} \<and> m \<notin> set intercept_macros)
     (''GC_USE_LD_WRAP'' # redirect_switches)"
  "list_all (\<lambda>m. m \<notin> set thread_kinds \<and> m \<notin> {''GC_HAIKU_THREADS'', ''GC_THREADS'', ''GC_USE_LD_WRAP'',
     ''GC_PTHREADS'', ''_PTHREADS'', ''_POSIX4A_DRAFT10_SOURCE'', ''_REENTRANT''}) redirect_switches"
  "''GC_USE_LD_WRAP'' \<notin> set thread_kinds"
  by code_simp+

lemma config_keeps_switches:
  assumes "features_ok features" "defd e ''GC_H''" "m \<in> set redirect_switches"
  shows "defd (gc_config has_attr features e) m = defd e m"
proof (rule defd_cong)
  have "gc_config has_attr features e m = gc_thread_config e m"
    by (rule gc_config_threads [OF assms(1,2)]) (use switches_neutral(1) assms(3) in \<open>simp_all add: list_all_iff\<close>)
  also have "\<dots> = e m"
    by (rule thread_config_frame) (use switches_neutral(2) assms(3) in \<open>simp_all only: list_all_iff simp_thms\<close>)
  finally show "gc_config has_attr features e m = e m" .
qed

lemma linux_no_ld_wrap:
  assumes "features_ok features" "plain_linux e"
  shows "\<not> defd (gc_config has_attr features e) ''GC_USE_LD_WRAP''"
proof -
  have h: "defd e ''GC_H''" using assms(2) by (simp add: plain_linux_def)
  have "gc_config has_attr features e ''GC_USE_LD_WRAP'' = gc_thread_config e ''GC_USE_LD_WRAP''"
    by (rule gc_config_threads [OF assms(1) h]) (use switches_neutral(1) in simp_all)
  also have "\<dots> = e ''GC_USE_LD_WRAP''"
    using select_threads_frame [OF switches_neutral(3)]
    by (simp add: gc_thread_config_def posix.frame linux_old_names [OF assms(2)])
  finally show ?thesis using plain_linux_gc [OF assms(2), of "''GC_USE_LD_WRAP''"] by (simp add: defd_def)
qed

lemma linux_redirected:
  assumes "features_ok features" "plain_linux e" "e1 = gc_config has_attr features e"
  shows "set (redirected e1) = set pthread_calls" "defd e1 ''GC_PTHREADS''" "defd e1 ''GC_H''"
    "\<not> any_def e1 [''GC_PTHREAD_REDIRECTS_H'', ''GC_PTHREAD_REDIRECTS_ONLY'', ''GC_PTHREAD_EXIT_DECLARED'']"
proof -
  have h: "defd e ''GC_H''" using assms(2) by (simp add: plain_linux_def)
  note c = filter_defd [OF linux_config [OF assms(1,2), of has_attr]]
  note k = config_keeps_switches [OF assms(1) h, of _ has_attr] plain_linux_gc [OF assms(2)]
  show "defd e1 ''GC_H''" using k(1) h by (simp add: redirect_switches_def assms(3))
  show "defd e1 ''GC_PTHREADS''" using c [of "''GC_PTHREADS''"] by (simp add: thread_macros_def assms(3))
  show "\<not> any_def e1 [''GC_PTHREAD_REDIRECTS_H'', ''GC_PTHREAD_REDIRECTS_ONLY'', ''GC_PTHREAD_EXIT_DECLARED'']"
    using k by (simp add: redirect_switches_def assms(3) any_def_Cons any_def_Nil)
  have "\<not> defd e1 ''GC_NO_THREAD_REDIRECTS''" using k by (simp add: redirect_switches_def assms(3))
  moreover have "\<not> defd e1 ''GC_NO_PTHREAD_SIGMASK''" "\<not> defd e1 ''GC_NO_DLOPEN''" "\<not> defd e1 ''GC_NO_PTHREAD_CANCEL''"
    "defd e1 ''GC_HAVE_PTHREAD_EXIT''"
    using c by (simp_all add: intercept_macros_def assms(3))
  ultimately show "set (redirected e1) = set pthread_calls"
    using linux_no_ld_wrap [OF assms(1,2), of has_attr] by (auto simp: redirected_def pthread_calls_def assms(3))
qed


text \<open>Witness: gcc and glibc, whose \<open>pthread.h\<close> defines \<open>_POSIX_C_SOURCE\<close> through \<open>features.h\<close>.\<close>

definition glibc_system :: "penv \<Rightarrow> penv" where
  "glibc_system e = e(''_POSIX_C_SOURCE'' \<mapsto> Num 200809)"


end
