(* ===== verification/Gc_Types.thy ===== *)
theory Gc_Types
  imports Gc_Api C_Layout
begin

text \<open>
  The types and constants of the collector's interface and its remaining macros: \<open>GC_word\<close>, the structs, the
  status codes and flags of \<open>gc.h\<close>, the macros on pointers and locks that are not in \<open>Gc_Api\<close>, and the
  declarations of \<open>gc_disclaim.h\<close>, \<open>gc_backptr.h\<close> and \<open>javaxfc.h\<close> that define something.
\<close>

section \<open>Types\<close>

definition GC_word :: "penv \<Rightarrow> string" where
  "GC_word e =
    (if defd e ''_WIN64'' then
       (if defd e ''__int64'' \<and> \<not> defd e ''CPPCHECK'' then ''unsigned __int64'' else ''unsigned long long'')
     else ''unsigned long'')"

definition GC_signed_word :: "penv \<Rightarrow> string" where
  "GC_signed_word e =
    (if defd e ''_WIN64'' then (if defd e ''__int64'' \<and> \<not> defd e ''CPPCHECK'' then ''__int64'' else ''long long'')
     else ''long'')"

definition GC_prof_stats_s :: "penv \<Rightarrow> ctype" where
  "GC_prof_stats_s e = Struct ''GC_prof_stats_s''
     (map (\<lambda>f. (f, Named (GC_word e)))
       [''heapsize_full'', ''free_bytes_full'', ''unmapped_bytes'', ''bytes_allocd_since_gc'', ''allocd_bytes_before_gc'',
        ''non_gc_bytes'', ''gc_no'', ''markers_m1'', ''bytes_reclaimed_since_gc'', ''reclaimed_bytes_before_gc'',
        ''expl_freed_bytes_since_gc'', ''obtained_from_os_bytes''])"

definition GC_stack_base :: "penv \<Rightarrow> ctype" where
  "GC_stack_base e = Struct ''GC_stack_base''
     ((''mem_base'', void_p)
      # (if any_def e [''__e2k__'', ''__ia64'', ''__ia64__'', ''_M_IA64''] then [(''reg_base'', void_p)] else []))"

definition GC_finalizer_closure :: ctype where
  "GC_finalizer_closure = Struct ''GC_finalizer_closure'' [(''proc'', Fn ''GC_finalization_proc''), (''cd'', void_p)]"

datatype GC_ref_kind = GC_UNREFERENCED | GC_NO_SPACE | GC_REFD_FROM_ROOT | GC_REFD_FROM_REG | GC_REFD_FROM_HEAP
  | GC_FINALIZER_REFD

text \<open>
  The word of the collector is as wide as a pointer under the three data models: 32 bits throughout,
  \<open>long\<close> and pointers of 64 bits, and Windows with pointers of 64 bits and \<open>long\<close> of 32.
\<close>

datatype data_model = ILP32 | LP64 | LLP64

fun type_bytes :: "data_model \<Rightarrow> string \<Rightarrow> nat" where
  "type_bytes d t = (if t \<in> set [''unsigned __int64'', ''__int64'', ''unsigned long long'', ''long long''] then 8
     else if t \<in> set [''unsigned long'', ''long''] then (if d = LP64 then 8 else 4) else 0)"

fun pointer_bytes :: "data_model \<Rightarrow> nat" where
  "pointer_bytes d = (if d = ILP32 then 4 else 8)"

lemma gc_word_pointer:
  assumes "defd e ''_WIN64'' \<longleftrightarrow> d = LLP64"
  shows "type_bytes d (GC_word e) = pointer_bytes d" "type_bytes d (GC_signed_word e) = pointer_bytes d"
  using assms by (cases d; auto simp: GC_word_def GC_signed_word_def)+

lemma gc_structs_sound:
  assumes "target_ok t"
  shows "sound_layout t (GC_prof_stats_s e)" "sound_layout t (GC_stack_base e)" "sound_layout t GC_finalizer_closure"
proof -
  have a: "abi t" using assms by (simp add: abi_def)
  show "sound_layout t (GC_prof_stats_s e)" unfolding GC_prof_stats_s_def by (rule abi.struct_sound [OF a])
  show "sound_layout t (GC_stack_base e)" unfolding GC_stack_base_def by (rule abi.struct_sound [OF a])
  show "sound_layout t GC_finalizer_closure" unfolding GC_finalizer_closure_def by (rule abi.struct_sound [OF a])
qed

section \<open>Status codes and flags\<close>

definition gc_status :: "(string \<times> int) list" where
  "gc_status = [(''GC_SUCCESS'', 0), (''GC_DUPLICATE'', 1), (''GC_NO_THREADS'', 2), (''GC_UNIMPLEMENTED'', 3), (''GC_NOT_FOUND'', 4)]"

definition GC_NO_MEMORY :: int where "GC_NO_MEMORY = 2"

definition gc_protects :: "(string \<times> int) list" where
  "gc_protects = [(''GC_PROTECTS_POINTER_HEAP'', 1), (''GC_PROTECTS_PTRFREE_HEAP'', 2), (''GC_PROTECTS_STATIC_DATA'', 4),
     (''GC_PROTECTS_STACK'', 8)]"

definition GC_TIME_UNLIMITED :: int where "GC_TIME_UNLIMITED = 999999"

text \<open>
  The codes that the functions return are different; \<open>GC_NO_THREADS\<close>, which no function returns any more,
  shares its value with \<open>GC_NO_MEMORY\<close>.
\<close>

lemma gc_status_distinct:
  "distinct (map snd gc_status)" "(\<exists>s. (s, GC_NO_MEMORY) \<in> set gc_status) \<and> (\<forall>s. (s, GC_NO_MEMORY) \<in> set gc_status \<longrightarrow> s = ''GC_NO_THREADS'')"
  by (simp_all add: gc_status_def GC_NO_MEMORY_def)

lemma gc_protects_bits: "map snd gc_protects = map (\<lambda>n. 2 ^ n) [0, 1, 2, 3]"
  by (simp add: gc_protects_def)

section \<open>Macros\<close>

text \<open>What \<open>GC_reachable_here\<close> gives to \<open>GC_noop1\<close>, or \<open>None\<close> where it is an empty assembler statement.\<close>

definition GC_reachable_here :: "penv \<Rightarrow> 'w::len word \<Rightarrow> 'w word option" where
  "GC_reachable_here e ptr =
    (if defd e ''__GNUC__'' \<and> \<not> defd e ''__INTEL_COMPILER'' then None
     else if defd e ''LINT2'' then Some (NOT ptr XOR NOT 0) else Some ptr)"

lemma reachable_here_pointer: "GC_reachable_here e ptr = Some w \<Longrightarrow> w = ptr"
  by (auto simp: GC_reachable_here_def bit_eq_iff bit_simps split: if_splits)

text \<open>
  The store of a pointer to a place outside the stack. The checks of the debugging version return their
  argument or end the program; a memory of words maps addresses to their contents.
\<close>

record 'p check_lib =
  GC_is_visible :: "'p \<Rightarrow> 'p"
  GC_is_valid_displacement :: "'p \<Rightarrow> 'p"

definition GC_PTR_STORE :: "penv \<Rightarrow> 'p check_lib \<Rightarrow> 'p \<Rightarrow> 'p \<Rightarrow> ('p \<Rightarrow> 'p) \<Rightarrow> 'p \<Rightarrow> 'p" where
  "GC_PTR_STORE e lib p q m =
    (if defd e ''GC_DEBUG'' then m(GC_is_visible lib p := GC_is_valid_displacement lib q) else m(p := q))"

definition check_law :: "'p check_lib \<Rightarrow> bool" where
  "check_law lib \<longleftrightarrow> (\<forall>p. GC_is_visible lib p = p \<and> GC_is_valid_displacement lib p = p)"

lemma ptr_store_debug_same: "check_law lib \<Longrightarrow> GC_PTR_STORE e lib p q m = m(p := q)"
  by (simp add: GC_PTR_STORE_def check_law_def)

definition GC_NEXT :: "('p \<Rightarrow> 'p) \<Rightarrow> 'p \<Rightarrow> 'p" where
  "GC_NEXT m p = m p"

text \<open>The old names of the macros on hidden pointers, and the lock of a client without threads.\<close>

definition hide_macros :: "penv \<Rightarrow> penv" where
  "hide_macros e =
    (if any_def e [''I_HIDE_POINTERS'', ''GC_I_HIDE_POINTERS'']
     then def_macro ''REVEAL_POINTER'' (Text ''GC_REVEAL_POINTER'') (def_macro ''HIDE_POINTER'' (Text ''GC_HIDE_POINTER'') e)
     else e)"

definition lock_macros :: "penv \<Rightarrow> penv" where
  "lock_macros e =
    (if defd e ''GC_THREADS'' then e
     else def_macro ''GC_alloc_unlock'' (Text ''(void)0'') (def_macro ''GC_alloc_lock'' (Text ''(void)0'') e))"

text \<open>\<open>javaxfc.h\<close> may come after the redirections of \<open>gc.h\<close>, whose definition it keeps.\<close>

definition suspend_thread_id :: "penv \<Rightarrow> penv" where
  "suspend_thread_id e = def_if (defd e ''GC_THREADS'' \<and> \<not> defd e ''GC_SUSPEND_THREAD_ID'') ''GC_SUSPEND_THREAD_ID'' (Text ''void*'') e"

text \<open>
  On the Amiga the allocation functions are macros that call themselves through a wrapper. A macro is
  not expanded inside its own expansion, so the inner name is the function. \<open>GC_realloc\<close> is another function there.
\<close>

definition amiga :: "penv \<Rightarrow> bool" where
  "amiga e \<longleftrightarrow> defd e ''_AMIGA'' \<and> \<not> defd e ''GC_AMIGA_MAKINGLIB''"

definition amiga_functions :: "string list" where
  "amiga_functions = [''GC_malloc'', ''GC_malloc_atomic'', ''GC_malloc_uncollectable'', ''GC_malloc_atomic_uncollectable'',
     ''GC_malloc_ignore_off_page'', ''GC_malloc_atomic_ignore_off_page'']"

definition amiga_malloc :: "penv \<Rightarrow> (nat \<Rightarrow> (nat \<Rightarrow> 'g \<Rightarrow> 'g \<times> nat) \<Rightarrow> 'g \<Rightarrow> 'g \<times> nat) \<Rightarrow> (string \<Rightarrow> nat \<Rightarrow> 'g \<Rightarrow> 'g \<times> nat)
  \<Rightarrow> string \<Rightarrow> nat \<Rightarrow> 'g \<Rightarrow> 'g \<times> nat" where
  "amiga_malloc e GC_amiga_allocwrapper_do lib f n =
    (if amiga e \<and> f \<in> set amiga_functions then GC_amiga_allocwrapper_do n (lib f) else lib f n)"

definition amiga_realloc :: "penv \<Rightarrow> string" where
  "amiga_realloc e = (if amiga e then ''GC_amiga_realloc'' else ''GC_realloc'')"

lemma amiga_transparent:
  assumes "\<And>n f g. wrapper n f g = f n g"
  shows "amiga_malloc e wrapper lib f n g = lib f n g"
  using assms by (simp add: amiga_malloc_def)

end
