(* ===== verification/Uv_Compat.thy ===== *)
theory Uv_Compat
  imports Gc_Config C_Layout
begin

text \<open>
  The headers of the helper library that adapt it to compilers and systems: the integer types for
  old compilers of Microsoft (\<open>uv/stdint-msvc2008.h\<close>), the versions (\<open>uv/version.h\<close>, \<open>gc/gc_version.h\<close>), the
  linkage of libuv (the start of \<open>uv.h\<close>) and the network interfaces of Android (\<open>uv/android-ifaddrs.h\<close>).
\<close>

section \<open>Integer types\<close>

text \<open>
  The types of the compiler, and the names that the header defines: \<open>Exact s w\<close> is \<open>intw_t\<close>, or \<open>uintw_t\<close> if it
  is not signed, \<open>Least\<close> and \<open>Fast\<close> are the names with \<open>least\<close> and \<open>fast\<close>, \<open>Ptr_int\<close> is \<open>intptr_t\<close> and \<open>Max_int\<close> is
  \<open>intmax_t\<close>.
\<close>

datatype int_name =
    Char bool | Short bool | C_int bool | Sized bool nat
  | Exact bool nat | Least bool nat | Fast bool nat | Ptr_int bool | Max_int bool

text \<open>Whether a type of the compiler is signed, and its width.\<close>

fun msvc_type :: "int_name \<Rightarrow> (bool \<times> nat) option" where
  "msvc_type (Char sg) = Some (sg, 8)"
| "msvc_type (Short sg) = Some (sg, 16)"
| "msvc_type (C_int sg) = Some (sg, 32)"
| "msvc_type (Sized sg w) = Some (sg, w)"
| "msvc_type _ = None"

definition W64 :: "penv \<Rightarrow> penv" where
  "W64 e = def_if (\<not> defd e ''_W64'') ''_W64''
     (if \<not> defd e ''__midl'' \<and> any_def e [''_X86_'', ''_M_IX86''] \<and> 1300 \<le> num e ''_MSC_VER'' then Text ''__w64'' else Empty) e"

definition exact_types :: "penv \<Rightarrow> (int_name \<times> int_name) list" where
  "exact_types e =
    (if num e ''_MSC_VER'' < 1300 then
       [(Exact True 8, Char True), (Exact True 16, Short True), (Exact True 32, C_int True),
        (Exact False 8, Char False), (Exact False 16, Short False), (Exact False 32, C_int False)]
     else
       [(Exact True 8, Sized True 8), (Exact True 16, Sized True 16), (Exact True 32, Sized True 32),
        (Exact False 8, Sized False 8), (Exact False 16, Sized False 16), (Exact False 32, Sized False 32)])
    @ [(Exact True 64, Sized True 64), (Exact False 64, Sized False 64)]"

definition least_types :: "(int_name \<times> int_name) list" where
  "least_types =
     [(Least True 8, Exact True 8), (Least True 16, Exact True 16), (Least True 32, Exact True 32), (Least True 64, Exact True 64),
      (Least False 8, Exact False 8), (Least False 16, Exact False 16), (Least False 32, Exact False 32), (Least False 64, Exact False 64)]"

definition fast_types :: "(int_name \<times> int_name) list" where
  "fast_types =
     [(Fast True 8, Exact True 8), (Fast True 16, Exact True 16), (Fast True 32, Exact True 32), (Fast True 64, Exact True 64),
      (Fast False 8, Exact False 8), (Fast False 16, Exact False 16), (Fast False 32, Exact False 32), (Fast False 64, Exact False 64)]"

definition pointer_types :: "penv \<Rightarrow> (int_name \<times> int_name) list" where
  "pointer_types e =
    (if defd e ''_WIN64'' then [(Ptr_int True, Sized True 64), (Ptr_int False, Sized False 64)]
     else [(Ptr_int True, C_int True), (Ptr_int False, C_int False)])"

definition greatest_types :: "(int_name \<times> int_name) list" where
  "greatest_types = [(Max_int True, Exact True 64), (Max_int False, Exact False 64)]"

definition stdint_types :: "penv \<Rightarrow> (int_name \<times> int_name) list" where
  "stdint_types e = exact_types e @ least_types @ fast_types @ pointer_types e @ greatest_types"

section \<open>Limits\<close>

text \<open>
  The macros of the limits: \<open>T_MIN t\<close> and \<open>T_MAX t\<close> are those of the type \<open>t\<close>, \<open>I_MIN w\<close>, \<open>I_MAX w\<close> and \<open>UI_MAX w\<close> those
  of \<open>limits.h\<close> for a width. The types of which only the limits are here are named too.
\<close>

datatype limit_name =
    T_MIN int_name | T_MAX int_name
  | PTRDIFF_MIN | PTRDIFF_MAX | SIG_ATOMIC_MIN | SIG_ATOMIC_MAX | SIZE_MAX | WCHAR_MIN | WCHAR_MAX | WINT_MIN | WINT_MAX
  | I_MIN nat | I_MAX nat | UI_MAX nat | INT_MIN | INT_MAX | Zero

text \<open>The values of \<open>limits.h\<close>.\<close>

fun limits_h :: "limit_name \<Rightarrow> int option" where
  "limits_h (I_MIN w) = map_of [(8, - 127 - 1), (16, - 32767 - 1), (32, - 2147483647 - 1), (64, - 9223372036854775807 - 1)] w"
| "limits_h (I_MAX w) = map_of [(8, 127), (16, 32767), (32, 2147483647), (64, 9223372036854775807)] w"
| "limits_h (UI_MAX w) = map_of [(8, 0xff), (16, 0xffff), (32, 0xffffffff), (64, 0xffffffffffffffff)] w"
| "limits_h INT_MIN = Some (- 2147483647 - 1)"
| "limits_h INT_MAX = Some 2147483647"
| "limits_h Zero = Some 0"
| "limits_h _ = None"

definition exact_limits :: "(limit_name \<times> limit_name) list" where
  "exact_limits =
     [(T_MIN (Exact True 8), I_MIN 8), (T_MAX (Exact True 8), I_MAX 8), (T_MIN (Exact True 16), I_MIN 16), (T_MAX (Exact True 16), I_MAX 16),
      (T_MIN (Exact True 32), I_MIN 32), (T_MAX (Exact True 32), I_MAX 32), (T_MIN (Exact True 64), I_MIN 64), (T_MAX (Exact True 64), I_MAX 64),
      (T_MAX (Exact False 8), UI_MAX 8), (T_MAX (Exact False 16), UI_MAX 16), (T_MAX (Exact False 32), UI_MAX 32),
      (T_MAX (Exact False 64), UI_MAX 64)]"

definition least_limits :: "(limit_name \<times> limit_name) list" where
  "least_limits =
     [(T_MIN (Least True 8), T_MIN (Exact True 8)), (T_MAX (Least True 8), T_MAX (Exact True 8)),
      (T_MIN (Least True 16), T_MIN (Exact True 16)), (T_MAX (Least True 16), T_MAX (Exact True 16)),
      (T_MIN (Least True 32), T_MIN (Exact True 32)), (T_MAX (Least True 32), T_MAX (Exact True 32)),
      (T_MIN (Least True 64), T_MIN (Exact True 64)), (T_MAX (Least True 64), T_MAX (Exact True 64)),
      (T_MAX (Least False 8), T_MAX (Exact False 8)), (T_MAX (Least False 16), T_MAX (Exact False 16)),
      (T_MAX (Least False 32), T_MAX (Exact False 32)), (T_MAX (Least False 64), T_MAX (Exact False 64))]"

definition fast_limits :: "(limit_name \<times> limit_name) list" where
  "fast_limits =
     [(T_MIN (Fast True 8), T_MIN (Exact True 8)), (T_MAX (Fast True 8), T_MAX (Exact True 8)),
      (T_MIN (Fast True 16), T_MIN (Exact True 16)), (T_MAX (Fast True 16), T_MAX (Exact True 16)),
      (T_MIN (Fast True 32), T_MIN (Exact True 32)), (T_MAX (Fast True 32), T_MAX (Exact True 32)),
      (T_MIN (Fast True 64), T_MIN (Exact True 64)), (T_MAX (Fast True 64), T_MAX (Exact True 64)),
      (T_MAX (Fast False 8), T_MAX (Exact False 8)), (T_MAX (Fast False 16), T_MAX (Exact False 16)),
      (T_MAX (Fast False 32), T_MAX (Exact False 32)), (T_MAX (Fast False 64), T_MAX (Exact False 64))]"

definition pointer_limits :: "penv \<Rightarrow> (limit_name \<times> limit_name) list" where
  "pointer_limits e =
    (let w = (if defd e ''_WIN64'' then 64 else 32) in
     [(T_MIN (Ptr_int True), T_MIN (Exact True w)), (T_MAX (Ptr_int True), T_MAX (Exact True w)), (T_MAX (Ptr_int False), T_MAX (Exact False w))])"

definition greatest_limits :: "(limit_name \<times> limit_name) list" where
  "greatest_limits =
     [(T_MIN (Max_int True), T_MIN (Exact True 64)), (T_MAX (Max_int True), T_MAX (Exact True 64)), (T_MAX (Max_int False), T_MAX (Exact False 64))]"

text \<open>\<open>SIZE_MAX\<close>, \<open>WCHAR_MIN\<close> and \<open>WCHAR_MAX\<close> may have been defined by other headers.\<close>

definition other_limits :: "penv \<Rightarrow> (limit_name \<times> limit_name) list" where
  "other_limits e =
    (let w = (if defd e ''_WIN64'' then 64 else 32) in
     [(PTRDIFF_MIN, I_MIN w), (PTRDIFF_MAX, I_MAX w), (SIG_ATOMIC_MIN, INT_MIN), (SIG_ATOMIC_MAX, INT_MAX)]
     @ (if defd e ''SIZE_MAX'' then [] else [(SIZE_MAX, UI_MAX w)])
     @ (if defd e ''WCHAR_MIN'' then [] else [(WCHAR_MIN, Zero)])
     @ (if defd e ''WCHAR_MAX'' then [] else [(WCHAR_MAX, UI_MAX 16)])
     @ [(WINT_MIN, Zero), (WINT_MAX, UI_MAX 16)])"

definition stdint_limits :: "penv \<Rightarrow> (limit_name \<times> limit_name) list" where
  "stdint_limits e =
    (if \<not> defd e ''__cplusplus'' \<or> defd e ''__STDC_LIMIT_MACROS''
     then exact_limits @ least_limits @ fast_limits @ pointer_limits e @ greatest_limits @ other_limits e else [])"

text \<open>The suffix that the macro for constants of a type appends to the digits.\<close>

definition stdint_constants :: "penv \<Rightarrow> (int_name \<times> string) list" where
  "stdint_constants e =
    (if \<not> defd e ''__cplusplus'' \<or> defd e ''__STDC_CONSTANT_MACROS''
     then [(Exact True 8, ''i8''), (Exact True 16, ''i16''), (Exact True 32, ''i32''), (Exact True 64, ''i64''),
           (Exact False 8, ''ui8''), (Exact False 16, ''ui16''), (Exact False 32, ''ui32''), (Exact False 64, ''ui64''),
           (Max_int True, ''i64''), (Max_int False, ''ui64'')]
     else [])"

text \<open>A name is followed through a table; in these tables two steps reach a type or a limit of the compiler.\<close>

definition follow :: "('a \<times> 'a) list \<Rightarrow> 'a \<Rightarrow> 'a" where
  "follow ms m = (case map_of ms m of None \<Rightarrow> m | Some m' \<Rightarrow> m')"

definition int_type :: "penv \<Rightarrow> int_name \<Rightarrow> (bool \<times> nat) option" where
  "int_type e t = msvc_type (follow (stdint_types e) (follow (stdint_types e) t))"

definition limit_value :: "penv \<Rightarrow> limit_name \<Rightarrow> int option" where
  "limit_value e m = limits_h (follow (stdint_limits e) (follow (stdint_limits e) m))"

definition type_max :: "bool \<times> nat \<Rightarrow> int" where
  "type_max ty = (case ty of (sg, w) \<Rightarrow> if sg then 2 ^ (w - 1) - 1 else 2 ^ w - 1)"

definition type_min :: "bool \<times> nat \<Rightarrow> int" where
  "type_min ty = (case ty of (sg, w) \<Rightarrow> if sg then - (2 ^ (w - 1)) else 0)"

section \<open>Properties of the integer types\<close>

definition stdint_names :: "int_name list" where
  "stdint_names = [f sg w. f \<leftarrow> [Exact, Least, Fast], sg \<leftarrow> [True, False], w \<leftarrow> [8, 16, 32, 64]]
     @ [Ptr_int True, Ptr_int False, Max_int True, Max_int False]"

fun name_signed :: "int_name \<Rightarrow> bool" where
  "name_signed (Exact sg w) = sg"
| "name_signed (Least sg w) = sg"
| "name_signed (Fast sg w) = sg"
| "name_signed (Ptr_int sg) = sg"
| "name_signed (Max_int sg) = sg"
| "name_signed _ = True"

fun name_width :: "bool \<Rightarrow> int_name \<Rightarrow> nat" where
  "name_width win64 (Exact sg w) = w"
| "name_width win64 (Least sg w) = w"
| "name_width win64 (Fast sg w) = w"
| "name_width win64 (Ptr_int sg) = (if win64 then 64 else 32)"
| "name_width win64 _ = 64"

lemmas stdint_table_defs = stdint_types_def exact_types_def least_types_def fast_types_def pointer_types_def greatest_types_def

lemmas limit_table_defs = stdint_limits_def exact_limits_def least_limits_def fast_limits_def pointer_limits_def
  greatest_limits_def other_limits_def

lemma stdint_type_of:
  "list_all (\<lambda>t. int_type e t = Some (name_signed t, name_width (defd e ''_WIN64'') t)) stdint_names"
  by (simp add: stdint_names_def int_type_def follow_def stdint_table_defs)

lemma stdint_limit_of:
  assumes "\<not> defd e ''__cplusplus'' \<or> defd e ''__STDC_LIMIT_MACROS''"
  shows "list_all (\<lambda>t. limit_value e (T_MAX t) = Some (type_max (name_signed t, name_width (defd e ''_WIN64'') t))
    \<and> (name_signed t \<longrightarrow> limit_value e (T_MIN t) = Some (type_min (True, name_width (defd e ''_WIN64'') t)))) stdint_names"
  using assms by (simp add: stdint_names_def limit_value_def follow_def limit_table_defs Let_def type_max_def type_min_def)

text \<open>
  Whatever the version of the compiler and the width of its pointers, every type of the header has the
  sign and the width of its name, those for pointers the width of a pointer, and the header's limits
  for it are those of that sign and width.
\<close>

lemma stdint_ok:
  assumes "\<not> defd e ''__cplusplus'' \<or> defd e ''__STDC_LIMIT_MACROS''" "t \<in> set stdint_names"
  shows "\<exists>ty. int_type e t = Some ty \<and> fst ty = name_signed t \<and> snd ty = name_width (defd e ''_WIN64'') t
    \<and> limit_value e (T_MAX t) = Some (type_max ty) \<and> (fst ty \<longrightarrow> limit_value e (T_MIN t) = Some (type_min ty))"
  using stdint_type_of [of e] stdint_limit_of [OF assms(1)] assms(2) by (auto simp: list_all_iff)

section \<open>Versions\<close>

definition UV_VERSION_MAJOR :: int where "UV_VERSION_MAJOR = 1"
definition UV_VERSION_MINOR :: int where "UV_VERSION_MINOR = 43"
definition UV_VERSION_PATCH :: int where "UV_VERSION_PATCH = 0"

definition version_hex :: "int \<Rightarrow> int \<Rightarrow> int \<Rightarrow> int" where
  "version_hex major minor patch = or (or (push_bit 16 major) (push_bit 8 minor)) patch"

definition UV_VERSION_HEX :: int where
  "UV_VERSION_HEX = version_hex UV_VERSION_MAJOR UV_VERSION_MINOR UV_VERSION_PATCH"

lemma uv_version: "UV_VERSION_HEX = 0x012b00"
  by (simp add: UV_VERSION_HEX_def version_hex_def UV_VERSION_MAJOR_def UV_VERSION_MINOR_def UV_VERSION_PATCH_def push_bit_eq_mult)

text \<open>The parts can be read back while the minor version and the patch fit a byte.\<close>

lemma or_push_bit_add:
  fixes a b :: int
  assumes "0 \<le> b" "b < 2 ^ n"
  shows "or (push_bit n a) b = a * 2 ^ n + b"
proof -
  have b: "take_bit n b = b" using assms by (simp add: take_bit_int_eq_self)
  have "\<not> bit b k" if "n \<le> k" for k using that b by (metis bit_take_bit_iff linorder_not_le)
  then have "and (push_bit n a) b = 0" by (auto simp: bit_eq_iff bit_and_iff bit_push_bit_iff)
  then have "or (push_bit n a) b = push_bit n a + b" by (simp add: disjunctive_add_eq_or)
  then show ?thesis by (simp add: push_bit_eq_mult)
qed

lemma version_hex_sum:
  assumes "0 \<le> minor" "minor < 256" "0 \<le> patch" "patch < 256"
  shows "version_hex major minor patch = (major * 256 + minor) * 256 + patch"
proof -
  have "or (push_bit 16 major) (push_bit 8 minor) = push_bit 8 (or (push_bit 8 major) minor)"
    by (simp add: push_bit_or)
  also have "\<dots> = push_bit 8 (major * 256 + minor)" using or_push_bit_add [of minor 8 major] assms by simp
  finally show ?thesis using or_push_bit_add [of patch 8 "major * 256 + minor"] assms by (simp add: version_hex_def)
qed

lemma version_hex_order:
  assumes "0 \<le> b" "b < 256" "0 \<le> c" "c < 256" "0 \<le> b'" "b' < 256" "0 \<le> c'" "c' < 256"
  shows "version_hex a b c \<le> version_hex a' b' c' \<longleftrightarrow> a < a' \<or> a = a' \<and> (b < b' \<or> b = b' \<and> c \<le> c')"
  using assms by (simp add: version_hex_sum) arith

text \<open>The version of the collector: the header either checks the version of the build or defines it.\<close>

definition gc_tmp_version_macros :: "(string \<times> int) list" where
  "gc_tmp_version_macros = [(''GC_TMP_VERSION_MAJOR'', 8), (''GC_TMP_VERSION_MINOR'', 3), (''GC_TMP_VERSION_MICRO'', 0)]"

definition gc_version_macros :: "(string \<times> string) list" where
  "gc_version_macros = [(''GC_VERSION_MAJOR'', ''GC_TMP_VERSION_MAJOR''), (''GC_VERSION_MINOR'', ''GC_TMP_VERSION_MINOR''),
     (''GC_VERSION_MICRO'', ''GC_TMP_VERSION_MICRO'')]"

definition gc_version :: "penv \<Rightarrow> penv option" where
  "gc_version e =
    (if \<not> defd e ''GC_H'' then Some e
     else let e = fold (\<lambda>(m, v). def_macro m (Num v)) gc_tmp_version_macros e in
       if defd e ''GC_VERSION_MAJOR'' then
         (if list_ex (\<lambda>(m, t). num e t \<noteq> num e m) gc_version_macros then None else Some e)
       else Some (fold (\<lambda>(m, t). def_macro m (Num (num e t))) gc_version_macros e))"

lemma gc_version_agrees:
  assumes "defd e ''GC_H''" "gc_version e = Some e'"
  shows "map (num e') [''GC_VERSION_MAJOR'', ''GC_VERSION_MINOR'', ''GC_VERSION_MICRO''] = [8, 3, 0]"
  using assms
  by (auto simp: gc_version_def gc_tmp_version_macros_def gc_version_macros_def num_def def_macro_def Let_def split: if_splits)

section \<open>Linkage of libuv\<close>

definition UV_EXTERN :: "penv \<Rightarrow> penv option" where
  "UV_EXTERN e =
    (if defd e ''BUILDING_UV_SHARED'' \<and> defd e ''USING_UV_SHARED'' then None
     else Some (def_macro ''UV_EXTERN''
       (if defd e ''_WIN32'' then
          (if defd e ''BUILDING_UV_SHARED'' then Text ''__declspec(dllexport)''
           else if defd e ''USING_UV_SHARED'' then Text ''__declspec(dllimport)'' else Empty)
        else if 4 \<le> num e ''__GNUC__'' then Text ''__attribute__((visibility(\"default\")))''
        else if defd e ''__SUNPRO_C'' \<and> 0x550 \<le> num e ''__SUNPRO_C'' then Text ''__global''
        else Empty) e))"

definition uv_stdint :: "penv \<Rightarrow> string" where
  "uv_stdint e = (if defd e ''_MSC_VER'' \<and> num e ''_MSC_VER'' < 1600 then ''uv/stdint-msvc2008.h'' else ''stdint.h'')"

text \<open>The header of Microsoft's compilers is never included with another compiler, which it refuses.\<close>

lemma uv_stdint_msvc: "uv_stdint e = ''uv/stdint-msvc2008.h'' \<Longrightarrow> defd e ''_MSC_VER''"
  by (simp add: uv_stdint_def split: if_splits)

section \<open>Network interfaces of Android\<close>

definition ifaddrs :: ctype where
  "ifaddrs = Struct ''ifaddrs''
     [(''ifa_next'', Ptr ''ifaddrs''), (''ifa_name'', Ptr ''char''), (''ifa_flags'', c_uint), (''ifa_addr'', Ptr ''sockaddr''),
      (''ifa_netmask'', Ptr ''sockaddr''), (''ifa_dstaddr'', Ptr ''sockaddr''), (''ifa_data'', void_p)]"

lemma ifaddrs_sound: "target_ok t \<Longrightarrow> sound_layout t ifaddrs"
  unfolding ifaddrs_def by (rule abi.struct_sound) (simp add: abi_def)

end
