(* ===== verification/Uv_Ffi.thy ===== *)
theory Uv_Ffi
  imports Uv_Layout
begin

text \<open>
  The boundary between compiled calc programs and the C part: the prototypes of \<open>uv.h\<close>, \<open>gc.h\<close>,
  \<open>gc_pthread_redirects.h\<close> and \<open>uvutil.h\<close> that the runtime uses, and the declarations of these functions in
  the runtime (\<open>src/runtime\<close>; those of functions of the system libraries are left out),
  from which the compiler makes LLVM declarations without looking at the headers. On x86-64 each scalar
  argument and each scalar result is passed in a register of 64 bits, of which a narrower type uses the
  low bits only. The question is whether both sides agree.
\<close>

section \<open>Prototypes\<close>

record proto =
  pname :: string
  pret :: ctype
  pargs :: "ctype list"

text \<open>The types of callbacks: the result and the parameters.\<close>

definition uv_callbacks :: "(string \<times> ctype \<times> ctype list) list" where
  "uv_callbacks =
     [(''uv_alloc_cb'', Named ''void'', [Ptr ''uv_handle_t'', Named ''size_t'', Ptr ''uv_buf_t'']),
      (''uv_read_cb'', Named ''void'', [Ptr ''uv_stream_t'', Named ''ssize_t'', Ptr ''uv_buf_t'']),
      (''uv_write_cb'', Named ''void'', [Ptr ''uv_write_t'', Named ''int'']),
      (''uv_connect_cb'', Named ''void'', [Ptr ''uv_connect_t'', Named ''int'']),
      (''uv_shutdown_cb'', Named ''void'', [Ptr ''uv_shutdown_t'', Named ''int'']),
      (''uv_connection_cb'', Named ''void'', [Ptr ''uv_stream_t'', Named ''int'']),
      (''uv_close_cb'', Named ''void'', [Ptr ''uv_handle_t'']),
      (''uv_poll_cb'', Named ''void'', [Ptr ''uv_poll_t'', Named ''int'', Named ''int'']),
      (''uv_timer_cb'', Named ''void'', [Ptr ''uv_timer_t'']),
      (''uv_async_cb'', Named ''void'', [Ptr ''uv_async_t'']),
      (''uv_prepare_cb'', Named ''void'', [Ptr ''uv_prepare_t'']),
      (''uv_check_cb'', Named ''void'', [Ptr ''uv_check_t'']),
      (''uv_idle_cb'', Named ''void'', [Ptr ''uv_idle_t'']),
      (''uv_exit_cb'', Named ''void'', [Ptr ''uv_process_t'', Named ''int64_t'', Named ''int'']),
      (''uv_walk_cb'', Named ''void'', [Ptr ''uv_handle_t'', Ptr ''void'']),
      (''uv_fs_cb'', Named ''void'', [Ptr ''uv_fs_t'']),
      (''uv_work_cb'', Named ''void'', [Ptr ''uv_work_t'']),
      (''uv_after_work_cb'', Named ''void'', [Ptr ''uv_work_t'', Named ''int'']),
      (''uv_getaddrinfo_cb'', Named ''void'', [Ptr ''uv_getaddrinfo_t'', Named ''int'', Ptr ''struct addrinfo'']),
      (''uv_getnameinfo_cb'', Named ''void'', [Ptr ''uv_getnameinfo_t'', Named ''int'', Ptr ''char'', Ptr ''char'']),
      (''uv_random_cb'', Named ''void'', [Ptr ''uv_random_t'', Named ''int'', Ptr ''void'', Named ''size_t''])]"

definition uv_event_callbacks :: "(string \<times> ctype \<times> ctype list) list" where
  "uv_event_callbacks =
     [(''uv_fs_event_cb'', Named ''void'', [Ptr ''uv_fs_event_t'', Ptr ''char'', Named ''int'', Named ''int'']),
      (''uv_fs_poll_cb'', Named ''void'', [Ptr ''uv_fs_poll_t'', Named ''int'', Ptr ''uv_stat_t'', Ptr ''uv_stat_t'']),
      (''uv_signal_cb'', Named ''void'', [Ptr ''uv_signal_t'', Named ''int''])]"

definition other_callbacks :: "(string \<times> ctype \<times> ctype list) list" where
  "other_callbacks =
     [(''GC_finalization_proc'', Named ''void'', [Ptr ''void'', Ptr ''void'']),
      (''void *(*)(void *)'', Ptr ''void'', [Ptr ''void''])]"

text \<open>The functions of libuv.\<close>

definition proto_uv_timer_init :: proto where
  "proto_uv_timer_init = \<lparr>pname = ''uv_timer_init'', pret = Named ''int'',
     pargs = [Ptr ''uv_loop_t'', Ptr ''uv_timer_t'']\<rparr>"

definition proto_uv_tcp_init :: proto where
  "proto_uv_tcp_init = \<lparr>pname = ''uv_tcp_init'', pret = Named ''int'',
     pargs = [Ptr ''uv_loop_t'', Ptr ''uv_tcp_t'']\<rparr>"

definition proto_uv_idle_init :: proto where
  "proto_uv_idle_init = \<lparr>pname = ''uv_idle_init'', pret = Named ''int'',
     pargs = [Ptr ''uv_loop_t'', Ptr ''uv_idle_t'']\<rparr>"

definition proto_uv_idle_start :: proto where
  "proto_uv_idle_start = \<lparr>pname = ''uv_idle_start'', pret = Named ''int'',
     pargs = [Ptr ''uv_idle_t'', Fn ''uv_idle_cb'']\<rparr>"

definition proto_uv_idle_stop :: proto where
  "proto_uv_idle_stop = \<lparr>pname = ''uv_idle_stop'', pret = Named ''int'', pargs = [Ptr ''uv_idle_t'']\<rparr>"

definition proto_uv_default_loop :: proto where
  "proto_uv_default_loop = \<lparr>pname = ''uv_default_loop'', pret = Ptr ''uv_loop_t'', pargs = []\<rparr>"

definition proto_uv_async_init :: proto where
  "proto_uv_async_init = \<lparr>pname = ''uv_async_init'', pret = Named ''int'',
     pargs = [Ptr ''uv_loop_t'', Ptr ''uv_async_t'', Fn ''uv_async_cb'']\<rparr>"

definition proto_uv_async_send :: proto where
  "proto_uv_async_send = \<lparr>pname = ''uv_async_send'', pret = Named ''int'',
     pargs = [Ptr ''uv_async_t'']\<rparr>"

definition proto_uv_run :: proto where
  "proto_uv_run = \<lparr>pname = ''uv_run'', pret = Named ''int'',
     pargs = [Ptr ''uv_loop_t'', Enum ''uv_run_mode'']\<rparr>"

definition proto_uv_ip4_addr :: proto where
  "proto_uv_ip4_addr = \<lparr>pname = ''uv_ip4_addr'', pret = Named ''int'',
     pargs = [Ptr ''char'', Named ''int'', Ptr ''struct sockaddr_in'']\<rparr>"

definition proto_uv_tcp_bind :: proto where
  "proto_uv_tcp_bind = \<lparr>pname = ''uv_tcp_bind'', pret = Named ''int'',
     pargs = [Ptr ''uv_tcp_t'', Ptr ''struct sockaddr'', Named ''unsigned int'']\<rparr>"

definition proto_uv_write :: proto where
  "proto_uv_write = \<lparr>pname = ''uv_write'', pret = Named ''int'',
     pargs = [Ptr ''uv_write_t'', Ptr ''uv_stream_t'', Ptr ''uv_buf_t'', Named ''unsigned int'', Fn ''uv_write_cb'']\<rparr>"

definition proto_uv_buf_init :: proto where
  "proto_uv_buf_init = \<lparr>pname = ''uv_buf_init'', pret = Named ''uv_buf_t'',
     pargs = [Ptr ''char'', Named ''unsigned int'']\<rparr>"

definition proto_uv_read_stop :: proto where
  "proto_uv_read_stop = \<lparr>pname = ''uv_read_stop'', pret = Named ''int'', pargs = [Ptr ''uv_stream_t'']\<rparr>"

definition proto_uv_tcp_connect :: proto where
  "proto_uv_tcp_connect = \<lparr>pname = ''uv_tcp_connect'', pret = Named ''int'',
     pargs = [Ptr ''uv_connect_t'', Ptr ''uv_tcp_t'', Ptr ''struct sockaddr'', Fn ''uv_connect_cb'']\<rparr>"

definition proto_uv_accept :: proto where
  "proto_uv_accept = \<lparr>pname = ''uv_accept'', pret = Named ''int'',
     pargs = [Ptr ''uv_stream_t'', Ptr ''uv_stream_t'']\<rparr>"

definition proto_uv_read_start :: proto where
  "proto_uv_read_start = \<lparr>pname = ''uv_read_start'', pret = Named ''int'',
     pargs = [Ptr ''uv_stream_t'', Fn ''uv_alloc_cb'', Fn ''uv_read_cb'']\<rparr>"

definition proto_uv_listen :: proto where
  "proto_uv_listen = \<lparr>pname = ''uv_listen'', pret = Named ''int'',
     pargs = [Ptr ''uv_stream_t'', Named ''int'', Fn ''uv_connection_cb'']\<rparr>"

definition proto_uv_close :: proto where
  "proto_uv_close = \<lparr>pname = ''uv_close'', pret = Named ''void'',
     pargs = [Ptr ''uv_handle_t'', Fn ''uv_close_cb'']\<rparr>"

definition proto_uv_timer_start :: proto where
  "proto_uv_timer_start = \<lparr>pname = ''uv_timer_start'', pret = Named ''int'',
     pargs = [Ptr ''uv_timer_t'', Fn ''uv_timer_cb'', Named ''uint64_t'', Named ''uint64_t'']\<rparr>"

definition proto_uv_timer_stop :: proto where
  "proto_uv_timer_stop = \<lparr>pname = ''uv_timer_stop'', pret = Named ''int'',
     pargs = [Ptr ''uv_timer_t'']\<rparr>"

text \<open>The functions of the collector.\<close>

definition proto_GC_set_pages_executable :: proto where
  "proto_GC_set_pages_executable = \<lparr>pname = ''GC_set_pages_executable'', pret = Named ''void'',
     pargs = [Named ''int'']\<rparr>"

definition proto_GC_base :: proto where
  "proto_GC_base = \<lparr>pname = ''GC_base'', pret = Ptr ''void'', pargs = [Ptr ''void'']\<rparr>"

definition proto_GC_free :: proto where
  "proto_GC_free = \<lparr>pname = ''GC_free'', pret = Named ''void'', pargs = [Ptr ''void'']\<rparr>"

definition proto_GC_register_finalizer_unreachable :: proto where
  "proto_GC_register_finalizer_unreachable = \<lparr>pname = ''GC_register_finalizer_unreachable'', pret = Named ''void'',
     pargs = [Ptr ''void'', Fn ''GC_finalization_proc'', Ptr ''void'', Ptr ''GC_finalization_proc'', Ptr ''void *'']\<rparr>"

definition proto_GC_set_java_finalization :: proto where
  "proto_GC_set_java_finalization = \<lparr>pname = ''GC_set_java_finalization'', pret = Named ''void'',
     pargs = [Named ''int'']\<rparr>"

definition proto_GC_malloc_uncollectable :: proto where
  "proto_GC_malloc_uncollectable = \<lparr>pname = ''GC_malloc_uncollectable'', pret = Ptr ''void'',
     pargs = [Named ''size_t'']\<rparr>"

text \<open>\<open>GC_EXTRA_PARAMS\<close> has one parameter more where \<open>GC_ADD_CALLER\<close> is defined.\<close>

definition proto_GC_debug_malloc :: "bool \<Rightarrow> proto" where
  "proto_GC_debug_malloc add_caller = \<lparr>pname = ''GC_debug_malloc'', pret = Ptr ''void'',
     pargs = Named ''size_t'' # (if add_caller then [Named ''GC_word''] else []) @ [Ptr ''char'', Named ''int'']\<rparr>"

definition proto_GC_init :: proto where
  "proto_GC_init = \<lparr>pname = ''GC_init'', pret = Named ''void'', pargs = []\<rparr>"

definition proto_GC_remove_roots :: proto where
  "proto_GC_remove_roots = \<lparr>pname = ''GC_remove_roots'', pret = Named ''void'',
     pargs = [Ptr ''void'', Ptr ''void'']\<rparr>"

definition proto_GC_add_roots :: proto where
  "proto_GC_add_roots = \<lparr>pname = ''GC_add_roots'', pret = Named ''void'',
     pargs = [Ptr ''void'', Ptr ''void'']\<rparr>"

definition proto_GC_malloc :: proto where
  "proto_GC_malloc = \<lparr>pname = ''GC_malloc'', pret = Ptr ''void'', pargs = [Named ''size_t'']\<rparr>"

definition proto_GC_pthread_create :: proto where
  "proto_GC_pthread_create = \<lparr>pname = ''GC_pthread_create'', pret = Named ''int'',
     pargs = [Ptr ''pthread_t'', Ptr ''pthread_attr_t'', Fn ''void *(*)(void *)'', Ptr ''void'']\<rparr>"

text \<open>The functions of \<open>uvutil.h\<close>, where \<open>ULONG\<close> is \<open>unsigned long\<close>.\<close>

definition uvutil_prototypes :: "proto list" where
  "uvutil_prototypes =
     [\<lparr>pname = ''new_timer2'', pret = Ptr ''uv_timer_t'', pargs = []\<rparr>,
      \<lparr>pname = ''new_tcp'', pret = Ptr ''uv_tcp_t'', pargs = []\<rparr>,
      \<lparr>pname = ''new_addr'', pret = Ptr ''struct sockaddr_in'', pargs = []\<rparr>,
      \<lparr>pname = ''new_idle'', pret = Ptr ''uv_idle_t'', pargs = []\<rparr>,
      \<lparr>pname = ''new_write'', pret = Ptr ''uv_write_t'', pargs = []\<rparr>,
      \<lparr>pname = ''new_async'', pret = Ptr ''uv_async_t'', pargs = []\<rparr>,
      \<lparr>pname = ''new_conn'', pret = Ptr ''uv_connect_t'', pargs = []\<rparr>,
      \<lparr>pname = ''get_conn_stream'', pret = Ptr ''uv_stream_t'', pargs = [Ptr ''uv_connect_t'']\<rparr>,
      \<lparr>pname = ''get_tcp_data'', pret = Ptr ''void'', pargs = [Ptr ''uv_tcp_t'']\<rparr>,
      \<lparr>pname = ''set_tcp_data'', pret = Named ''void'', pargs = [Ptr ''uv_tcp_t'', Ptr ''void'']\<rparr>,
      \<lparr>pname = ''GC_calloc'', pret = Ptr ''void'', pargs = [Named ''size_t'', Named ''size_t'']\<rparr>,
      \<lparr>pname = ''replace_allocator'', pret = Named ''void'', pargs = []\<rparr>,
      \<lparr>pname = ''new_pthread_cond_t'', pret = Ptr ''pthread_cond_t'', pargs = []\<rparr>,
      \<lparr>pname = ''new_pthread_mutex_t'', pret = Ptr ''pthread_mutex_t'', pargs = []\<rparr>,
      \<lparr>pname = ''print_uv_err'', pret = Named ''void'', pargs = [Named ''int'']\<rparr>,
      \<lparr>pname = ''new_buf_t'', pret = Ptr ''uv_buf_t'', pargs = []\<rparr>,
      \<lparr>pname = ''get_buf_data'', pret = Ptr ''char'', pargs = [Ptr ''uv_buf_t'']\<rparr>,
      \<lparr>pname = ''get_buf_len'', pret = Named ''unsigned long'', pargs = [Ptr ''uv_buf_t'']\<rparr>,
      \<lparr>pname = ''set_buf_data'', pret = Named ''void'', pargs = [Ptr ''uv_buf_t'', Ptr ''char'']\<rparr>,
      \<lparr>pname = ''set_buf_len'', pret = Named ''void'', pargs = [Ptr ''uv_buf_t'', Named ''unsigned long'']\<rparr>,
      \<lparr>pname = ''get_available_parallelism'', pret = Named ''int'', pargs = []\<rparr>]"

definition prototypes :: "bool \<Rightarrow> proto list" where
  "prototypes add_caller =
     [proto_uv_timer_init, proto_uv_tcp_init, proto_uv_idle_init, proto_uv_idle_start, proto_uv_idle_stop, 
      proto_uv_default_loop, proto_uv_async_init, proto_uv_async_send, proto_uv_run, proto_uv_ip4_addr, 
      proto_uv_tcp_bind, proto_uv_write, proto_uv_buf_init, proto_uv_read_stop, proto_uv_tcp_connect, 
      proto_uv_accept, proto_uv_read_start, proto_uv_listen, proto_uv_close, proto_uv_timer_start, 
      proto_uv_timer_stop, proto_GC_set_pages_executable, proto_GC_base, proto_GC_free, 
      proto_GC_register_finalizer_unreachable, proto_GC_set_java_finalization, proto_GC_malloc_uncollectable, 
      proto_GC_debug_malloc add_caller, proto_GC_init, proto_GC_remove_roots, proto_GC_add_roots, 
      proto_GC_malloc, proto_GC_pthread_create]
     @ uvutil_prototypes"

section \<open>Declarations of the runtime\<close>

text \<open>The types of calc that the declarations use.\<close>

datatype calc_type = CInt | CInt32 | CInt64 | CByte | CVoid | CPtr calc_type | CFunc "calc_type list" calc_type | CNamed string

record decl =
  dname :: string
  dargs :: "calc_type list"
  dret :: calc_type

definition base_types :: "(string \<times> calc_type) list" where
  "base_types = [(''GC_Finalizer'', CFunc [CPtr CByte, CPtr CByte] CVoid)]"

definition uv_types :: "(string \<times> calc_type) list" where
  "uv_types = [(''UVLoop'', CPtr CByte),
     (''UVIdle'', CPtr CByte),
     (''UVAsync'', CPtr CByte),
     (''AsyncCB'', CFunc [CNamed ''UVAsync''] CVoid)]"

definition tcp_types :: "(string \<times> calc_type) list" where
  "tcp_types = [(''UVTcp'', CPtr CByte),
     (''UVConn'', CPtr CByte),
     (''Addr'', CPtr CByte),
     (''TCPConnCB'', CFunc [CNamed ''UVTcp'', CInt32] CVoid),
     (''WriteCB'', CFunc [CNamed ''UVWrite'', CInt32] CVoid),
     (''UVWrite'', CPtr CByte)]"

definition tcpclient_types :: "(string \<times> calc_type) list" where
  "tcpclient_types = [(''ConnCB'', CFunc [CNamed ''UVConn'', CInt32] CVoid)]"

definition stream_types :: "(string \<times> calc_type) list" where
  "stream_types = [(''UVStream'', CPtr CByte),
     (''UVBuf'', CPtr CByte),
     (''UVHandle'', CPtr CByte),
     (''AllocCB'', CFunc [CNamed ''UVHandle'', CInt, CNamed ''UVBuf''] CVoid),
     (''ReadCB'', CFunc [CNamed ''UVStream'', CInt, CNamed ''UVBuf''] CVoid)]"

definition time_types :: "(string \<times> calc_type) list" where
  "time_types = [(''Timer'', CPtr CByte)]"

definition runtime_types :: "(string \<times> calc_type) list" where
  "runtime_types = base_types @ uv_types @ tcp_types @ tcpclient_types @ stream_types @ time_types"

definition base_decls :: "decl list" where
  "base_decls =
     [\<lparr>dname = ''GC_reachable_here'', dargs = [CPtr CByte], dret = CVoid\<rparr>,
      \<lparr>dname = ''GC_set_pages_executable'', dargs = [CInt32], dret = CVoid\<rparr>,
      \<lparr>dname = ''GC_base'', dargs = [CPtr CByte], dret = CPtr CByte\<rparr>,
      \<lparr>dname = ''GC_free'', dargs = [CPtr CByte], dret = CVoid\<rparr>,
      \<lparr>dname = ''GC_register_finalizer_unreachable'', dargs = [CPtr CByte, CNamed ''GC_Finalizer'', CPtr CByte, CNamed ''GC_Finalizer'', CPtr (CPtr CByte)], dret = CVoid\<rparr>,
      \<lparr>dname = ''GC_set_java_finalization'', dargs = [CInt32], dret = CVoid\<rparr>,
      \<lparr>dname = ''GC_malloc_uncollectable'', dargs = [CInt], dret = CPtr CByte\<rparr>,
      \<lparr>dname = ''GC_debug_malloc'', dargs = [CInt], dret = CPtr CByte\<rparr>,
      \<lparr>dname = ''GC_init'', dargs = [], dret = CVoid\<rparr>,
      \<lparr>dname = ''GC_remove_roots'', dargs = [CPtr CByte, CPtr CByte], dret = CVoid\<rparr>,
      \<lparr>dname = ''GC_add_roots'', dargs = [CPtr CByte, CPtr CByte], dret = CVoid\<rparr>]"

definition coro_decls :: "decl list" where
  "coro_decls =
     [\<lparr>dname = ''get_available_parallelism'', dargs = [], dret = CInt\<rparr>]"

definition thread_decls :: "decl list" where
  "thread_decls =
     [\<lparr>dname = ''GC_pthread_create'', dargs = [CPtr (CInt), CPtr (CNamed ''pthread_attr''), CFunc [CPtr CByte] (CPtr CByte), CPtr CByte], dret = CInt32\<rparr>]"

definition mutex_decls :: "decl list" where
  "mutex_decls =
     [\<lparr>dname = ''new_pthread_mutex_t'', dargs = [], dret = CPtr CByte\<rparr>]"

definition cond_decls :: "decl list" where
  "cond_decls =
     [\<lparr>dname = ''new_pthread_cond_t'', dargs = [], dret = CPtr CByte\<rparr>]"

definition uv_decls :: "decl list" where
  "uv_decls =
     [\<lparr>dname = ''uv_timer_init'', dargs = [CNamed ''UVLoop'', CNamed ''Timer''], dret = CInt\<rparr>,
      \<lparr>dname = ''uv_tcp_init'', dargs = [CNamed ''UVLoop'', CNamed ''UVTcp''], dret = CInt32\<rparr>,
      \<lparr>dname = ''uv_idle_init'', dargs = [CNamed ''UVLoop'', CNamed ''UVIdle''], dret = CInt32\<rparr>,
      \<lparr>dname = ''uv_idle_start'', dargs = [CNamed ''UVIdle'', CFunc [CNamed ''UVIdle''] CVoid], dret = CInt32\<rparr>,
      \<lparr>dname = ''uv_idle_stop'', dargs = [CNamed ''UVIdle''], dret = CInt32\<rparr>,
      \<lparr>dname = ''uv_default_loop'', dargs = [], dret = CNamed ''UVLoop''\<rparr>,
      \<lparr>dname = ''new_async'', dargs = [], dret = CNamed ''UVAsync''\<rparr>,
      \<lparr>dname = ''uv_async_init'', dargs = [CNamed ''UVLoop'', CNamed ''UVAsync'', CNamed ''AsyncCB''], dret = CInt32\<rparr>,
      \<lparr>dname = ''uv_async_send'', dargs = [CNamed ''UVAsync''], dret = CInt32\<rparr>,
      \<lparr>dname = ''uv_run'', dargs = [CNamed ''UVLoop'', CInt], dret = CInt32\<rparr>,
      \<lparr>dname = ''new_idle'', dargs = [], dret = CNamed ''UVIdle''\<rparr>,
      \<lparr>dname = ''replace_allocator'', dargs = [], dret = CVoid\<rparr>]"

definition tcp_decls :: "decl list" where
  "tcp_decls =
     [\<lparr>dname = ''get_conn_stream'', dargs = [CNamed ''UVConn''], dret = CNamed ''UVStream''\<rparr>,
      \<lparr>dname = ''new_conn'', dargs = [], dret = CNamed ''UVConn''\<rparr>,
      \<lparr>dname = ''new_tcp'', dargs = [], dret = CNamed ''UVTcp''\<rparr>,
      \<lparr>dname = ''new_addr'', dargs = [], dret = CNamed ''Addr''\<rparr>,
      \<lparr>dname = ''uv_ip4_addr'', dargs = [CPtr CByte, CInt32, CNamed ''Addr''], dret = CInt32\<rparr>,
      \<lparr>dname = ''uv_tcp_bind'', dargs = [CNamed ''UVTcp'', CNamed ''Addr'', CInt32], dret = CInt32\<rparr>,
      \<lparr>dname = ''get_tcp_data'', dargs = [CNamed ''UVTcp''], dret = CPtr (CNamed ''Buffer'')\<rparr>,
      \<lparr>dname = ''set_tcp_data'', dargs = [CNamed ''UVTcp'', CPtr (CNamed ''Buffer'')], dret = CVoid\<rparr>,
      \<lparr>dname = ''uv_write'', dargs = [CNamed ''UVWrite'', CNamed ''UVStream'', CNamed ''UVBuf'', CInt, CNamed ''WriteCB''], dret = CInt32\<rparr>,
      \<lparr>dname = ''new_write'', dargs = [], dret = CNamed ''UVWrite''\<rparr>,
      \<lparr>dname = ''uv_buf_init'', dargs = [CPtr CByte, CInt], dret = CNamed ''UVBuf''\<rparr>]"

definition read_stop_decl :: decl where
  "read_stop_decl = \<lparr>dname = ''uv_read_stop'', dargs = [CNamed ''UVStream''], dret = CInt32\<rparr>"

definition print_err_decl :: decl where
  "print_err_decl = \<lparr>dname = ''print_uv_err'', dargs = [CInt], dret = CVoid\<rparr>"

definition tcpclient_decls :: "decl list" where
  "tcpclient_decls =
     [\<lparr>dname = ''uv_tcp_connect'', dargs = [CNamed ''UVConn'', CNamed ''UVTcp'', CNamed ''Addr'', CNamed ''ConnCB''], dret = CInt32\<rparr>]"

definition stream_decls :: "decl list" where
  "stream_decls =
     [\<lparr>dname = ''uv_accept'', dargs = [CNamed ''UVStream'', CNamed ''UVStream''], dret = CInt32\<rparr>,
      \<lparr>dname = ''uv_read_start'', dargs = [CNamed ''UVStream'', CNamed ''AllocCB'', CNamed ''ReadCB''], dret = CInt32\<rparr>,
      \<lparr>dname = ''new_buf_t'', dargs = [], dret = CNamed ''UVBuf''\<rparr>,
      \<lparr>dname = ''get_buf_data'', dargs = [CNamed ''UVBuf''], dret = CPtr CByte\<rparr>,
      \<lparr>dname = ''get_buf_len'', dargs = [CNamed ''UVBuf''], dret = CInt\<rparr>,
      \<lparr>dname = ''set_buf_data'', dargs = [CNamed ''UVBuf'', CPtr CByte], dret = CVoid\<rparr>,
      \<lparr>dname = ''set_buf_len'', dargs = [CNamed ''UVBuf'', CInt], dret = CVoid\<rparr>,
      \<lparr>dname = ''uv_listen'', dargs = [CNamed ''UVStream'', CInt32, CNamed ''TCPConnCB''], dret = CInt32\<rparr>,
      \<lparr>dname = ''uv_close'', dargs = [CNamed ''UVHandle'', CFunc [CNamed ''UVHandle''] CVoid], dret = CVoid\<rparr>]"

definition time_decls :: "decl list" where
  "time_decls =
     [\<lparr>dname = ''new_timer2'', dargs = [], dret = CNamed ''Timer''\<rparr>,
      \<lparr>dname = ''uv_timer_start'', dargs = [CNamed ''Timer'', CFunc [CNamed ''Timer''] CVoid, CInt64, CInt64], dret = CInt\<rparr>,
      \<lparr>dname = ''uv_timer_stop'', dargs = [CNamed ''Timer''], dret = CInt\<rparr>]"

text \<open>\<open>GC_malloc\<close> is declared by the compiler itself.\<close>

definition compiler_decls :: "decl list" where
  "compiler_decls = [\<lparr>dname = ''GC_malloc'', dargs = [CInt], dret = CPtr CByte\<rparr>]"

definition runtime_decls :: "decl list" where
  "runtime_decls = compiler_decls @ base_decls @ coro_decls @ thread_decls @ mutex_decls @ cond_decls @ uv_decls @ tcp_decls @ [read_stop_decl, print_err_decl] @ tcpclient_decls @ stream_decls @ time_decls"

section \<open>Passing values\<close>

text \<open>The LLVM types that matter: an integer of a width, nothing, a pointer, and anything that takes more than a register.\<close>

datatype llvm = I nat | VoidT | PtrT | Agg

text \<open>\<open>int\<close> of calc has the width of the machine word of the compiler, \<open>uintsize\<close>.\<close>

fun basic_llvm :: "nat \<Rightarrow> calc_type \<Rightarrow> llvm" where
  "basic_llvm uintsize CInt = I uintsize"
| "basic_llvm uintsize CInt32 = I 32"
| "basic_llvm uintsize CInt64 = I 64"
| "basic_llvm uintsize CByte = I 8"
| "basic_llvm uintsize CVoid = VoidT"
| "basic_llvm uintsize (CPtr t) = PtrT"
| "basic_llvm uintsize (CFunc args ret) = PtrT"
| "basic_llvm uintsize (CNamed n) = Agg"

definition resolve :: "calc_type \<Rightarrow> calc_type" where
  "resolve t = (case t of CNamed n \<Rightarrow> (case map_of runtime_types n of Some t' \<Rightarrow> t' | None \<Rightarrow> t) | _ \<Rightarrow> t)"

definition calc_llvm :: "nat \<Rightarrow> calc_type \<Rightarrow> llvm" where
  "calc_llvm uintsize t = basic_llvm uintsize (resolve t)"

fun c_llvm :: "target \<Rightarrow> ctype \<Rightarrow> llvm" where
  "c_llvm t (Named n) =
     (if n = ''void'' then VoidT else if n = ''uv_buf_t'' \<or> 8 < size_of t (Named n) then Agg else I (8 * size_of t (Named n)))"
| "c_llvm t (Enum n) = (if 8 < size_of t (Enum n) then Agg else I (8 * size_of t (Enum n)))"
| "c_llvm t (Ptr n) = PtrT"
| "c_llvm t (Fn n) = PtrT"
| "c_llvm t _ = Agg"

text \<open>
  A value of \<open>w\<close> bits in a register, whose other bits \<open>u\<close> are arbitrary; the other side reads the low bits of
  its own type. A result that is ignored is always carried.
\<close>

definition reg_write :: "nat \<Rightarrow> int \<Rightarrow> int \<Rightarrow> int" where
  "reg_write w v u = take_bit 64 (take_bit w v + push_bit w u)"

definition reads :: "nat \<Rightarrow> nat \<Rightarrow> bool" where
  "reads w w' \<longleftrightarrow> (\<forall>v u. take_bit w' (reg_write w v u) = take_bit w' v)"

fun carries :: "llvm \<Rightarrow> llvm \<Rightarrow> bool" where
  "carries a VoidT = True"
| "carries (I w) (I w') = reads w w'"
| "carries PtrT PtrT = reads 64 64"
| "carries _ _ = False"

fun carries_check :: "llvm \<Rightarrow> llvm \<Rightarrow> bool" where
  "carries_check a VoidT = True"
| "carries_check (I w) (I w') = (w' \<le> w)"
| "carries_check PtrT PtrT = True"
| "carries_check _ _ = False"

text \<open>
  Arguments go from calc to C and results back; in a callback it is the other way round. A function type
  of calc has to meet a callback type and not just a pointer.
\<close>

definition callback_agrees :: "(llvm \<Rightarrow> llvm \<Rightarrow> bool) \<Rightarrow> target \<Rightarrow> nat \<Rightarrow> calc_type list \<Rightarrow> calc_type \<Rightarrow> string \<Rightarrow> bool" where
  "callback_agrees c t uintsize args ret n =
    (case map_of (uv_callbacks @ uv_event_callbacks @ other_callbacks) n of
       None \<Rightarrow> False
     | Some (r, ps) \<Rightarrow> list_all2 (\<lambda>p a. c (c_llvm t p) (calc_llvm uintsize a)) ps args
         \<and> c (calc_llvm uintsize ret) (c_llvm t r))"

definition arg_agrees :: "(llvm \<Rightarrow> llvm \<Rightarrow> bool) \<Rightarrow> target \<Rightarrow> nat \<Rightarrow> calc_type \<Rightarrow> ctype \<Rightarrow> bool" where
  "arg_agrees c t uintsize a p \<longleftrightarrow> c (calc_llvm uintsize a) (c_llvm t p) \<and>
    (case (resolve a, p) of
       (CFunc args ret, Fn n) \<Rightarrow> callback_agrees c t uintsize args ret n
     | (CFunc args ret, _) \<Rightarrow> False
     | (_, Fn n) \<Rightarrow> False
     | _ \<Rightarrow> True)"

definition sig_agrees :: "(llvm \<Rightarrow> llvm \<Rightarrow> bool) \<Rightarrow> target \<Rightarrow> nat \<Rightarrow> decl \<Rightarrow> proto \<Rightarrow> bool" where
  "sig_agrees c t uintsize d p \<longleftrightarrow> list_all2 (arg_agrees c t uintsize) (dargs d) (pargs p)
     \<and> c (c_llvm t (pret p)) (calc_llvm uintsize (dret d))"

definition agrees :: "(llvm \<Rightarrow> llvm \<Rightarrow> bool) \<Rightarrow> bool \<Rightarrow> decl \<Rightarrow> bool" where
  "agrees c add_caller d \<longleftrightarrow>
     list_ex (\<lambda>p. pname p = dname d \<and> sig_agrees c linux_x86_64 64 d p) (prototypes add_caller)"

section \<open>The declarations against the headers\<close>

lemma reads_iff:
  assumes "w \<le> 64" "w' \<le> 64"
  shows "reads w w' \<longleftrightarrow> w' \<le> w"
proof
  assume "reads w w'"
  then have "take_bit w' (reg_write w 0 1) = take_bit w' 0" unfolding reads_def by blast
  then have "take_bit w' (of_bool (w < 64) * 2 ^ w :: int) = 0"
    using assms(2) by (simp add: reg_write_def push_bit_eq_mult min_absorb1)
  then show "w' \<le> w" using assms by (cases "w < 64") (simp_all add: take_bit_of_exp split: if_splits)
next
  assume le: "w' \<le> w"
  show "reads w w'"
    unfolding reads_def
  proof (intro allI)
    fix v u :: int
    have "take_bit w v + push_bit w u = v + 2 ^ w * (u - v div 2 ^ w)"
      by (simp add: take_bit_eq_mod push_bit_eq_mult minus_div_mult_eq_mod [symmetric] algebra_simps)
    also have "\<dots> = v + 2 ^ w' * (2 ^ (w - w') * (u - v div 2 ^ w))"
      using le by (simp add: power_add [symmetric] mult.assoc [symmetric])
    finally have "take_bit w' (take_bit w v + push_bit w u) = take_bit w' v"
      by (simp only: take_bit_eq_mod mod_mult_self2)
    then show "take_bit w' (reg_write w v u) = take_bit w' v"
      using assms(2) by (simp add: reg_write_def min_absorb1)
  qed
qed

fun reg_type :: "llvm \<Rightarrow> bool" where
  "reg_type (I w) \<longleftrightarrow> w \<le> 64"
| "reg_type _ \<longleftrightarrow> True"

lemma carries_iff: "reg_type a \<Longrightarrow> reg_type b \<Longrightarrow> carries a b = carries_check a b"
  by (cases a; cases b) (simp_all add: reads_iff)

lemma reg_types: "reg_type (c_llvm t ty)" "uintsize \<le> 64 \<Longrightarrow> reg_type (calc_llvm uintsize ct)"
  by (cases ty; simp) (cases "resolve ct"; simp add: calc_llvm_def)

lemma agrees_check: "agrees carries add_caller d = agrees carries_check add_caller d"
proof -
  have eqs: "carries (c_llvm t ty) (calc_llvm 64 ct) = carries_check (c_llvm t ty) (calc_llvm 64 ct)"
    "carries (calc_llvm 64 ct) (c_llvm t ty) = carries_check (calc_llvm 64 ct) (c_llvm t ty)" for t ty ct
    by (simp_all add: carries_iff reg_types)
  show ?thesis unfolding agrees_def sig_agrees_def arg_agrees_def callback_agrees_def eqs ..
qed

text \<open>
  The declarations that do not agree: five results are read from more bits than the function writes
  or as a pointer instead of a struct, one function has too few arguments, one is a macro, and one parameter
  has the type of the callback instead of that of a pointer to it.
\<close>

definition ffi_mismatches :: "string list" where
  "ffi_mismatches = [''GC_reachable_here'', ''GC_register_finalizer_unreachable'', ''GC_debug_malloc'',
     ''get_available_parallelism'', ''uv_timer_init'', ''uv_buf_init'', ''uv_timer_start'', ''uv_timer_stop'']"

definition checked :: "bool \<Rightarrow> decl list \<Rightarrow> bool" where
  "checked add_caller ds \<longleftrightarrow> list_all (\<lambda>d. agrees carries_check add_caller d \<longleftrightarrow> dname d \<notin> set ffi_mismatches) ds"

lemma checked_parts:
  "checked ac compiler_decls" "checked ac base_decls" "checked ac coro_decls" "checked ac thread_decls"
  "checked ac mutex_decls" "checked ac cond_decls" "checked ac tcpclient_decls"
  "checked ac stream_decls" "checked ac time_decls"
  by (induct ac; code_simp)+

lemma checked_uv: "checked ac uv_decls"
  by (induct ac; code_simp)

lemma checked_tcp: "checked ac (tcp_decls @ [read_stop_decl, print_err_decl])"
  by (induct ac; code_simp)



end
