(* ===== verification/Uv_Prototypes.thy ===== *)
theory Uv_Prototypes
  imports Uv_Ffi
begin

text \<open>
  The whole interface of \<open>uv.h\<close>: the prototypes of its 292 functions, in the order of the header and grouped
  by what stands between its type definitions, and the callback types that \<open>Uv_Ffi\<close> does not use. Qualifiers
  and the names of parameters are left out, an array parameter is the pointer that it is for the compiler,
  and the ellipsis of \<open>uv_loop_configure\<close> is listed as a last parameter. None of the prototypes depends
  on the platform. The question is whether the interface is consistent: whether every handle type
  can be initialised, and whether a callback can be given the object that it was registered for.
\<close>

section \<open>Callback types\<close>

definition uv_allocator_callbacks :: "(string \<times> ctype \<times> ctype list) list" where
  "uv_allocator_callbacks =
     [(''uv_malloc_func'', Ptr ''void'', [Named ''size_t'']),
      (''uv_realloc_func'', Ptr ''void'', [Ptr ''void'', Named ''size_t'']),
      (''uv_calloc_func'', Ptr ''void'', [Named ''size_t'', Named ''size_t'']),
      (''uv_free_func'', Named ''void'', [Ptr ''void''])]"

definition uv_udp_callbacks :: "(string \<times> ctype \<times> ctype list) list" where
  "uv_udp_callbacks =
     [(''uv_udp_send_cb'', Named ''void'', [Ptr ''uv_udp_send_t'', Named ''int'']),
      (''uv_udp_recv_cb'', Named ''void'',
       [Ptr ''uv_udp_t'', Named ''ssize_t'', Ptr ''uv_buf_t'', Ptr ''struct sockaddr'', Named ''unsigned int''])]"

definition uv_thread_callback :: "(string \<times> ctype \<times> ctype list) list" where
  "uv_thread_callback = [(''uv_thread_cb'', Named ''void'', [Ptr ''void''])]"

definition uv_once_callback :: "(string \<times> ctype \<times> ctype list) list" where
  "uv_once_callback = [(''void (*)(void)'', Named ''void'', [])]"

definition uv_api_callbacks :: "(string \<times> ctype \<times> ctype list) list" where
  "uv_api_callbacks = uv_callbacks @ uv_event_callbacks @ uv_udp_callbacks @ uv_thread_callback
     @ uv_allocator_callbacks @ uv_once_callback"

section \<open>Functions\<close>

definition uv_version_prototypes :: "proto list" where
  "uv_version_prototypes =
     [\<lparr>pname = ''uv_version'', pret = Named ''unsigned int'', pargs = []\<rparr>,
      \<lparr>pname = ''uv_version_string'', pret = Ptr ''char'', pargs = []\<rparr>]"

definition uv_loop_prototypes :: "proto list" where
  "uv_loop_prototypes =
     [\<lparr>pname = ''uv_library_shutdown'', pret = Named ''void'', pargs = []\<rparr>,
      \<lparr>pname = ''uv_replace_allocator'', pret = Named ''int'',
        pargs = [Fn ''uv_malloc_func'', Fn ''uv_realloc_func'', Fn ''uv_calloc_func'', Fn ''uv_free_func'']\<rparr>,
      proto_uv_default_loop,
      \<lparr>pname = ''uv_loop_init'', pret = Named ''int'', pargs = [Ptr ''uv_loop_t'']\<rparr>,
      \<lparr>pname = ''uv_loop_close'', pret = Named ''int'', pargs = [Ptr ''uv_loop_t'']\<rparr>,
      \<lparr>pname = ''uv_loop_new'', pret = Ptr ''uv_loop_t'', pargs = []\<rparr>,
      \<lparr>pname = ''uv_loop_delete'', pret = Named ''void'', pargs = [Ptr ''uv_loop_t'']\<rparr>,
      \<lparr>pname = ''uv_loop_size'', pret = Named ''size_t'', pargs = []\<rparr>,
      \<lparr>pname = ''uv_loop_alive'', pret = Named ''int'', pargs = [Ptr ''uv_loop_t'']\<rparr>,
      \<lparr>pname = ''uv_loop_configure'', pret = Named ''int'', pargs = [Ptr ''uv_loop_t'', Enum ''uv_loop_option'', Named ''...'']\<rparr>,
      \<lparr>pname = ''uv_loop_fork'', pret = Named ''int'', pargs = [Ptr ''uv_loop_t'']\<rparr>,
      proto_uv_run,
      \<lparr>pname = ''uv_stop'', pret = Named ''void'', pargs = [Ptr ''uv_loop_t'']\<rparr>,
      \<lparr>pname = ''uv_ref'', pret = Named ''void'', pargs = [Ptr ''uv_handle_t'']\<rparr>,
      \<lparr>pname = ''uv_unref'', pret = Named ''void'', pargs = [Ptr ''uv_handle_t'']\<rparr>,
      \<lparr>pname = ''uv_has_ref'', pret = Named ''int'', pargs = [Ptr ''uv_handle_t'']\<rparr>,
      \<lparr>pname = ''uv_update_time'', pret = Named ''void'', pargs = [Ptr ''uv_loop_t'']\<rparr>,
      \<lparr>pname = ''uv_now'', pret = Named ''uint64_t'', pargs = [Ptr ''uv_loop_t'']\<rparr>,
      \<lparr>pname = ''uv_backend_fd'', pret = Named ''int'', pargs = [Ptr ''uv_loop_t'']\<rparr>,
      \<lparr>pname = ''uv_backend_timeout'', pret = Named ''int'', pargs = [Ptr ''uv_loop_t'']\<rparr>]"

definition uv_error_prototypes :: "proto list" where
  "uv_error_prototypes =
     [\<lparr>pname = ''uv_translate_sys_error'', pret = Named ''int'', pargs = [Named ''int'']\<rparr>,
      \<lparr>pname = ''uv_strerror'', pret = Ptr ''char'', pargs = [Named ''int'']\<rparr>,
      \<lparr>pname = ''uv_strerror_r'', pret = Ptr ''char'', pargs = [Named ''int'', Ptr ''char'', Named ''size_t'']\<rparr>,
      \<lparr>pname = ''uv_err_name'', pret = Ptr ''char'', pargs = [Named ''int'']\<rparr>,
      \<lparr>pname = ''uv_err_name_r'', pret = Ptr ''char'', pargs = [Named ''int'', Ptr ''char'', Named ''size_t'']\<rparr>]"

definition uv_shutdown_prototypes :: "proto list" where
  "uv_shutdown_prototypes =
     [\<lparr>pname = ''uv_shutdown'', pret = Named ''int'',
        pargs = [Ptr ''uv_shutdown_t'', Ptr ''uv_stream_t'', Fn ''uv_shutdown_cb'']\<rparr>]"

definition uv_handle_prototypes :: "proto list" where
  "uv_handle_prototypes =
     [\<lparr>pname = ''uv_handle_size'', pret = Named ''size_t'', pargs = [Enum ''uv_handle_type'']\<rparr>,
      \<lparr>pname = ''uv_handle_get_type'', pret = Enum ''uv_handle_type'', pargs = [Ptr ''uv_handle_t'']\<rparr>,
      \<lparr>pname = ''uv_handle_type_name'', pret = Ptr ''char'', pargs = [Enum ''uv_handle_type'']\<rparr>,
      \<lparr>pname = ''uv_handle_get_data'', pret = Ptr ''void'', pargs = [Ptr ''uv_handle_t'']\<rparr>,
      \<lparr>pname = ''uv_handle_get_loop'', pret = Ptr ''uv_loop_t'', pargs = [Ptr ''uv_handle_t'']\<rparr>,
      \<lparr>pname = ''uv_handle_set_data'', pret = Named ''void'', pargs = [Ptr ''uv_handle_t'', Ptr ''void'']\<rparr>,
      \<lparr>pname = ''uv_req_size'', pret = Named ''size_t'', pargs = [Enum ''uv_req_type'']\<rparr>,
      \<lparr>pname = ''uv_req_get_data'', pret = Ptr ''void'', pargs = [Ptr ''uv_req_t'']\<rparr>,
      \<lparr>pname = ''uv_req_set_data'', pret = Named ''void'', pargs = [Ptr ''uv_req_t'', Ptr ''void'']\<rparr>,
      \<lparr>pname = ''uv_req_get_type'', pret = Enum ''uv_req_type'', pargs = [Ptr ''uv_req_t'']\<rparr>,
      \<lparr>pname = ''uv_req_type_name'', pret = Ptr ''char'', pargs = [Enum ''uv_req_type'']\<rparr>,
      \<lparr>pname = ''uv_is_active'', pret = Named ''int'', pargs = [Ptr ''uv_handle_t'']\<rparr>,
      \<lparr>pname = ''uv_walk'', pret = Named ''void'', pargs = [Ptr ''uv_loop_t'', Fn ''uv_walk_cb'', Ptr ''void'']\<rparr>,
      \<lparr>pname = ''uv_print_all_handles'', pret = Named ''void'', pargs = [Ptr ''uv_loop_t'', Ptr ''FILE'']\<rparr>,
      \<lparr>pname = ''uv_print_active_handles'', pret = Named ''void'', pargs = [Ptr ''uv_loop_t'', Ptr ''FILE'']\<rparr>,
      proto_uv_close,
      \<lparr>pname = ''uv_send_buffer_size'', pret = Named ''int'', pargs = [Ptr ''uv_handle_t'', Ptr ''int'']\<rparr>,
      \<lparr>pname = ''uv_recv_buffer_size'', pret = Named ''int'', pargs = [Ptr ''uv_handle_t'', Ptr ''int'']\<rparr>,
      \<lparr>pname = ''uv_fileno'', pret = Named ''int'', pargs = [Ptr ''uv_handle_t'', Ptr ''uv_os_fd_t'']\<rparr>,
      proto_uv_buf_init,
      \<lparr>pname = ''uv_pipe'', pret = Named ''int'', pargs = [Ptr ''uv_file'', Named ''int'', Named ''int'']\<rparr>,
      \<lparr>pname = ''uv_socketpair'', pret = Named ''int'',
        pargs = [Named ''int'', Named ''int'', Ptr ''uv_os_sock_t'', Named ''int'', Named ''int'']\<rparr>]"

definition uv_stream_prototypes :: "proto list" where
  "uv_stream_prototypes =
     [\<lparr>pname = ''uv_stream_get_write_queue_size'', pret = Named ''size_t'', pargs = [Ptr ''uv_stream_t'']\<rparr>,
      proto_uv_listen,
      proto_uv_accept,
      proto_uv_read_start,
      proto_uv_read_stop,
      proto_uv_write,
      \<lparr>pname = ''uv_write2'', pret = Named ''int'',
        pargs = [Ptr ''uv_write_t'', Ptr ''uv_stream_t'', Ptr ''uv_buf_t'', Named ''unsigned int'', Ptr ''uv_stream_t'', Fn ''uv_write_cb'']\<rparr>,
      \<lparr>pname = ''uv_try_write'', pret = Named ''int'',
        pargs = [Ptr ''uv_stream_t'', Ptr ''uv_buf_t'', Named ''unsigned int'']\<rparr>,
      \<lparr>pname = ''uv_try_write2'', pret = Named ''int'',
        pargs = [Ptr ''uv_stream_t'', Ptr ''uv_buf_t'', Named ''unsigned int'', Ptr ''uv_stream_t'']\<rparr>]"

definition uv_stream_state_prototypes :: "proto list" where
  "uv_stream_state_prototypes =
     [\<lparr>pname = ''uv_is_readable'', pret = Named ''int'', pargs = [Ptr ''uv_stream_t'']\<rparr>,
      \<lparr>pname = ''uv_is_writable'', pret = Named ''int'', pargs = [Ptr ''uv_stream_t'']\<rparr>,
      \<lparr>pname = ''uv_stream_set_blocking'', pret = Named ''int'', pargs = [Ptr ''uv_stream_t'', Named ''int'']\<rparr>,
      \<lparr>pname = ''uv_is_closing'', pret = Named ''int'', pargs = [Ptr ''uv_handle_t'']\<rparr>]"

definition uv_tcp_open_prototypes :: "proto list" where
  "uv_tcp_open_prototypes =
     [proto_uv_tcp_init,
      \<lparr>pname = ''uv_tcp_init_ex'', pret = Named ''int'',
        pargs = [Ptr ''uv_loop_t'', Ptr ''uv_tcp_t'', Named ''unsigned int'']\<rparr>,
      \<lparr>pname = ''uv_tcp_open'', pret = Named ''int'', pargs = [Ptr ''uv_tcp_t'', Named ''uv_os_sock_t'']\<rparr>,
      \<lparr>pname = ''uv_tcp_nodelay'', pret = Named ''int'', pargs = [Ptr ''uv_tcp_t'', Named ''int'']\<rparr>,
      \<lparr>pname = ''uv_tcp_keepalive'', pret = Named ''int'', pargs = [Ptr ''uv_tcp_t'', Named ''int'', Named ''unsigned int'']\<rparr>,
      \<lparr>pname = ''uv_tcp_simultaneous_accepts'', pret = Named ''int'', pargs = [Ptr ''uv_tcp_t'', Named ''int'']\<rparr>]"

definition uv_tcp_prototypes :: "proto list" where
  "uv_tcp_prototypes =
     [proto_uv_tcp_bind,
      \<lparr>pname = ''uv_tcp_getsockname'', pret = Named ''int'', pargs = [Ptr ''uv_tcp_t'', Ptr ''struct sockaddr'', Ptr ''int'']\<rparr>,
      \<lparr>pname = ''uv_tcp_getpeername'', pret = Named ''int'', pargs = [Ptr ''uv_tcp_t'', Ptr ''struct sockaddr'', Ptr ''int'']\<rparr>,
      \<lparr>pname = ''uv_tcp_close_reset'', pret = Named ''int'', pargs = [Ptr ''uv_tcp_t'', Fn ''uv_close_cb'']\<rparr>,
      proto_uv_tcp_connect]"

definition uv_udp_prototypes :: "proto list" where
  "uv_udp_prototypes =
     [\<lparr>pname = ''uv_udp_init'', pret = Named ''int'', pargs = [Ptr ''uv_loop_t'', Ptr ''uv_udp_t'']\<rparr>,
      \<lparr>pname = ''uv_udp_init_ex'', pret = Named ''int'',
        pargs = [Ptr ''uv_loop_t'', Ptr ''uv_udp_t'', Named ''unsigned int'']\<rparr>,
      \<lparr>pname = ''uv_udp_open'', pret = Named ''int'', pargs = [Ptr ''uv_udp_t'', Named ''uv_os_sock_t'']\<rparr>,
      \<lparr>pname = ''uv_udp_bind'', pret = Named ''int'',
        pargs = [Ptr ''uv_udp_t'', Ptr ''struct sockaddr'', Named ''unsigned int'']\<rparr>,
      \<lparr>pname = ''uv_udp_connect'', pret = Named ''int'', pargs = [Ptr ''uv_udp_t'', Ptr ''struct sockaddr'']\<rparr>,
      \<lparr>pname = ''uv_udp_getpeername'', pret = Named ''int'', pargs = [Ptr ''uv_udp_t'', Ptr ''struct sockaddr'', Ptr ''int'']\<rparr>,
      \<lparr>pname = ''uv_udp_getsockname'', pret = Named ''int'', pargs = [Ptr ''uv_udp_t'', Ptr ''struct sockaddr'', Ptr ''int'']\<rparr>,
      \<lparr>pname = ''uv_udp_set_membership'', pret = Named ''int'',
        pargs = [Ptr ''uv_udp_t'', Ptr ''char'', Ptr ''char'', Enum ''uv_membership'']\<rparr>,
      \<lparr>pname = ''uv_udp_set_source_membership'', pret = Named ''int'',
        pargs = [Ptr ''uv_udp_t'', Ptr ''char'', Ptr ''char'', Ptr ''char'', Enum ''uv_membership'']\<rparr>,
      \<lparr>pname = ''uv_udp_set_multicast_loop'', pret = Named ''int'', pargs = [Ptr ''uv_udp_t'', Named ''int'']\<rparr>,
      \<lparr>pname = ''uv_udp_set_multicast_ttl'', pret = Named ''int'', pargs = [Ptr ''uv_udp_t'', Named ''int'']\<rparr>,
      \<lparr>pname = ''uv_udp_set_multicast_interface'', pret = Named ''int'', pargs = [Ptr ''uv_udp_t'', Ptr ''char'']\<rparr>,
      \<lparr>pname = ''uv_udp_set_broadcast'', pret = Named ''int'', pargs = [Ptr ''uv_udp_t'', Named ''int'']\<rparr>,
      \<lparr>pname = ''uv_udp_set_ttl'', pret = Named ''int'', pargs = [Ptr ''uv_udp_t'', Named ''int'']\<rparr>,
      \<lparr>pname = ''uv_udp_send'', pret = Named ''int'',
        pargs = [Ptr ''uv_udp_send_t'', Ptr ''uv_udp_t'', Ptr ''uv_buf_t'', Named ''unsigned int'', Ptr ''struct sockaddr'', Fn ''uv_udp_send_cb'']\<rparr>,
      \<lparr>pname = ''uv_udp_try_send'', pret = Named ''int'',
        pargs = [Ptr ''uv_udp_t'', Ptr ''uv_buf_t'', Named ''unsigned int'', Ptr ''struct sockaddr'']\<rparr>,
      \<lparr>pname = ''uv_udp_recv_start'', pret = Named ''int'',
        pargs = [Ptr ''uv_udp_t'', Fn ''uv_alloc_cb'', Fn ''uv_udp_recv_cb'']\<rparr>,
      \<lparr>pname = ''uv_udp_using_recvmmsg'', pret = Named ''int'', pargs = [Ptr ''uv_udp_t'']\<rparr>,
      \<lparr>pname = ''uv_udp_recv_stop'', pret = Named ''int'', pargs = [Ptr ''uv_udp_t'']\<rparr>,
      \<lparr>pname = ''uv_udp_get_send_queue_size'', pret = Named ''size_t'', pargs = [Ptr ''uv_udp_t'']\<rparr>,
      \<lparr>pname = ''uv_udp_get_send_queue_count'', pret = Named ''size_t'', pargs = [Ptr ''uv_udp_t'']\<rparr>]"

definition uv_tty_prototypes :: "proto list" where
  "uv_tty_prototypes =
     [\<lparr>pname = ''uv_tty_init'', pret = Named ''int'',
        pargs = [Ptr ''uv_loop_t'', Ptr ''uv_tty_t'', Named ''uv_file'', Named ''int'']\<rparr>,
      \<lparr>pname = ''uv_tty_set_mode'', pret = Named ''int'', pargs = [Ptr ''uv_tty_t'', Enum ''uv_tty_mode_t'']\<rparr>,
      \<lparr>pname = ''uv_tty_reset_mode'', pret = Named ''int'', pargs = []\<rparr>,
      \<lparr>pname = ''uv_tty_get_winsize'', pret = Named ''int'', pargs = [Ptr ''uv_tty_t'', Ptr ''int'', Ptr ''int'']\<rparr>,
      \<lparr>pname = ''uv_tty_set_vterm_state'', pret = Named ''void'', pargs = [Enum ''uv_tty_vtermstate_t'']\<rparr>,
      \<lparr>pname = ''uv_tty_get_vterm_state'', pret = Named ''int'', pargs = [Ptr ''uv_tty_vtermstate_t'']\<rparr>]"

definition uv_guess_handle_prototypes :: "proto list" where
  "uv_guess_handle_prototypes =
     [\<lparr>pname = ''uv_guess_handle'', pret = Enum ''uv_handle_type'', pargs = [Named ''uv_file'']\<rparr>]"

definition uv_pipe_prototypes :: "proto list" where
  "uv_pipe_prototypes =
     [\<lparr>pname = ''uv_pipe_init'', pret = Named ''int'', pargs = [Ptr ''uv_loop_t'', Ptr ''uv_pipe_t'', Named ''int'']\<rparr>,
      \<lparr>pname = ''uv_pipe_open'', pret = Named ''int'', pargs = [Ptr ''uv_pipe_t'', Named ''uv_file'']\<rparr>,
      \<lparr>pname = ''uv_pipe_bind'', pret = Named ''int'', pargs = [Ptr ''uv_pipe_t'', Ptr ''char'']\<rparr>,
      \<lparr>pname = ''uv_pipe_connect'', pret = Named ''void'',
        pargs = [Ptr ''uv_connect_t'', Ptr ''uv_pipe_t'', Ptr ''char'', Fn ''uv_connect_cb'']\<rparr>,
      \<lparr>pname = ''uv_pipe_getsockname'', pret = Named ''int'', pargs = [Ptr ''uv_pipe_t'', Ptr ''char'', Ptr ''size_t'']\<rparr>,
      \<lparr>pname = ''uv_pipe_getpeername'', pret = Named ''int'', pargs = [Ptr ''uv_pipe_t'', Ptr ''char'', Ptr ''size_t'']\<rparr>,
      \<lparr>pname = ''uv_pipe_pending_instances'', pret = Named ''void'', pargs = [Ptr ''uv_pipe_t'', Named ''int'']\<rparr>,
      \<lparr>pname = ''uv_pipe_pending_count'', pret = Named ''int'', pargs = [Ptr ''uv_pipe_t'']\<rparr>,
      \<lparr>pname = ''uv_pipe_pending_type'', pret = Enum ''uv_handle_type'', pargs = [Ptr ''uv_pipe_t'']\<rparr>,
      \<lparr>pname = ''uv_pipe_chmod'', pret = Named ''int'', pargs = [Ptr ''uv_pipe_t'', Named ''int'']\<rparr>]"

definition uv_poll_prototypes :: "proto list" where
  "uv_poll_prototypes =
     [\<lparr>pname = ''uv_poll_init'', pret = Named ''int'', pargs = [Ptr ''uv_loop_t'', Ptr ''uv_poll_t'', Named ''int'']\<rparr>,
      \<lparr>pname = ''uv_poll_init_socket'', pret = Named ''int'',
        pargs = [Ptr ''uv_loop_t'', Ptr ''uv_poll_t'', Named ''uv_os_sock_t'']\<rparr>,
      \<lparr>pname = ''uv_poll_start'', pret = Named ''int'', pargs = [Ptr ''uv_poll_t'', Named ''int'', Fn ''uv_poll_cb'']\<rparr>,
      \<lparr>pname = ''uv_poll_stop'', pret = Named ''int'', pargs = [Ptr ''uv_poll_t'']\<rparr>]"

definition uv_prepare_prototypes :: "proto list" where
  "uv_prepare_prototypes =
     [\<lparr>pname = ''uv_prepare_init'', pret = Named ''int'', pargs = [Ptr ''uv_loop_t'', Ptr ''uv_prepare_t'']\<rparr>,
      \<lparr>pname = ''uv_prepare_start'', pret = Named ''int'', pargs = [Ptr ''uv_prepare_t'', Fn ''uv_prepare_cb'']\<rparr>,
      \<lparr>pname = ''uv_prepare_stop'', pret = Named ''int'', pargs = [Ptr ''uv_prepare_t'']\<rparr>]"

definition uv_check_prototypes :: "proto list" where
  "uv_check_prototypes =
     [\<lparr>pname = ''uv_check_init'', pret = Named ''int'', pargs = [Ptr ''uv_loop_t'', Ptr ''uv_check_t'']\<rparr>,
      \<lparr>pname = ''uv_check_start'', pret = Named ''int'', pargs = [Ptr ''uv_check_t'', Fn ''uv_check_cb'']\<rparr>,
      \<lparr>pname = ''uv_check_stop'', pret = Named ''int'', pargs = [Ptr ''uv_check_t'']\<rparr>]"

definition uv_idle_prototypes :: "proto list" where
  "uv_idle_prototypes =
     [proto_uv_idle_init,
      proto_uv_idle_start,
      proto_uv_idle_stop]"

definition uv_async_prototypes :: "proto list" where
  "uv_async_prototypes =
     [proto_uv_async_init,
      proto_uv_async_send]"

definition uv_timer_prototypes :: "proto list" where
  "uv_timer_prototypes =
     [proto_uv_timer_init,
      proto_uv_timer_start,
      proto_uv_timer_stop,
      \<lparr>pname = ''uv_timer_again'', pret = Named ''int'', pargs = [Ptr ''uv_timer_t'']\<rparr>,
      \<lparr>pname = ''uv_timer_set_repeat'', pret = Named ''void'', pargs = [Ptr ''uv_timer_t'', Named ''uint64_t'']\<rparr>,
      \<lparr>pname = ''uv_timer_get_repeat'', pret = Named ''uint64_t'', pargs = [Ptr ''uv_timer_t'']\<rparr>,
      \<lparr>pname = ''uv_timer_get_due_in'', pret = Named ''uint64_t'', pargs = [Ptr ''uv_timer_t'']\<rparr>]"

definition uv_getaddrinfo_prototypes :: "proto list" where
  "uv_getaddrinfo_prototypes =
     [\<lparr>pname = ''uv_getaddrinfo'', pret = Named ''int'',
        pargs = [Ptr ''uv_loop_t'', Ptr ''uv_getaddrinfo_t'', Fn ''uv_getaddrinfo_cb'', Ptr ''char'', Ptr ''char'', Ptr ''struct addrinfo'']\<rparr>,
      \<lparr>pname = ''uv_freeaddrinfo'', pret = Named ''void'', pargs = [Ptr ''struct addrinfo'']\<rparr>]"

definition uv_getnameinfo_prototypes :: "proto list" where
  "uv_getnameinfo_prototypes =
     [\<lparr>pname = ''uv_getnameinfo'', pret = Named ''int'',
        pargs = [Ptr ''uv_loop_t'', Ptr ''uv_getnameinfo_t'', Fn ''uv_getnameinfo_cb'', Ptr ''struct sockaddr'', Named ''int'']\<rparr>]"

definition uv_process_prototypes :: "proto list" where
  "uv_process_prototypes =
     [\<lparr>pname = ''uv_spawn'', pret = Named ''int'',
        pargs = [Ptr ''uv_loop_t'', Ptr ''uv_process_t'', Ptr ''uv_process_options_t'']\<rparr>,
      \<lparr>pname = ''uv_process_kill'', pret = Named ''int'', pargs = [Ptr ''uv_process_t'', Named ''int'']\<rparr>,
      \<lparr>pname = ''uv_kill'', pret = Named ''int'', pargs = [Named ''int'', Named ''int'']\<rparr>,
      \<lparr>pname = ''uv_process_get_pid'', pret = Named ''uv_pid_t'', pargs = [Ptr ''uv_process_t'']\<rparr>]"

definition uv_work_prototypes :: "proto list" where
  "uv_work_prototypes =
     [\<lparr>pname = ''uv_queue_work'', pret = Named ''int'',
        pargs = [Ptr ''uv_loop_t'', Ptr ''uv_work_t'', Fn ''uv_work_cb'', Fn ''uv_after_work_cb'']\<rparr>,
      \<lparr>pname = ''uv_cancel'', pret = Named ''int'', pargs = [Ptr ''uv_req_t'']\<rparr>]"

definition uv_program_prototypes :: "proto list" where
  "uv_program_prototypes =
     [\<lparr>pname = ''uv_setup_args'', pret = Ptr ''char *'', pargs = [Named ''int'', Ptr ''char *'']\<rparr>,
      \<lparr>pname = ''uv_get_process_title'', pret = Named ''int'', pargs = [Ptr ''char'', Named ''size_t'']\<rparr>,
      \<lparr>pname = ''uv_set_process_title'', pret = Named ''int'', pargs = [Ptr ''char'']\<rparr>,
      \<lparr>pname = ''uv_resident_set_memory'', pret = Named ''int'', pargs = [Ptr ''size_t'']\<rparr>,
      \<lparr>pname = ''uv_uptime'', pret = Named ''int'', pargs = [Ptr ''double'']\<rparr>,
      \<lparr>pname = ''uv_get_osfhandle'', pret = Named ''uv_os_fd_t'', pargs = [Named ''int'']\<rparr>,
      \<lparr>pname = ''uv_open_osfhandle'', pret = Named ''int'', pargs = [Named ''uv_os_fd_t'']\<rparr>]"

definition uv_os_prototypes :: "proto list" where
  "uv_os_prototypes =
     [\<lparr>pname = ''uv_getrusage'', pret = Named ''int'', pargs = [Ptr ''uv_rusage_t'']\<rparr>,
      \<lparr>pname = ''uv_os_homedir'', pret = Named ''int'', pargs = [Ptr ''char'', Ptr ''size_t'']\<rparr>,
      \<lparr>pname = ''uv_os_tmpdir'', pret = Named ''int'', pargs = [Ptr ''char'', Ptr ''size_t'']\<rparr>,
      \<lparr>pname = ''uv_os_get_passwd'', pret = Named ''int'', pargs = [Ptr ''uv_passwd_t'']\<rparr>,
      \<lparr>pname = ''uv_os_free_passwd'', pret = Named ''void'', pargs = [Ptr ''uv_passwd_t'']\<rparr>,
      \<lparr>pname = ''uv_os_getpid'', pret = Named ''uv_pid_t'', pargs = []\<rparr>,
      \<lparr>pname = ''uv_os_getppid'', pret = Named ''uv_pid_t'', pargs = []\<rparr>]"

definition uv_system_prototypes :: "proto list" where
  "uv_system_prototypes =
     [\<lparr>pname = ''uv_os_getpriority'', pret = Named ''int'', pargs = [Named ''uv_pid_t'', Ptr ''int'']\<rparr>,
      \<lparr>pname = ''uv_os_setpriority'', pret = Named ''int'', pargs = [Named ''uv_pid_t'', Named ''int'']\<rparr>,
      \<lparr>pname = ''uv_cpu_info'', pret = Named ''int'', pargs = [Ptr ''uv_cpu_info_t *'', Ptr ''int'']\<rparr>,
      \<lparr>pname = ''uv_free_cpu_info'', pret = Named ''void'', pargs = [Ptr ''uv_cpu_info_t'', Named ''int'']\<rparr>,
      \<lparr>pname = ''uv_interface_addresses'', pret = Named ''int'', pargs = [Ptr ''uv_interface_address_t *'', Ptr ''int'']\<rparr>,
      \<lparr>pname = ''uv_free_interface_addresses'', pret = Named ''void'', pargs = [Ptr ''uv_interface_address_t'', Named ''int'']\<rparr>]"

definition uv_env_prototypes :: "proto list" where
  "uv_env_prototypes =
     [\<lparr>pname = ''uv_os_environ'', pret = Named ''int'', pargs = [Ptr ''uv_env_item_t *'', Ptr ''int'']\<rparr>,
      \<lparr>pname = ''uv_os_free_environ'', pret = Named ''void'', pargs = [Ptr ''uv_env_item_t'', Named ''int'']\<rparr>,
      \<lparr>pname = ''uv_os_getenv'', pret = Named ''int'', pargs = [Ptr ''char'', Ptr ''char'', Ptr ''size_t'']\<rparr>,
      \<lparr>pname = ''uv_os_setenv'', pret = Named ''int'', pargs = [Ptr ''char'', Ptr ''char'']\<rparr>,
      \<lparr>pname = ''uv_os_unsetenv'', pret = Named ''int'', pargs = [Ptr ''char'']\<rparr>]"

definition uv_host_prototypes :: "proto list" where
  "uv_host_prototypes =
     [\<lparr>pname = ''uv_os_gethostname'', pret = Named ''int'', pargs = [Ptr ''char'', Ptr ''size_t'']\<rparr>,
      \<lparr>pname = ''uv_os_uname'', pret = Named ''int'', pargs = [Ptr ''uv_utsname_t'']\<rparr>,
      \<lparr>pname = ''uv_metrics_idle_time'', pret = Named ''uint64_t'', pargs = [Ptr ''uv_loop_t'']\<rparr>]"

definition uv_fs_file_prototypes :: "proto list" where
  "uv_fs_file_prototypes =
     [\<lparr>pname = ''uv_fs_get_type'', pret = Enum ''uv_fs_type'', pargs = [Ptr ''uv_fs_t'']\<rparr>,
      \<lparr>pname = ''uv_fs_get_result'', pret = Named ''ssize_t'', pargs = [Ptr ''uv_fs_t'']\<rparr>,
      \<lparr>pname = ''uv_fs_get_system_error'', pret = Named ''int'', pargs = [Ptr ''uv_fs_t'']\<rparr>,
      \<lparr>pname = ''uv_fs_get_ptr'', pret = Ptr ''void'', pargs = [Ptr ''uv_fs_t'']\<rparr>,
      \<lparr>pname = ''uv_fs_get_path'', pret = Ptr ''char'', pargs = [Ptr ''uv_fs_t'']\<rparr>,
      \<lparr>pname = ''uv_fs_get_statbuf'', pret = Ptr ''uv_stat_t'', pargs = [Ptr ''uv_fs_t'']\<rparr>,
      \<lparr>pname = ''uv_fs_req_cleanup'', pret = Named ''void'', pargs = [Ptr ''uv_fs_t'']\<rparr>,
      \<lparr>pname = ''uv_fs_close'', pret = Named ''int'',
        pargs = [Ptr ''uv_loop_t'', Ptr ''uv_fs_t'', Named ''uv_file'', Fn ''uv_fs_cb'']\<rparr>,
      \<lparr>pname = ''uv_fs_open'', pret = Named ''int'',
        pargs = [Ptr ''uv_loop_t'', Ptr ''uv_fs_t'', Ptr ''char'', Named ''int'', Named ''int'', Fn ''uv_fs_cb'']\<rparr>,
      \<lparr>pname = ''uv_fs_read'', pret = Named ''int'',
        pargs = [Ptr ''uv_loop_t'', Ptr ''uv_fs_t'', Named ''uv_file'', Ptr ''uv_buf_t'', Named ''unsigned int'', Named ''int64_t'', Fn ''uv_fs_cb'']\<rparr>,
      \<lparr>pname = ''uv_fs_unlink'', pret = Named ''int'',
        pargs = [Ptr ''uv_loop_t'', Ptr ''uv_fs_t'', Ptr ''char'', Fn ''uv_fs_cb'']\<rparr>,
      \<lparr>pname = ''uv_fs_write'', pret = Named ''int'',
        pargs = [Ptr ''uv_loop_t'', Ptr ''uv_fs_t'', Named ''uv_file'', Ptr ''uv_buf_t'', Named ''unsigned int'', Named ''int64_t'', Fn ''uv_fs_cb'']\<rparr>]"

definition uv_fs_prototypes :: "proto list" where
  "uv_fs_prototypes =
     [\<lparr>pname = ''uv_fs_copyfile'', pret = Named ''int'',
        pargs = [Ptr ''uv_loop_t'', Ptr ''uv_fs_t'', Ptr ''char'', Ptr ''char'', Named ''int'', Fn ''uv_fs_cb'']\<rparr>,
      \<lparr>pname = ''uv_fs_mkdir'', pret = Named ''int'',
        pargs = [Ptr ''uv_loop_t'', Ptr ''uv_fs_t'', Ptr ''char'', Named ''int'', Fn ''uv_fs_cb'']\<rparr>,
      \<lparr>pname = ''uv_fs_mkdtemp'', pret = Named ''int'',
        pargs = [Ptr ''uv_loop_t'', Ptr ''uv_fs_t'', Ptr ''char'', Fn ''uv_fs_cb'']\<rparr>,
      \<lparr>pname = ''uv_fs_mkstemp'', pret = Named ''int'',
        pargs = [Ptr ''uv_loop_t'', Ptr ''uv_fs_t'', Ptr ''char'', Fn ''uv_fs_cb'']\<rparr>,
      \<lparr>pname = ''uv_fs_rmdir'', pret = Named ''int'',
        pargs = [Ptr ''uv_loop_t'', Ptr ''uv_fs_t'', Ptr ''char'', Fn ''uv_fs_cb'']\<rparr>,
      \<lparr>pname = ''uv_fs_scandir'', pret = Named ''int'',
        pargs = [Ptr ''uv_loop_t'', Ptr ''uv_fs_t'', Ptr ''char'', Named ''int'', Fn ''uv_fs_cb'']\<rparr>,
      \<lparr>pname = ''uv_fs_scandir_next'', pret = Named ''int'', pargs = [Ptr ''uv_fs_t'', Ptr ''uv_dirent_t'']\<rparr>,
      \<lparr>pname = ''uv_fs_opendir'', pret = Named ''int'',
        pargs = [Ptr ''uv_loop_t'', Ptr ''uv_fs_t'', Ptr ''char'', Fn ''uv_fs_cb'']\<rparr>,
      \<lparr>pname = ''uv_fs_readdir'', pret = Named ''int'',
        pargs = [Ptr ''uv_loop_t'', Ptr ''uv_fs_t'', Ptr ''uv_dir_t'', Fn ''uv_fs_cb'']\<rparr>,
      \<lparr>pname = ''uv_fs_closedir'', pret = Named ''int'',
        pargs = [Ptr ''uv_loop_t'', Ptr ''uv_fs_t'', Ptr ''uv_dir_t'', Fn ''uv_fs_cb'']\<rparr>,
      \<lparr>pname = ''uv_fs_stat'', pret = Named ''int'',
        pargs = [Ptr ''uv_loop_t'', Ptr ''uv_fs_t'', Ptr ''char'', Fn ''uv_fs_cb'']\<rparr>,
      \<lparr>pname = ''uv_fs_fstat'', pret = Named ''int'',
        pargs = [Ptr ''uv_loop_t'', Ptr ''uv_fs_t'', Named ''uv_file'', Fn ''uv_fs_cb'']\<rparr>,
      \<lparr>pname = ''uv_fs_rename'', pret = Named ''int'',
        pargs = [Ptr ''uv_loop_t'', Ptr ''uv_fs_t'', Ptr ''char'', Ptr ''char'', Fn ''uv_fs_cb'']\<rparr>,
      \<lparr>pname = ''uv_fs_fsync'', pret = Named ''int'',
        pargs = [Ptr ''uv_loop_t'', Ptr ''uv_fs_t'', Named ''uv_file'', Fn ''uv_fs_cb'']\<rparr>,
      \<lparr>pname = ''uv_fs_fdatasync'', pret = Named ''int'',
        pargs = [Ptr ''uv_loop_t'', Ptr ''uv_fs_t'', Named ''uv_file'', Fn ''uv_fs_cb'']\<rparr>,
      \<lparr>pname = ''uv_fs_ftruncate'', pret = Named ''int'',
        pargs = [Ptr ''uv_loop_t'', Ptr ''uv_fs_t'', Named ''uv_file'', Named ''int64_t'', Fn ''uv_fs_cb'']\<rparr>,
      \<lparr>pname = ''uv_fs_sendfile'', pret = Named ''int'',
        pargs = [Ptr ''uv_loop_t'', Ptr ''uv_fs_t'', Named ''uv_file'', Named ''uv_file'', Named ''int64_t'', Named ''size_t'', Fn ''uv_fs_cb'']\<rparr>,
      \<lparr>pname = ''uv_fs_access'', pret = Named ''int'',
        pargs = [Ptr ''uv_loop_t'', Ptr ''uv_fs_t'', Ptr ''char'', Named ''int'', Fn ''uv_fs_cb'']\<rparr>,
      \<lparr>pname = ''uv_fs_chmod'', pret = Named ''int'',
        pargs = [Ptr ''uv_loop_t'', Ptr ''uv_fs_t'', Ptr ''char'', Named ''int'', Fn ''uv_fs_cb'']\<rparr>,
      \<lparr>pname = ''uv_fs_utime'', pret = Named ''int'',
        pargs = [Ptr ''uv_loop_t'', Ptr ''uv_fs_t'', Ptr ''char'', Named ''double'', Named ''double'', Fn ''uv_fs_cb'']\<rparr>,
      \<lparr>pname = ''uv_fs_futime'', pret = Named ''int'',
        pargs = [Ptr ''uv_loop_t'', Ptr ''uv_fs_t'', Named ''uv_file'', Named ''double'', Named ''double'', Fn ''uv_fs_cb'']\<rparr>,
      \<lparr>pname = ''uv_fs_lutime'', pret = Named ''int'',
        pargs = [Ptr ''uv_loop_t'', Ptr ''uv_fs_t'', Ptr ''char'', Named ''double'', Named ''double'', Fn ''uv_fs_cb'']\<rparr>,
      \<lparr>pname = ''uv_fs_lstat'', pret = Named ''int'',
        pargs = [Ptr ''uv_loop_t'', Ptr ''uv_fs_t'', Ptr ''char'', Fn ''uv_fs_cb'']\<rparr>,
      \<lparr>pname = ''uv_fs_link'', pret = Named ''int'',
        pargs = [Ptr ''uv_loop_t'', Ptr ''uv_fs_t'', Ptr ''char'', Ptr ''char'', Fn ''uv_fs_cb'']\<rparr>]"

definition uv_fs_link_prototypes :: "proto list" where
  "uv_fs_link_prototypes =
     [\<lparr>pname = ''uv_fs_symlink'', pret = Named ''int'',
        pargs = [Ptr ''uv_loop_t'', Ptr ''uv_fs_t'', Ptr ''char'', Ptr ''char'', Named ''int'', Fn ''uv_fs_cb'']\<rparr>,
      \<lparr>pname = ''uv_fs_readlink'', pret = Named ''int'',
        pargs = [Ptr ''uv_loop_t'', Ptr ''uv_fs_t'', Ptr ''char'', Fn ''uv_fs_cb'']\<rparr>,
      \<lparr>pname = ''uv_fs_realpath'', pret = Named ''int'',
        pargs = [Ptr ''uv_loop_t'', Ptr ''uv_fs_t'', Ptr ''char'', Fn ''uv_fs_cb'']\<rparr>,
      \<lparr>pname = ''uv_fs_fchmod'', pret = Named ''int'',
        pargs = [Ptr ''uv_loop_t'', Ptr ''uv_fs_t'', Named ''uv_file'', Named ''int'', Fn ''uv_fs_cb'']\<rparr>,
      \<lparr>pname = ''uv_fs_chown'', pret = Named ''int'',
        pargs = [Ptr ''uv_loop_t'', Ptr ''uv_fs_t'', Ptr ''char'', Named ''uv_uid_t'', Named ''uv_gid_t'', Fn ''uv_fs_cb'']\<rparr>,
      \<lparr>pname = ''uv_fs_fchown'', pret = Named ''int'',
        pargs = [Ptr ''uv_loop_t'', Ptr ''uv_fs_t'', Named ''uv_file'', Named ''uv_uid_t'', Named ''uv_gid_t'', Fn ''uv_fs_cb'']\<rparr>,
      \<lparr>pname = ''uv_fs_lchown'', pret = Named ''int'',
        pargs = [Ptr ''uv_loop_t'', Ptr ''uv_fs_t'', Ptr ''char'', Named ''uv_uid_t'', Named ''uv_gid_t'', Fn ''uv_fs_cb'']\<rparr>,
      \<lparr>pname = ''uv_fs_statfs'', pret = Named ''int'',
        pargs = [Ptr ''uv_loop_t'', Ptr ''uv_fs_t'', Ptr ''char'', Fn ''uv_fs_cb'']\<rparr>]"

definition uv_fs_poll_prototypes :: "proto list" where
  "uv_fs_poll_prototypes =
     [\<lparr>pname = ''uv_fs_poll_init'', pret = Named ''int'', pargs = [Ptr ''uv_loop_t'', Ptr ''uv_fs_poll_t'']\<rparr>,
      \<lparr>pname = ''uv_fs_poll_start'', pret = Named ''int'',
        pargs = [Ptr ''uv_fs_poll_t'', Fn ''uv_fs_poll_cb'', Ptr ''char'', Named ''unsigned int'']\<rparr>,
      \<lparr>pname = ''uv_fs_poll_stop'', pret = Named ''int'', pargs = [Ptr ''uv_fs_poll_t'']\<rparr>,
      \<lparr>pname = ''uv_fs_poll_getpath'', pret = Named ''int'', pargs = [Ptr ''uv_fs_poll_t'', Ptr ''char'', Ptr ''size_t'']\<rparr>]"

definition uv_signal_prototypes :: "proto list" where
  "uv_signal_prototypes =
     [\<lparr>pname = ''uv_signal_init'', pret = Named ''int'', pargs = [Ptr ''uv_loop_t'', Ptr ''uv_signal_t'']\<rparr>,
      \<lparr>pname = ''uv_signal_start'', pret = Named ''int'', pargs = [Ptr ''uv_signal_t'', Fn ''uv_signal_cb'', Named ''int'']\<rparr>,
      \<lparr>pname = ''uv_signal_start_oneshot'', pret = Named ''int'', pargs = [Ptr ''uv_signal_t'', Fn ''uv_signal_cb'', Named ''int'']\<rparr>,
      \<lparr>pname = ''uv_signal_stop'', pret = Named ''int'', pargs = [Ptr ''uv_signal_t'']\<rparr>,
      \<lparr>pname = ''uv_loadavg'', pret = Named ''void'', pargs = [Ptr ''double'']\<rparr>]"

definition uv_fs_event_prototypes :: "proto list" where
  "uv_fs_event_prototypes =
     [\<lparr>pname = ''uv_fs_event_init'', pret = Named ''int'', pargs = [Ptr ''uv_loop_t'', Ptr ''uv_fs_event_t'']\<rparr>,
      \<lparr>pname = ''uv_fs_event_start'', pret = Named ''int'',
        pargs = [Ptr ''uv_fs_event_t'', Fn ''uv_fs_event_cb'', Ptr ''char'', Named ''unsigned int'']\<rparr>,
      \<lparr>pname = ''uv_fs_event_stop'', pret = Named ''int'', pargs = [Ptr ''uv_fs_event_t'']\<rparr>,
      \<lparr>pname = ''uv_fs_event_getpath'', pret = Named ''int'', pargs = [Ptr ''uv_fs_event_t'', Ptr ''char'', Ptr ''size_t'']\<rparr>]"

definition uv_address_prototypes :: "proto list" where
  "uv_address_prototypes =
     [proto_uv_ip4_addr,
      \<lparr>pname = ''uv_ip6_addr'', pret = Named ''int'', pargs = [Ptr ''char'', Named ''int'', Ptr ''struct sockaddr_in6'']\<rparr>,
      \<lparr>pname = ''uv_ip4_name'', pret = Named ''int'', pargs = [Ptr ''struct sockaddr_in'', Ptr ''char'', Named ''size_t'']\<rparr>,
      \<lparr>pname = ''uv_ip6_name'', pret = Named ''int'',
        pargs = [Ptr ''struct sockaddr_in6'', Ptr ''char'', Named ''size_t'']\<rparr>,
      \<lparr>pname = ''uv_ip_name'', pret = Named ''int'', pargs = [Ptr ''struct sockaddr'', Ptr ''char'', Named ''size_t'']\<rparr>,
      \<lparr>pname = ''uv_inet_ntop'', pret = Named ''int'',
        pargs = [Named ''int'', Ptr ''void'', Ptr ''char'', Named ''size_t'']\<rparr>,
      \<lparr>pname = ''uv_inet_pton'', pret = Named ''int'', pargs = [Named ''int'', Ptr ''char'', Ptr ''void'']\<rparr>]"

definition uv_random_prototypes :: "proto list" where
  "uv_random_prototypes =
     [\<lparr>pname = ''uv_random'', pret = Named ''int'',
        pargs = [Ptr ''uv_loop_t'', Ptr ''uv_random_t'', Ptr ''void'', Named ''size_t'', Named ''unsigned int'', Fn ''uv_random_cb'']\<rparr>]"

definition uv_misc_prototypes :: "proto list" where
  "uv_misc_prototypes =
     [\<lparr>pname = ''uv_if_indextoname'', pret = Named ''int'', pargs = [Named ''unsigned int'', Ptr ''char'', Ptr ''size_t'']\<rparr>,
      \<lparr>pname = ''uv_if_indextoiid'', pret = Named ''int'', pargs = [Named ''unsigned int'', Ptr ''char'', Ptr ''size_t'']\<rparr>,
      \<lparr>pname = ''uv_exepath'', pret = Named ''int'', pargs = [Ptr ''char'', Ptr ''size_t'']\<rparr>,
      \<lparr>pname = ''uv_cwd'', pret = Named ''int'', pargs = [Ptr ''char'', Ptr ''size_t'']\<rparr>,
      \<lparr>pname = ''uv_chdir'', pret = Named ''int'', pargs = [Ptr ''char'']\<rparr>,
      \<lparr>pname = ''uv_get_free_memory'', pret = Named ''uint64_t'', pargs = []\<rparr>,
      \<lparr>pname = ''uv_get_total_memory'', pret = Named ''uint64_t'', pargs = []\<rparr>,
      \<lparr>pname = ''uv_get_constrained_memory'', pret = Named ''uint64_t'', pargs = []\<rparr>,
      \<lparr>pname = ''uv_hrtime'', pret = Named ''uint64_t'', pargs = []\<rparr>,
      \<lparr>pname = ''uv_sleep'', pret = Named ''void'', pargs = [Named ''unsigned int'']\<rparr>,
      \<lparr>pname = ''uv_disable_stdio_inheritance'', pret = Named ''void'', pargs = []\<rparr>]"

definition uv_dl_prototypes :: "proto list" where
  "uv_dl_prototypes =
     [\<lparr>pname = ''uv_dlopen'', pret = Named ''int'', pargs = [Ptr ''char'', Ptr ''uv_lib_t'']\<rparr>,
      \<lparr>pname = ''uv_dlclose'', pret = Named ''void'', pargs = [Ptr ''uv_lib_t'']\<rparr>,
      \<lparr>pname = ''uv_dlsym'', pret = Named ''int'', pargs = [Ptr ''uv_lib_t'', Ptr ''char'', Ptr ''void *'']\<rparr>,
      \<lparr>pname = ''uv_dlerror'', pret = Ptr ''char'', pargs = [Ptr ''uv_lib_t'']\<rparr>]"

definition uv_mutex_prototypes :: "proto list" where
  "uv_mutex_prototypes =
     [\<lparr>pname = ''uv_mutex_init'', pret = Named ''int'', pargs = [Ptr ''uv_mutex_t'']\<rparr>,
      \<lparr>pname = ''uv_mutex_init_recursive'', pret = Named ''int'', pargs = [Ptr ''uv_mutex_t'']\<rparr>,
      \<lparr>pname = ''uv_mutex_destroy'', pret = Named ''void'', pargs = [Ptr ''uv_mutex_t'']\<rparr>,
      \<lparr>pname = ''uv_mutex_lock'', pret = Named ''void'', pargs = [Ptr ''uv_mutex_t'']\<rparr>,
      \<lparr>pname = ''uv_mutex_trylock'', pret = Named ''int'', pargs = [Ptr ''uv_mutex_t'']\<rparr>,
      \<lparr>pname = ''uv_mutex_unlock'', pret = Named ''void'', pargs = [Ptr ''uv_mutex_t'']\<rparr>]"

definition uv_rwlock_prototypes :: "proto list" where
  "uv_rwlock_prototypes =
     [\<lparr>pname = ''uv_rwlock_init'', pret = Named ''int'', pargs = [Ptr ''uv_rwlock_t'']\<rparr>,
      \<lparr>pname = ''uv_rwlock_destroy'', pret = Named ''void'', pargs = [Ptr ''uv_rwlock_t'']\<rparr>,
      \<lparr>pname = ''uv_rwlock_rdlock'', pret = Named ''void'', pargs = [Ptr ''uv_rwlock_t'']\<rparr>,
      \<lparr>pname = ''uv_rwlock_tryrdlock'', pret = Named ''int'', pargs = [Ptr ''uv_rwlock_t'']\<rparr>,
      \<lparr>pname = ''uv_rwlock_rdunlock'', pret = Named ''void'', pargs = [Ptr ''uv_rwlock_t'']\<rparr>,
      \<lparr>pname = ''uv_rwlock_wrlock'', pret = Named ''void'', pargs = [Ptr ''uv_rwlock_t'']\<rparr>,
      \<lparr>pname = ''uv_rwlock_trywrlock'', pret = Named ''int'', pargs = [Ptr ''uv_rwlock_t'']\<rparr>,
      \<lparr>pname = ''uv_rwlock_wrunlock'', pret = Named ''void'', pargs = [Ptr ''uv_rwlock_t'']\<rparr>]"

definition uv_sem_prototypes :: "proto list" where
  "uv_sem_prototypes =
     [\<lparr>pname = ''uv_sem_init'', pret = Named ''int'', pargs = [Ptr ''uv_sem_t'', Named ''unsigned int'']\<rparr>,
      \<lparr>pname = ''uv_sem_destroy'', pret = Named ''void'', pargs = [Ptr ''uv_sem_t'']\<rparr>,
      \<lparr>pname = ''uv_sem_post'', pret = Named ''void'', pargs = [Ptr ''uv_sem_t'']\<rparr>,
      \<lparr>pname = ''uv_sem_wait'', pret = Named ''void'', pargs = [Ptr ''uv_sem_t'']\<rparr>,
      \<lparr>pname = ''uv_sem_trywait'', pret = Named ''int'', pargs = [Ptr ''uv_sem_t'']\<rparr>]"

definition uv_cond_prototypes :: "proto list" where
  "uv_cond_prototypes =
     [\<lparr>pname = ''uv_cond_init'', pret = Named ''int'', pargs = [Ptr ''uv_cond_t'']\<rparr>,
      \<lparr>pname = ''uv_cond_destroy'', pret = Named ''void'', pargs = [Ptr ''uv_cond_t'']\<rparr>,
      \<lparr>pname = ''uv_cond_signal'', pret = Named ''void'', pargs = [Ptr ''uv_cond_t'']\<rparr>,
      \<lparr>pname = ''uv_cond_broadcast'', pret = Named ''void'', pargs = [Ptr ''uv_cond_t'']\<rparr>,
      \<lparr>pname = ''uv_barrier_init'', pret = Named ''int'', pargs = [Ptr ''uv_barrier_t'', Named ''unsigned int'']\<rparr>,
      \<lparr>pname = ''uv_barrier_destroy'', pret = Named ''void'', pargs = [Ptr ''uv_barrier_t'']\<rparr>,
      \<lparr>pname = ''uv_barrier_wait'', pret = Named ''int'', pargs = [Ptr ''uv_barrier_t'']\<rparr>,
      \<lparr>pname = ''uv_cond_wait'', pret = Named ''void'', pargs = [Ptr ''uv_cond_t'', Ptr ''uv_mutex_t'']\<rparr>,
      \<lparr>pname = ''uv_cond_timedwait'', pret = Named ''int'', pargs = [Ptr ''uv_cond_t'', Ptr ''uv_mutex_t'', Named ''uint64_t'']\<rparr>]"

definition uv_key_prototypes :: "proto list" where
  "uv_key_prototypes =
     [\<lparr>pname = ''uv_once'', pret = Named ''void'', pargs = [Ptr ''uv_once_t'', Fn ''void (*)(void)'']\<rparr>,
      \<lparr>pname = ''uv_key_create'', pret = Named ''int'', pargs = [Ptr ''uv_key_t'']\<rparr>,
      \<lparr>pname = ''uv_key_delete'', pret = Named ''void'', pargs = [Ptr ''uv_key_t'']\<rparr>,
      \<lparr>pname = ''uv_key_get'', pret = Ptr ''void'', pargs = [Ptr ''uv_key_t'']\<rparr>,
      \<lparr>pname = ''uv_key_set'', pret = Named ''void'', pargs = [Ptr ''uv_key_t'', Ptr ''void'']\<rparr>,
      \<lparr>pname = ''uv_gettimeofday'', pret = Named ''int'', pargs = [Ptr ''uv_timeval64_t'']\<rparr>]"

definition uv_thread_create_prototypes :: "proto list" where
  "uv_thread_create_prototypes =
     [\<lparr>pname = ''uv_thread_create'', pret = Named ''int'', pargs = [Ptr ''uv_thread_t'', Fn ''uv_thread_cb'', Ptr ''void'']\<rparr>]"

definition uv_thread_prototypes :: "proto list" where
  "uv_thread_prototypes =
     [\<lparr>pname = ''uv_thread_create_ex'', pret = Named ''int'',
        pargs = [Ptr ''uv_thread_t'', Ptr ''uv_thread_options_t'', Fn ''uv_thread_cb'', Ptr ''void'']\<rparr>,
      \<lparr>pname = ''uv_thread_self'', pret = Named ''uv_thread_t'', pargs = []\<rparr>,
      \<lparr>pname = ''uv_thread_join'', pret = Named ''int'', pargs = [Ptr ''uv_thread_t'']\<rparr>,
      \<lparr>pname = ''uv_thread_equal'', pret = Named ''int'', pargs = [Ptr ''uv_thread_t'', Ptr ''uv_thread_t'']\<rparr>]"

definition uv_loop_data_prototypes :: "proto list" where
  "uv_loop_data_prototypes =
     [\<lparr>pname = ''uv_loop_get_data'', pret = Ptr ''void'', pargs = [Ptr ''uv_loop_t'']\<rparr>,
      \<lparr>pname = ''uv_loop_set_data'', pret = Named ''void'', pargs = [Ptr ''uv_loop_t'', Ptr ''void'']\<rparr>]"

definition uv_prototypes :: "proto list" where
  "uv_prototypes =
     uv_version_prototypes @ uv_loop_prototypes @ uv_error_prototypes @ uv_shutdown_prototypes @
     uv_handle_prototypes @ uv_stream_prototypes @ uv_stream_state_prototypes @ uv_tcp_open_prototypes @
     uv_tcp_prototypes @ uv_udp_prototypes @ uv_tty_prototypes @ uv_guess_handle_prototypes @
     uv_pipe_prototypes @ uv_poll_prototypes @ uv_prepare_prototypes @ uv_check_prototypes @
     uv_idle_prototypes @ uv_async_prototypes @ uv_timer_prototypes @ uv_getaddrinfo_prototypes @
     uv_getnameinfo_prototypes @ uv_process_prototypes @ uv_work_prototypes @ uv_program_prototypes @
     uv_os_prototypes @ uv_system_prototypes @ uv_env_prototypes @ uv_host_prototypes @
     uv_fs_file_prototypes @ uv_fs_prototypes @ uv_fs_link_prototypes @ uv_fs_poll_prototypes @
     uv_signal_prototypes @ uv_fs_event_prototypes @ uv_address_prototypes @ uv_random_prototypes @
     uv_misc_prototypes @ uv_dl_prototypes @ uv_mutex_prototypes @ uv_rwlock_prototypes @
     uv_sem_prototypes @ uv_cond_prototypes @ uv_key_prototypes @ uv_thread_create_prototypes @
     uv_thread_prototypes @ uv_loop_data_prototypes"

section \<open>Prototypes of the trees\<close>

text \<open>
  What \<open>RB_PROTOTYPE\<close> and \<open>SPLAY_PROTOTYPE\<close> of \<open>tree.h\<close> declare for a tree \<open>name\<close> of elements \<open>type\<close>
  (\<open>name##_SPLAY_FIND\<close>, \<open>name##_SPLAY_NEXT\<close> and \<open>name##_SPLAY_MIN_MAX\<close> are defined there at once), and the macros that
  call these functions: the suffix of the function and which of \<open>x\<close> and \<open>y\<close> are passed on.
\<close>

definition tree_fn :: "string \<Rightarrow> string \<Rightarrow> ctype \<Rightarrow> ctype list \<Rightarrow> proto" where
  "tree_fn name suffix r args = \<lparr>pname = name @ suffix, pret = r, pargs = args\<rparr>"

definition RB_PROTOTYPE_INTERNAL :: "string \<Rightarrow> string \<Rightarrow> proto list" where
  "RB_PROTOTYPE_INTERNAL name type =
    (let head = Ptr (''struct '' @ name); elm = Ptr (''struct '' @ type)
     in [tree_fn name ''_RB_INSERT_COLOR'' (Named ''void'') [head, elm],
         tree_fn name ''_RB_REMOVE_COLOR'' (Named ''void'') [head, elm, elm],
         tree_fn name ''_RB_REMOVE'' elm [head, elm],
         tree_fn name ''_RB_INSERT'' elm [head, elm],
         tree_fn name ''_RB_FIND'' elm [head, elm],
         tree_fn name ''_RB_NFIND'' elm [head, elm],
         tree_fn name ''_RB_NEXT'' elm [elm],
         tree_fn name ''_RB_PREV'' elm [elm],
         tree_fn name ''_RB_MINMAX'' elm [head, Named ''int'']])"

definition SPLAY_PROTOTYPE :: "string \<Rightarrow> string \<Rightarrow> proto list" where
  "SPLAY_PROTOTYPE name type =
    (let head = Ptr (''struct '' @ name); elm = Ptr (''struct '' @ type)
     in [tree_fn name ''_SPLAY'' (Named ''void'') [head, elm],
         tree_fn name ''_SPLAY_MINMAX'' (Named ''void'') [head, Named ''int''],
         tree_fn name ''_SPLAY_INSERT'' elm [head, elm],
         tree_fn name ''_SPLAY_REMOVE'' elm [head, elm]])"

definition RB_call_macros :: "(string \<times> string \<times> string list) list" where
  "RB_call_macros =
     [(''RB_INSERT'', ''_RB_INSERT'', [''x'', ''y'']), (''RB_REMOVE'', ''_RB_REMOVE'', [''x'', ''y'']),
      (''RB_FIND'', ''_RB_FIND'', [''x'', ''y'']), (''RB_NFIND'', ''_RB_NFIND'', [''x'', ''y'']),
      (''RB_NEXT'', ''_RB_NEXT'', [''y'']), (''RB_PREV'', ''_RB_PREV'', [''y''])]"

definition SPLAY_call_macros :: "(string \<times> string \<times> string list) list" where
  "SPLAY_call_macros =
     [(''SPLAY_INSERT'', ''_SPLAY_INSERT'', [''x'', ''y'']), (''SPLAY_REMOVE'', ''_SPLAY_REMOVE'', [''x'', ''y'']),
      (''SPLAY_FIND'', ''_SPLAY_FIND'', [''x'', ''y'']), (''SPLAY_NEXT'', ''_SPLAY_NEXT'', [''x'', ''y''])]"

text \<open>
  In a client that calls the macros with the head as \<open>x\<close> and an element as \<open>y\<close>, every argument has the type of
  its parameter and the result is an element, whatever the tree is called.
\<close>

definition tree_arg :: "string \<Rightarrow> string \<Rightarrow> string \<Rightarrow> ctype" where
  "tree_arg name type a = (if a = ''x'' then Ptr (''struct '' @ name) else Ptr (''struct '' @ type))"

lemma rb_macros_typed:
  assumes "(m, f, args) \<in> set RB_call_macros"
  shows "tree_fn name f (Ptr (''struct '' @ type)) (map (tree_arg name type) args) \<in> set (RB_PROTOTYPE_INTERNAL name type)"
  using assms by (auto simp: RB_call_macros_def RB_PROTOTYPE_INTERNAL_def tree_arg_def Let_def)

lemma splay_macros_typed:
  assumes "(m, f, args) \<in> set (take 2 SPLAY_call_macros)"
  shows "tree_fn name f (Ptr (''struct '' @ type)) (map (tree_arg name type) args) \<in> set (SPLAY_PROTOTYPE name type)"
  using assms by (auto simp: SPLAY_call_macros_def SPLAY_PROTOTYPE_def tree_arg_def Let_def)

section \<open>Objects of callbacks\<close>

text \<open>The struct behind the name of a handle or a request type.\<close>

definition api_struct :: "target \<Rightarrow> string \<Rightarrow> ctype option" where
  "api_struct t n = map_of (uv_handle_types t @ uv_req_types t) n"

text \<open>A pointer to an \<open>a\<close> can be used as a pointer to a \<open>b\<close>: it is one, or the type is a subclass.\<close>

definition usable_as :: "target \<Rightarrow> string \<Rightarrow> string \<Rightarrow> bool" where
  "usable_as t a b \<longleftrightarrow> a = b
     \<or> (\<exists>A B. api_struct t a = Some A \<and> api_struct t b = Some B \<and> extends t A B)"

text \<open>The casts that the library makes when it calls a callback.\<close>

definition callback_casts :: "(string \<times> string) list" where
  "callback_casts = [(''uv_tcp_t'', ''uv_handle_t''), (''uv_stream_t'', ''uv_handle_t''), (''uv_udp_t'', ''uv_handle_t'')]"

lemma callback_casts_usable:
  assumes "target_ok t" "(a, b) \<in> set callback_casts"
  shows "usable_as t a b"
proof -
  obtain name where n: "a = ''uv_'' @ name @ ''_t''" "b = ''uv_handle_t''" "\<exists>uc. (uc, name) \<in> set UV_HANDLE_TYPE_MAP"
    using assms(2) that [of "''tcp''"] that [of "''stream''"] that [of "''udp''"]
    by (auto simp: callback_casts_def UV_HANDLE_TYPE_MAP_def)
  then obtain H where "handle_struct t name = Some H" "extends t H (uv_handle_s t)"
    using abi.handle_class [OF abi.intro [OF assms(1)]] by blast
  moreover from this(1) n(1) have "api_struct t a = Some H" by (simp add: api_struct_def handle_struct_def)
  moreover from n(2) have "api_struct t b = Some (uv_handle_s t)" by (simp add: api_struct_def map_add_def uv_handle_types_def)
  ultimately show ?thesis unfolding usable_as_def by blast
qed

text \<open>The functions whose callbacks are not about an object of the call.\<close>

definition objectless :: "string list" where
  "objectless = [''uv_replace_allocator'', ''uv_walk'', ''uv_once'']"

fun object_arg :: "string \<Rightarrow> ctype \<Rightarrow> bool" where
  "object_arg b (Ptr a) \<longleftrightarrow> a = b \<or> (a, b) \<in> set callback_casts"
| "object_arg b _ \<longleftrightarrow> False"

fun callback_ok :: "ctype list \<Rightarrow> ctype \<Rightarrow> bool" where
  "callback_ok args (Fn cb) \<longleftrightarrow>
     (case map_of uv_api_callbacks cb of Some (r, Ptr b # ps) \<Rightarrow> list_ex (object_arg b) args | _ \<Rightarrow> False)"
| "callback_ok args _ \<longleftrightarrow> True"

definition callbacks_checked :: "proto list \<Rightarrow> bool" where
  "callbacks_checked ps \<longleftrightarrow>
     list_all (\<lambda>p. list_all (callback_ok (pargs p)) (pargs p) \<or> pname p \<in> set objectless) ps"

lemma callbacks_checked_append: "callbacks_checked (ps @ qs) \<longleftrightarrow> callbacks_checked ps \<and> callbacks_checked qs"
  by (simp add: callbacks_checked_def)

lemma object_arg_usable:
  assumes "target_ok t" "object_arg b ty"
  shows "\<exists>a. ty = Ptr a \<and> usable_as t a b"
  using assms callback_casts_usable [OF assms(1)] by (cases ty) (auto simp: usable_as_def)

lemma callback_okE:
  assumes "target_ok t" "callback_ok args (Fn cb)"
  obtains r b ps a where "map_of uv_api_callbacks cb = Some (r, Ptr b # ps)" "Ptr a \<in> set args" "usable_as t a b"
  using assms(2) object_arg_usable [OF assms(1)]
  by (fastforce simp: list_ex_iff split: option.splits list.splits ctype.splits)

lemma callbacks_checked_handles:
  "callbacks_checked uv_version_prototypes" "callbacks_checked uv_loop_prototypes" "callbacks_checked uv_error_prototypes"
  "callbacks_checked uv_shutdown_prototypes" "callbacks_checked uv_handle_prototypes" "callbacks_checked uv_stream_prototypes"
  "callbacks_checked uv_stream_state_prototypes" "callbacks_checked uv_tcp_open_prototypes" "callbacks_checked uv_tcp_prototypes"
  "callbacks_checked uv_udp_prototypes" "callbacks_checked uv_tty_prototypes" "callbacks_checked uv_guess_handle_prototypes"
  "callbacks_checked uv_pipe_prototypes" "callbacks_checked uv_poll_prototypes" "callbacks_checked uv_prepare_prototypes"
  "callbacks_checked uv_check_prototypes" "callbacks_checked uv_idle_prototypes" "callbacks_checked uv_async_prototypes"
  "callbacks_checked uv_timer_prototypes"
  by code_simp+

lemma callbacks_checked_fs:
  "callbacks_checked uv_fs_file_prototypes" "callbacks_checked uv_fs_prototypes" "callbacks_checked uv_fs_link_prototypes"
  "callbacks_checked uv_fs_poll_prototypes" "callbacks_checked uv_fs_event_prototypes"
  by code_simp+

lemma callbacks_checked_others:
  "callbacks_checked uv_getaddrinfo_prototypes" "callbacks_checked uv_getnameinfo_prototypes" "callbacks_checked uv_process_prototypes"
  "callbacks_checked uv_work_prototypes" "callbacks_checked uv_program_prototypes" "callbacks_checked uv_os_prototypes"
  "callbacks_checked uv_system_prototypes" "callbacks_checked uv_env_prototypes" "callbacks_checked uv_host_prototypes"
  "callbacks_checked uv_signal_prototypes" "callbacks_checked uv_address_prototypes" "callbacks_checked uv_random_prototypes"
  "callbacks_checked uv_misc_prototypes" "callbacks_checked uv_dl_prototypes" "callbacks_checked uv_mutex_prototypes"
  "callbacks_checked uv_rwlock_prototypes" "callbacks_checked uv_sem_prototypes" "callbacks_checked uv_cond_prototypes"
  "callbacks_checked uv_key_prototypes" "callbacks_checked uv_thread_create_prototypes" "callbacks_checked uv_thread_prototypes"
  "callbacks_checked uv_loop_data_prototypes"
  by code_simp+

lemma callbacks_checked_all: "callbacks_checked uv_prototypes"
  unfolding uv_prototypes_def callbacks_checked_append
  by (intro conjI callbacks_checked_handles callbacks_checked_fs callbacks_checked_others)

section \<open>Properties of the interface\<close>

text \<open>
  The function that makes a handle: \<open>uv_\<close>\<^emph>\<open>name\<close>\<open>_init\<close>, and \<open>uv_spawn\<close> for a process. The two base classes have none.
\<close>

definition init_name :: "string \<Rightarrow> string" where
  "init_name name = (if name = ''process'' then ''uv_spawn'' else ''uv_'' @ name @ ''_init'')"

definition makes_handle :: "string \<Rightarrow> proto \<Rightarrow> bool" where
  "makes_handle name p \<longleftrightarrow> pname p = init_name name \<and> pret p = Named ''int''
     \<and> take 2 (pargs p) = [Ptr ''uv_loop_t'', Ptr (''uv_'' @ name @ ''_t'')]"

definition has_maker :: "proto list \<Rightarrow> string \<Rightarrow> bool" where
  "has_maker ps name \<longleftrightarrow> list_ex (makes_handle name) ps"

lemma makers:
  "has_maker uv_async_prototypes ''async''" "has_maker uv_check_prototypes ''check''"
  "has_maker uv_fs_event_prototypes ''fs_event''" "has_maker uv_fs_poll_prototypes ''fs_poll''"
  "has_maker uv_idle_prototypes ''idle''" "has_maker uv_pipe_prototypes ''pipe''"
  "has_maker uv_poll_prototypes ''poll''" "has_maker uv_prepare_prototypes ''prepare''"
  "has_maker uv_process_prototypes ''process''" "has_maker uv_tcp_open_prototypes ''tcp''"
  "has_maker uv_timer_prototypes ''timer''" "has_maker uv_tty_prototypes ''tty''"
  "has_maker uv_udp_prototypes ''udp''" "has_maker uv_signal_prototypes ''signal''"
  by code_simp+

lemma has_maker_append: "has_maker (ps @ qs) name \<longleftrightarrow> has_maker ps name \<or> has_maker qs name"
  by (simp add: has_maker_def)

lemma every_handle_has_maker:
  assumes "(uc, name) \<in> set UV_HANDLE_TYPE_MAP" "name \<notin> {''handle'', ''stream''}"
  shows "has_maker uv_prototypes name"
proof -
  have "name \<in> set [''async'', ''check'', ''fs_event'', ''fs_poll'', ''idle'', ''pipe'', ''poll'', ''prepare'',
      ''process'', ''tcp'', ''timer'', ''tty'', ''udp'', ''signal'']"
    using assms by (auto simp: UV_HANDLE_TYPE_MAP_def)
  moreover have "list_all (has_maker uv_prototypes) [''async'', ''check'', ''fs_event'', ''fs_poll'', ''idle'',
      ''pipe'', ''poll'', ''prepare'', ''process'', ''tcp'', ''timer'', ''tty'', ''udp'', ''signal'']"
    by (simp only: list.pred_inject uv_prototypes_def has_maker_append makers simp_thms)
  ultimately show ?thesis unfolding list_all_iff by blast
qed

lemma uv_prototypes_count: "length uv_prototypes = 292"
  by code_simp

text \<open>
  C26. Every callback of the interface is about an object of the call: for every function of \<open>uv.h\<close>
  and every callback parameter of it, the type of the callback is defined, its first parameter is a pointer,
  and the function has a pointer parameter that can be used as that pointer on every target, either
  because it has the same type or because its struct is a subclass (a \<open>uv_tcp_t*\<close> for the \<open>uv_handle_t*\<close> of a
  \<open>uv_close_cb\<close>). The three functions without such an object are \<open>uv_replace_allocator\<close>, \<open>uv_walk\<close>,
  whose callback gets the handles of the loop, and \<open>uv_once\<close>.
\<close>

theorem callback_objects:
  assumes "target_ok t" "p \<in> set uv_prototypes" "Fn cb \<in> set (pargs p)"
    and "pname p \<notin> {''uv_replace_allocator'', ''uv_walk'', ''uv_once''}"
  shows "\<exists>r b ps a. map_of uv_api_callbacks cb = Some (r, Ptr b # ps) \<and> Ptr a \<in> set (pargs p) \<and> usable_as t a b"
proof -
  have "callback_ok (pargs p) (Fn cb)"
    using callbacks_checked_all assms(2-4) by (auto simp: callbacks_checked_def list_all_iff objectless_def simp del: callback_ok.simps)
  then show ?thesis using callback_okE [OF assms(1)] by metis
qed

theorem callback_objects_witness:
  "\<exists>r b ps a. map_of uv_api_callbacks ''uv_close_cb'' = Some (r, Ptr b # ps)
     \<and> Ptr a \<in> set [Ptr ''uv_tcp_t'', Fn ''uv_close_cb''] \<and> usable_as linux_x86_64 a b"
  using callback_objects [OF linux.ok,
      of "\<lparr>pname = ''uv_tcp_close_reset'', pret = Named ''int'', pargs = [Ptr ''uv_tcp_t'', Fn ''uv_close_cb'']\<rparr>" "''uv_close_cb''"]
  by (simp add: uv_prototypes_def uv_tcp_prototypes_def)

end
