(* ===== verification/Gc_Prototypes.thy ===== *)
theory Gc_Prototypes
  imports Uv_Ffi Gc_Types Gc_Alloc
begin

text \<open>
  The declarations of the collector's headers: the functions, the variables and the types of callbacks of
  \<open>gc.h\<close>, \<open>gc_mark.h\<close>, \<open>gc_typed.h\<close>, \<open>gc_gcj.h\<close>, \<open>gc_inline.h\<close>, \<open>gc_disclaim.h\<close>, \<open>gc_backptr.h\<close>, \<open>javaxfc.h\<close>, \<open>cord.h\<close>
  and \<open>cord_pos.h\<close>, in their order and under the conditions of the preprocessor. Qualifiers, attributes,
  calling conventions and names of parameters are left out, and an ellipsis is listed as a last parameter.
  The declarations for threads of Windows are in \<open>Gc_Redirects\<close>. The question is whether the macros
  of the headers only call what is declared in the same configuration, with arguments for all parameters.
\<close>

section \<open>Declarations\<close>

datatype gc_decl = Function proto | Variable string ctype | Callback string ctype "ctype list" | Synonym string ctype

text \<open>The types of \<open>GC_EXTRA_PARAMS\<close>.\<close>

definition extra_params :: "penv \<Rightarrow> ctype list" where
  "extra_params e = (if defd e ''GC_ADD_CALLER'' then [Named ''GC_word'', Ptr ''char'', Named ''int''] else [Ptr ''char'', Named ''int''])"

datatype GC_EventType = GC_EVENT_START | GC_EVENT_MARK_START | GC_EVENT_MARK_END | GC_EVENT_RECLAIM_START
  | GC_EVENT_RECLAIM_END | GC_EVENT_END | GC_EVENT_PRE_STOP_WORLD | GC_EVENT_POST_STOP_WORLD
  | GC_EVENT_PRE_START_WORLD | GC_EVENT_POST_START_WORLD | GC_EVENT_THREAD_SUSPENDED | GC_EVENT_THREAD_UNSUSPENDED

datatype GC_ToggleRefStatus = GC_TOGGLE_REF_DROP | GC_TOGGLE_REF_STRONG | GC_TOGGLE_REF_WEAK

definition GC_timeval_s :: ctype where
  "GC_timeval_s = Struct ''GC_timeval_s'' [(''tv_ms'', c_ulong), (''tv_nsec'', c_ulong)]"

text \<open>An entry of the mark stack is opaque, and has no size inside the library.\<close>

definition GC_ms_entry :: "penv \<Rightarrow> ctype option" where
  "GC_ms_entry e = (if defd e ''GC_BUILD'' \<or> defd e ''NOT_GCBUILD'' then None
     else Some (Struct ''GC_ms_entry'' [(''opaque'', void_p)]))"

subsection \<open>\<open>gc.h\<close>\<close>

definition gc_version_decls :: "penv \<Rightarrow> gc_decl list" where
  "gc_version_decls e =
     [Function \<lparr>pname = ''GC_get_version'', pret = Named ''unsigned int'', pargs = []\<rparr>,
      Variable ''GC_gc_no'' (Named ''GC_word''),
      Function \<lparr>pname = ''GC_get_gc_no'', pret = Named ''GC_word'', pargs = []\<rparr>]
     @ (if defd e ''GC_THREADS'' then
        [Variable ''GC_parallel'' (Named ''int''),
         Function \<lparr>pname = ''GC_get_parallel'', pret = Named ''int'', pargs = []\<rparr>,
         Function \<lparr>pname = ''GC_set_markers_count'', pret = Named ''void'', pargs = [Named ''unsigned int'']\<rparr>] else [])"

definition gc_handler_decls :: "gc_decl list" where
  "gc_handler_decls =
     [Callback ''GC_oom_func'' (Ptr ''void'') [Named ''size_t''],
      Variable ''GC_oom_fn'' (Fn ''GC_oom_func''),
      Function \<lparr>pname = ''GC_set_oom_fn'', pret = Named ''void'', pargs = [Fn ''GC_oom_func'']\<rparr>,
      Function \<lparr>pname = ''GC_get_oom_fn'', pret = Fn ''GC_oom_func'', pargs = []\<rparr>,
      Callback ''GC_on_heap_resize_proc'' (Named ''void'') [Named ''GC_word''],
      Variable ''GC_on_heap_resize'' (Fn ''GC_on_heap_resize_proc''),
      Function \<lparr>pname = ''GC_set_on_heap_resize'', pret = Named ''void'', pargs = [Fn ''GC_on_heap_resize_proc'']\<rparr>,
      Function \<lparr>pname = ''GC_get_on_heap_resize'', pret = Fn ''GC_on_heap_resize_proc'', pargs = []\<rparr>]"

definition gc_event_decls :: "penv \<Rightarrow> gc_decl list" where
  "gc_event_decls e =
     [Callback ''GC_on_collection_event_proc'' (Named ''void'') [Enum ''GC_EventType''],
      Function \<lparr>pname = ''GC_set_on_collection_event'', pret = Named ''void'', pargs = [Fn ''GC_on_collection_event_proc'']\<rparr>,
      Function \<lparr>pname = ''GC_get_on_collection_event'', pret = Fn ''GC_on_collection_event_proc'', pargs = []\<rparr>]
     @ (if defd e ''GC_THREADS'' \<or> defd e ''GC_BUILD'' \<and> defd e ''NN_PLATFORM_CTR'' then
        [Callback ''GC_on_thread_event_proc'' (Named ''void'') [Enum ''GC_EventType'', Ptr ''void''],
         Function \<lparr>pname = ''GC_set_on_thread_event'', pret = Named ''void'', pargs = [Fn ''GC_on_thread_event_proc'']\<rparr>,
         Function \<lparr>pname = ''GC_get_on_thread_event'', pret = Fn ''GC_on_thread_event_proc'', pargs = []\<rparr>] else [])"

definition gc_mode_decls :: "gc_decl list" where
  "gc_mode_decls =
     [Variable ''GC_find_leak'' (Named ''int''),
      Function \<lparr>pname = ''GC_set_find_leak'', pret = Named ''void'', pargs = [Named ''int'']\<rparr>,
      Function \<lparr>pname = ''GC_get_find_leak'', pret = Named ''int'', pargs = []\<rparr>,
      Variable ''GC_all_interior_pointers'' (Named ''int''),
      Function \<lparr>pname = ''GC_set_all_interior_pointers'', pret = Named ''void'', pargs = [Named ''int'']\<rparr>,
      Function \<lparr>pname = ''GC_get_all_interior_pointers'', pret = Named ''int'', pargs = []\<rparr>,
      Variable ''GC_finalize_on_demand'' (Named ''int''),
      Function \<lparr>pname = ''GC_set_finalize_on_demand'', pret = Named ''void'', pargs = [Named ''int'']\<rparr>,
      Function \<lparr>pname = ''GC_get_finalize_on_demand'', pret = Named ''int'', pargs = []\<rparr>,
      Variable ''GC_java_finalization'' (Named ''int''),
      Function proto_GC_set_java_finalization,
      Function \<lparr>pname = ''GC_get_java_finalization'', pret = Named ''int'', pargs = []\<rparr>,
      Callback ''GC_finalizer_notifier_proc'' (Named ''void'') [],
      Variable ''GC_finalizer_notifier'' (Fn ''GC_finalizer_notifier_proc''),
      Function \<lparr>pname = ''GC_set_finalizer_notifier'', pret = Named ''void'', pargs = [Fn ''GC_finalizer_notifier_proc'']\<rparr>,
      Function \<lparr>pname = ''GC_get_finalizer_notifier'', pret = Fn ''GC_finalizer_notifier_proc'', pargs = []\<rparr>,
      Variable ''GC_dont_gc'' (Named ''int''),
      Variable ''GC_dont_expand'' (Named ''int''),
      Function \<lparr>pname = ''GC_set_dont_expand'', pret = Named ''void'', pargs = [Named ''int'']\<rparr>,
      Function \<lparr>pname = ''GC_get_dont_expand'', pret = Named ''int'', pargs = []\<rparr>]"

definition gc_tuning_decls :: "gc_decl list" where
  "gc_tuning_decls =
     [Variable ''GC_use_entire_heap'' (Named ''int''),
      Variable ''GC_full_freq'' (Named ''int''),
      Function \<lparr>pname = ''GC_set_full_freq'', pret = Named ''void'', pargs = [Named ''int'']\<rparr>,
      Function \<lparr>pname = ''GC_get_full_freq'', pret = Named ''int'', pargs = []\<rparr>,
      Variable ''GC_non_gc_bytes'' (Named ''GC_word''),
      Function \<lparr>pname = ''GC_set_non_gc_bytes'', pret = Named ''void'', pargs = [Named ''GC_word'']\<rparr>,
      Function \<lparr>pname = ''GC_get_non_gc_bytes'', pret = Named ''GC_word'', pargs = []\<rparr>,
      Variable ''GC_no_dls'' (Named ''int''),
      Function \<lparr>pname = ''GC_set_no_dls'', pret = Named ''void'', pargs = [Named ''int'']\<rparr>,
      Function \<lparr>pname = ''GC_get_no_dls'', pret = Named ''int'', pargs = []\<rparr>,
      Variable ''GC_free_space_divisor'' (Named ''GC_word''),
      Function \<lparr>pname = ''GC_set_free_space_divisor'', pret = Named ''void'', pargs = [Named ''GC_word'']\<rparr>,
      Function \<lparr>pname = ''GC_get_free_space_divisor'', pret = Named ''GC_word'', pargs = []\<rparr>,
      Variable ''GC_max_retries'' (Named ''GC_word''),
      Function \<lparr>pname = ''GC_set_max_retries'', pret = Named ''void'', pargs = [Named ''GC_word'']\<rparr>,
      Function \<lparr>pname = ''GC_get_max_retries'', pret = Named ''GC_word'', pargs = []\<rparr>]"

definition gc_limit_decls :: "gc_decl list" where
  "gc_limit_decls =
     [Variable ''GC_stackbottom'' (Ptr ''char''),
      Variable ''GC_dont_precollect'' (Named ''int''),
      Function \<lparr>pname = ''GC_set_dont_precollect'', pret = Named ''void'', pargs = [Named ''int'']\<rparr>,
      Function \<lparr>pname = ''GC_get_dont_precollect'', pret = Named ''int'', pargs = []\<rparr>,
      Variable ''GC_time_limit'' (Named ''unsigned long'')]"

definition gc_time_decls :: "gc_decl list" where
  "gc_time_decls =
     [Function \<lparr>pname = ''GC_set_time_limit'', pret = Named ''void'', pargs = [Named ''unsigned long'']\<rparr>,
      Function \<lparr>pname = ''GC_get_time_limit'', pret = Named ''unsigned long'', pargs = []\<rparr>]"

definition gc_service_decls :: "gc_decl list" where
  "gc_service_decls =
     [Function \<lparr>pname = ''GC_set_time_limit_tv'', pret = Named ''void'', pargs = [Named ''struct GC_timeval_s'']\<rparr>,
      Function \<lparr>pname = ''GC_get_time_limit_tv'', pret = Named ''struct GC_timeval_s'', pargs = []\<rparr>,
      Function \<lparr>pname = ''GC_set_allocd_bytes_per_finalizer'', pret = Named ''void'', pargs = [Named ''GC_word'']\<rparr>,
      Function \<lparr>pname = ''GC_get_allocd_bytes_per_finalizer'', pret = Named ''GC_word'', pargs = []\<rparr>,
      Function \<lparr>pname = ''GC_start_performance_measurement'', pret = Named ''void'', pargs = []\<rparr>,
      Function \<lparr>pname = ''GC_get_full_gc_total_time'', pret = Named ''unsigned long'', pargs = []\<rparr>,
      Function proto_GC_set_pages_executable,
      Function \<lparr>pname = ''GC_get_pages_executable'', pret = Named ''int'', pargs = []\<rparr>,
      Function \<lparr>pname = ''GC_set_min_bytes_allocd'', pret = Named ''void'', pargs = [Named ''size_t'']\<rparr>,
      Function \<lparr>pname = ''GC_get_min_bytes_allocd'', pret = Named ''size_t'', pargs = []\<rparr>,
      Function \<lparr>pname = ''GC_set_rate'', pret = Named ''void'', pargs = [Named ''int'']\<rparr>,
      Function \<lparr>pname = ''GC_get_rate'', pret = Named ''int'', pargs = []\<rparr>,
      Function \<lparr>pname = ''GC_set_max_prior_attempts'', pret = Named ''void'', pargs = [Named ''int'']\<rparr>,
      Function \<lparr>pname = ''GC_get_max_prior_attempts'', pret = Named ''int'', pargs = []\<rparr>,
      Function \<lparr>pname = ''GC_set_disable_automatic_collection'', pret = Named ''void'', pargs = [Named ''int'']\<rparr>,
      Function \<lparr>pname = ''GC_get_disable_automatic_collection'', pret = Named ''int'', pargs = []\<rparr>,
      Function \<lparr>pname = ''GC_set_handle_fork'', pret = Named ''void'', pargs = [Named ''int'']\<rparr>,
      Function \<lparr>pname = ''GC_atfork_prepare'', pret = Named ''void'', pargs = []\<rparr>,
      Function \<lparr>pname = ''GC_atfork_parent'', pret = Named ''void'', pargs = []\<rparr>,
      Function \<lparr>pname = ''GC_atfork_child'', pret = Named ''void'', pargs = []\<rparr>]"

definition gc_alloc_decls :: "gc_decl list" where
  "gc_alloc_decls =
     [Function proto_GC_init,
      Function \<lparr>pname = ''GC_is_init_called'', pret = Named ''int'', pargs = []\<rparr>,
      Function \<lparr>pname = ''GC_deinit'', pret = Named ''void'', pargs = []\<rparr>,
      Function proto_GC_malloc,
      Function \<lparr>pname = ''GC_malloc_atomic'', pret = Ptr ''void'', pargs = [Named ''size_t'']\<rparr>,
      Function \<lparr>pname = ''GC_strdup'', pret = Ptr ''char'', pargs = [Ptr ''char'']\<rparr>,
      Function \<lparr>pname = ''GC_strndup'', pret = Ptr ''char'', pargs = [Ptr ''char'', Named ''size_t'']\<rparr>,
      Function proto_GC_malloc_uncollectable,
      Function \<lparr>pname = ''GC_malloc_stubborn'', pret = Ptr ''void'', pargs = [Named ''size_t'']\<rparr>,
      Function \<lparr>pname = ''GC_memalign'', pret = Ptr ''void'', pargs = [Named ''size_t'', Named ''size_t'']\<rparr>,
      Function \<lparr>pname = ''GC_posix_memalign'', pret = Named ''int'',
         pargs = [Ptr ''void *'', Named ''size_t'', Named ''size_t'']\<rparr>,
      Function proto_GC_free]"

definition gc_stubborn_decls :: "gc_decl list" where
  "gc_stubborn_decls =
     [Function \<lparr>pname = ''GC_change_stubborn'', pret = Named ''void'', pargs = [Ptr ''void'']\<rparr>,
      Function \<lparr>pname = ''GC_end_stubborn_change'', pret = Named ''void'', pargs = [Ptr ''void'']\<rparr>]"

definition gc_root_decls :: "gc_decl list" where
  "gc_root_decls =
     [Function proto_GC_base,
      Function \<lparr>pname = ''GC_is_heap_ptr'', pret = Named ''int'', pargs = [Ptr ''void'']\<rparr>,
      Function \<lparr>pname = ''GC_size'', pret = Named ''size_t'', pargs = [Ptr ''void'']\<rparr>,
      Function \<lparr>pname = ''GC_realloc'', pret = Ptr ''void'', pargs = [Ptr ''void'', Named ''size_t'']\<rparr>,
      Function \<lparr>pname = ''GC_expand_hp'', pret = Named ''int'', pargs = [Named ''size_t'']\<rparr>,
      Function \<lparr>pname = ''GC_set_max_heap_size'', pret = Named ''void'', pargs = [Named ''GC_word'']\<rparr>,
      Function \<lparr>pname = ''GC_exclude_static_roots'', pret = Named ''void'', pargs = [Ptr ''void'', Ptr ''void'']\<rparr>,
      Function \<lparr>pname = ''GC_clear_exclusion_table'', pret = Named ''void'', pargs = []\<rparr>,
      Function \<lparr>pname = ''GC_clear_roots'', pret = Named ''void'', pargs = []\<rparr>,
      Function proto_GC_add_roots,
      Function proto_GC_remove_roots,
      Function \<lparr>pname = ''GC_register_displacement'', pret = Named ''void'', pargs = [Named ''size_t'']\<rparr>,
      Function \<lparr>pname = ''GC_debug_register_displacement'', pret = Named ''void'', pargs = [Named ''size_t'']\<rparr>,
      Function \<lparr>pname = ''GC_gcollect'', pret = Named ''void'', pargs = []\<rparr>,
      Function \<lparr>pname = ''GC_gcollect_and_unmap'', pret = Named ''void'', pargs = []\<rparr>]"

definition gc_stop_decls :: "gc_decl list" where
  "gc_stop_decls =
     [Callback ''GC_stop_func'' (Named ''int'') [],
      Function \<lparr>pname = ''GC_try_to_collect'', pret = Named ''int'', pargs = [Fn ''GC_stop_func'']\<rparr>,
      Function \<lparr>pname = ''GC_set_stop_func'', pret = Named ''void'', pargs = [Fn ''GC_stop_func'']\<rparr>,
      Function \<lparr>pname = ''GC_get_stop_func'', pret = Fn ''GC_stop_func'', pargs = []\<rparr>,
      Function \<lparr>pname = ''GC_get_heap_size'', pret = Named ''size_t'', pargs = []\<rparr>,
      Function \<lparr>pname = ''GC_get_free_bytes'', pret = Named ''size_t'', pargs = []\<rparr>,
      Function \<lparr>pname = ''GC_get_unmapped_bytes'', pret = Named ''size_t'', pargs = []\<rparr>,
      Function \<lparr>pname = ''GC_get_bytes_since_gc'', pret = Named ''size_t'', pargs = []\<rparr>,
      Function \<lparr>pname = ''GC_get_expl_freed_bytes_since_gc'', pret = Named ''size_t'', pargs = []\<rparr>,
      Function \<lparr>pname = ''GC_get_total_bytes'', pret = Named ''size_t'', pargs = []\<rparr>,
      Function \<lparr>pname = ''GC_get_obtained_from_os_bytes'', pret = Named ''size_t'', pargs = []\<rparr>,
      Function \<lparr>pname = ''GC_get_heap_usage_safe'', pret = Named ''void'',
         pargs = [Ptr ''GC_word'', Ptr ''GC_word'', Ptr ''GC_word'', Ptr ''GC_word'', Ptr ''GC_word'']\<rparr>]"

definition gc_heap_decls :: "penv \<Rightarrow> gc_decl list" where
  "gc_heap_decls e =
     [Function \<lparr>pname = ''GC_get_prof_stats'', pret = Named ''size_t'', pargs = [Ptr ''struct GC_prof_stats_s'', Named ''size_t'']\<rparr>]
     @ (if defd e ''GC_THREADS'' then
        [Function \<lparr>pname = ''GC_get_prof_stats_unsafe'', pret = Named ''size_t'', pargs = [Ptr ''struct GC_prof_stats_s'', Named ''size_t'']\<rparr>] else [])
     @ [Function \<lparr>pname = ''GC_get_size_map_at'', pret = Named ''size_t'', pargs = [Named ''int'']\<rparr>,
      Function \<lparr>pname = ''GC_get_memory_use'', pret = Named ''size_t'', pargs = []\<rparr>,
      Function \<lparr>pname = ''GC_disable'', pret = Named ''void'', pargs = []\<rparr>,
      Function \<lparr>pname = ''GC_is_disabled'', pret = Named ''int'', pargs = []\<rparr>,
      Function \<lparr>pname = ''GC_enable'', pret = Named ''void'', pargs = []\<rparr>,
      Function \<lparr>pname = ''GC_set_manual_vdb_allowed'', pret = Named ''void'', pargs = [Named ''int'']\<rparr>,
      Function \<lparr>pname = ''GC_get_manual_vdb_allowed'', pret = Named ''int'', pargs = []\<rparr>,
      Function \<lparr>pname = ''GC_enable_incremental'', pret = Named ''void'', pargs = []\<rparr>,
      Function \<lparr>pname = ''GC_is_incremental_mode'', pret = Named ''int'', pargs = []\<rparr>]"

definition gc_incremental_decls :: "gc_decl list" where
  "gc_incremental_decls =
     [Function \<lparr>pname = ''GC_incremental_protection_needs'', pret = Named ''int'', pargs = []\<rparr>,
      Function \<lparr>pname = ''GC_start_incremental_collection'', pret = Named ''void'', pargs = []\<rparr>,
      Function \<lparr>pname = ''GC_collect_a_little'', pret = Named ''int'', pargs = []\<rparr>]"

definition gc_off_page_decls :: "gc_decl list" where
  "gc_off_page_decls =
     [Function \<lparr>pname = ''GC_malloc_ignore_off_page'', pret = Ptr ''void'', pargs = [Named ''size_t'']\<rparr>,
      Function \<lparr>pname = ''GC_malloc_atomic_ignore_off_page'', pret = Ptr ''void'', pargs = [Named ''size_t'']\<rparr>]"

definition gc_debug_decls :: "penv \<Rightarrow> gc_decl list" where
  "gc_debug_decls e =
     [Function \<lparr>pname = ''GC_malloc_atomic_uncollectable'', pret = Ptr ''void'', pargs = [Named ''size_t'']\<rparr>,
      Function \<lparr>pname = ''GC_debug_malloc_atomic_uncollectable'', pret = Ptr ''void'', pargs = [Named ''size_t''] @ extra_params e\<rparr>,
      Function (proto_GC_debug_malloc (defd e ''GC_ADD_CALLER'')),
      Function \<lparr>pname = ''GC_debug_malloc_atomic'', pret = Ptr ''void'', pargs = [Named ''size_t''] @ extra_params e\<rparr>,
      Function \<lparr>pname = ''GC_debug_strdup'', pret = Ptr ''char'', pargs = [Ptr ''char''] @ extra_params e\<rparr>,
      Function \<lparr>pname = ''GC_debug_strndup'', pret = Ptr ''char'', pargs = [Ptr ''char'', Named ''size_t''] @ extra_params e\<rparr>,
      Function \<lparr>pname = ''GC_debug_malloc_uncollectable'', pret = Ptr ''void'', pargs = [Named ''size_t''] @ extra_params e\<rparr>,
      Function \<lparr>pname = ''GC_debug_malloc_stubborn'', pret = Ptr ''void'', pargs = [Named ''size_t''] @ extra_params e\<rparr>,
      Function \<lparr>pname = ''GC_debug_malloc_ignore_off_page'', pret = Ptr ''void'', pargs = [Named ''size_t''] @ extra_params e\<rparr>,
      Function \<lparr>pname = ''GC_debug_malloc_atomic_ignore_off_page'', pret = Ptr ''void'', pargs = [Named ''size_t''] @ extra_params e\<rparr>,
      Function \<lparr>pname = ''GC_debug_free'', pret = Named ''void'', pargs = [Ptr ''void'']\<rparr>,
      Function \<lparr>pname = ''GC_debug_realloc'', pret = Ptr ''void'', pargs = [Ptr ''void'', Named ''size_t''] @ extra_params e\<rparr>,
      Function \<lparr>pname = ''GC_debug_change_stubborn'', pret = Named ''void'', pargs = [Ptr ''void'']\<rparr>,
      Function \<lparr>pname = ''GC_debug_end_stubborn_change'', pret = Named ''void'', pargs = [Ptr ''void'']\<rparr>,
      Function \<lparr>pname = ''GC_debug_malloc_replacement'', pret = Ptr ''void'', pargs = [Named ''size_t'']\<rparr>,
      Function \<lparr>pname = ''GC_debug_realloc_replacement'', pret = Ptr ''void'', pargs = [Ptr ''void'', Named ''size_t'']\<rparr>]"

definition gc_wcsdup_decls :: "penv \<Rightarrow> gc_decl list" where
  "gc_wcsdup_decls e =
     (if defd e ''GC_REQUIRE_WCSDUP'' then
        [Function \<lparr>pname = ''GC_wcsdup'', pret = Ptr ''wchar_t'', pargs = [Ptr ''wchar_t'']\<rparr>,
         Function \<lparr>pname = ''GC_debug_wcsdup'', pret = Ptr ''wchar_t'', pargs = [Ptr ''wchar_t''] @ extra_params e\<rparr>] else [])"

definition gc_finalizer_decls :: "gc_decl list" where
  "gc_finalizer_decls =
     [Callback ''GC_finalization_proc'' (Named ''void'') [Ptr ''void'', Ptr ''void''],
      Function \<lparr>pname = ''GC_register_finalizer'', pret = Named ''void'',
         pargs = [Ptr ''void'', Fn ''GC_finalization_proc'', Ptr ''void'', Ptr ''GC_finalization_proc'', Ptr ''void *'']\<rparr>,
      Function \<lparr>pname = ''GC_debug_register_finalizer'', pret = Named ''void'',
         pargs = [Ptr ''void'', Fn ''GC_finalization_proc'', Ptr ''void'', Ptr ''GC_finalization_proc'', Ptr ''void *'']\<rparr>,
      Function \<lparr>pname = ''GC_register_finalizer_ignore_self'', pret = Named ''void'',
         pargs = [Ptr ''void'', Fn ''GC_finalization_proc'', Ptr ''void'', Ptr ''GC_finalization_proc'', Ptr ''void *'']\<rparr>,
      Function \<lparr>pname = ''GC_debug_register_finalizer_ignore_self'', pret = Named ''void'',
         pargs = [Ptr ''void'', Fn ''GC_finalization_proc'', Ptr ''void'', Ptr ''GC_finalization_proc'', Ptr ''void *'']\<rparr>,
      Function \<lparr>pname = ''GC_register_finalizer_no_order'', pret = Named ''void'',
         pargs = [Ptr ''void'', Fn ''GC_finalization_proc'', Ptr ''void'', Ptr ''GC_finalization_proc'', Ptr ''void *'']\<rparr>,
      Function \<lparr>pname = ''GC_debug_register_finalizer_no_order'', pret = Named ''void'',
         pargs = [Ptr ''void'', Fn ''GC_finalization_proc'', Ptr ''void'', Ptr ''GC_finalization_proc'', Ptr ''void *'']\<rparr>,
      Function proto_GC_register_finalizer_unreachable,
      Function \<lparr>pname = ''GC_debug_register_finalizer_unreachable'', pret = Named ''void'',
         pargs = [Ptr ''void'', Fn ''GC_finalization_proc'', Ptr ''void'', Ptr ''GC_finalization_proc'', Ptr ''void *'']\<rparr>]"

definition gc_link_decls :: "gc_decl list" where
  "gc_link_decls =
     [Function \<lparr>pname = ''GC_register_disappearing_link'', pret = Named ''int'', pargs = [Ptr ''void *'']\<rparr>,
      Function \<lparr>pname = ''GC_general_register_disappearing_link'', pret = Named ''int'', pargs = [Ptr ''void *'', Ptr ''void'']\<rparr>,
      Function \<lparr>pname = ''GC_move_disappearing_link'', pret = Named ''int'', pargs = [Ptr ''void *'', Ptr ''void *'']\<rparr>,
      Function \<lparr>pname = ''GC_unregister_disappearing_link'', pret = Named ''int'', pargs = [Ptr ''void *'']\<rparr>,
      Function \<lparr>pname = ''GC_register_long_link'', pret = Named ''int'', pargs = [Ptr ''void *'', Ptr ''void'']\<rparr>,
      Function \<lparr>pname = ''GC_move_long_link'', pret = Named ''int'', pargs = [Ptr ''void *'', Ptr ''void *'']\<rparr>,
      Function \<lparr>pname = ''GC_unregister_long_link'', pret = Named ''int'', pargs = [Ptr ''void *'']\<rparr>]"

definition gc_toggleref_decls :: "gc_decl list" where
  "gc_toggleref_decls =
     [Callback ''GC_toggleref_func'' (Enum ''GC_ToggleRefStatus'') [Ptr ''void''],
      Function \<lparr>pname = ''GC_set_toggleref_func'', pret = Named ''void'', pargs = [Fn ''GC_toggleref_func'']\<rparr>,
      Function \<lparr>pname = ''GC_get_toggleref_func'', pret = Fn ''GC_toggleref_func'', pargs = []\<rparr>,
      Function \<lparr>pname = ''GC_toggleref_add'', pret = Named ''int'', pargs = [Ptr ''void'', Named ''int'']\<rparr>,
      Callback ''GC_await_finalize_proc'' (Named ''void'') [Ptr ''void''],
      Function \<lparr>pname = ''GC_set_await_finalize_proc'', pret = Named ''void'', pargs = [Fn ''GC_await_finalize_proc'']\<rparr>,
      Function \<lparr>pname = ''GC_get_await_finalize_proc'', pret = Fn ''GC_await_finalize_proc'', pargs = []\<rparr>,
      Function \<lparr>pname = ''GC_should_invoke_finalizers'', pret = Named ''int'', pargs = []\<rparr>,
      Function \<lparr>pname = ''GC_invoke_finalizers'', pret = Named ''int'', pargs = []\<rparr>]"

definition gc_noop_decls :: "penv \<Rightarrow> gc_decl list" where
  "gc_noop_decls e =
     (if \<not> (defd e ''__GNUC__'' \<and> \<not> defd e ''__INTEL_COMPILER'') then
        [Function \<lparr>pname = ''GC_noop1'', pret = Named ''void'', pargs = [Named ''GC_word'']\<rparr>] else [])"

definition gc_warn_decls :: "gc_decl list" where
  "gc_warn_decls =
     [Callback ''GC_warn_proc'' (Named ''void'') [Ptr ''char'', Named ''GC_word''],
      Function \<lparr>pname = ''GC_set_warn_proc'', pret = Named ''void'', pargs = [Fn ''GC_warn_proc'']\<rparr>,
      Function \<lparr>pname = ''GC_get_warn_proc'', pret = Fn ''GC_warn_proc'', pargs = []\<rparr>,
      Function \<lparr>pname = ''GC_ignore_warn_proc'', pret = Named ''void'', pargs = [Ptr ''char'', Named ''GC_word'']\<rparr>,
      Function \<lparr>pname = ''GC_set_log_fd'', pret = Named ''void'', pargs = [Named ''int'']\<rparr>,
      Callback ''GC_abort_func'' (Named ''void'') [Ptr ''char''],
      Function \<lparr>pname = ''GC_set_abort_func'', pret = Named ''void'', pargs = [Fn ''GC_abort_func'']\<rparr>,
      Function \<lparr>pname = ''GC_get_abort_func'', pret = Fn ''GC_abort_func'', pargs = []\<rparr>,
      Function \<lparr>pname = ''GC_abort_on_oom'', pret = Named ''void'', pargs = []\<rparr>]"

definition gc_lock_decls :: "penv \<Rightarrow> gc_decl list" where
  "gc_lock_decls e =
     (if defd e ''GC_THREADS'' then
        [Function \<lparr>pname = ''GC_alloc_lock'', pret = Named ''void'', pargs = []\<rparr>,
         Function \<lparr>pname = ''GC_alloc_unlock'', pret = Named ''void'', pargs = []\<rparr>] else [])"

definition gc_call_decls :: "gc_decl list" where
  "gc_call_decls =
     [Callback ''GC_fn_type'' (Ptr ''void'') [Ptr ''void''],
      Function \<lparr>pname = ''GC_call_with_alloc_lock'', pret = Ptr ''void'', pargs = [Fn ''GC_fn_type'', Ptr ''void'']\<rparr>]"

definition gc_stack_decls :: "gc_decl list" where
  "gc_stack_decls =
     [Callback ''GC_stack_base_func'' (Ptr ''void'') [Ptr ''struct GC_stack_base'', Ptr ''void''],
      Function \<lparr>pname = ''GC_call_with_stack_base'', pret = Ptr ''void'', pargs = [Fn ''GC_stack_base_func'', Ptr ''void'']\<rparr>]"

definition gc_thread_decls :: "penv \<Rightarrow> gc_decl list" where
  "gc_thread_decls e =
     (if defd e ''GC_DARWIN_THREADS'' \<or> defd e ''GC_WIN32_THREADS'' then
        [Function \<lparr>pname = ''GC_use_threads_discovery'', pret = Named ''void'', pargs = []\<rparr>] else [])
     @ (if defd e ''GC_THREADS'' then
        [Function \<lparr>pname = ''GC_set_suspend_signal'', pret = Named ''void'', pargs = [Named ''int'']\<rparr>,
         Function \<lparr>pname = ''GC_set_thr_restart_signal'', pret = Named ''void'', pargs = [Named ''int'']\<rparr>,
         Function \<lparr>pname = ''GC_get_suspend_signal'', pret = Named ''int'', pargs = []\<rparr>,
         Function \<lparr>pname = ''GC_get_thr_restart_signal'', pret = Named ''int'', pargs = []\<rparr>,
         Function \<lparr>pname = ''GC_start_mark_threads'', pret = Named ''void'', pargs = []\<rparr>,
         Function \<lparr>pname = ''GC_allow_register_threads'', pret = Named ''void'', pargs = []\<rparr>,
         Function \<lparr>pname = ''GC_register_my_thread'', pret = Named ''int'', pargs = [Ptr ''struct GC_stack_base'']\<rparr>,
         Function \<lparr>pname = ''GC_thread_is_registered'', pret = Named ''int'', pargs = []\<rparr>,
         Function \<lparr>pname = ''GC_register_altstack'', pret = Named ''void'',
           pargs = [Ptr ''void'', Named ''GC_word'', Ptr ''void'', Named ''GC_word'']\<rparr>,
         Function \<lparr>pname = ''GC_unregister_my_thread'', pret = Named ''int'', pargs = []\<rparr>,
         Function \<lparr>pname = ''GC_stop_world_external'', pret = Named ''void'', pargs = []\<rparr>,
         Function \<lparr>pname = ''GC_start_world_external'', pret = Named ''void'', pargs = []\<rparr>] else [])"

definition gc_blocking_decls :: "gc_decl list" where
  "gc_blocking_decls =
     [Function \<lparr>pname = ''GC_do_blocking'', pret = Ptr ''void'', pargs = [Fn ''GC_fn_type'', Ptr ''void'']\<rparr>,
      Function \<lparr>pname = ''GC_call_with_gc_active'', pret = Ptr ''void'', pargs = [Fn ''GC_fn_type'', Ptr ''void'']\<rparr>,
      Function \<lparr>pname = ''GC_get_stack_base'', pret = Named ''int'', pargs = [Ptr ''struct GC_stack_base'']\<rparr>,
      Function \<lparr>pname = ''GC_get_my_stackbottom'', pret = Ptr ''void'', pargs = [Ptr ''struct GC_stack_base'']\<rparr>,
      Function \<lparr>pname = ''GC_set_stackbottom'', pret = Named ''void'', pargs = [Ptr ''void'', Ptr ''struct GC_stack_base'']\<rparr>]"

definition gc_pointer_decls :: "gc_decl list" where
  "gc_pointer_decls =
     [Function \<lparr>pname = ''GC_same_obj'', pret = Ptr ''void'', pargs = [Ptr ''void'', Ptr ''void'']\<rparr>,
      Function \<lparr>pname = ''GC_pre_incr'', pret = Ptr ''void'', pargs = [Ptr ''void *'', Named ''ptrdiff_t'']\<rparr>,
      Function \<lparr>pname = ''GC_post_incr'', pret = Ptr ''void'', pargs = [Ptr ''void *'', Named ''ptrdiff_t'']\<rparr>,
      Function \<lparr>pname = ''GC_is_visible'', pret = Ptr ''void'', pargs = [Ptr ''void'']\<rparr>,
      Function \<lparr>pname = ''GC_is_valid_displacement'', pret = Ptr ''void'', pargs = [Ptr ''void'']\<rparr>,
      Function \<lparr>pname = ''GC_dump'', pret = Named ''void'', pargs = []\<rparr>,
      Function \<lparr>pname = ''GC_dump_named'', pret = Named ''void'', pargs = [Ptr ''char'']\<rparr>,
      Function \<lparr>pname = ''GC_dump_regions'', pret = Named ''void'', pargs = []\<rparr>,
      Function \<lparr>pname = ''GC_dump_finalization'', pret = Named ''void'', pargs = []\<rparr>]"

definition gc_dirty_decls :: "gc_decl list" where
  "gc_dirty_decls =
     [Function \<lparr>pname = ''GC_ptr_store_and_dirty'', pret = Named ''void'', pargs = [Ptr ''void'', Ptr ''void'']\<rparr>,
      Function \<lparr>pname = ''GC_debug_ptr_store_and_dirty'', pret = Named ''void'', pargs = [Ptr ''void'', Ptr ''void'']\<rparr>,
      Variable ''GC_same_obj_print_proc'' (Fn ''void (*)(void *, void *)''),
      Variable ''GC_is_valid_displacement_print_proc'' (Fn ''void (*)(void *)''),
      Variable ''GC_is_visible_print_proc'' (Fn ''void (*)(void *)'')]"

definition gc_many_decls :: "gc_decl list" where
  "gc_many_decls =
     [Function \<lparr>pname = ''GC_malloc_many'', pret = Ptr ''void'', pargs = [Named ''size_t'']\<rparr>]"

definition gc_static_roots_decls :: "gc_decl list" where
  "gc_static_roots_decls =
     [Callback ''GC_has_static_roots_func'' (Named ''int'') [Ptr ''char'', Ptr ''void'', Named ''size_t''],
      Function \<lparr>pname = ''GC_register_has_static_roots_callback'', pret = Named ''void'', pargs = [Fn ''GC_has_static_roots_func'']\<rparr>]"

definition gc_unmap_decls :: "gc_decl list" where
  "gc_unmap_decls =
     [Function \<lparr>pname = ''GC_set_force_unmap_on_gcollect'', pret = Named ''void'', pargs = [Named ''int'']\<rparr>,
      Function \<lparr>pname = ''GC_get_force_unmap_on_gcollect'', pret = Named ''int'', pargs = []\<rparr>]"

definition gc_find_limit_decls :: "penv \<Rightarrow> gc_decl list" where
  "gc_find_limit_decls e =
     (if \<not> cygwin e \<and> \<not> defd e ''_AIX'' \<and> (defd e ''HOST_ANDROID'' \<or> defd e ''__ANDROID__'') \<and> defd e ''IGNORE_DYNAMIC_LOADING'' then
        [Function \<lparr>pname = ''GC_find_limit'', pret = Ptr ''void'', pargs = [Ptr ''void'', Named ''int'']\<rparr>] else [])"

definition gc_platform_decls :: "penv \<Rightarrow> gc_decl list" where
  "gc_platform_decls e =
     [Function \<lparr>pname = ''GC_win32_free_heap'', pret = Named ''void'', pargs = []\<rparr>]
     @ (if defd e ''__SYMBIAN32__'' then
        [Function \<lparr>pname = ''GC_init_global_static_roots'', pret = Named ''void'', pargs = []\<rparr>] else [])"

definition gc_decls :: "penv \<Rightarrow> gc_decl list" where
  "gc_decls e =
     gc_version_decls e @ gc_handler_decls @ gc_event_decls e @ gc_mode_decls @ gc_tuning_decls @
     gc_limit_decls @ gc_time_decls @ gc_service_decls @ gc_alloc_decls @ gc_stubborn_decls @
     gc_root_decls @ gc_stop_decls @ gc_heap_decls e @ gc_incremental_decls @ gc_off_page_decls @
     gc_debug_decls e @ gc_wcsdup_decls e @ gc_finalizer_decls @ gc_link_decls @ gc_toggleref_decls @
     gc_noop_decls e @ gc_warn_decls @ gc_lock_decls e @ gc_call_decls @ gc_stack_decls @ gc_thread_decls
     e @ gc_blocking_decls @ gc_pointer_decls @ gc_dirty_decls @ gc_many_decls @ gc_static_roots_decls @
     gc_unmap_decls @ gc_find_limit_decls e @ gc_platform_decls e"

subsection \<open>The other headers of the collector\<close>

definition mark_proc_decls :: "gc_decl list" where
  "mark_proc_decls =
     [Callback ''GC_mark_proc'' (Ptr ''struct GC_ms_entry'') [Ptr ''GC_word'', Ptr ''struct GC_ms_entry'', Ptr ''struct GC_ms_entry'', Named ''GC_word'']]"

definition mark_push_decls :: "gc_decl list" where
  "mark_push_decls =
     [Variable ''GC_least_plausible_heap_addr'' (Ptr ''void''),
      Variable ''GC_greatest_plausible_heap_addr'' (Ptr ''void''),
      Function \<lparr>pname = ''GC_mark_and_push'', pret = Ptr ''struct GC_ms_entry'',
         pargs = [Ptr ''void'', Ptr ''struct GC_ms_entry'', Ptr ''struct GC_ms_entry'', Ptr ''void *'']\<rparr>]"

definition mark_header_decls :: "gc_decl list" where
  "mark_header_decls =
     [Function \<lparr>pname = ''GC_get_debug_header_size'', pret = Named ''size_t'', pargs = []\<rparr>]"

definition mark_header_size_decls :: "gc_decl list" where
  "mark_header_size_decls =
     [Variable ''GC_debug_header_size'' (Named ''size_t'')]"

definition mark_kind_decls :: "penv \<Rightarrow> gc_decl list" where
  "mark_kind_decls e =
     [Function \<lparr>pname = ''GC_new_free_list'', pret = Ptr ''void *'', pargs = []\<rparr>,
      Function \<lparr>pname = ''GC_new_free_list_inner'', pret = Ptr ''void *'', pargs = []\<rparr>,
      Function \<lparr>pname = ''GC_new_kind'', pret = Named ''unsigned int'',
         pargs = [Ptr ''void *'', Named ''GC_word'', Named ''int'', Named ''int'']\<rparr>,
      Function \<lparr>pname = ''GC_new_kind_inner'', pret = Named ''unsigned int'',
         pargs = [Ptr ''void *'', Named ''GC_word'', Named ''int'', Named ''int'']\<rparr>,
      Function \<lparr>pname = ''GC_new_proc'', pret = Named ''unsigned int'', pargs = [Fn ''GC_mark_proc'']\<rparr>,
      Function \<lparr>pname = ''GC_new_proc_inner'', pret = Named ''unsigned int'', pargs = [Fn ''GC_mark_proc'']\<rparr>,
      Function \<lparr>pname = ''GC_generic_malloc'', pret = Ptr ''void'', pargs = [Named ''size_t'', Named ''int'']\<rparr>,
      Function \<lparr>pname = ''GC_generic_malloc_ignore_off_page'', pret = Ptr ''void'', pargs = [Named ''size_t'', Named ''int'']\<rparr>,
      Function \<lparr>pname = ''GC_generic_malloc_uncollectable'', pret = Ptr ''void'', pargs = [Named ''size_t'', Named ''int'']\<rparr>,
      Function \<lparr>pname = ''GC_generic_or_special_malloc'', pret = Ptr ''void'', pargs = [Named ''size_t'', Named ''int'']\<rparr>,
      Function \<lparr>pname = ''GC_debug_generic_or_special_malloc'', pret = Ptr ''void'', pargs = [Named ''size_t'', Named ''int''] @ extra_params e\<rparr>]"

definition mark_describe_decls :: "gc_decl list" where
  "mark_describe_decls =
     [Function \<lparr>pname = ''GC_get_kind_and_size'', pret = Named ''int'', pargs = [Ptr ''void'', Ptr ''size_t'']\<rparr>,
      Callback ''GC_describe_type_fn'' (Named ''void'') [Ptr ''void'', Ptr ''char'']]"

definition mark_register_decls :: "gc_decl list" where
  "mark_register_decls =
     [Function \<lparr>pname = ''GC_register_describe_type_fn'', pret = Named ''void'', pargs = [Named ''int'', Fn ''GC_describe_type_fn'']\<rparr>,
      Function \<lparr>pname = ''GC_clear_stack'', pret = Ptr ''void'', pargs = [Ptr ''void'']\<rparr>,
      Callback ''GC_start_callback_proc'' (Named ''void'') [],
      Function \<lparr>pname = ''GC_set_start_callback'', pret = Named ''void'', pargs = [Fn ''GC_start_callback_proc'']\<rparr>,
      Function \<lparr>pname = ''GC_get_start_callback'', pret = Fn ''GC_start_callback_proc'', pargs = []\<rparr>,
      Function \<lparr>pname = ''GC_is_marked'', pret = Named ''int'', pargs = [Ptr ''void'']\<rparr>,
      Function \<lparr>pname = ''GC_clear_mark_bit'', pret = Named ''void'', pargs = [Ptr ''void'']\<rparr>,
      Function \<lparr>pname = ''GC_set_mark_bit'', pret = Named ''void'', pargs = [Ptr ''void'']\<rparr>,
      Function \<lparr>pname = ''GC_push_all'', pret = Named ''void'', pargs = [Ptr ''void'', Ptr ''void'']\<rparr>,
      Function \<lparr>pname = ''GC_push_all_eager'', pret = Named ''void'', pargs = [Ptr ''void'', Ptr ''void'']\<rparr>,
      Function \<lparr>pname = ''GC_push_conditional'', pret = Named ''void'', pargs = [Ptr ''void'', Ptr ''void'', Named ''int'']\<rparr>,
      Function \<lparr>pname = ''GC_push_finalizer_structures'', pret = Named ''void'', pargs = []\<rparr>,
      Callback ''GC_push_other_roots_proc'' (Named ''void'') [],
      Function \<lparr>pname = ''GC_set_push_other_roots'', pret = Named ''void'', pargs = [Fn ''GC_push_other_roots_proc'']\<rparr>,
      Function \<lparr>pname = ''GC_get_push_other_roots'', pret = Fn ''GC_push_other_roots_proc'', pargs = []\<rparr>,
      Callback ''GC_reachable_object_proc'' (Named ''void'') [Ptr ''void'', Named ''size_t'', Ptr ''void''],
      Function \<lparr>pname = ''GC_enumerate_reachable_objects_inner'', pret = Named ''void'', pargs = [Fn ''GC_reachable_object_proc'', Ptr ''void'']\<rparr>,
      Function \<lparr>pname = ''GC_is_tmp_root'', pret = Named ''int'', pargs = [Ptr ''void'']\<rparr>,
      Function \<lparr>pname = ''GC_print_trace'', pret = Named ''void'', pargs = [Named ''GC_word'']\<rparr>,
      Function \<lparr>pname = ''GC_print_trace_inner'', pret = Named ''void'', pargs = [Named ''GC_word'']\<rparr>]"

definition typed_descr_decls :: "gc_decl list" where
  "typed_descr_decls =
     [Synonym ''GC_descr'' (Named ''GC_word''),
      Function \<lparr>pname = ''GC_make_descriptor'', pret = Named ''GC_descr'', pargs = [Ptr ''GC_word'', Named ''size_t'']\<rparr>]"

definition typed_malloc_decls :: "gc_decl list" where
  "typed_malloc_decls =
     [Function \<lparr>pname = ''GC_malloc_explicitly_typed'', pret = Ptr ''void'', pargs = [Named ''size_t'', Named ''GC_descr'']\<rparr>,
      Function \<lparr>pname = ''GC_malloc_explicitly_typed_ignore_off_page'', pret = Ptr ''void'', pargs = [Named ''size_t'', Named ''GC_descr'']\<rparr>,
      Function \<lparr>pname = ''GC_calloc_explicitly_typed'', pret = Ptr ''void'',
         pargs = [Named ''size_t'', Named ''size_t'', Named ''GC_descr'']\<rparr>]"

definition gcj_decls :: "penv \<Rightarrow> gc_decl list" where
  "gcj_decls e =
     [Function \<lparr>pname = ''GC_init_gcj_malloc'', pret = Named ''void'', pargs = [Named ''int'', Ptr ''void'']\<rparr>,
      Function \<lparr>pname = ''GC_gcj_malloc'', pret = Ptr ''void'', pargs = [Named ''size_t'', Ptr ''void'']\<rparr>,
      Function \<lparr>pname = ''GC_debug_gcj_malloc'', pret = Ptr ''void'', pargs = [Named ''size_t'', Ptr ''void''] @ extra_params e\<rparr>,
      Function \<lparr>pname = ''GC_gcj_malloc_ignore_off_page'', pret = Ptr ''void'', pargs = [Named ''size_t'', Ptr ''void'']\<rparr>,
      Variable ''GC_gcj_kind'' (Named ''int''),
      Variable ''GC_gcj_debug_kind'' (Named ''int'')]"

definition inline_malloc_decls :: "gc_decl list" where
  "inline_malloc_decls =
     [Function \<lparr>pname = ''GC_generic_malloc_many'', pret = Named ''void'', pargs = [Named ''size_t'', Named ''int'', Ptr ''void *'']\<rparr>,
      Function \<lparr>pname = ''GC_malloc_kind'', pret = Ptr ''void'', pargs = [Named ''size_t'', Named ''int'']\<rparr>]"

definition inline_global_decls :: "penv \<Rightarrow> gc_decl list" where
  "inline_global_decls e =
     (if defd e ''GC_THREADS'' then
        [Function \<lparr>pname = ''GC_malloc_kind_global'', pret = Ptr ''void'', pargs = [Named ''size_t'', Named ''int'']\<rparr>] else [])"

definition inline_print_decls :: "gc_decl list" where
  "inline_print_decls =
     [Function \<lparr>pname = ''GC_print_free_list'', pret = Named ''void'', pargs = [Named ''int'', Named ''size_t'']\<rparr>]"

definition disclaim_proc_decls :: "gc_decl list" where
  "disclaim_proc_decls =
     [Function \<lparr>pname = ''GC_init_finalized_malloc'', pret = Named ''void'', pargs = []\<rparr>,
      Callback ''GC_disclaim_proc'' (Named ''int'') [Ptr ''void''],
      Function \<lparr>pname = ''GC_register_disclaim_proc'', pret = Named ''void'',
         pargs = [Named ''int'', Fn ''GC_disclaim_proc'', Named ''int'']\<rparr>]"

definition disclaim_malloc_decls :: "gc_decl list" where
  "disclaim_malloc_decls =
     [Function \<lparr>pname = ''GC_finalized_malloc'', pret = Ptr ''void'',
         pargs = [Named ''size_t'', Ptr ''struct GC_finalizer_closure'']\<rparr>]"

definition backptr_decls :: "gc_decl list" where
  "backptr_decls =
     [Function \<lparr>pname = ''GC_get_back_ptr_info'', pret = Enum ''GC_ref_kind'', pargs = [Ptr ''void'', Ptr ''void *'', Ptr ''size_t'']\<rparr>,
      Function \<lparr>pname = ''GC_generate_random_heap_address'', pret = Ptr ''void'', pargs = []\<rparr>,
      Function \<lparr>pname = ''GC_generate_random_valid_address'', pret = Ptr ''void'', pargs = []\<rparr>,
      Function \<lparr>pname = ''GC_generate_random_backtrace'', pret = Named ''void'', pargs = []\<rparr>,
      Function \<lparr>pname = ''GC_print_backtrace'', pret = Named ''void'', pargs = [Ptr ''void'']\<rparr>]"

definition javaxfc_finalize_decls :: "gc_decl list" where
  "javaxfc_finalize_decls =
     [Function \<lparr>pname = ''GC_finalize_all'', pret = Named ''void'', pargs = []\<rparr>]"

definition javaxfc_thread_decls :: "penv \<Rightarrow> gc_decl list" where
  "javaxfc_thread_decls e =
     (if defd e ''GC_THREADS'' then
        [Function \<lparr>pname = ''GC_suspend_thread'', pret = Named ''void'', pargs = [Named ''GC_SUSPEND_THREAD_ID'']\<rparr>,
         Function \<lparr>pname = ''GC_resume_thread'', pret = Named ''void'', pargs = [Named ''GC_SUSPEND_THREAD_ID'']\<rparr>,
         Function \<lparr>pname = ''GC_is_thread_suspended'', pret = Named ''int'', pargs = [Named ''GC_SUSPEND_THREAD_ID'']\<rparr>] else [])"

definition collector_decls :: "penv \<Rightarrow> gc_decl list" where
  "collector_decls e =
     mark_proc_decls @ mark_push_decls @ mark_header_decls @ mark_header_size_decls @ mark_kind_decls e @
     mark_describe_decls @ mark_register_decls @ typed_descr_decls @ typed_malloc_decls @ gcj_decls e @
     inline_malloc_decls @ inline_global_decls e @ inline_print_decls @ disclaim_proc_decls @
     disclaim_malloc_decls @ backptr_decls @ javaxfc_finalize_decls @ javaxfc_thread_decls e"

subsection \<open>Cords\<close>

definition cord_basic_decls :: "gc_decl list" where
  "cord_basic_decls =
     [Synonym ''CORD'' (Ptr ''char'')]"

definition cord_build_decls :: "gc_decl list" where
  "cord_build_decls =
     [Function \<lparr>pname = ''CORD_cat'', pret = Named ''CORD'', pargs = [Named ''CORD'', Named ''CORD'']\<rparr>,
      Function \<lparr>pname = ''CORD_cat_char_star'', pret = Named ''CORD'', pargs = [Named ''CORD'', Ptr ''char'', Named ''size_t'']\<rparr>,
      Function \<lparr>pname = ''CORD_len'', pret = Named ''size_t'', pargs = [Named ''CORD'']\<rparr>,
      Callback ''CORD_fn'' (Named ''char'') [Named ''size_t'', Ptr ''void''],
      Function \<lparr>pname = ''CORD_from_fn'', pret = Named ''CORD'', pargs = [Fn ''CORD_fn'', Ptr ''void'', Named ''size_t'']\<rparr>,
      Function \<lparr>pname = ''CORD_substr'', pret = Named ''CORD'',
         pargs = [Named ''CORD'', Named ''size_t'', Named ''size_t'']\<rparr>,
      Function \<lparr>pname = ''CORD_balance'', pret = Named ''CORD'', pargs = [Named ''CORD'']\<rparr>,
      Callback ''CORD_iter_fn'' (Named ''int'') [Named ''char'', Ptr ''void''],
      Callback ''CORD_batched_iter_fn'' (Named ''int'') [Ptr ''char'', Ptr ''void'']]"

definition cord_iter_decls :: "gc_decl list" where
  "cord_iter_decls =
     [Function \<lparr>pname = ''CORD_iter5'', pret = Named ''int'',
         pargs = [Named ''CORD'', Named ''size_t'', Fn ''CORD_iter_fn'', Fn ''CORD_batched_iter_fn'', Ptr ''void'']\<rparr>,
      Function \<lparr>pname = ''CORD_iter'', pret = Named ''int'', pargs = [Named ''CORD'', Fn ''CORD_iter_fn'', Ptr ''void'']\<rparr>]"

definition cord_riter_decls :: "gc_decl list" where
  "cord_riter_decls =
     [Function \<lparr>pname = ''CORD_riter4'', pret = Named ''int'',
         pargs = [Named ''CORD'', Named ''size_t'', Fn ''CORD_iter_fn'', Ptr ''void'']\<rparr>,
      Function \<lparr>pname = ''CORD_riter'', pret = Named ''int'', pargs = [Named ''CORD'', Fn ''CORD_iter_fn'', Ptr ''void'']\<rparr>]"

definition cord_dump_decls :: "gc_decl list" where
  "cord_dump_decls =
     [Variable ''CORD_oom_fn'' (Fn ''void (*)(void)''),
      Function \<lparr>pname = ''CORD_dump'', pret = Named ''void'', pargs = [Named ''CORD'']\<rparr>,
      Function \<lparr>pname = ''CORD_cat_char'', pret = Named ''CORD'', pargs = [Named ''CORD'', Named ''char'']\<rparr>,
      Function \<lparr>pname = ''CORD_catn'', pret = Named ''CORD'', pargs = [Named ''int'', Named ''...'']\<rparr>,
      Function \<lparr>pname = ''CORD_fetch'', pret = Named ''char'', pargs = [Named ''CORD'', Named ''size_t'']\<rparr>,
      Function \<lparr>pname = ''CORD_cmp'', pret = Named ''int'', pargs = [Named ''CORD'', Named ''CORD'']\<rparr>,
      Function \<lparr>pname = ''CORD_ncmp'', pret = Named ''int'',
         pargs = [Named ''CORD'', Named ''size_t'', Named ''CORD'', Named ''size_t'', Named ''size_t'']\<rparr>,
      Function \<lparr>pname = ''CORD_str'', pret = Named ''size_t'', pargs = [Named ''CORD'', Named ''size_t'', Named ''CORD'']\<rparr>,
      Function \<lparr>pname = ''CORD_chars'', pret = Named ''CORD'', pargs = [Named ''char'', Named ''size_t'']\<rparr>]"

definition cord_file_decls :: "gc_decl list" where
  "cord_file_decls =
     [Function \<lparr>pname = ''CORD_from_file'', pret = Named ''CORD'', pargs = [Ptr ''FILE'']\<rparr>,
      Function \<lparr>pname = ''CORD_from_file_eager'', pret = Named ''CORD'', pargs = [Ptr ''FILE'']\<rparr>,
      Function \<lparr>pname = ''CORD_from_file_lazy'', pret = Named ''CORD'', pargs = [Ptr ''FILE'']\<rparr>,
      Function \<lparr>pname = ''CORD_to_char_star'', pret = Ptr ''char'', pargs = [Named ''CORD'']\<rparr>,
      Function \<lparr>pname = ''CORD_from_char_star'', pret = Named ''CORD'', pargs = [Ptr ''char'']\<rparr>,
      Function \<lparr>pname = ''CORD_to_const_char_star'', pret = Ptr ''char'', pargs = [Named ''CORD'']\<rparr>,
      Function \<lparr>pname = ''CORD_put'', pret = Named ''int'', pargs = [Named ''CORD'', Ptr ''FILE'']\<rparr>]"

definition cord_chr_decls :: "gc_decl list" where
  "cord_chr_decls =
     [Function \<lparr>pname = ''CORD_chr'', pret = Named ''size_t'', pargs = [Named ''CORD'', Named ''size_t'', Named ''int'']\<rparr>,
      Function \<lparr>pname = ''CORD_rchr'', pret = Named ''size_t'', pargs = [Named ''CORD'', Named ''size_t'', Named ''int'']\<rparr>]"

definition cord_io_decls :: "penv \<Rightarrow> gc_decl list" where
  "cord_io_decls e =
     (if \<not> defd e ''CORD_NO_IO'' then
        [Function \<lparr>pname = ''CORD_sprintf'', pret = Named ''int'', pargs = [Ptr ''CORD'', Named ''CORD'', Named ''...'']\<rparr>,
         Function \<lparr>pname = ''CORD_vsprintf'', pret = Named ''int'', pargs = [Ptr ''CORD'', Named ''CORD'', Named ''va_list'']\<rparr>,
         Function \<lparr>pname = ''CORD_fprintf'', pret = Named ''int'', pargs = [Ptr ''FILE'', Named ''CORD'', Named ''...'']\<rparr>,
         Function \<lparr>pname = ''CORD_vfprintf'', pret = Named ''int'', pargs = [Ptr ''FILE'', Named ''CORD'', Named ''va_list'']\<rparr>,
         Function \<lparr>pname = ''CORD_printf'', pret = Named ''int'', pargs = [Named ''CORD'', Named ''...'']\<rparr>,
         Function \<lparr>pname = ''CORD_vprintf'', pret = Named ''int'', pargs = [Named ''CORD'', Named ''va_list'']\<rparr>] else [])"

definition cord_pos_decls :: "gc_decl list" where
  "cord_pos_decls =
     [Function \<lparr>pname = ''CORD_pos_to_cord'', pret = Named ''CORD'', pargs = [Ptr ''struct CORD_Pos'']\<rparr>,
      Function \<lparr>pname = ''CORD_pos_to_index'', pret = Named ''size_t'', pargs = [Ptr ''struct CORD_Pos'']\<rparr>,
      Function \<lparr>pname = ''CORD_pos_fetch'', pret = Named ''char'', pargs = [Ptr ''struct CORD_Pos'']\<rparr>,
      Function \<lparr>pname = ''CORD_set_pos'', pret = Named ''void'',
         pargs = [Ptr ''struct CORD_Pos'', Named ''CORD'', Named ''size_t'']\<rparr>,
      Function \<lparr>pname = ''CORD_next'', pret = Named ''void'', pargs = [Ptr ''struct CORD_Pos'']\<rparr>,
      Function \<lparr>pname = ''CORD_prev'', pret = Named ''void'', pargs = [Ptr ''struct CORD_Pos'']\<rparr>,
      Function \<lparr>pname = ''CORD_pos_valid'', pret = Named ''int'', pargs = [Ptr ''struct CORD_Pos'']\<rparr>,
      Function \<lparr>pname = ''CORD__pos_fetch'', pret = Named ''char'', pargs = [Ptr ''struct CORD_Pos'']\<rparr>,
      Function \<lparr>pname = ''CORD__next'', pret = Named ''void'', pargs = [Ptr ''struct CORD_Pos'']\<rparr>,
      Function \<lparr>pname = ''CORD__prev'', pret = Named ''void'', pargs = [Ptr ''struct CORD_Pos'']\<rparr>]"

definition cord_decls :: "penv \<Rightarrow> gc_decl list" where
  "cord_decls e =
     cord_basic_decls @ cord_build_decls @ cord_iter_decls @ cord_riter_decls @ cord_dump_decls @
     cord_file_decls @ cord_chr_decls @ cord_io_decls e @ cord_pos_decls"

section \<open>Calls of the macros\<close>

text \<open>
  The types of the arguments that the macros supply themselves; an argument of the client is converted to
  the type of the parameter.
\<close>

definition arg_types :: "(string \<times> ctype) list" where
  "arg_types = [(''GC_RETURN_ADDR'', Named ''GC_word''), (''__FILE__'', Ptr ''char''), (''__LINE__'', Named ''int''),
     (''GC_base((void *)(obj))'', Ptr ''void''), (''sizeof(t)'', Named ''size_t'')]"

definition arg_fits :: "string \<Rightarrow> ctype \<Rightarrow> bool" where
  "arg_fits a p = (case map_of arg_types a of None \<Rightarrow> True | Some ty \<Rightarrow> ty = p)"

fun decl_fits :: "string \<Rightarrow> string list \<Rightarrow> gc_decl \<Rightarrow> bool" where
  "decl_fits f args (Function p) \<longleftrightarrow> pname p = f \<and> list_all2 arg_fits args (pargs p)"
| "decl_fits f args _ \<longleftrightarrow> False"

definition declared :: "gc_decl list \<Rightarrow> string \<Rightarrow> string list \<Rightarrow> bool" where
  "declared ds f args \<longleftrightarrow> list_ex (decl_fits f args) ds"

lemma declared_mono: "declared ds f args \<Longrightarrow> set ds \<subseteq> set es \<Longrightarrow> declared es f args"
  by (auto simp: declared_def list_ex_iff)

text \<open>A table of macros that call functions.\<close>

definition calls_ok :: "gc_decl list \<Rightarrow> (string \<times> expansion) list \<Rightarrow> bool" where
  "calls_ok ds ms \<longleftrightarrow> list_all (\<lambda>(m, f, args). declared ds f args) ms"

lemma calls_ok_mono: "calls_ok ds ms \<Longrightarrow> set ds \<subseteq> set es \<Longrightarrow> calls_ok es ms"
  using declared_mono by (fastforce simp: calls_ok_def list_all_iff)

lemma extras_fit: "list_all2 arg_fits (GC_EXTRAS e) (extra_params e)"
  by (simp add: GC_EXTRAS_def extra_params_def arg_fits_def arg_types_def)

lemma debug_malloc_proto:
  "pname (proto_GC_debug_malloc b) = ''GC_debug_malloc''"
  "pargs (proto_GC_debug_malloc (defd e ''GC_ADD_CALLER'')) = Named ''size_t'' # extra_params e"
  by (simp_all add: proto_GC_debug_malloc_def extra_params_def)

lemmas fit_defs = calls_ok_def declared_def extras_fit debug_malloc_proto arg_fits_def arg_types_def

lemmas client_protos = proto_GC_malloc_def proto_GC_malloc_uncollectable_def proto_GC_free_def
  proto_GC_register_finalizer_unreachable_def

lemma debug_macros_ok:
  "calls_ok (gc_debug_decls e @ gc_finalizer_decls @ gc_dirty_decls @ gc_link_decls @ gc_root_decls) (debug_macros e)"
  by (simp add: debug_macros_def fit_defs gc_debug_decls_def gc_finalizer_decls_def gc_dirty_decls_def
      gc_link_decls_def gc_root_decls_def)

lemma plain_macros_ok:
  "calls_ok (gc_alloc_decls @ gc_off_page_decls @ gc_debug_decls e @ gc_finalizer_decls @ gc_stubborn_decls @ gc_dirty_decls
     @ gc_link_decls @ gc_root_decls) plain_macros"
  by (simp add: plain_macros_def fit_defs client_protos gc_alloc_decls_def gc_off_page_decls_def gc_debug_decls_def
      gc_finalizer_decls_def gc_stubborn_decls_def gc_dirty_decls_def gc_link_decls_def gc_root_decls_def)

lemma malloc_macros_ok: "calls_ok (gc_alloc_decls @ gc_root_decls @ gc_debug_decls e) (malloc_macros e)"
  by (simp add: malloc_macros_def fit_defs client_protos gc_debug_decls_def gc_alloc_decls_def gc_root_decls_def)

lemma wcsdup_macros_ok: "calls_ok (gc_wcsdup_decls e) (wcsdup_macros e)"
  by (simp add: wcsdup_macros_def fit_defs gc_wcsdup_decls_def)

lemma gcj_macros_ok: "calls_ok (gcj_decls e) (gcj_macros e)"
  by (simp add: gcj_macros_def fit_defs gcj_decls_def)

lemma gc_macros_ok:
  "calls_ok (gc_decls e) (malloc_macros e)" "calls_ok (gc_decls e) (debug_macros e)" "calls_ok (gc_decls e) plain_macros"
  "calls_ok (gc_decls e) (wcsdup_macros e)"
  by (rule calls_ok_mono [OF malloc_macros_ok] calls_ok_mono [OF debug_macros_ok] calls_ok_mono [OF plain_macros_ok]
      calls_ok_mono [OF wcsdup_macros_ok]; auto simp: gc_decls_def)+

text \<open>A macro may also call another macro of \<open>gc.h\<close>.\<close>

definition callable :: "penv \<Rightarrow> string \<Rightarrow> string list \<Rightarrow> bool" where
  "callable e f args \<longleftrightarrow> f \<in> set (map fst (gc_macros e)) \<or> declared (gc_decls e @ gcj_decls e) f args"

lemma calls_ok_callable:
  assumes "calls_ok ds ms" "set ds \<subseteq> set (gc_decls e @ gcj_decls e)"
  shows "list_all (\<lambda>(m, f, args). callable e f args) ms"
  using calls_ok_mono [OF assms] by (auto simp: calls_ok_def callable_def list_all_iff)

lemma macro_names:
  "set [''GC_MALLOC'', ''GC_REALLOC'', ''GC_MALLOC_ATOMIC'', ''GC_MALLOC_UNCOLLECTABLE'', ''GC_FREE'', ''GC_STRDUP'',
     ''GC_STRNDUP'', ''GC_NEW''] \<subseteq> set (map fst (gc_macros e))"
  "defd e ''GC_REQUIRE_WCSDUP'' \<Longrightarrow> ''GC_WCSDUP'' \<in> set (map fst (gc_macros e))"
  by (auto simp: gc_macros_def malloc_macros_def debug_macros_def plain_macros_def new_macros_def wcsdup_macros_def)

lemma leak_functions_declared:
  "declared (gc_decls e @ gcj_decls e) ''GC_memalign'' [''a'', ''n'']"
  "declared (gc_decls e @ gcj_decls e) ''GC_posix_memalign'' [''p'', ''a'', ''n'']"
  "declared (gc_decls e @ gcj_decls e) ''GC_gcollect'' []"
  "declared (gc_decls e @ gcj_decls e) ''GC_change_stubborn'' [''p'']"
proof -
  have "declared (gc_alloc_decls @ gc_root_decls @ gc_stubborn_decls) ''GC_memalign'' [''a'', ''n'']"
    "declared (gc_alloc_decls @ gc_root_decls @ gc_stubborn_decls) ''GC_posix_memalign'' [''p'', ''a'', ''n'']"
    "declared (gc_alloc_decls @ gc_root_decls @ gc_stubborn_decls) ''GC_gcollect'' []"
    "declared (gc_alloc_decls @ gc_root_decls @ gc_stubborn_decls) ''GC_change_stubborn'' [''p'']"
    by (simp_all add: fit_defs gc_alloc_decls_def gc_root_decls_def gc_stubborn_decls_def)
  then show "declared (gc_decls e @ gcj_decls e) ''GC_memalign'' [''a'', ''n'']"
    "declared (gc_decls e @ gcj_decls e) ''GC_posix_memalign'' [''p'', ''a'', ''n'']"
    "declared (gc_decls e @ gcj_decls e) ''GC_gcollect'' []"
    "declared (gc_decls e @ gcj_decls e) ''GC_change_stubborn'' [''p'']"
    by (auto simp: gc_decls_def elim!: declared_mono)
qed

lemma macros_callable:
  "list_all (\<lambda>(m, f, args). callable e f args) (gc_macros e)"
  "list_all (\<lambda>(m, f, args). callable e f args) (gcj_macros e)"
  "list_all (\<lambda>(m, f, args). callable e f args) (leak_macros e)"
proof -
  have "list_all (\<lambda>(m, f, args). callable e f args) (malloc_macros e)"
    "list_all (\<lambda>(m, f, args). callable e f args) (if defd e ''GC_DEBUG'' then debug_macros e else plain_macros)"
    "list_all (\<lambda>(m, f, args). callable e f args) (wcsdup_macros e)"
    using gc_macros_ok [of e, THEN calls_ok_callable] by simp_all
  moreover have "list_all (\<lambda>(m, f, args). callable e f args) (stubborn_macros @ new_macros)"
    using macro_names(1) [of e] leak_functions_declared(4) [of e]
    by (simp add: stubborn_macros_def new_macros_def callable_def)
  ultimately show "list_all (\<lambda>(m, f, args). callable e f args) (gc_macros e)"
    unfolding gc_macros_def by (simp only: list_all_append simp_thms)
  show "list_all (\<lambda>(m, f, args). callable e f args) (gcj_macros e)"
    by (rule calls_ok_callable [OF gcj_macros_ok]) simp
  show "list_all (\<lambda>(m, f, args). callable e f args) (leak_macros e)"
    using macro_names [of e] leak_functions_declared [of e] by (simp add: leak_macros_def callable_def)
qed

section \<open>Calls of the start-up sequence\<close>

text \<open>A call of \<open>GC_INIT\<close> as it is written; the assignment needs the variable.\<close>

fun init_call :: "gc_call \<Rightarrow> expansion" where
  "init_call (GC_set_dont_expand n) = (''GC_set_dont_expand'', [''1''])"
| "init_call (GC_set_force_unmap_on_gcollect n) = (''GC_set_force_unmap_on_gcollect'', [''1''])"
| "init_call (assign_GC_dont_gc n) = (''GC_dont_gc'', [''1''])"
| "init_call (GC_set_max_retries n) = (''GC_set_max_retries'', [''GC_MAX_RETRIES''])"
| "init_call (GC_set_allocd_bytes_per_finalizer n) = (''GC_set_allocd_bytes_per_finalizer'', [''GC_ALLOCD_BYTES_PER_FINALIZER''])"
| "init_call (GC_set_free_space_divisor n) = (''GC_set_free_space_divisor'', [''GC_FREE_SPACE_DIVISOR''])"
| "init_call (GC_set_full_freq n) = (''GC_set_full_freq'', [''GC_FULL_FREQ''])"
| "init_call (GC_set_time_limit n) = (''GC_set_time_limit'', [''GC_TIME_LIMIT''])"
| "init_call (GC_set_markers_count n) = (''GC_set_markers_count'', [''GC_MARKERS''])"
| "init_call (GC_set_suspend_signal n) = (''GC_set_suspend_signal'', [''GC_SIG_SUSPEND''])"
| "init_call (GC_set_thr_restart_signal n) = (''GC_set_thr_restart_signal'', [''GC_SIG_THR_RESTART''])"
| "init_call (GC_set_max_heap_size n) = (''GC_set_max_heap_size'', [''GC_MAXIMUM_HEAP_SIZE''])"
| "init_call GC_init = (''GC_init'', [])"
| "init_call (GC_add_roots lo hi) = (''GC_add_roots'', [''GC_DATASTART'', ''GC_DATAEND''])"
| "init_call GC_gcollect = (''GC_gcollect'', [])"
| "init_call (GC_set_warn_proc f) = (''GC_set_warn_proc'', [f])"
| "init_call (GC_expand_hp n) = (''GC_expand_hp'', [''(size_t)(GC_INITIAL_HEAP_SIZE) - heap_size''])"

definition init_call_ok :: "gc_decl list \<Rightarrow> gc_call \<Rightarrow> bool" where
  "init_call_ok ds c \<longleftrightarrow>
     (case c of assign_GC_dont_gc n \<Rightarrow> Variable ''GC_dont_gc'' (Named ''int'') \<in> set ds
      | _ \<Rightarrow> declared ds (fst (init_call c)) (snd (init_call c)))"

lemma init_call_ok_mono: "init_call_ok ds c \<Longrightarrow> set ds \<subseteq> set es \<Longrightarrow> init_call_ok es c"
  by (cases c) (auto simp: init_call_ok_def elim!: declared_mono)

lemmas init_call_defs = init_call_ok_def fit_defs gc_version_decls_def gc_mode_decls_def gc_tuning_decls_def gc_time_decls_def
  gc_service_decls_def gc_alloc_decls_def gc_root_decls_def gc_warn_decls_def gc_thread_decls_def gc_unmap_decls_def
  proto_GC_init_def proto_GC_add_roots_def

lemma init_groups:
  "init_call_ok gc_mode_decls (GC_set_dont_expand n)" "init_call_ok gc_unmap_decls (GC_set_force_unmap_on_gcollect n)"
  "init_call_ok gc_mode_decls (assign_GC_dont_gc n)" "init_call_ok gc_tuning_decls (GC_set_max_retries n)"
  "init_call_ok gc_service_decls (GC_set_allocd_bytes_per_finalizer n)"
  "init_call_ok gc_tuning_decls (GC_set_free_space_divisor n)" "init_call_ok gc_tuning_decls (GC_set_full_freq n)"
  "init_call_ok gc_time_decls (GC_set_time_limit n)" "init_call_ok gc_root_decls (GC_set_max_heap_size n)"
  "init_call_ok gc_alloc_decls GC_init" "init_call_ok gc_root_decls (GC_add_roots lo hi)"
  "init_call_ok gc_root_decls GC_gcollect" "init_call_ok gc_warn_decls (GC_set_warn_proc ''GC_ignore_warn_proc'')"
  "init_call_ok gc_root_decls (GC_expand_hp k)"
  by (simp_all add: init_call_defs)

lemma init_thread_groups:
  assumes "defd e ''GC_THREADS''"
  shows "init_call_ok (gc_version_decls e) (GC_set_markers_count n)" "init_call_ok (gc_thread_decls e) (GC_set_suspend_signal n)"
    "init_call_ok (gc_thread_decls e) (GC_set_thr_restart_signal n)"
  using assms by (simp_all add: init_call_defs)

lemma init_declared:
  "init_call_ok (gc_decls e) (GC_set_dont_expand n)" "init_call_ok (gc_decls e) (GC_set_force_unmap_on_gcollect n)"
  "init_call_ok (gc_decls e) (assign_GC_dont_gc n)" "init_call_ok (gc_decls e) (GC_set_max_retries n)"
  "init_call_ok (gc_decls e) (GC_set_allocd_bytes_per_finalizer n)"
  "init_call_ok (gc_decls e) (GC_set_free_space_divisor n)" "init_call_ok (gc_decls e) (GC_set_full_freq n)"
  "init_call_ok (gc_decls e) (GC_set_time_limit n)" "init_call_ok (gc_decls e) (GC_set_max_heap_size n)"
  "init_call_ok (gc_decls e) GC_init" "init_call_ok (gc_decls e) (GC_add_roots lo hi)"
  "init_call_ok (gc_decls e) GC_gcollect" "init_call_ok (gc_decls e) (GC_set_warn_proc ''GC_ignore_warn_proc'')"
  "init_call_ok (gc_decls e) (GC_expand_hp k)"
  by (rule init_groups [THEN init_call_ok_mono]; auto simp: gc_decls_def)+

lemma init_threads_declared:
  assumes "defd e ''GC_THREADS''"
  shows "init_call_ok (gc_decls e) (GC_set_markers_count n)" "init_call_ok (gc_decls e) (GC_set_suspend_signal n)"
    "init_call_ok (gc_decls e) (GC_set_thr_restart_signal n)"
  by (rule init_thread_groups [OF assms, THEN init_call_ok_mono]; auto simp: gc_decls_def)+

lemma pre_calls_declared: "list_all (init_call_ok (gc_decls e)) (pre_calls e val)"
  by (simp add: pre_calls_def pre_conf_defs list_all_conf init_declared init_threads_declared)

lemma init_calls_declared:
  "\<exists>cs. calls (GC_INIT lib im w e val s) = calls s @ cs \<and> list_all (init_call_ok (gc_decls e)) cs"
proof -
  let ?s = "run_call lib GC_init (fold (run_call lib) (pre_calls e val) s)"
  have "\<exists>cs. calls (GC_INIT_CONF_ROOTS lib im e ?s) = calls ?s @ cs \<and> list_all (init_call_ok (gc_decls e)) cs"
    by (simp add: GC_INIT_CONF_ROOTS_def calls_run_call init_declared)
  then obtain cs where cs: "calls (GC_INIT_CONF_ROOTS lib im e ?s) = calls ?s @ cs" "list_all (init_call_ok (gc_decls e)) cs"
    by blast
  let ?t = "after_roots lib im e val s"
  have "\<exists>ds. calls (GC_INIT_CONF_INITIAL_HEAP_SIZE lib w e val ?t) = calls ?t @ ds
      \<and> list_all (init_call_ok (gc_decls e)) ds"
    by (simp add: GC_INIT_CONF_INITIAL_HEAP_SIZE_def Let_def calls_run_call init_declared)
  then obtain ds where ds: "calls (GC_INIT_CONF_INITIAL_HEAP_SIZE lib w e val ?t) = calls ?t @ ds"
    "list_all (init_call_ok (gc_decls e)) ds" by blast
  have "calls (GC_INIT lib im w e val s) = calls s @ pre_calls e val @ [GC_init] @ cs @ GC_INIT_CONF_IGNORE_WARN e @ ds"
    using cs(1) ds(1) by (simp add: GC_INIT_split after_roots_def calls_fold calls_run_call)
  moreover have "list_all (init_call_ok (gc_decls e)) (pre_calls e val @ [GC_init] @ cs @ GC_INIT_CONF_IGNORE_WARN e @ ds)"
    using cs(2) ds(2) pre_calls_declared [of e val]
    by (simp add: GC_INIT_CONF_IGNORE_WARN_def list_all_conf init_declared)
  ultimately show ?thesis by blast
qed



section \<open>The declarations agree with each other\<close>

text \<open>A getter returns what its setter takes, and what the variable of the old interface holds.\<close>

definition setting_ok :: "gc_decl list \<Rightarrow> string \<Rightarrow> ctype \<Rightarrow> bool" where
  "setting_ok ds v ty \<longleftrightarrow>
     Function \<lparr>pname = ''GC_set_'' @ v, pret = Named ''void'', pargs = [ty]\<rparr> \<in> set ds
     \<and> Function \<lparr>pname = ''GC_get_'' @ v, pret = ty, pargs = []\<rparr> \<in> set ds"

lemma variables_have_settings:
  "list_all (\<lambda>(v, ty). Variable (''GC_'' @ v) ty \<in> set gc_mode_decls \<and> setting_ok gc_mode_decls v ty)
     [(''find_leak'', Named ''int''), (''all_interior_pointers'', Named ''int''), (''finalize_on_demand'', Named ''int''),
      (''java_finalization'', Named ''int''), (''finalizer_notifier'', Fn ''GC_finalizer_notifier_proc''), (''dont_expand'', Named ''int'')]"
  "list_all (\<lambda>(v, ty). Variable (''GC_'' @ v) ty \<in> set gc_tuning_decls \<and> setting_ok gc_tuning_decls v ty)
     [(''full_freq'', Named ''int''), (''non_gc_bytes'', Named ''GC_word''), (''no_dls'', Named ''int''),
      (''free_space_divisor'', Named ''GC_word''), (''max_retries'', Named ''GC_word'')]"
  by (simp_all add: setting_ok_def gc_mode_decls_def gc_tuning_decls_def proto_GC_set_java_finalization_def)

text \<open>The function that \<open>GC_INIT\<close> installs for warnings has the type of such a function.\<close>

lemma ignore_warn_proc_type:
  "Callback ''GC_warn_proc'' ty args \<in> set gc_warn_decls
     \<longleftrightarrow> Function \<lparr>pname = ''GC_ignore_warn_proc'', pret = ty, pargs = args\<rparr> \<in> set gc_warn_decls"
  by (auto simp: gc_warn_decls_def)

text \<open>
  Without threads \<open>GC_malloc_kind_global\<close> is \<open>GC_malloc_kind\<close>, so the name may be used in both cases. The macros
  \<open>CORD_iter\<close> and \<open>CORD_nul\<close> hide or extend functions in the same way.
\<close>

definition malloc_kind_global :: "penv \<Rightarrow> string" where
  "malloc_kind_global e = (if defd e ''GC_THREADS'' then ''GC_malloc_kind_global'' else ''GC_malloc_kind'')"

definition cord_iter_macro :: "string \<times> expansion" where
  "cord_iter_macro = (''CORD_iter'', ''CORD_iter5'', [''x'', ''0'', ''f1'', ''CORD_NO_FN'', ''cd''])"

definition cord_nul_macro :: "string \<times> expansion" where
  "cord_nul_macro = (''CORD_nul'', ''CORD_chars'', [''NUL'', ''i''])"

lemma malloc_kind_global_declared:
  "declared (inline_malloc_decls @ inline_global_decls e) (malloc_kind_global e) [b, k] \<longleftrightarrow>
     arg_fits b (Named ''size_t'') \<and> arg_fits k (Named ''int'')"
  by (simp add: declared_def malloc_kind_global_def inline_malloc_decls_def inline_global_decls_def)

lemma cord_macros_declared: "calls_ok (cord_decls e) [cord_iter_macro, cord_nul_macro]"
proof (rule calls_ok_mono)
  show "calls_ok (cord_iter_decls @ cord_dump_decls) [cord_iter_macro, cord_nul_macro]"
    by (simp add: fit_defs cord_iter_macro_def cord_nul_macro_def cord_iter_decls_def cord_dump_decls_def)
  show "set (cord_iter_decls @ cord_dump_decls) \<subseteq> set (cord_decls e)" by (auto simp: cord_decls_def)
qed

text \<open>
  A debugging function takes what the plain one takes, then the place of the call, and returns the same, so that a
  client compiles with and without \<open>GC_DEBUG\<close>.
\<close>

definition debug_twin :: "penv \<Rightarrow> gc_decl list \<Rightarrow> string \<Rightarrow> bool" where
  "debug_twin e ds f \<longleftrightarrow> (\<exists>r ps. Function \<lparr>pname = ''GC_'' @ f, pret = r, pargs = ps\<rparr> \<in> set ds
     \<and> Function \<lparr>pname = ''GC_debug_'' @ f, pret = r, pargs = ps @ extra_params e\<rparr> \<in> set ds)"

lemma debug_twinI:
  assumes "Function \<lparr>pname = ''GC_'' @ f, pret = r, pargs = ps\<rparr> \<in> set ds" "set ds \<subseteq> set es"
    and "Function \<lparr>pname = ''GC_debug_'' @ f, pret = r, pargs = ps @ extra_params e\<rparr> \<in> set ds"
  shows "debug_twin e es f"
  using assms unfolding debug_twin_def by blast

lemma collector_twins:
  "debug_twin e (collector_decls e) ''gcj_malloc''" "debug_twin e (collector_decls e) ''generic_or_special_malloc''"
  by (rule debug_twinI [of _ "Ptr ''void''" "[Named ''size_t'', Ptr ''void'']" "gcj_decls e"];
      simp add: gcj_decls_def; auto simp: collector_decls_def gcj_decls_def)
    (rule debug_twinI [of _ "Ptr ''void''" "[Named ''size_t'', Named ''int'']" "mark_kind_decls e"];
      simp add: mark_kind_decls_def; auto simp: collector_decls_def mark_kind_decls_def)

lemma string_twins: "debug_twin e (gc_decls e) ''strdup''" "debug_twin e (gc_decls e) ''strndup''"
  by (rule debug_twinI [of _ "Ptr ''char''" "[Ptr ''char'']" "gc_alloc_decls @ gc_debug_decls e"];
      simp add: gc_alloc_decls_def gc_debug_decls_def; auto simp: gc_decls_def gc_alloc_decls_def gc_debug_decls_def)
    (rule debug_twinI [of _ "Ptr ''char''" "[Ptr ''char'', Named ''size_t'']" "gc_alloc_decls @ gc_debug_decls e"];
      simp add: gc_alloc_decls_def gc_debug_decls_def; auto simp: gc_decls_def gc_alloc_decls_def gc_debug_decls_def)

end
