(* ===== verification/Spec2Isabelle.thy ===== *)
theory Spec2Isabelle
  imports Uv_Splay_Correct Uv_RB_Correct Uv_Containers Gc_Inline Gc_Descr Uv_Errno Uv_Layout Uv_Flags
    Uv_Util Gc_Config Gc_Api Gc_Cord Gc_Allocator Gc_Redirects Gc_Types Uv_Compat Uv_Ffi Uv_Prototypes
    Gc_Prototypes
begin

text \<open>
  Verification library for the C code of calc.

  \<^bold>\<open>The program.\<close> calc is a language with a compiler in Go, a runtime in calc itself, and a C part under
  \<open>src/libuv_helper\<close>, which the compiled programs are linked with: the helper functions of \<open>uvutil.c\<close>,
  which allocate libuv objects in the heap of the Boehm collector and read and write their fields, and
  the headers of libuv (\<open>uv.h\<close>, \<open>uv/*.h\<close>) and of the collector (\<open>gc/*.h\<close>) with the code that they hold:
  generated containers, inline allocation, layouts of structures, configuration by the preprocessor.
  The library models this C part. The compiled libraries behind the headers are not in the
  repository; they are parameters, and what the code relies on is a named hypothesis
  (\<open>alloc_law\<close>, \<open>flush_law\<close>, \<open>pos_law\<close>, \<open>expand_law\<close>, \<open>features_ok\<close>, \<open>system_ok\<close>, the laws of the collector in
  \<open>Gc_Inline\<close>, and \<open>heap_law\<close>, \<open>free_law\<close>, \<open>base_law\<close>, \<open>register_law\<close> of \<open>Gc_Alloc\<close>).

  \<^bold>\<open>Shared theories.\<close> \<open>Calc_Prelude\<close> holds pointers, memory access with undefined accesses as
  \<^term>\<open>None\<close>, and the lemmas on lists and options that the components share. \<open>C_Layout\<close> is the layout
  of C types: a target gives the sizes of the system types and the macros that are defined, and sizes,
  alignments and offsets are computed from the declarations; its locale \<open>abi\<close> collects what holds on
  every sound target. \<open>C_Memory\<close> adds a memory of bytes with loads and stores of fields.

  \<^bold>\<open>Containers\<close> (\<open>uv/tree.h\<close>). \<open>Uv_Splay\<close> has the macros of the splay tree one by one, on a memory of
  entries: rotations, links, \<open>SPLAY\<close>, \<open>SPLAY_INSERT\<close>, \<open>SPLAY_REMOVE\<close>, \<open>SPLAY_FIND\<close>, \<open>SPLAY_NEXT\<close>, \<open>SPLAY_MINMAX\<close>,
  \<open>SPLAY_FOREACH\<close>. \<open>Uv_Splay_Loop\<close> shows that the loop on memory simulates the top-down splay on trees, and
  \<open>Uv_Splay_Correct\<close> has the properties C1 to C6. \<open>Uv_RB\<close> does the same for the red-black tree;
  \<open>Uv_RB_Heap\<close> relates memory and trees, \<open>Uv_RB_Inv\<close> has the invariant, \<open>Uv_RB_Insert\<close> and
  \<open>Uv_RB_Remove\<close> the repair loops, \<open>Uv_RB_Correct\<close> C7 to C13. \<open>Uv_Containers\<close> states the common contract of
  an ordered set as a locale, interprets it for both trees, and compares them (C14). The loops are
  partial functions, \<^term>\<open>None\<close> when they do not end; the properties show that they end.

  \<^bold>\<open>The collector.\<close> \<open>Gc_Inline\<close> (\<open>gc_tiny_fl.h\<close>, \<open>gc_inline.h\<close>): granules, the free list loop, \<open>GC_CONS\<close>, on
  64-bit words (C16 to C18). \<open>Gc_Descr\<close> (\<open>gc_typed.h\<close>, \<open>gc_mark.h\<close>): bitmaps and descriptors (C19, C20).
  \<open>Gc_Config\<close> (\<open>gc_config_macros.h\<close>): the header as a program on the set of defined macros, one step
  for every \<open>#if\<close> block; the locale \<open>pp_step\<close> gives the frame of a step (C36). \<open>Gc_Redirects\<close>
  (\<open>gc_pthread_redirects.h\<close> and the thread parts of \<open>gc.h\<close>) continues this program: the calls that the
  collector has to see are renamed and its functions declared, for POSIX threads (C37) and for
  Windows. \<open>Gc_Api\<close> (\<open>gc.h\<close>): \<open>GC_INIT\<close> with its configuration and the pointer macros (C38). \<open>Gc_Types\<close>: the
  types, structs, codes and small macros of \<open>gc.h\<close>, \<open>gc_disclaim.h\<close>, \<open>gc_backptr.h\<close> and \<open>javaxfc.h\<close>. \<open>Gc_Cord\<close> (\<open>cord.h\<close>, \<open>cord_pos.h\<close>,
  \<open>ec.h\<close>): extensible cords and positions (C35, C39, C40); \<open>CORD_FOR\<close> runs on fuel, and the length of the cord is
  enough.

  \<^bold>\<open>Allocation through the collector.\<close> \<open>Gc_Alloc\<close> has the tables of the allocation macros of \<open>gc.h\<close>, \<open>gc_gcj.h\<close>
  and \<open>leak_detector.h\<close>, which choose between plain and debugging functions, and the laws that \<open>gc.h\<close>
  documents of these functions, on an abstract view of the heap: objects with their extent and kind, a
  debugging header, finalizers. C15 says which macros may be used together. \<open>Gc_Heap_Ref\<close> is a small
  collector that keeps all the laws; the examples run on it. \<open>Gc_Cpp\<close> (\<open>gc_cpp.h\<close>): the operators \<open>new\<close> and
  \<open>delete\<close> (C22), the finalizers of \<open>gc_cleanup\<close> (C25) and both together (C28). \<open>Gc_Allocator\<close>
  (\<open>gc_allocator.h\<close>): the allocators of C++ containers (C29); its locale \<open>checked_alloc\<close> is what they share
  with the operators, and is interpreted for both.

  \<^bold>\<open>libuv.\<close> \<open>Uv_Errno\<close> (\<open>uv/errno.h\<close>, the error table of \<open>uv.h\<close>): the codes on every platform (C21).
  \<open>Uv_Unix\<close> (\<open>uv/unix.h\<close> and the headers of the systems), \<open>Uv_Win\<close> (\<open>uv/win.h\<close>) and \<open>Uv_Types\<close> (\<open>uv.h\<close>) have the
  types, enumerations and constants; \<open>Uv_Layout\<close> shows that handles, requests and streams can be used
  through pointers to their common prefixes on every target, and instantiates the targets Linux on
  x86-64 and 64-bit Windows (C23). \<open>Uv_Flags\<close> has the flag families as instances of a locale,
  and the numbering of types. \<open>Uv_Compat\<close>: the integer types and limits of \<open>uv/stdint-msvc2008.h\<close>,
  the versions of both libraries, the linkage macro of \<open>uv.h\<close> and the struct of \<open>uv/android-ifaddrs.h\<close>.

  \<^bold>\<open>The declarations.\<close> \<open>Uv_Prototypes\<close> has all 292 prototypes of \<open>uv.h\<close> and the prototypes and call macros of
  \<open>uv/tree.h\<close>. It shows that the callbacks of the interface can be given the object that they
  were registered for, through the casts of \<open>Uv_Layout\<close> (C26), that every handle type has a function
  that makes it, and that the macros of the trees pass arguments of the declared types. \<open>Gc_Prototypes\<close> has
  the functions, variables and callback types of the collector's headers under the conditions of
  the preprocessor, and shows that the macros of \<open>Gc_Alloc\<close> and the start-up sequence of \<open>Gc_Api\<close> use only what
  is declared in the same configuration (C24).

  \<^bold>\<open>The helper functions.\<close> \<open>Uv_Util\<close> (\<open>uvutil.c\<close>, \<open>uvutil.h\<close>): every function, on the byte memory and the
  layouts of \<open>Uv_Types\<close> (C30 to C34). This is where the parts meet: \<open>uvutil.h\<close> selects the threads
  that \<open>Gc_Config\<close> and \<open>Gc_Redirects\<close> compute (C37), its objects have the layouts of \<open>Uv_Layout\<close>, and its allocation goes
  through the collector.

  \<^bold>\<open>The boundary.\<close> \<open>Uv_Ffi\<close> compares the declarations of C functions in the runtime (\<open>src/runtime\<close>), with the LLVM
  types that the compiler gives them, with the prototypes of the headers on 64-bit Linux: arguments,
  results and callbacks, as bits in registers (C27).

  \<^bold>\<open>Bounds.\<close> Integers of the inline allocator, of descriptors and of the C++ allocators are words of their
  width. Macros of \<open>Gc_Alloc\<close> are followed three times, the depth of the tables. Sizes and
  addresses of the byte memory are natural numbers, with the wrap-around of \<open>size_t\<close> written out
  where the code computes with it (\<open>GC_calloc\<close>, \<open>get_buf_len\<close>, the initial heap size). Indices into
  cords are natural numbers: a cord is shorter than the address space.

  \<^bold>\<open>Not modelled.\<close> The bodies of library functions, which are not in the repository: their prototypes are tables,
  without the attributes, calling conventions and qualifiers; the member types, constructors and
  declarations of the C++ classes apart from the functions with an effect; what compilers do with inline
  assembly and prefetch hints; concurrency inside the libraries. The compiler and the runtime are
  not C; only their declarations of C functions are here.
\<close>

end
